(* ===== verification/TF_Prelude.thy ===== *)
theory TF_Prelude
  imports Main "HOL-Library.Word"
begin

unbundle bit_operations_syntax

text \<open>
  Shared vocabulary of the TrustFlow development: machine types, exceptions as values, the
  sequencing operator of fallible code, byte-string operations (little-endian integers,
  \<open>memcpy\<close>, reads through a pointer), and the parts of the C++ standard library the sources
  call (\<open>std::to_string\<close>, \<open>std::stoi\<close>, replacement-field formatting).
\<close>

named_theorems exn_simps \<open>rewriting of exception-valued programs\<close>
named_theorems byte_simps \<open>lengths and contents of byte strings\<close>

type_synonym byte = "8 word"
type_synonym bytes = "byte list"
type_synonym u16 = "16 word"
type_synonym u32 = "32 word"
type_synonym u64 = "64 word"

section \<open>Exceptions as values\<close>

text \<open>
  The classes the handlers of the wrappers distinguish: \<open>yacl::ArgumentError\<close>,
  \<open>yacl::InvalidFormat\<close>, any other \<open>yacl::Exception\<close> (what \<open>YACL_ENFORCE\<close> and
  \<open>YACL_THROW\<close> raise) and any other \<open>std::exception\<close> (what the base64 decoder raises).
  \<open>Null_deref\<close> is not an exception: it stands for an access through a null pointer or outside
  of a buffer, which no handler catches. The text of an exception is the formatted message; the source location
  that the macros put in front of it is left out.
\<close>

datatype exn_class = Yacl_ArgumentError | Yacl_InvalidFormat | Yacl_Exception | Std_exception

datatype exn = Exn (exn_cls: exn_class) (exn_what: string) | Null_deref

type_synonym 'a res = "exn + 'a"

definition bindE :: "'a res \<Rightarrow> ('a \<Rightarrow> 'b res) \<Rightarrow> 'b res" where
  "bindE m f = (case m of Inl e \<Rightarrow> Inl e | Inr x \<Rightarrow> f x)"

definition YACL_ENFORCE :: "bool \<Rightarrow> string \<Rightarrow> unit res" where
  "YACL_ENFORCE c msg = (if c then Inr () else Inl (Exn Yacl_Exception msg))"

definition YACL_THROW :: "string \<Rightarrow> 'a res" where
  "YACL_THROW msg = Inl (Exn Yacl_Exception msg)"

text \<open>A call of outside code that reports failure by an exception of class \<open>c\<close>.\<close>

definition or_throw :: "exn_class \<Rightarrow> string \<Rightarrow> 'a option \<Rightarrow> 'a res" where
  "or_throw c msg r = (case r of None \<Rightarrow> Inl (Exn c msg) | Some x \<Rightarrow> Inr x)"

lemma bindE_Inr [simp, exn_simps]: "bindE (Inr x) f = f x"
  by (simp add: bindE_def)

lemma bindE_Inl [simp, exn_simps]: "bindE (Inl e) f = Inl e"
  by (simp add: bindE_def)

lemma bindE_eq_Inr [exn_simps]: "bindE m f = Inr y \<longleftrightarrow> (\<exists>x. m = Inr x \<and> f x = Inr y)"
  by (cases m) simp_all

lemma bindE_eq_Inl [exn_simps]:
  "bindE m f = Inl e \<longleftrightarrow> m = Inl e \<or> (\<exists>x. m = Inr x \<and> f x = Inl e)"
  by (cases m) simp_all

lemma bindE_InrE:
  assumes "bindE m f = Inr y"
  obtains x where "m = Inr x" and "f x = Inr y"
  using assms by (cases m) simp_all

lemma bindE_assoc: "bindE (bindE m f) g = bindE m (\<lambda>x. bindE (f x) g)"
  by (cases m) simp_all

lemma YACL_ENFORCE_True [simp]: "YACL_ENFORCE True msg = Inr ()"
  by (simp add: YACL_ENFORCE_def)

lemma YACL_ENFORCE_False [simp]: "YACL_ENFORCE False msg = Inl (Exn Yacl_Exception msg)"
  by (simp add: YACL_ENFORCE_def)

lemma YACL_ENFORCE_eq_Inr [exn_simps]: "YACL_ENFORCE c msg = Inr u \<longleftrightarrow> c"
  by (simp add: YACL_ENFORCE_def)

lemma YACL_ENFORCE_eq_Inl [exn_simps]:
  "YACL_ENFORCE c msg = Inl e \<longleftrightarrow> \<not> c \<and> e = Exn Yacl_Exception msg"
  by (auto simp: YACL_ENFORCE_def)

lemma YACL_THROW_neq_Inr [simp, exn_simps]: "YACL_THROW msg \<noteq> Inr x"
  by (simp add: YACL_THROW_def)

lemma or_throw_Some [simp]: "or_throw c msg (Some x) = Inr x"
  by (simp add: or_throw_def)

lemma or_throw_None [simp]: "or_throw c msg None = Inl (Exn c msg)"
  by (simp add: or_throw_def)

lemma or_throw_eq_Inr [exn_simps]: "or_throw c msg r = Inr x \<longleftrightarrow> r = Some x"
  by (cases r) (simp_all add: or_throw_def)

lemma or_throw_eq_Inl [exn_simps]: "or_throw c msg r = Inl e \<longleftrightarrow> r = None \<and> e = Exn c msg"
  by (cases r) (auto simp: or_throw_def)

text \<open>
  A program raises only exceptions that the wrappers' handlers catch: everything but a write
  through a null pointer is a \<open>std::exception\<close>.
\<close>

definition no_crash :: "'a res \<Rightarrow> bool" where
  "no_crash m \<longleftrightarrow> m \<noteq> Inl Null_deref"

lemma no_crash_bindE [intro]:
  "no_crash m \<Longrightarrow> (\<And>x. m = Inr x \<Longrightarrow> no_crash (f x)) \<Longrightarrow> no_crash (bindE m f)"
  by (cases m) (auto simp: no_crash_def)

lemma no_crash_basic [simp]:
  "no_crash (Inr x)" "no_crash (YACL_ENFORCE c msg)" "no_crash (YACL_THROW msg)"
  "no_crash (or_throw k msg r)" "no_crash (Inl (Exn k msg))"
  by (auto simp: no_crash_def YACL_ENFORCE_def YACL_THROW_def or_throw_def split: option.splits)

lemma no_crash_cases:
  assumes "no_crash m"
  obtains x where "m = Inr x" | c w where "m = Inl (Exn c w)"
  using assms by (cases m) (auto simp: no_crash_def intro: exn.exhaust)

section \<open>Formatting\<close>

text \<open>Replacement of the fields \<open>{}\<close> of a format string by its arguments, left to right.\<close>

fun fmt :: "string \<Rightarrow> string list \<Rightarrow> string" where
  "fmt [] args = []"
| "fmt [c] args = [c]"
| "fmt (c # d # cs) args =
     (if c = CHR ''{'' \<and> d = CHR ''}''
      then (case args of [] \<Rightarrow> fmt cs [] | a # as \<Rightarrow> a @ fmt cs as)
      else c # fmt (d # cs) args)"

declare fmt.simps [simp del]

text \<open>The hexadecimal fields \<open>{:#x}\<close> (lower case) and \<open>{:#X}\<close> (upper case).\<close>

fun hex_digits :: "nat \<Rightarrow> nat \<Rightarrow> string" where
  "hex_digits base n =
     (let d = (if n mod 16 < 10 then char_of (48 + n mod 16) else char_of (base + n mod 16 - 10)) in
      if n < 16 then [d] else hex_digits base (n div 16) @ [d])"

declare hex_digits.simps [simp del]

definition fmt_x :: "nat \<Rightarrow> string" where "fmt_x n = ''0x'' @ hex_digits 97 n"
definition fmt_X :: "nat \<Rightarrow> string" where "fmt_X n = ''0X'' @ hex_digits 65 n"

fun join_str :: "string \<Rightarrow> string list \<Rightarrow> string" where
  "join_str sep [] = []"
| "join_str sep [x] = x"
| "join_str sep (x # y # ys) = x @ sep @ join_str sep (y # ys)"

section \<open>Decimal numbers: std::to_string and std::stoi\<close>

definition digit_char :: "nat \<Rightarrow> char" where
  "digit_char d = char_of (48 + d)"

definition is_digit :: "char \<Rightarrow> bool" where
  "is_digit c \<longleftrightarrow> 48 \<le> (of_char c :: nat) \<and> (of_char c :: nat) \<le> 57"

definition digit_val :: "char \<Rightarrow> nat" where
  "digit_val c = (of_char c :: nat) - 48"

fun to_string :: "nat \<Rightarrow> string" where
  "to_string n = (if n < 10 then [digit_char n] else to_string (n div 10) @ [digit_char (n mod 10)])"

declare to_string.simps [simp del]

definition int_str :: "int \<Rightarrow> string" where
  "int_str i = (if i < 0 then ''-'' @ to_string (nat (- i)) else to_string (nat i))"

definition is_space :: "char \<Rightarrow> bool" where
  "is_space c \<longleftrightarrow> (of_char c :: nat) \<in> {9, 10, 11, 12, 13, 32}"

datatype stoi_exn = invalid_argument | out_of_range

definition digits_val :: "string \<Rightarrow> nat" where
  "digits_val ds = foldl (\<lambda>n c. 10 * n + digit_val c) 0 ds"

text \<open>
  \<open>std::stoi\<close> in base 10: leading white space is skipped, then an optional sign and the
  longest run of digits is read; what follows is ignored. Without a digit it throws
  \<open>invalid_argument\<close>, for a value outside \<open>int\<close> it throws \<open>out_of_range\<close>.
\<close>

definition stoi :: "string \<Rightarrow> stoi_exn + int" where
  "stoi s =
     (let t = dropWhile is_space s;
          neg = (t \<noteq> [] \<and> hd t = CHR ''-'');
          u = (if t \<noteq> [] \<and> (hd t = CHR ''-'' \<or> hd t = CHR ''+'') then tl t else t);
          ds = takeWhile is_digit u;
          v = (if neg then - int (digits_val ds) else int (digits_val ds))
      in if ds = [] then Inl invalid_argument
         else if v < - (2 ^ 31) \<or> 2 ^ 31 \<le> v then Inl out_of_range
         else Inr v)"

lemma of_char_digit_char: "d < 10 \<Longrightarrow> (of_char (digit_char d) :: nat) = 48 + d"
  by (simp add: digit_char_def)

lemma is_digit_digit_char [simp]: "d < 10 \<Longrightarrow> is_digit (digit_char d)"
  by (simp add: is_digit_def of_char_digit_char)

lemma digit_val_digit_char [simp]: "d < 10 \<Longrightarrow> digit_val (digit_char d) = d"
  by (simp add: digit_val_def of_char_digit_char)

lemma digits_val_snoc: "digits_val (ds @ [c]) = 10 * digits_val ds + digit_val c"
  by (simp add: digits_val_def)

lemma to_string_nonempty [simp]: "to_string n \<noteq> []"
  by (subst to_string.simps) simp

lemma to_string_digits: "list_all is_digit (to_string n)"
proof (induction n rule: to_string.induct)
  case (1 n)
  then show ?case by (subst to_string.simps) simp
qed

lemma digits_val_to_string: "digits_val (to_string n) = n"
proof (induction n rule: to_string.induct)
  case (1 n)
  show ?case
  proof (cases "n < 10")
    case True
    then show ?thesis by (subst to_string.simps) (simp add: digits_val_def)
  next
    case False
    with 1 show ?thesis by (subst to_string.simps) (simp add: digits_val_snoc)
  qed
qed

lemma is_digit_not_space_sign:
  "is_digit c \<Longrightarrow> \<not> is_space c \<and> c \<noteq> CHR ''-'' \<and> c \<noteq> CHR ''+''"
  by (auto simp: is_digit_def is_space_def)

lemma stoi_digits:
  assumes "list_all is_digit s" and "s \<noteq> []"
  shows "stoi s = (if 2 ^ 31 \<le> digits_val s then Inl out_of_range else Inr (int (digits_val s)))"
proof -
  obtain c cs where s: "s = c # cs" using assms(2) by (cases s) auto
  have c: "is_digit c" using assms(1) s by simp
  have drop: "dropWhile is_space s = s" using c is_digit_not_space_sign s by simp
  have take: "takeWhile is_digit s = s"
    using assms(1) by (simp add: list_all_iff)
  have sgn: "hd s \<noteq> CHR ''-''" "hd s \<noteq> CHR ''+''"
    using c is_digit_not_space_sign s by auto
  show ?thesis
    unfolding stoi_def Let_def drop using assms(2) sgn by (simp add: take)
qed

lemma stoi_to_string:
  "stoi (to_string n) = (if n < 2 ^ 31 then Inr (int n) else Inl out_of_range)"
  using stoi_digits [OF to_string_digits [of n]] by (simp add: digits_val_to_string not_le)

section \<open>Byte strings\<close>

text \<open>
  A \<open>std::string\<close> that holds text is a \<open>string\<close>, a byte vector is a \<open>bytes\<close>;
  \<open>str_bytes\<close> is the reinterpretation of the first as the second.
\<close>

definition str_bytes :: "string \<Rightarrow> bytes" where
  "str_bytes s = map of_char s"

definition bytes_str :: "bytes \<Rightarrow> string" where
  "bytes_str bs = map (\<lambda>b. char_of (unat b)) bs"

definition subbytes :: "nat \<Rightarrow> nat \<Rightarrow> bytes \<Rightarrow> bytes" where
  "subbytes off n bs = take n (drop off bs)"

text \<open>
  A read of \<open>n\<close> bytes at offset \<open>off\<close> of a buffer through a pointer. It is not checked
  against the end of the buffer: past it the read returns what lies behind the buffer in
  memory, here the argument \<open>after\<close>.
\<close>

definition read_mem :: "bytes \<Rightarrow> bytes \<Rightarrow> nat \<Rightarrow> nat \<Rightarrow> bytes" where
  "read_mem buf after off n = subbytes off n (buf @ after)"

text \<open>\<open>memcpy (dst + off, src, length src)\<close>; \<open>fits\<close> is the condition that it stays inside.\<close>

definition memcpy_at :: "bytes \<Rightarrow> nat \<Rightarrow> bytes \<Rightarrow> bytes" where
  "memcpy_at dst off src = take off dst @ src @ drop (off + length src) dst"

definition fits :: "bytes \<Rightarrow> nat \<Rightarrow> bytes \<Rightarrow> bool" where
  "fits dst off src \<longleftrightarrow> off + length src \<le> length dst"

text \<open>A field of a structure: its offset and its size in bytes.\<close>

type_synonym field = "nat \<times> nat"

fun le_nat :: "bytes \<Rightarrow> nat" where
  "le_nat [] = 0"
| "le_nat (b # bs) = unat b + 256 * le_nat bs"

fun nat_le :: "nat \<Rightarrow> nat \<Rightarrow> bytes" where
  "nat_le 0 k = []"
| "nat_le (Suc n) k = word_of_nat k # nat_le n (k div 256)"

definition le_word :: "bytes \<Rightarrow> 'a::len word" where
  "le_word bs = word_of_nat (le_nat bs)"

definition word_le :: "nat \<Rightarrow> 'a::len word \<Rightarrow> bytes" where
  "word_le n w = nat_le n (unat w)"

definition zeros :: "nat \<Rightarrow> bytes" where
  "zeros n = replicate n 0"

lemma length_str_bytes [simp]: "length (str_bytes s) = length s"
  by (simp add: str_bytes_def)

lemma length_bytes_str [simp]: "length (bytes_str s) = length s"
  by (simp add: bytes_str_def)

lemma char_of_unat_of_char: "char_of (unat (of_char c :: byte)) = c"
proof -
  have "(of_char c :: byte) = word_of_nat (of_char c)" by (simp add: of_nat_of_char)
  then have "unat (of_char c :: byte) = of_char c mod 256"
    by (simp add: unat_of_nat)
  then show ?thesis by simp
qed

lemma bytes_str_bytes [simp]: "bytes_str (str_bytes s) = s"
  by (induction s) (simp_all add: bytes_str_def str_bytes_def char_of_unat_of_char)

lemma str_bytes_inject [simp]: "str_bytes s = str_bytes t \<longleftrightarrow> s = t"
  by (metis bytes_str_bytes)

lemma length_subbytes [simp, byte_simps]: "length (subbytes off n bs) = min n (length bs - off)"
  by (simp add: subbytes_def)

lemma subbytes_append_left [byte_simps]:
  "off + n \<le> length xs \<Longrightarrow> subbytes off n (xs @ ys) = subbytes off n xs"
  by (simp add: subbytes_def)

lemma subbytes_append_right [byte_simps]:
  "length xs \<le> off \<Longrightarrow> subbytes off n (xs @ ys) = subbytes (off - length xs) n ys"
  by (simp add: subbytes_def)

lemma subbytes_all [simp]: "subbytes 0 (length xs) xs = xs"
  by (simp add: subbytes_def)

lemma subbytes_0_append [simp]: "n = length xs \<Longrightarrow> subbytes 0 n (xs @ ys) = xs"
  by (simp add: subbytes_def)

lemma read_mem_inside [byte_simps]:
  "off + n \<le> length buf \<Longrightarrow> read_mem buf after off n = subbytes off n buf"
  by (simp add: read_mem_def subbytes_append_left)

lemma read_mem_outside [byte_simps]:
  "length buf \<le> off \<Longrightarrow> read_mem buf after off n = subbytes (off - length buf) n after"
  by (simp add: read_mem_def subbytes_append_right)

lemma length_memcpy_at [byte_simps]:
  "fits dst off src \<Longrightarrow> length (memcpy_at dst off src) = length dst"
  by (simp add: memcpy_at_def fits_def)

lemma subbytes_memcpy_same [byte_simps]:
  "fits dst off src \<Longrightarrow> subbytes off (length src) (memcpy_at dst off src) = src"
  by (simp add: memcpy_at_def fits_def subbytes_def)

lemma length_zeros [simp]: "length (zeros n) = n"
  by (simp add: zeros_def)

lemma length_nat_le [simp, byte_simps]: "length (nat_le n k) = n"
  by (induction n arbitrary: k) simp_all

lemma length_word_le [simp, byte_simps]: "length (word_le n w) = n"
  by (simp add: word_le_def)

lemma le_nat_nat_le: "le_nat (nat_le n k) = k mod 256 ^ n"
proof (induction n arbitrary: k)
  case 0
  then show ?case by simp
next
  case (Suc n)
  have "k mod (256 * 256 ^ n) = 256 * ((k div 256) mod 256 ^ n) + k mod 256"
    by (rule mod_mult2_eq)
  then show ?case using Suc by (simp add: unat_of_nat)
qed

lemma le_nat_bound: "le_nat bs < 256 ^ length bs"
proof (induction bs)
  case Nil
  then show ?case by simp
next
  case (Cons b bs)
  have "unat b < 256" using unsigned_less [of b] by simp
  with Cons show ?case by simp
qed

lemma nat_le_le_nat: "nat_le (length bs) (le_nat bs) = bs"
proof (induction bs)
  case Nil
  then show ?case by simp
next
  case (Cons b bs)
  have b: "unat b < 256" using unsigned_less [of b] by simp
  have z: "(256 :: byte) = 0" by simp
  have "(word_of_nat (unat b + 256 * le_nat bs) :: byte) = b + 256 * word_of_nat (le_nat bs)"
    by simp
  then have "(word_of_nat (unat b + 256 * le_nat bs) :: byte) = b" by (simp only: z) simp
  moreover have "(unat b + 256 * le_nat bs) div 256 = le_nat bs" using b by simp
  ultimately show ?case using Cons by simp
qed

lemma le_nat_append: "le_nat (xs @ ys) = le_nat xs + 256 ^ length xs * le_nat ys"
  by (induction xs) (simp_all add: algebra_simps)

lemma le_word_word_le:
  "LENGTH('a::len) \<le> 8 * n \<Longrightarrow> le_word (word_le n (w :: 'a word)) = w"
proof -
  assume n: "LENGTH('a) \<le> 8 * n"
  have "unat w < 2 ^ LENGTH('a)" by (rule unsigned_less)
  also have "\<dots> \<le> 2 ^ (8 * n)" using n by (simp add: power_increasing)
  also have "\<dots> = 256 ^ n" by (simp add: power_mult)
  finally show ?thesis by (simp add: le_word_def word_le_def le_nat_nat_le)
qed

lemma subbytes_memcpy_before [byte_simps]:
  "fits dst off src \<Longrightarrow> o' + n \<le> off \<Longrightarrow> subbytes o' n (memcpy_at dst off src) = subbytes o' n dst"
  by (simp add: memcpy_at_def fits_def subbytes_def drop_take min_absorb1)

lemma subbytes_memcpy_after [byte_simps]:
  "fits dst off src \<Longrightarrow> off + length src \<le> o' \<Longrightarrow>
   subbytes o' n (memcpy_at dst off src) = subbytes o' n dst"
  by (simp add: memcpy_at_def fits_def subbytes_def add.commute)

lemma take_memcpy_at [byte_simps]:
  "fits dst off src \<Longrightarrow> n \<le> off \<Longrightarrow> take n (memcpy_at dst off src) = take n dst"
  by (simp add: memcpy_at_def fits_def)

lemma length_4E:
  assumes "length xs = 4"
  obtains c0 c1 c2 c3 where "xs = [c0, c1, c2, c3]"
  using assms by (auto simp: numeral_eq_Suc length_Suc_conv)

lemma unat_le_word:
  assumes "8 * length bs \<le> LENGTH('a::len)"
  shows "unat (le_word bs :: 'a word) = le_nat bs"
proof -
  have "le_nat bs < 256 ^ length bs" by (rule le_nat_bound)
  also have "\<dots> = 2 ^ (8 * length bs)" by (simp add: power_mult)
  also have "\<dots> \<le> 2 ^ LENGTH('a)" using assms by (simp add: power_increasing)
  finally have "le_nat bs < 2 ^ LENGTH('a)" .
  then show ?thesis unfolding le_word_def unat_of_nat by simp
qed

lemma le_nat_zeros [simp]: "le_nat (zeros n) = 0"
  by (induction n) (simp_all add: zeros_def)

lemma subbytes_append:
  "subbytes off n (xs @ ys) =
     subbytes off n xs @ subbytes (off - length xs) (n - (length xs - off)) ys"
  by (simp add: subbytes_def)

lemma subbytes_zeros_min: "subbytes off n (zeros k) = zeros (min n (k - off))"
  by (simp add: subbytes_def zeros_def)

lemma subbytes_0 [simp]: "subbytes off 0 xs = []"
  by (simp add: subbytes_def)

lemma subbytes_beyond [simp]: "length xs \<le> off \<Longrightarrow> subbytes off n xs = []"
  by (simp add: subbytes_def)

lemma subbytes_word_le: "subbytes 0 n (word_le n w) = word_le n w"
  by (simp add: subbytes_def)

lemma le_nat_word_le_32: "le_nat (word_le 4 (w :: u32)) = unat w"
  using unsigned_less [of w, where ?'a = nat] by (simp add: word_le_def le_nat_nat_le)

lemma zeros_0 [simp]: "zeros 0 = []" by (simp add: zeros_def)

lemma nat_le_4: "nat_le 4 k = [word_of_nat k, word_of_nat (k div 256),
    word_of_nat (k div 256 div 256), word_of_nat (k div 256 div 256 div 256)]"
proof -
  have "(4 :: nat) = Suc (Suc (Suc (Suc 0)))" by simp
  then show ?thesis by (simp only: nat_le.simps)
qed

lemma take_zeros [simp]: "take n (zeros k) = zeros (min n k)"
  and drop_zeros [simp]: "drop n (zeros k) = zeros (k - n)"
  by (simp_all add: zeros_def)

end
