(* ===== verification/Ual_Messages.thy ===== *)
theory Ual_Messages
  imports TF_Prelude
begin

text \<open>
  The data of the unified attestation layer: the protobuf messages of the sources as records
  (with the fields the sources read or write; \<open>secretflowapis\<close> is not part of the
  repository), the constants of \<open>common/constants.h\<close> and \<open>common/status.h\<close>, and the
  record \<open>ext\<close> of the library functions that are called but not defined in the repository
  (absl strings, cppcodec base64, protobuf JSON, the SHA-256 of yacl). Every definition that
  calls one of them takes the record as an argument; what is relied upon about them are the
  predicates \<open>absl_doc\<close>, \<open>base64_doc\<close>, \<open>json_doc\<close> and \<open>sha256_doc\<close>.
\<close>

section \<open>Messages\<close>

record UnifiedAttestationReport =
  rep_str_report_version :: string
  rep_str_report_type :: string
  rep_str_tee_platform :: string
  rep_json_report :: string

record UnifiedAttestationAttributes =
  str_tee_platform :: string
  hex_platform_hw_version :: string
  hex_platform_sw_version :: string
  hex_secure_flags :: string
  hex_platform_measurement :: string
  hex_boot_measurement :: string
  hex_ta_measurement :: string
  hex_ta_dyn_measurement :: string
  hex_signer :: string
  hex_prod_id :: string
  str_min_isvsvn :: string
  bool_debug_disabled :: string
  hex_user_data :: string
  hex_hash_or_pem_pubkey :: string
  hex_nonce :: string

record UnifiedAttestationPolicy =
  main_attributes :: "UnifiedAttestationAttributes list"

record UnifiedAttestationReportParams =
  par_hex_user_data :: string
  par_pem_public_key :: string

record UnifiedAttestationGenerationParams =
  par_tee_identity :: string
  par_report_type :: string
  par_report_hex_nonce :: string
  par_report_params :: UnifiedAttestationReportParams

record DcapReport =
  dcap_b64_quote :: string
  dcap_json_collateral :: string

record IntelTdxReport =
  tdx_b64_quote :: string
  tdx_json_collateral :: string

record SgxQlQveCollateral =
  col_version :: u32
  col_tee_type :: u32
  col_pck_crl_issuer_chain :: string
  col_root_ca_crl :: string
  col_pck_crl :: string
  col_tcb_info_issuer_chain :: string
  col_tcb_info :: string
  col_qe_identity_issuer_chain :: string
  col_qe_identity :: string

record HygonCsvReport =
  csv_b64_quote :: string
  csv_json_cert_chain :: string
  csv_str_chip_id :: string

record HygonCsvCertChain =
  b64_hsk_cert :: string
  b64_cek_cert :: string

text \<open>A message that was just constructed: every field has its default value.\<close>

definition empty_attrs :: UnifiedAttestationAttributes where
  "empty_attrs = \<lparr>str_tee_platform = [], hex_platform_hw_version = [],
     hex_platform_sw_version = [], hex_secure_flags = [], hex_platform_measurement = [],
     hex_boot_measurement = [], hex_ta_measurement = [], hex_ta_dyn_measurement = [],
     hex_signer = [], hex_prod_id = [], str_min_isvsvn = [], bool_debug_disabled = [],
     hex_user_data = [], hex_hash_or_pem_pubkey = [], hex_nonce = []\<rparr>"

lemma empty_attrs_sel [simp]:
  "str_tee_platform empty_attrs = []"
  "hex_platform_hw_version empty_attrs = []"
  "hex_platform_sw_version empty_attrs = []"
  "hex_secure_flags empty_attrs = []"
  "hex_platform_measurement empty_attrs = []"
  "hex_boot_measurement empty_attrs = []"
  "hex_ta_measurement empty_attrs = []"
  "hex_ta_dyn_measurement empty_attrs = []"
  "hex_signer empty_attrs = []"
  "hex_prod_id empty_attrs = []"
  "str_min_isvsvn empty_attrs = []"
  "bool_debug_disabled empty_attrs = []"
  "hex_user_data empty_attrs = []"
  "hex_hash_or_pem_pubkey empty_attrs = []"
  "hex_nonce empty_attrs = []"
  by (simp_all add: empty_attrs_def)

definition empty_collateral :: SgxQlQveCollateral where
  "empty_collateral = \<lparr>col_version = 0, col_tee_type = 0, col_pck_crl_issuer_chain = [],
     col_root_ca_crl = [], col_pck_crl = [], col_tcb_info_issuer_chain = [], col_tcb_info = [],
     col_qe_identity_issuer_chain = [], col_qe_identity = []\<rparr>"

section \<open>Constants\<close>

definition kReportVersion :: string where "kReportVersion = ''1.0''"
definition kReportMaxSize :: nat where "kReportMaxSize = 40960"
definition kAttributeMaxSize :: nat where "kAttributeMaxSize = 40960"
definition kReportTypeBgcheck :: string where "kReportTypeBgcheck = ''BackgroundCheck''"
definition kReportTypePassport :: string where "kReportTypePassport = ''Passport''"
definition kPlatformSgxDcap :: string where "kPlatformSgxDcap = ''SGX_DCAP''"
definition kPlatformTdx :: string where "kPlatformTdx = ''TDX''"
definition kPlatformCsv :: string where "kPlatformCsv = ''CSV''"

lemmas platform_defs = kPlatformSgxDcap_def kPlatformTdx_def kPlatformCsv_def

datatype ErrorCode = kOk | kArgumentError | kIndexOverflow | kNotFound | kLogicError
  | kPermissionError | kInvalidFormat | kAlreadyExist | kNotImplemented | kVersionMismatch
  | kNotReady | kNetworkError | kTimeout | kInternalError | kUnknown

text \<open>The numeric value of each enumerator: implicit ones continue from the one before.\<close>

primrec error_code :: "ErrorCode \<Rightarrow> int" where
  "error_code kOk = 0"
| "error_code kArgumentError = 1"
| "error_code kIndexOverflow = 2"
| "error_code kNotFound = 3"
| "error_code kLogicError = 4"
| "error_code kPermissionError = 5"
| "error_code kInvalidFormat = 6"
| "error_code kAlreadyExist = 7"
| "error_code kNotImplemented = 8"
| "error_code kVersionMismatch = 9"
| "error_code kNotReady = 10"
| "error_code kNetworkError = 11"
| "error_code kTimeout = 12"
| "error_code kInternalError = 18"
| "error_code kUnknown = 23"

lemma error_code_eq_0 [simp]: "error_code c = 0 \<longleftrightarrow> c = kOk"
  by (cases c) simp_all

record Status =
  code :: int
  message :: string
  details :: string

section \<open>Library functions that are not in the repository\<close>

text \<open>
  A parse of JSON gives the message or the text of the status that is not ok; likewise for
  printing.
\<close>

record ext =
  EqualsIgnoreCase :: "string \<Rightarrow> string \<Rightarrow> bool"
  BytesToHexString :: "bytes \<Rightarrow> string"
  HexStringToBytes :: "string \<Rightarrow> bytes"
  base64_encode :: "bytes \<Rightarrow> string"
  base64_decode :: "string \<Rightarrow> bytes option"
  Sha256 :: "bytes \<Rightarrow> bytes"
  report_of_json :: "string \<Rightarrow> string + UnifiedAttestationReport"
  json_of_report :: "UnifiedAttestationReport \<Rightarrow> string + string"
  policy_of_json :: "string \<Rightarrow> string + UnifiedAttestationPolicy"
  json_of_attrs :: "UnifiedAttestationAttributes \<Rightarrow> string + string"
  params_of_json :: "string \<Rightarrow> string + UnifiedAttestationGenerationParams"
  dcap_of_json :: "string \<Rightarrow> string + DcapReport"
  json_of_dcap :: "DcapReport \<Rightarrow> string + string"
  json_of_tdx :: "IntelTdxReport \<Rightarrow> string + string"
  collateral_of_json :: "string \<Rightarrow> string + SgxQlQveCollateral"
  json_of_collateral :: "SgxQlQveCollateral \<Rightarrow> string + string"
  csv_of_json :: "string \<Rightarrow> string + HygonCsvReport"
  json_of_csv :: "HygonCsvReport \<Rightarrow> string + string"
  chain_of_json :: "string \<Rightarrow> string + HygonCsvCertChain"
  json_of_chain :: "HygonCsvCertChain \<Rightarrow> string + string"

definition JSON2PB :: "(string \<Rightarrow> string + 'm) \<Rightarrow> string \<Rightarrow> 'm res" where
  "JSON2PB parse jsonstr =
     (case parse jsonstr of
        Inl st \<Rightarrow> YACL_THROW
          (fmt ''Parsing json to pb message failed, json: {}, error: {}'' [jsonstr, st])
      | Inr m \<Rightarrow> Inr m)"

definition PB2JSON :: "('m \<Rightarrow> string + string) \<Rightarrow> 'm \<Rightarrow> string res" where
  "PB2JSON print pbmsg =
     (case print pbmsg of
        Inl st \<Rightarrow> YACL_THROW (fmt ''Parsing pb message to json failed, error: {}'' [st])
      | Inr s \<Rightarrow> Inr s)"

text \<open>The base64 decoder throws \<open>cppcodec::parse_error\<close>, a \<open>std::exception\<close>.\<close>

definition decode64 :: "ext \<Rightarrow> string \<Rightarrow> bytes res" where
  "decode64 X s = or_throw Std_exception ''parse error'' (base64_decode X s)"

lemma JSON2PB_eq_Inr [exn_simps]: "JSON2PB p s = Inr m \<longleftrightarrow> p s = Inr m"
  by (cases "p s") (simp_all add: JSON2PB_def)

lemma PB2JSON_eq_Inr [exn_simps]: "PB2JSON p m = Inr s \<longleftrightarrow> p m = Inr s"
  by (cases "p m") (simp_all add: PB2JSON_def)

lemma decode64_eq_Inr [exn_simps]: "decode64 X s = Inr b \<longleftrightarrow> base64_decode X s = Some b"
  by (simp add: decode64_def exn_simps)

lemma no_crash_json [simp]:
  "no_crash (JSON2PB p s)" "no_crash (PB2JSON q m)" "no_crash (decode64 X t)"
  by (auto simp: JSON2PB_def PB2JSON_def decode64_def split: sum.splits)

section \<open>What is documented of them\<close>

definition ascii_tolower :: "char \<Rightarrow> char" where
  "ascii_tolower c =
     (if 65 \<le> (of_char c :: nat) \<and> (of_char c :: nat) \<le> 90 then char_of (of_char c + 32 :: nat)
      else c)"

definition absl_doc :: "ext \<Rightarrow> bool" where
  "absl_doc X \<longleftrightarrow>
     (\<forall>a b. EqualsIgnoreCase X a b \<longleftrightarrow> map ascii_tolower a = map ascii_tolower b) \<and>
     (\<forall>b. length (BytesToHexString X b) = 2 * length b) \<and>
     (\<forall>a b. BytesToHexString X (a @ b) = BytesToHexString X a @ BytesToHexString X b) \<and>
     (\<forall>b. map ascii_tolower (BytesToHexString X b) = BytesToHexString X b) \<and>
     (\<forall>b. HexStringToBytes X (BytesToHexString X b) = b) \<and>
     (\<forall>s. length (HexStringToBytes X s) = length s div 2)"

definition base64_doc :: "ext \<Rightarrow> bool" where
  "base64_doc X \<longleftrightarrow> (\<forall>b. base64_decode X (base64_encode X b) = Some b)"

definition sha256_doc :: "ext \<Rightarrow> bool" where
  "sha256_doc X \<longleftrightarrow> (\<forall>b. length (Sha256 X b) = 32)"

text \<open>
  The JSON mapping of protobuf round-trips. \<open>DcapReport\<close> and \<open>IntelTdxReport\<close> have fields
  of the same names and types, so the JSON text of the second parses as the first.
\<close>

definition json_doc :: "ext \<Rightarrow> bool" where
  "json_doc X \<longleftrightarrow>
     (\<forall>m s. json_of_report X m = Inr s \<longrightarrow> report_of_json X s = Inr m) \<and>
     (\<forall>m s. json_of_dcap X m = Inr s \<longrightarrow> dcap_of_json X s = Inr m) \<and>
     (\<forall>m s. json_of_tdx X m = Inr s \<longrightarrow>
        dcap_of_json X s = Inr \<lparr>dcap_b64_quote = tdx_b64_quote m,
                               dcap_json_collateral = tdx_json_collateral m\<rparr>) \<and>
     (\<forall>m s. json_of_collateral X m = Inr s \<longrightarrow> collateral_of_json X s = Inr m \<and> s \<noteq> []) \<and>
     (\<forall>m s. json_of_csv X m = Inr s \<longrightarrow> csv_of_json X s = Inr m) \<and>
     (\<forall>m s. json_of_chain X m = Inr s \<longrightarrow> chain_of_json X s = Inr m)"

lemma EqualsIgnoreCase_refl: "absl_doc X \<Longrightarrow> EqualsIgnoreCase X a a"
  by (simp add: absl_doc_def)

lemma BytesToHexString_inject:
  "absl_doc X \<Longrightarrow> BytesToHexString X a = BytesToHexString X b \<longleftrightarrow> a = b"
  unfolding absl_doc_def by metis

lemma BytesToHexString_append:
  "absl_doc X \<Longrightarrow> BytesToHexString X (a @ b) = BytesToHexString X a @ BytesToHexString X b"
  by (simp add: absl_doc_def)

lemma EqualsIgnoreCase_hex:
  "absl_doc X \<Longrightarrow> EqualsIgnoreCase X (BytesToHexString X a) (BytesToHexString X b) \<longleftrightarrow> a = b"
  using BytesToHexString_inject [of X a b] by (auto simp: absl_doc_def)

lemma BytesToHexString_eq_Nil: "absl_doc X \<Longrightarrow> BytesToHexString X b = [] \<longleftrightarrow> b = []"
  unfolding absl_doc_def by (metis length_0_conv mult_is_0 zero_neq_numeral)

lemma HexStringToBytes_hex: "absl_doc X \<Longrightarrow> HexStringToBytes X (BytesToHexString X b) = b"
  by (simp add: absl_doc_def)

lemma length_BytesToHexString: "absl_doc X \<Longrightarrow> length (BytesToHexString X b) = 2 * length b"
  by (simp add: absl_doc_def)

lemma length_HexStringToBytes: "absl_doc X \<Longrightarrow> length (HexStringToBytes X s) = length s div 2"
  by (simp add: absl_doc_def)

lemma length_Sha256: "sha256_doc X \<Longrightarrow> length (Sha256 X b) = 32"
  by (simp add: sha256_doc_def)

lemma base64_roundtrip: "base64_doc X \<Longrightarrow> base64_decode X (base64_encode X b) = Some b"
  by (simp add: base64_doc_def)

end
