(* ===== verification/Reference_Libs.thy ===== *)
theory Reference_Libs
  imports Ual_Messages
begin

text \<open>
  A concrete instance \<open>ref_ext\<close> of the library record \<open>ext\<close>, with the proofs that it
  has the documented behaviour \<open>absl_doc\<close>, \<open>base64_doc\<close>, \<open>sha256_doc\<close> and \<open>json_doc\<close>. It
  shows that these hypotheses can hold together and is what the closed instances of the
  theorems are evaluated with. It models no code of the repository: lower-case hexadecimal is
  the real one; base64, SHA-256 and JSON are replaced by simple functions with the same laws.
\<close>

section \<open>Hexadecimal\<close>

definition hex_digit :: "nat \<Rightarrow> char" where
  "hex_digit n = (if n < 10 then char_of (48 + n) else char_of (87 + n))"

definition hex_val :: "char \<Rightarrow> nat" where
  "hex_val c =
     (let n = of_char c :: nat in
      if 48 \<le> n \<and> n \<le> 57 then n - 48
      else if 97 \<le> n \<and> n \<le> 102 then n - 87
      else if 65 \<le> n \<and> n \<le> 70 then n - 55 else 0)"

fun ref_hex :: "bytes \<Rightarrow> string" where
  "ref_hex [] = []"
| "ref_hex (b # bs) = hex_digit (unat b div 16) # hex_digit (unat b mod 16) # ref_hex bs"

fun ref_unhex :: "string \<Rightarrow> bytes" where
  "ref_unhex (a # b # r) = word_of_nat (16 * hex_val a + hex_val b) # ref_unhex r"
| "ref_unhex _ = []"

lemma of_char_hex_digit:
  "n < 16 \<Longrightarrow> (of_char (hex_digit n) :: nat) = (if n < 10 then 48 + n else 87 + n)"
  by (simp add: hex_digit_def)

lemma hex_val_hex_digit: "n < 16 \<Longrightarrow> hex_val (hex_digit n) = n"
  by (simp add: hex_val_def of_char_hex_digit Let_def)

lemma tolower_hex_digit: "n < 16 \<Longrightarrow> ascii_tolower (hex_digit n) = hex_digit n"
  by (simp add: ascii_tolower_def of_char_hex_digit)

lemma byte_nibbles: "unat (b :: byte) div 16 < 16" "unat (b :: byte) mod 16 < 16"
  using unsigned_less [of b, where ?'a = nat] by simp_all

lemma length_ref_hex: "length (ref_hex b) = 2 * length b"
  by (induction b) simp_all

lemma ref_hex_append: "ref_hex (a @ b) = ref_hex a @ ref_hex b"
  by (induction a) simp_all

lemma lower_ref_hex: "map ascii_tolower (ref_hex b) = ref_hex b"
  by (induction b) (simp_all add: tolower_hex_digit byte_nibbles)

lemma ref_unhex_hex: "ref_unhex (ref_hex b) = b"
proof (induction b)
  case Nil
  then show ?case by simp
next
  case (Cons x b)
  have "16 * (unat x div 16) + unat x mod 16 = unat x" by simp
  then have "word_of_nat (16 * (unat x div 16) + unat x mod 16) = x"
    by (simp only: of_nat_unat ucast_id)
  with Cons show ?case
    by (simp only: ref_hex.simps ref_unhex.simps hex_val_hex_digit byte_nibbles)
qed

lemma length_ref_unhex: "length (ref_unhex s) = length s div 2"
  by (induction s rule: ref_unhex.induct) simp_all

section \<open>A serialisation of lists of strings\<close>

fun enc_str :: "string \<Rightarrow> string" where
  "enc_str [] = [CHR '';'']"
| "enc_str (c # cs) = CHR ''='' # c # enc_str cs"

fun dec_str :: "string \<Rightarrow> (string \<times> string) option" where
  "dec_str [] = None"
| "dec_str (x # r) =
     (if x = CHR '';'' then Some ([], r)
      else case r of
        [] \<Rightarrow> None
      | y # r' \<Rightarrow> (case dec_str r' of None \<Rightarrow> None | Some (s, t) \<Rightarrow> Some (y # s, t)))"

fun dec_strs :: "nat \<Rightarrow> string \<Rightarrow> (string list \<times> string) option" where
  "dec_strs 0 s = Some ([], s)"
| "dec_strs (Suc n) s =
     (case dec_str s of None \<Rightarrow> None
      | Some (x, r) \<Rightarrow>
          (case dec_strs n r of None \<Rightarrow> None | Some (xs, t) \<Rightarrow> Some (x # xs, t)))"

definition enc_strs :: "string list \<Rightarrow> string" where
  "enc_strs xs = concat (map enc_str xs)"

lemma dec_enc_str: "dec_str (enc_str s @ r) = Some (s, r)"
  by (induction s) simp_all

lemma dec_enc_strs: "n = length xs \<Longrightarrow> dec_strs n (enc_strs xs) = Some (xs, [])"
proof -
  have "dec_strs (length xs) (enc_strs xs @ r) = Some (xs, r)" for r
    by (induction xs) (simp_all add: enc_strs_def dec_enc_str)
  from this [of "[]"] show "n = length xs \<Longrightarrow> ?thesis" by simp
qed

text \<open>A parse: exactly \<open>n\<close> strings, then a function of them.\<close>

definition parse_fields :: "nat \<Rightarrow> (string list \<Rightarrow> 'm) \<Rightarrow> string \<Rightarrow> string + 'm" where
  "parse_fields n f s =
     (case dec_strs n s of Some (xs, []) \<Rightarrow> Inr (f xs) | _ \<Rightarrow> Inl ''invalid'')"

lemma parse_fields_enc: "n = length xs \<Longrightarrow> parse_fields n f (enc_strs xs) = Inr (f xs)"
  by (simp add: parse_fields_def dec_enc_strs)

definition num_str :: "u32 \<Rightarrow> string" where "num_str w = to_string (unat w)"
definition str_num :: "string \<Rightarrow> u32" where "str_num s = word_of_nat (digits_val s)"

lemma str_num_num_str [simp]: "str_num (num_str w) = w"
  by (simp add: str_num_def num_str_def digits_val_to_string)

definition attrs_of_strs :: "string list \<Rightarrow> UnifiedAttestationAttributes" where
  "attrs_of_strs xs = \<lparr>str_tee_platform = xs ! 0, hex_platform_hw_version = xs ! 1,
     hex_platform_sw_version = xs ! 2, hex_secure_flags = xs ! 3,
     hex_platform_measurement = xs ! 4, hex_boot_measurement = xs ! 5,
     hex_ta_measurement = xs ! 6, hex_ta_dyn_measurement = xs ! 7, hex_signer = xs ! 8,
     hex_prod_id = xs ! 9, str_min_isvsvn = xs ! 10, bool_debug_disabled = xs ! 11,
     hex_user_data = xs ! 12, hex_hash_or_pem_pubkey = xs ! 13, hex_nonce = xs ! 14\<rparr>"

definition strs_of_attrs :: "UnifiedAttestationAttributes \<Rightarrow> string list" where
  "strs_of_attrs a = [str_tee_platform a, hex_platform_hw_version a, hex_platform_sw_version a,
     hex_secure_flags a, hex_platform_measurement a, hex_boot_measurement a,
     hex_ta_measurement a, hex_ta_dyn_measurement a, hex_signer a, hex_prod_id a,
     str_min_isvsvn a, bool_debug_disabled a, hex_user_data a, hex_hash_or_pem_pubkey a,
     hex_nonce a]"

text \<open>A policy is written as its number of entries followed by their fields.\<close>

definition policy_json :: "UnifiedAttestationAttributes list \<Rightarrow> string" where
  "policy_json es =
     enc_str (to_string (length es)) @ enc_strs (concat (map strs_of_attrs es))"

definition attrs_at :: "string list \<Rightarrow> nat \<Rightarrow> UnifiedAttestationAttributes" where
  "attrs_at xs i = attrs_of_strs (take 15 (drop (15 * i) xs))"

definition ref_policy_of_json :: "string \<Rightarrow> string + UnifiedAttestationPolicy" where
  "ref_policy_of_json s =
     (case dec_str s of None \<Rightarrow> Inl ''invalid''
      | Some (k, r) \<Rightarrow>
          parse_fields (15 * digits_val k)
            (\<lambda>xs. \<lparr>main_attributes = map (attrs_at xs) [0..<digits_val k]\<rparr>) r)"

definition ref_ext :: ext where
  "ref_ext = \<lparr>
     EqualsIgnoreCase = (\<lambda>a b. map ascii_tolower a = map ascii_tolower b),
     BytesToHexString = ref_hex,
     HexStringToBytes = ref_unhex,
     base64_encode = bytes_str,
     base64_decode = (\<lambda>s. Some (str_bytes s)),
     Sha256 = (\<lambda>b. take 32 (b @ zeros 32)),
     report_of_json = parse_fields 4 (\<lambda>xs. \<lparr>rep_str_report_version = xs ! 0,
        rep_str_report_type = xs ! 1, rep_str_tee_platform = xs ! 2, rep_json_report = xs ! 3\<rparr>),
     json_of_report = (\<lambda>m. Inr (enc_strs [rep_str_report_version m, rep_str_report_type m,
        rep_str_tee_platform m, rep_json_report m])),
     policy_of_json = ref_policy_of_json,
     json_of_attrs = (\<lambda>m. Inr (enc_strs (strs_of_attrs m))),
     params_of_json = parse_fields 5 (\<lambda>xs. \<lparr>par_tee_identity = xs ! 0, par_report_type = xs ! 1,
        par_report_hex_nonce = xs ! 2, par_report_params =
          \<lparr>par_hex_user_data = xs ! 3, par_pem_public_key = xs ! 4\<rparr>\<rparr>),
     dcap_of_json = parse_fields 2
        (\<lambda>xs. \<lparr>dcap_b64_quote = xs ! 0, dcap_json_collateral = xs ! 1\<rparr>),
     json_of_dcap = (\<lambda>m. Inr (enc_strs [dcap_b64_quote m, dcap_json_collateral m])),
     json_of_tdx = (\<lambda>m. Inr (enc_strs [tdx_b64_quote m, tdx_json_collateral m])),
     collateral_of_json = parse_fields 9 (\<lambda>xs. \<lparr>col_version = str_num (xs ! 0),
        col_tee_type = str_num (xs ! 1), col_pck_crl_issuer_chain = xs ! 2,
        col_root_ca_crl = xs ! 3, col_pck_crl = xs ! 4, col_tcb_info_issuer_chain = xs ! 5,
        col_tcb_info = xs ! 6, col_qe_identity_issuer_chain = xs ! 7,
        col_qe_identity = xs ! 8\<rparr>),
     json_of_collateral = (\<lambda>m. Inr (enc_strs [num_str (col_version m), num_str (col_tee_type m),
        col_pck_crl_issuer_chain m, col_root_ca_crl m, col_pck_crl m,
        col_tcb_info_issuer_chain m, col_tcb_info m, col_qe_identity_issuer_chain m,
        col_qe_identity m])),
     csv_of_json = parse_fields 3 (\<lambda>xs. \<lparr>csv_b64_quote = xs ! 0, csv_json_cert_chain = xs ! 1,
        csv_str_chip_id = xs ! 2\<rparr>),
     json_of_csv = (\<lambda>m. Inr (enc_strs [csv_b64_quote m, csv_json_cert_chain m,
        csv_str_chip_id m])),
     chain_of_json = parse_fields 2 (\<lambda>xs. \<lparr>b64_hsk_cert = xs ! 0, b64_cek_cert = xs ! 1\<rparr>),
     json_of_chain = (\<lambda>m. Inr (enc_strs [b64_hsk_cert m, b64_cek_cert m]))\<rparr>"

section \<open>The documented behaviour\<close>

lemma str_bytes_bytes_str [simp]: "str_bytes (bytes_str b) = b"
proof (induction b)
  case Nil
  then show ?case by (simp add: str_bytes_def bytes_str_def)
next
  case (Cons x b)
  have "unat x < 256" using unsigned_less [of x, where ?'a = nat] by simp
  then have "(of_char (char_of (unat x) :: char) :: nat) = unat x" by simp
  then have "(of_char (char_of (unat x) :: char) :: byte) = x"
    by (metis of_nat_of_char of_nat_unat ucast_id)
  with Cons show ?case by (simp add: str_bytes_def bytes_str_def)
qed

lemma ref_absl_doc [simp]: "absl_doc ref_ext"
  by (simp add: absl_doc_def ref_ext_def length_ref_hex ref_hex_append lower_ref_hex ref_unhex_hex
      length_ref_unhex)

lemma ref_base64_doc [simp]: "base64_doc ref_ext"
  by (simp add: base64_doc_def ref_ext_def)

lemma ref_sha256_doc [simp]: "sha256_doc ref_ext"
  by (auto simp: sha256_doc_def ref_ext_def)

lemma enc_strs_nonempty [simp]: "enc_strs (x # xs) \<noteq> []"
  by (cases x) (simp_all add: enc_strs_def)

lemma ref_json_doc [simp]: "json_doc ref_ext"
  by (simp add: json_doc_def ref_ext_def parse_fields_enc)

lemma ref_report_json: "\<exists>s. report_of_json ref_ext s = Inr r"
  by (rule exI [of _ "enc_strs [rep_str_report_version r, rep_str_report_type r,
        rep_str_tee_platform r, rep_json_report r]"]) (simp add: ref_ext_def parse_fields_enc)

lemma concat_strs_of_attrs:
  "length (concat (map strs_of_attrs es)) = 15 * length es"
  by (induction es) (simp_all add: strs_of_attrs_def)

lemma attrs_of_strs_of_attrs: "attrs_of_strs (strs_of_attrs a @ r) = a"
  by (simp add: attrs_of_strs_def strs_of_attrs_def)

lemma attrs_at_concat:
  "i < length es \<Longrightarrow> attrs_at (concat (map strs_of_attrs es)) i = es ! i"
proof (induction es arbitrary: i)
  case Nil
  then show ?case by simp
next
  case (Cons e es)
  have len: "length (strs_of_attrs e) = 15" by (simp add: strs_of_attrs_def)
  show ?case
  proof (cases i)
    case 0
    then show ?thesis using attrs_of_strs_of_attrs [of e "[]"] len by (simp add: attrs_at_def)
  next
    case (Suc j)
    then have "attrs_at (concat (map strs_of_attrs (e # es))) i =
        attrs_at (concat (map strs_of_attrs es)) j"
      using len by (simp add: attrs_at_def)
    with Suc Cons show ?thesis by simp
  qed
qed

lemma ref_policy_of_policy_json [simp]:
  "policy_of_json ref_ext (policy_json es) = Inr \<lparr>main_attributes = es\<rparr>"
proof -
  have "map (attrs_at (concat (map strs_of_attrs es))) [0..<length es] = es"
    by (rule nth_equalityI) (simp_all add: attrs_at_concat)
  then show ?thesis
    by (simp add: ref_ext_def ref_policy_of_json_def policy_json_def dec_enc_str
        digits_val_to_string parse_fields_enc concat_strs_of_attrs del: concat.simps map_eq_conv)
qed

end
