(* ===== verification/Attr_Policy.thy ===== *)
theory Attr_Policy
  imports Reference_Libs
begin

text \<open>
  The matching of report attributes against a policy and the verification entry point of the
  base class (\<open>verification/interface/verifier.cc\<close> and \<open>verifier.h\<close>). The first part is the
  code; the second the specification \<open>attrs_match\<close> of one policy entry and the exact
  outcome of the code on every branch; the third the interface that the three platform
  verifiers implement, as the locale \<open>attestation_verifier\<close>.
\<close>

section \<open>The code\<close>

definition kUaAttrPlatform :: string where "kUaAttrPlatform = ''PLATFORM''"
definition kUaAttrPlatformHwVer :: string where "kUaAttrPlatformHwVer = ''PLATFORMHWVERSION''"
definition kUaAttrPlatformSwVer :: string where "kUaAttrPlatformSwVer = ''PLATFORMSWVERSION''"
definition kUaAttrSecureFlags :: string where "kUaAttrSecureFlags = ''SECUREFLAGS''"
definition kUaAttrMrplatform :: string where "kUaAttrMrplatform = ''MRPLATFORM''"
definition kUaAttrMrboot :: string where "kUaAttrMrboot = ''MRBOOT''"
definition kUaAttrMrTa :: string where "kUaAttrMrTa = ''MRTRUSTAPP''"
definition kUaAttrMrTaDyn :: string where "kUaAttrMrTaDyn = ''MRTRUSTAPPDYN''"
definition kUaAttrSigner :: string where "kUaAttrSigner = ''SIGNER''"
definition kUaAttrProdID :: string where "kUaAttrProdID = ''PRODID''"
definition kUaAttrIsvSvn :: string where "kUaAttrIsvSvn = ''ISVSVN''"
definition kUaAttrDebugDisabled :: string where "kUaAttrDebugDisabled = ''DEBUGDISABLED''"
definition kUaAttrUserData :: string where "kUaAttrUserData = ''USERDATA''"
definition kUaAttrPublickey :: string where "kUaAttrPublickey = ''PUBLICKEY''"
definition kUaAttrNonce :: string where "kUaAttrNonce = ''NONCE''"

text \<open>
  The argument \<open>std::string* error_msg\<close> is \<open>None\<close> for the null pointer and \<open>Some m\<close>
  for a pointer to a string with contents \<open>m\<close>; the functions return the boolean and what
  the string holds afterwards.
\<close>

type_synonym match_result = "(bool \<times> string option) res"

definition mismatch_msg :: "string \<Rightarrow> string \<Rightarrow> string \<Rightarrow> string" where
  "mismatch_msg name actual_value expected_value =
     fmt ''{} is not match: actual {} vs expected {}.'' [name, actual_value, expected_value]"

definition IsStrEqual ::
  "ext \<Rightarrow> string \<Rightarrow> string \<Rightarrow> string \<Rightarrow> bool \<Rightarrow> string option \<Rightarrow> match_result" where
  "IsStrEqual X name actual_value expected_value required error_msg =
     (let result = (expected_value = [] \<and> \<not> required)
                   \<or> EqualsIgnoreCase X expected_value actual_value;
          error_msg' = (if \<not> result \<and> error_msg \<noteq> None
                        then Some (mismatch_msg name actual_value expected_value) else error_msg)
      in bindE (YACL_ENFORCE result (mismatch_msg name actual_value expected_value))
           (\<lambda>_. Inr (result, error_msg')))"

definition StrToBoolean :: "ext \<Rightarrow> string \<Rightarrow> bool" where
  "StrToBoolean X bool_str \<longleftrightarrow> EqualsIgnoreCase X bool_str ''true'' \<or> bool_str = ''1''"

definition IsBoolEqual ::
  "ext \<Rightarrow> string \<Rightarrow> string \<Rightarrow> string \<Rightarrow> bool \<Rightarrow> string option \<Rightarrow> match_result" where
  "IsBoolEqual X name actual_value expected_value required error_msg =
     (let result = (expected_value = [] \<and> \<not> required)
                   \<or> StrToBoolean X expected_value = StrToBoolean X actual_value
      in Inr (result, if \<not> result \<and> error_msg \<noteq> None
                      then Some (mismatch_msg name actual_value expected_value) else error_msg))"

text \<open>
  The two handlers write to \<open>*error_msg\<close> without looking at the pointer. C++ leaves open
  which operand of the comparison is evaluated first; the model evaluates the left one, which
  can only affect the text of the message.
\<close>

definition stoi_handler :: "string \<Rightarrow> string \<Rightarrow> string option \<Rightarrow> stoi_exn \<Rightarrow> match_result" where
  "stoi_handler actual_value expected_value error_msg ex =
     (case error_msg of
        None \<Rightarrow> Inl Null_deref
      | Some _ \<Rightarrow> Inr (False, Some
          (case ex of
             invalid_argument \<Rightarrow> fmt ''std::invalid_argument, actual {} or expected {}''
                                   [actual_value, expected_value]
           | out_of_range \<Rightarrow> fmt ''std::out_of_range, actual {} or expected {}''
                               [actual_value, expected_value])))"

definition IsGreaterEqualThan ::
  "string \<Rightarrow> string \<Rightarrow> string \<Rightarrow> bool \<Rightarrow> string option \<Rightarrow> match_result" where
  "IsGreaterEqualThan name actual_value expected_value required error_msg =
     (if expected_value = [] \<and> \<not> required then Inr (True, error_msg)
      else case stoi expected_value of
        Inl ex \<Rightarrow> stoi_handler actual_value expected_value error_msg ex
      | Inr e \<Rightarrow>
          (case stoi actual_value of
             Inl ex \<Rightarrow> stoi_handler actual_value expected_value error_msg ex
           | Inr a \<Rightarrow>
               Inr (e \<le> a, if \<not> e \<le> a \<and> error_msg \<noteq> None
                 then Some (fmt ''{} is not match: actual {} is not large than expected {}.''
                        [name, actual_value, expected_value])
                 else error_msg)))"

text \<open>\<open>if (!check) return false;\<close> followed by the rest of the function.\<close>

definition unless_false ::
  "match_result \<Rightarrow> (string option \<Rightarrow> match_result) \<Rightarrow> match_result" where
  "unless_false m k = bindE m (\<lambda>(b, em). if \<not> b then Inr (False, em) else k em)"

definition AttrsIsMatch ::
  "ext \<Rightarrow> UnifiedAttestationAttributes \<Rightarrow> UnifiedAttestationAttributes \<Rightarrow> string option
   \<Rightarrow> match_result" where
  "AttrsIsMatch X actual_attrs expected_attrs error_msg =
     unless_false (IsStrEqual X kUaAttrPlatform (str_tee_platform actual_attrs)
                     (str_tee_platform expected_attrs) False error_msg) (\<lambda>error_msg.
     unless_false (IsStrEqual X kUaAttrPlatformHwVer (hex_platform_hw_version actual_attrs)
                     (hex_platform_hw_version expected_attrs) False error_msg) (\<lambda>error_msg.
     unless_false (IsStrEqual X kUaAttrPlatformSwVer (hex_platform_sw_version actual_attrs)
                     (hex_platform_sw_version expected_attrs) False error_msg) (\<lambda>error_msg.
     unless_false (IsStrEqual X kUaAttrSecureFlags (hex_secure_flags actual_attrs)
                     (hex_secure_flags expected_attrs) False error_msg) (\<lambda>error_msg.
     unless_false (IsStrEqual X kUaAttrMrplatform (hex_platform_measurement actual_attrs)
                     (hex_platform_measurement expected_attrs) False error_msg) (\<lambda>error_msg.
     unless_false (IsStrEqual X kUaAttrMrboot (hex_boot_measurement actual_attrs)
                     (hex_boot_measurement expected_attrs) False error_msg) (\<lambda>error_msg.
     unless_false (IsStrEqual X kUaAttrMrTa (hex_ta_measurement actual_attrs)
                     (hex_ta_measurement expected_attrs) False error_msg) (\<lambda>error_msg.
     unless_false (IsStrEqual X kUaAttrMrTaDyn (hex_ta_dyn_measurement actual_attrs)
                     (hex_ta_dyn_measurement expected_attrs) False error_msg) (\<lambda>error_msg.
     unless_false (IsStrEqual X kUaAttrSigner (hex_signer actual_attrs)
                     (hex_signer expected_attrs) False error_msg) (\<lambda>error_msg.
     unless_false (IsStrEqual X kUaAttrProdID (hex_prod_id actual_attrs)
                     (hex_prod_id expected_attrs) False error_msg) (\<lambda>error_msg.
     unless_false (IsGreaterEqualThan kUaAttrIsvSvn (str_min_isvsvn actual_attrs)
                     (str_min_isvsvn expected_attrs) False error_msg) (\<lambda>error_msg.
     unless_false (IsBoolEqual X kUaAttrDebugDisabled (bool_debug_disabled actual_attrs)
                     (bool_debug_disabled expected_attrs) False error_msg) (\<lambda>error_msg.
     unless_false (IsStrEqual X kUaAttrUserData (hex_user_data actual_attrs)
                     (hex_user_data expected_attrs) False error_msg) (\<lambda>error_msg.
     unless_false
       (if hex_hash_or_pem_pubkey expected_attrs \<noteq> []
        then let expected_hash = Sha256 X (str_bytes (hex_hash_or_pem_pubkey expected_attrs));
                 expected_hash_hex = BytesToHexString X expected_hash
             in IsStrEqual X kUaAttrPublickey (hex_hash_or_pem_pubkey actual_attrs)
                  expected_hash_hex False error_msg
        else Inr (True, error_msg)) (\<lambda>error_msg.
     unless_false (IsStrEqual X kUaAttrNonce (hex_nonce actual_attrs)
                     (hex_nonce expected_attrs) False error_msg) (\<lambda>error_msg.
     Inr (True, error_msg))))))))))))))))"

definition newline :: string where "newline = [CHR 0x0A]"

text \<open>The loop of \<open>VerifyAttributes\<close> from index \<open>i\<close> on, with the messages collected so far.\<close>

fun verify_attributes_from ::
  "ext \<Rightarrow> UnifiedAttestationAttributes \<Rightarrow> nat \<Rightarrow> UnifiedAttestationAttributes list
   \<Rightarrow> string list \<Rightarrow> unit res" where
  "verify_attributes_from X actual_attrs i [] error_msgs =
     YACL_THROW (fmt (''Verify attributes failed:'' @ newline @ '' {}.'')
                   [join_str newline error_msgs])"
| "verify_attributes_from X actual_attrs i (expected_attrs # rest) error_msgs =
     bindE (AttrsIsMatch X actual_attrs expected_attrs (Some []))
       (\<lambda>(ok, error_msg).
          if ok then Inr ()
          else verify_attributes_from X actual_attrs (Suc i) rest
                 (error_msgs @ [fmt ''#{}: {}''
                    [to_string i, case error_msg of None \<Rightarrow> [] | Some m \<Rightarrow> m]]))"

definition VerifyAttributes ::
  "ext \<Rightarrow> UnifiedAttestationAttributes \<Rightarrow> UnifiedAttestationPolicy \<Rightarrow> unit res" where
  "VerifyAttributes X actual_attrs policy =
     verify_attributes_from X actual_attrs 0 (main_attributes policy) []"

text \<open>
  \<open>VerifyReport\<close> calls the two virtual methods of the object, here the functions
  \<open>VerifyPlatform\<close> and \<open>ParseUnifiedReport\<close> applied to the verifier object \<open>v\<close>.
\<close>

definition VerifyReport ::
  "ext \<Rightarrow> ('v \<Rightarrow> unit res)
   \<Rightarrow> ('v \<Rightarrow> UnifiedAttestationAttributes \<Rightarrow> UnifiedAttestationAttributes res)
   \<Rightarrow> 'v \<Rightarrow> UnifiedAttestationPolicy \<Rightarrow> unit res" where
  "VerifyReport X VerifyPlatform ParseUnifiedReport v policy =
     bindE (VerifyPlatform v) (\<lambda>_.
     bindE (ParseUnifiedReport v empty_attrs) (\<lambda>attrs.
     VerifyAttributes X attrs policy))"

section \<open>Specification of one policy entry\<close>

definition str_ok :: "ext \<Rightarrow> string \<Rightarrow> string \<Rightarrow> bool" where
  "str_ok X actual expected \<longleftrightarrow> expected = [] \<or> EqualsIgnoreCase X expected actual"

definition svn_ok :: "string \<Rightarrow> string \<Rightarrow> bool" where
  "svn_ok actual expected \<longleftrightarrow>
     expected = [] \<or>
     (case (stoi expected, stoi actual) of (Inr e, Inr a) \<Rightarrow> e \<le> a | _ \<Rightarrow> False)"

definition bool_ok :: "ext \<Rightarrow> string \<Rightarrow> string \<Rightarrow> bool" where
  "bool_ok X actual expected \<longleftrightarrow>
     expected = [] \<or> StrToBoolean X expected = StrToBoolean X actual"

definition pubkey_ok :: "ext \<Rightarrow> string \<Rightarrow> string \<Rightarrow> bool" where
  "pubkey_ok X actual expected \<longleftrightarrow>
     expected = [] \<or> str_ok X actual (BytesToHexString X (Sha256 X (str_bytes expected)))"

text \<open>
  The string attributes that are compared before the two attributes whose mismatch is
  reported by a \<open>false\<close>, those two, and the string attributes after them.
\<close>

definition early_strings_ok ::
  "ext \<Rightarrow> UnifiedAttestationAttributes \<Rightarrow> UnifiedAttestationAttributes \<Rightarrow> bool" where
  "early_strings_ok X a e \<longleftrightarrow>
     str_ok X (str_tee_platform a) (str_tee_platform e) \<and>
     str_ok X (hex_platform_hw_version a) (hex_platform_hw_version e) \<and>
     str_ok X (hex_platform_sw_version a) (hex_platform_sw_version e) \<and>
     str_ok X (hex_secure_flags a) (hex_secure_flags e) \<and>
     str_ok X (hex_platform_measurement a) (hex_platform_measurement e) \<and>
     str_ok X (hex_boot_measurement a) (hex_boot_measurement e) \<and>
     str_ok X (hex_ta_measurement a) (hex_ta_measurement e) \<and>
     str_ok X (hex_ta_dyn_measurement a) (hex_ta_dyn_measurement e) \<and>
     str_ok X (hex_signer a) (hex_signer e) \<and>
     str_ok X (hex_prod_id a) (hex_prod_id e)"

definition svn_debug_ok ::
  "ext \<Rightarrow> UnifiedAttestationAttributes \<Rightarrow> UnifiedAttestationAttributes \<Rightarrow> bool" where
  "svn_debug_ok X a e \<longleftrightarrow>
     svn_ok (str_min_isvsvn a) (str_min_isvsvn e) \<and>
     bool_ok X (bool_debug_disabled a) (bool_debug_disabled e)"

definition late_strings_ok ::
  "ext \<Rightarrow> UnifiedAttestationAttributes \<Rightarrow> UnifiedAttestationAttributes \<Rightarrow> bool" where
  "late_strings_ok X a e \<longleftrightarrow>
     str_ok X (hex_user_data a) (hex_user_data e) \<and>
     pubkey_ok X (hex_hash_or_pem_pubkey a) (hex_hash_or_pem_pubkey e) \<and>
     str_ok X (hex_nonce a) (hex_nonce e)"

definition attrs_match ::
  "ext \<Rightarrow> UnifiedAttestationAttributes \<Rightarrow> UnifiedAttestationAttributes \<Rightarrow> bool" where
  "attrs_match X a e \<longleftrightarrow>
     early_strings_ok X a e \<and> svn_debug_ok X a e \<and> late_strings_ok X a e"

definition throws :: "'a res \<Rightarrow> bool" where
  "throws m \<longleftrightarrow> (\<exists>msg. m = Inl (Exn Yacl_Exception msg))"

subsection \<open>Each comparison against its specification\<close>

lemma IsStrEqual_outcome:
  "IsStrEqual X name a e False em =
     (if str_ok X a e then Inr (True, em) else Inl (Exn Yacl_Exception (mismatch_msg name a e)))"
  by (auto simp: IsStrEqual_def str_ok_def)

lemma IsBoolEqual_outcome:
  "IsBoolEqual X name a e False (Some m) =
     Inr (bool_ok X a e, Some (if bool_ok X a e then m else mismatch_msg name a e))"
  by (auto simp: IsBoolEqual_def bool_ok_def)

lemma IsGreaterEqualThan_outcome:
  "\<exists>m'. IsGreaterEqualThan name a e False (Some m) = Inr (svn_ok a e, Some m') \<and>
        (svn_ok a e \<longrightarrow> m' = m)"
  by (cases "stoi e"; cases "stoi a")
     (auto simp: IsGreaterEqualThan_def svn_ok_def stoi_handler_def)

lemma unless_false_simps [simp]:
  "unless_false (Inl x) k = Inl x"
  "unless_false (Inr (True, em)) k = k em"
  "unless_false (Inr (False, em)) k = Inr (False, em)"
  by (simp_all add: unless_false_def)

lemma unless_false_IsStrEqual:
  "unless_false (IsStrEqual X name a e False em) k =
     (if str_ok X a e then k em else Inl (Exn Yacl_Exception (mismatch_msg name a e)))"
  by (simp add: IsStrEqual_outcome)

lemma pubkey_check_outcome:
  "unless_false
     (if e \<noteq> []
      then let h = Sha256 X (str_bytes e); hx = BytesToHexString X h
           in IsStrEqual X name a hx False em
      else Inr (True, em)) k =
   (if pubkey_ok X a e then k em
    else Inl (Exn Yacl_Exception
           (mismatch_msg name a (BytesToHexString X (Sha256 X (str_bytes e))))))"
  by (auto simp: pubkey_ok_def IsStrEqual_outcome)

lemma throws_Exn [simp]: "throws (Inl (Exn Yacl_Exception msg))"
  by (simp add: throws_def)

lemma throws_not_Inr [simp]: "\<not> throws (Inr x)"
  by (simp add: throws_def)

subsection \<open>The outcome of the whole comparison\<close>

lemma AttrsIsMatch_early_mismatch:
  "\<not> early_strings_ok X a e \<Longrightarrow> throws (AttrsIsMatch X a e em)"
  unfolding AttrsIsMatch_def unless_false_IsStrEqual early_strings_ok_def by auto

lemma AttrsIsMatch_svn_debug_mismatch:
  assumes "early_strings_ok X a e" and "\<not> svn_debug_ok X a e"
  shows "\<exists>m'. AttrsIsMatch X a e (Some m) = Inr (False, Some m')"
proof -
  obtain m' where svn: "IsGreaterEqualThan kUaAttrIsvSvn (str_min_isvsvn a) (str_min_isvsvn e)
      False (Some m) = Inr (svn_ok (str_min_isvsvn a) (str_min_isvsvn e), Some m')"
    using IsGreaterEqualThan_outcome by blast
  show ?thesis
    using assms unfolding AttrsIsMatch_def unless_false_IsStrEqual early_strings_ok_def
      svn_debug_ok_def svn by (auto simp: IsBoolEqual_outcome unless_false_def)
qed

lemma AttrsIsMatch_svn_debug_ok:
  assumes "early_strings_ok X a e" and "svn_debug_ok X a e"
  shows "if late_strings_ok X a e then AttrsIsMatch X a e (Some m) = Inr (True, Some m)
         else throws (AttrsIsMatch X a e (Some m))"
proof -
  have svn: "IsGreaterEqualThan kUaAttrIsvSvn (str_min_isvsvn a) (str_min_isvsvn e)
      False (Some m) = Inr (True, Some m)"
    using IsGreaterEqualThan_outcome [of kUaAttrIsvSvn "str_min_isvsvn a" "str_min_isvsvn e" m]
      assms(2) by (auto simp: svn_debug_ok_def)
  have dbg: "IsBoolEqual X kUaAttrDebugDisabled (bool_debug_disabled a) (bool_debug_disabled e)
      False (Some m) = Inr (True, Some m)"
    using assms(2) by (simp add: IsBoolEqual_outcome svn_debug_ok_def)
  show ?thesis
    using assms unfolding AttrsIsMatch_def unless_false_IsStrEqual pubkey_check_outcome
      early_strings_ok_def late_strings_ok_def
    by (simp add: svn dbg)
qed

lemma AttrsIsMatch_cases:
  obtains (accept) "attrs_match X a e" "AttrsIsMatch X a e (Some m) = Inr (True, Some m)"
  | (reject) m' where "early_strings_ok X a e" "\<not> svn_debug_ok X a e"
      "AttrsIsMatch X a e (Some m) = Inr (False, Some m')"
  | (throw) "\<not> attrs_match X a e" "\<not> early_strings_ok X a e \<or> svn_debug_ok X a e"
      "throws (AttrsIsMatch X a e (Some m))"
  using AttrsIsMatch_early_mismatch [of X a e "Some m"]
    AttrsIsMatch_svn_debug_mismatch [of X a e m] AttrsIsMatch_svn_debug_ok [of X a e m]
  by (metis attrs_match_def)

lemma attrs_match_empty [simp]: "attrs_match X a empty_attrs"
  by (simp add: attrs_match_def early_strings_ok_def svn_debug_ok_def late_strings_ok_def
      str_ok_def svn_ok_def bool_ok_def pubkey_ok_def empty_attrs_def)

text \<open>A policy that pins a measurement admits exactly that measurement.\<close>

lemma str_ok_hex:
  "absl_doc X \<Longrightarrow> b \<noteq> [] \<Longrightarrow>
   str_ok X (BytesToHexString X a) (BytesToHexString X b) \<longleftrightarrow> a = b"
  by (auto simp: str_ok_def EqualsIgnoreCase_hex BytesToHexString_eq_Nil)

lemma svn_ok_decimal:
  "n < 2 ^ 31 \<Longrightarrow> m < 2 ^ 31 \<Longrightarrow> svn_ok (to_string m) (to_string n) \<longleftrightarrow> n \<le> m"
  by (simp add: svn_ok_def stoi_to_string)

lemma bool_ok_true:
  assumes "absl_doc X"
  shows "bool_ok X (if b then ''false'' else ''true'') ''true'' \<longleftrightarrow> \<not> b"
proof -
  have "map ascii_tolower ''false'' \<noteq> map ascii_tolower ''true''"
    by (rule notI) (drule arg_cong [of _ _ length], simp)
  then show ?thesis using assms by (simp add: bool_ok_def StrToBoolean_def absl_doc_def)
qed

lemma attrs_matchD:
  assumes "attrs_match X a e"
  shows "str_ok X (str_tee_platform a) (str_tee_platform e)"
    and "str_ok X (hex_platform_measurement a) (hex_platform_measurement e)"
    and "str_ok X (hex_boot_measurement a) (hex_boot_measurement e)"
    and "str_ok X (hex_ta_measurement a) (hex_ta_measurement e)"
    and "str_ok X (hex_signer a) (hex_signer e)"
    and "svn_ok (str_min_isvsvn a) (str_min_isvsvn e)"
    and "bool_ok X (bool_debug_disabled a) (bool_debug_disabled e)"
    and "str_ok X (hex_user_data a) (hex_user_data e)"
    and "pubkey_ok X (hex_hash_or_pem_pubkey a) (hex_hash_or_pem_pubkey e)"
  using assms
  by (simp_all add: attrs_match_def early_strings_ok_def svn_debug_ok_def late_strings_ok_def)

lemma attrs_match_user_data:
  "attrs_match X a (empty_attrs\<lparr>hex_user_data := h\<rparr>) \<longleftrightarrow> str_ok X (hex_user_data a) h"
  by (simp add: attrs_match_def early_strings_ok_def svn_debug_ok_def late_strings_ok_def
      str_ok_def svn_ok_def bool_ok_def pubkey_ok_def)

lemma attrs_match_pubkey:
  "attrs_match X a (empty_attrs\<lparr>hex_hash_or_pem_pubkey := k\<rparr>) \<longleftrightarrow>
     pubkey_ok X (hex_hash_or_pem_pubkey a) k"
  by (simp add: attrs_match_def early_strings_ok_def svn_debug_ok_def late_strings_ok_def
      str_ok_def svn_ok_def bool_ok_def)

text \<open>The entries of a policy that the loop passes over: only SVN or debug flag differ.\<close>

definition passed_over ::
  "ext \<Rightarrow> UnifiedAttestationAttributes \<Rightarrow> UnifiedAttestationAttributes \<Rightarrow> bool" where
  "passed_over X a e \<longleftrightarrow> early_strings_ok X a e \<and> \<not> svn_debug_ok X a e"

text \<open>The decision of the loop, as a function of the entries alone.\<close>

fun accepts_first ::
  "ext \<Rightarrow> UnifiedAttestationAttributes \<Rightarrow> UnifiedAttestationAttributes list \<Rightarrow> bool" where
  "accepts_first X a [] = False"
| "accepts_first X a (e # es) = (attrs_match X a e \<or> passed_over X a e \<and> accepts_first X a es)"

lemma verify_attributes_from_outcome:
  "if accepts_first X a es then verify_attributes_from X a i es msgs = Inr ()
   else throws (verify_attributes_from X a i es msgs)"
proof (induction es arbitrary: i msgs)
  case Nil
  then show ?case by (simp add: YACL_THROW_def)
next
  case (Cons e es)
  show ?case
  proof (cases X a e "[] :: string" rule: AttrsIsMatch_cases)
    case accept
    then show ?thesis by simp
  next
    case (reject m')
    then have "\<not> attrs_match X a e" "passed_over X a e"
      by (simp_all add: attrs_match_def passed_over_def)
    with reject Cons [of "Suc i" "msgs @ [fmt ''#{}: {}'' [to_string i, m']]"] show ?thesis
      by simp
  next
    case throw
    then show ?thesis by (auto simp: throws_def passed_over_def)
  qed
qed

lemma accepts_first_iff:
  "accepts_first X a es \<longleftrightarrow>
     (\<exists>pre e post. es = pre @ e # post \<and> attrs_match X a e \<and> list_all (passed_over X a) pre)"
proof (induction es)
  case Nil
  then show ?case by simp
next
  case (Cons x es)
  show ?case
  proof
    assume "accepts_first X a (x # es)"
    then consider "attrs_match X a x" | "passed_over X a x" "accepts_first X a es" by auto
    then show "\<exists>pre e post. x # es = pre @ e # post \<and> attrs_match X a e \<and>
        list_all (passed_over X a) pre"
    proof cases
      case 1
      then show ?thesis by (intro exI [of _ "[]"]) auto
    next
      case 2
      then obtain pre e post where "es = pre @ e # post" "attrs_match X a e"
          "list_all (passed_over X a) pre"
        using Cons by blast
      with 2 show ?thesis by (intro exI [of _ "x # pre"]) auto
    qed
  next
    assume "\<exists>pre e post. x # es = pre @ e # post \<and> attrs_match X a e \<and>
        list_all (passed_over X a) pre"
    then obtain pre e post where "x # es = pre @ e # post" "attrs_match X a e"
        "list_all (passed_over X a) pre"
      by blast
    with Cons show "accepts_first X a (x # es)" by (cases pre) auto
  qed
qed

lemma VerifyAttributes_accepts:
  "VerifyAttributes X a policy = Inr () \<longleftrightarrow> accepts_first X a (main_attributes policy)"
  using verify_attributes_from_outcome [of X a "main_attributes policy" 0 "[]"]
  by (auto simp: VerifyAttributes_def throws_def split: if_splits)

lemma VerifyAttributes_throws:
  "\<not> accepts_first X a (main_attributes policy) \<Longrightarrow> throws (VerifyAttributes X a policy)"
  using verify_attributes_from_outcome [of X a "main_attributes policy" 0 "[]"]
  by (simp add: VerifyAttributes_def)

lemma VerifyAttributes_no_crash: "no_crash (VerifyAttributes X a policy)"
  using VerifyAttributes_throws [of X a policy] VerifyAttributes_accepts [of X a policy]
  by (auto simp: no_crash_def throws_def)

lemma VerifyReport_accepts:
  "VerifyReport X VP PR v policy = Inr () \<longleftrightarrow>
     VP v = Inr () \<and> (\<exists>attrs. PR v empty_attrs = Inr attrs \<and>
       accepts_first X attrs (main_attributes policy))"
  by (auto simp: VerifyReport_def exn_simps VerifyAttributes_accepts)

section \<open>The interface of a platform verifier\<close>

text \<open>
  What \<open>VerifyReport\<close> relies on of a subclass of \<open>AttestationVerifier\<close>: construction keeps
  the report and admits only passport reports of the supported version and of the class's own
  platform, and the attributes carry the platform of the report. No method writes through a
  null pointer.
\<close>

locale attestation_verifier =
  fixes Create :: "UnifiedAttestationReport \<Rightarrow> 'v res"
    and VerifyPlatform :: "'v \<Rightarrow> unit res"
    and ParseUnifiedReport ::
      "'v \<Rightarrow> UnifiedAttestationAttributes \<Rightarrow> UnifiedAttestationAttributes res"
    and report_of :: "'v \<Rightarrow> UnifiedAttestationReport"
    and platform :: string
  assumes Create_report: "Create r = Inr v \<Longrightarrow> report_of v = r"
    and Create_guards: "Create r = Inr v \<Longrightarrow>
      rep_str_report_version r = kReportVersion \<and>
      rep_str_report_type r = kReportTypePassport \<and> rep_str_tee_platform r = platform"
    and Parse_platform: "ParseUnifiedReport v a = Inr a' \<Longrightarrow>
      str_tee_platform a' = rep_str_tee_platform (report_of v)"
    and Create_no_crash: "no_crash (Create r)"
    and VerifyPlatform_no_crash: "no_crash (VerifyPlatform v)"
    and Parse_no_crash: "no_crash (ParseUnifiedReport v a)"
begin

lemma VerifyReport_iff:
  "VerifyReport X VerifyPlatform ParseUnifiedReport v policy = Inr () \<longleftrightarrow>
     VerifyPlatform v = Inr () \<and>
     (\<exists>attrs. ParseUnifiedReport v empty_attrs = Inr attrs \<and>
              accepts_first X attrs (main_attributes policy))"
  by (rule VerifyReport_accepts)

lemma VerifyReport_sound:
  assumes "Create r = Inr v"
    and "VerifyReport X VerifyPlatform ParseUnifiedReport v policy = Inr ()"
  shows "VerifyPlatform v = Inr () \<and>
    (\<exists>attrs. ParseUnifiedReport v empty_attrs = Inr attrs \<and> str_tee_platform attrs = platform \<and>
       (\<exists>e \<in> set (main_attributes policy). attrs_match X attrs e))"
proof -
  obtain attrs where vp: "VerifyPlatform v = Inr ()"
    and pr: "ParseUnifiedReport v empty_attrs = Inr attrs"
    and acc: "accepts_first X attrs (main_attributes policy)"
    using assms(2) by (auto simp: VerifyReport_iff)
  have "str_tee_platform attrs = platform"
    using Parse_platform [OF pr] Create_report [OF assms(1)] Create_guards [OF assms(1)] by simp
  moreover have "\<exists>e \<in> set (main_attributes policy). attrs_match X attrs e"
    using acc unfolding accepts_first_iff by auto
  ultimately show ?thesis using vp pr by blast
qed

lemma VerifyReport_no_crash:
  "no_crash (VerifyReport X VerifyPlatform ParseUnifiedReport v policy)"
  unfolding VerifyReport_def
  by (intro no_crash_bindE VerifyPlatform_no_crash Parse_no_crash VerifyAttributes_no_crash)

end

section \<open>Properties\<close>




end
