(* ===== verification/Csv_Verifier.thy ===== *)
theory Csv_Verifier
  imports Attr_Policy
begin

unbundle bit_operations_syntax

text \<open>
  The Hygon CSV verifier (\<open>verification/csv/csv_verifier.cc\<close>): import of Hygon keys and
  signatures, the certificate chain HRK - HSK - CEK - PEK, the quote signature and the
  attributes. The structures of Hygon's \<open>attestation.h\<close> and the OpenSSL calls are not in the
  repository: the record \<open>hygon_abi\<close> says where the fields lie and gives the constants, the
  record \<open>openssl\<close> the calls. Certificates and quotes are the raw bytes that the
  code copies into the structures.
\<close>

section \<open>Structures and libraries from outside\<close>

record hygon_abi =
  ECC_LEN :: nat
  HASH_LEN :: nat
  VM_ID_SIZE :: nat
  VM_VERSION_SIZE :: nat
  GUEST_ATTESTATION_NONCE_SIZE :: nat
  KEY_USAGE_TYPE_HSK :: nat
  KEY_USAGE_TYPE_CEK :: nat
  KEY_USAGE_TYPE_PEK :: nat
  \<comment> \<open>\<open>csv_attestation_report\<close>\<close>
  sizeof_csv_attestation_report :: nat
  q_user_pubkey_digest :: field
  q_vm_id :: field
  q_vm_version :: field
  q_user_data :: field
  q_mnonce :: field
  q_measure :: field
  q_policy :: field
  q_anonce :: field
  q_ecc_sig1 :: field
  q_pek_cert :: field
  \<comment> \<open>\<open>CHIP_ROOT_CERT_t\<close>\<close>
  sizeof_CHIP_ROOT_CERT_t :: nat
  h_version :: field
  h_key_id :: field
  h_certifying_id :: field
  h_key_usage :: field
  h_reserved1 :: field
  h_ecc_pubkey :: field
  h_reserved2 :: field
  h_ecc_sig :: field
  \<comment> \<open>\<open>CSV_CERT_t\<close>\<close>
  sizeof_CSV_CERT_t :: nat
  c_version :: field
  c_api_major :: field
  c_api_minor :: field
  c_reserved1 :: field
  c_reserved2 :: field
  c_pubkey_usage :: field
  c_pubkey_algo :: field
  c_ecc_pubkey :: field
  c_reserved3 :: field
  c_sig1_usage :: field
  c_ecc_sig1 :: field
  \<comment> \<open>\<open>ecc_pubkey_t\<close>, \<open>userid_u\<close> and \<open>ecc_signature_t\<close>\<close>
  p_Qx :: nat
  p_Qy :: nat
  p_user_id :: nat
  u_len :: field
  u_uid :: nat
  s_sig_r :: nat
  s_sig_s :: nat

text \<open>
  The calls into OpenSSL, over a type \<open>'k\<close> of keys. Allocations succeed or not; the calls
  that build a key, encode a signature or verify it have the return codes of OpenSSL. A key
  context carries the key and the user id that was set, a digest context also the message;
  the verification calls take them as arguments. \<open>EVP_PKEY_fromdata\<close> has a return code and
  the key it stores, \<open>i2d_ECDSA_SIG\<close> a return code and the bytes it writes.
\<close>

record 'k openssl =
  POINT_CONVERSION_UNCOMPRESSED :: byte
  EVP_PKEY_CTX_new_id_ok :: bool
  OSSL_PARAM_BLD_new_ok :: bool
  push_group_name :: int
  push_pub_key :: "bytes \<Rightarrow> int"
  OSSL_PARAM_BLD_to_param_ok :: "bytes \<Rightarrow> bool"
  EVP_PKEY_fromdata_init :: int
  EVP_PKEY_fromdata :: "bytes \<Rightarrow> int \<times> 'k option"
  BN_new_ok :: bool
  ECDSA_SIG_new_ok :: bool
  ECDSA_SIG_set0 :: "nat \<Rightarrow> nat \<Rightarrow> int"
  i2d_ECDSA_SIG :: "nat \<Rightarrow> nat \<Rightarrow> int \<times> bytes"
  EVP_PKEY_CTX_new_ok :: "'k \<Rightarrow> bool"
  EVP_PKEY_CTX_set1_id :: "'k \<Rightarrow> bytes \<Rightarrow> int"
  EVP_MD_CTX_new_ok :: bool
  EVP_DigestVerifyInit :: "'k \<Rightarrow> bytes \<Rightarrow> int"
  EVP_DigestVerifyUpdate :: "'k \<Rightarrow> bytes \<Rightarrow> bytes \<Rightarrow> int"
  EVP_DigestVerifyFinal :: "'k \<Rightarrow> bytes \<Rightarrow> bytes \<Rightarrow> bytes \<Rightarrow> int"

text \<open>
  \<open>ecc_pubkey_t\<close>: the memory of the coordinate arrays and the memory that starts at the
  array \<open>user_id\<close>.
\<close>

record ecc_pubkey_t =
  Qx :: bytes
  Qy :: bytes
  user_id :: bytes

record ecc_signature_t =
  sig_r :: bytes
  sig_s :: bytes

definition fld :: "field \<Rightarrow> bytes \<Rightarrow> bytes" where
  "fld f bs = subbytes (fst f) (snd f) bs"

text \<open>A public key inside a certificate, whose bytes are followed by \<open>after\<close> in memory.\<close>

definition pubkey_at :: "hygon_abi \<Rightarrow> field \<Rightarrow> bytes \<Rightarrow> bytes \<Rightarrow> ecc_pubkey_t" where
  "pubkey_at H f cert after =
     \<lparr>Qx = subbytes (fst f + p_Qx H) (ECC_LEN H) cert,
      Qy = subbytes (fst f + p_Qy H) (ECC_LEN H) cert,
      user_id = drop (fst f + p_user_id H) (cert @ after)\<rparr>"

definition sig_at :: "hygon_abi \<Rightarrow> field \<Rightarrow> bytes \<Rightarrow> ecc_signature_t" where
  "sig_at H f bs =
     \<lparr>sig_r = subbytes (fst f + s_sig_r H) (ECC_LEN H) bs,
      sig_s = subbytes (fst f + s_sig_s H) (ECC_LEN H) bs\<rparr>"

section \<open>The code\<close>

definition kHrkPubkey :: ecc_pubkey_t where
  "kHrkPubkey =
     \<lparr>Qx = concat (map (\<lambda>w :: u32. word_le 4 w)
        [0x92c2f62d, 0x2af5f21d, 0x85cd1f50, 0xc80935e7, 0x09563a75,
         0xf3d702db, 0x62a4f14c, 0xbe62e14d]),
      Qy = concat (map (\<lambda>w :: u32. word_le 4 w)
        [0xb41eb946, 0x38744d68, 0xb9be8847, 0x4a640c10, 0x164e9538,
         0x584f8b97, 0x57bb7015, 0x3bab123a]),
      user_id = concat (map (\<lambda>w :: u32. word_le 4 w)
        [0x5948000d, 0x2d4e4f47, 0x2d445353, 0x004b5248])\<rparr>"

text \<open>The octets of the uncompressed point: both coordinates are reversed in place.\<close>

definition hygon_pubkey_octets :: "'k openssl \<Rightarrow> ecc_pubkey_t \<Rightarrow> bytes" where
  "hygon_pubkey_octets L hygon_pubkey =
     [POINT_CONVERSION_UNCOMPRESSED L] @ rev (Qx hygon_pubkey) @ rev (Qy hygon_pubkey)"

text \<open>A check without a message of its own fails with the default text of the macro.\<close>

definition ImportHygonSm2Pubkey :: "'k openssl \<Rightarrow> ecc_pubkey_t \<Rightarrow> 'k res" where
  "ImportHygonSm2Pubkey L hygon_pubkey =
     (let pubkey = hygon_pubkey_octets L hygon_pubkey in
      bindE (YACL_ENFORCE (EVP_PKEY_CTX_new_id_ok L) ''UniquePkeyCtx init err'') (\<lambda>_.
      bindE (YACL_ENFORCE (OSSL_PARAM_BLD_new_ok L) ''UniqueParamBld init err'') (\<lambda>_.
      bindE (YACL_ENFORCE (push_group_name L = 1)
               ''OSSL_PARAM_BLD: SM2 group name push err'') (\<lambda>_.
      bindE (YACL_ENFORCE (push_pub_key L pubkey = 1)
               ''OSSL_PARAM_BLD: public key push err'') (\<lambda>_.
      bindE (YACL_ENFORCE (OSSL_PARAM_BLD_to_param_ok L pubkey)
               ''OSSL_PARAM_BLD_to_param err'') (\<lambda>_.
      bindE (YACL_ENFORCE (EVP_PKEY_fromdata_init L = 1) []) (\<lambda>_.
      let (rc, raw_pkey) = EVP_PKEY_fromdata L pubkey in
      bindE (YACL_ENFORCE (rc = 1) []) (\<lambda>_.
      or_throw Yacl_Exception ''EVP_PKEY_fromdata err'' raw_pkey))))))))"

text \<open>\<open>BN_bin2bn\<close> reads a big-endian number.\<close>

definition BN_bin2bn :: "bytes \<Rightarrow> nat" where
  "BN_bin2bn bs = le_nat (rev bs)"

definition ImportHygonSm2Sig :: "'k openssl \<Rightarrow> ecc_signature_t \<Rightarrow> bytes res" where
  "ImportHygonSm2Sig L hygon_sig =
     (let r = rev (sig_r hygon_sig); s = rev (sig_s hygon_sig);
          bn_r = BN_bin2bn r; bn_s = BN_bin2bn s in
      bindE (YACL_ENFORCE (BN_new_ok L) ''r, s to BIGNUM err'') (\<lambda>_.
      bindE (YACL_ENFORCE (ECDSA_SIG_new_ok L) ''ECDSA_SIG init err'') (\<lambda>_.
      bindE (YACL_ENFORCE (ECDSA_SIG_set0 L bn_r bn_s = 1) ''BIGNUM r, s to ECDSA err'') (\<lambda>_.
      let sig_der_len = fst (i2d_ECDSA_SIG L bn_r bn_s) in
      bindE (YACL_ENFORCE (0 < sig_der_len) ''get i2d_ECDSA_SIG length err'') (\<lambda>_.
      let (len, written) = i2d_ECDSA_SIG L bn_r bn_s in
      bindE (YACL_ENFORCE (len = sig_der_len) ''i2d_ECDSA_SIG err'') (\<lambda>_.
      Inr (memcpy_at (zeros (nat sig_der_len)) 0 written)))))))"

definition Sm2Verify :: "'k openssl \<Rightarrow> bytes \<Rightarrow> bytes \<Rightarrow> 'k \<Rightarrow> bytes \<Rightarrow> unit res" where
  "Sm2Verify L message' signature pk user_id' =
     bindE (YACL_ENFORCE (EVP_PKEY_CTX_new_ok L pk) ''UniquePkeyCtx init err'') (\<lambda>_.
     bindE (YACL_ENFORCE (EVP_PKEY_CTX_set1_id L pk user_id' = 1)
              ''EVP_PKEY_CTX_set1_id err'') (\<lambda>_.
     bindE (YACL_ENFORCE (EVP_MD_CTX_new_ok L) ''UniqueMdCtx init err'') (\<lambda>_.
     bindE (YACL_ENFORCE (EVP_DigestVerifyInit L pk user_id' = 1)
              ''EVP_DigestVerifyInit err'') (\<lambda>_.
     bindE (YACL_ENFORCE (EVP_DigestVerifyUpdate L pk user_id' message' = 1)
              ''EVP_DigestVerifyUpdate err'') (\<lambda>_.
     YACL_ENFORCE (EVP_DigestVerifyFinal L pk user_id' message' signature = 1)
       ''Sm2 verify failed'')))))"

text \<open>The user id of a key: \<open>len\<close> bytes from \<open>uid\<close> on.\<close>

definition userid_view :: "hygon_abi \<Rightarrow> ecc_pubkey_t \<Rightarrow> bytes" where
  "userid_view H k = take (le_nat (fld (u_len H) (user_id k))) (drop (u_uid H) (user_id k))"

definition sum_sizes :: "field list \<Rightarrow> nat" where
  "sum_sizes fs = sum_list (map snd fs)"

definition hsk_msg_len :: "hygon_abi \<Rightarrow> nat" where
  "hsk_msg_len H = sum_sizes [h_version H, h_key_id H, h_certifying_id H, h_key_usage H,
     h_reserved1 H, h_ecc_pubkey H, h_reserved2 H]"

definition VerifyHskCertWithHrkPubkey :: "hygon_abi \<Rightarrow> 'k openssl \<Rightarrow> bytes \<Rightarrow> unit res" where
  "VerifyHskCertWithHrkPubkey H L hsk_cert =
     bindE (YACL_ENFORCE (le_nat (fld (h_key_usage H) hsk_cert) = KEY_USAGE_TYPE_HSK H)
       (fmt ''HSK cert usage type err, expect {}, got {}''
          [to_string (KEY_USAGE_TYPE_HSK H), to_string (le_nat (fld (h_key_usage H) hsk_cert))])) (\<lambda>_.
     bindE (ImportHygonSm2Pubkey L kHrkPubkey) (\<lambda>pkey.
     bindE (ImportHygonSm2Sig L (sig_at H (h_ecc_sig H) hsk_cert)) (\<lambda>sig_der.
     Sm2Verify L (take (hsk_msg_len H) hsk_cert) sig_der pkey (userid_view H kHrkPubkey))))"

definition cert_msg_len :: "hygon_abi \<Rightarrow> nat" where
  "cert_msg_len H = sum_sizes [c_version H, c_api_major H, c_api_minor H, c_reserved1 H,
     c_reserved2 H, c_pubkey_usage H, c_pubkey_algo H, c_ecc_pubkey H, c_reserved3 H]"

text \<open>\<open>after\<close> is the memory behind the issuer's certificate.\<close>

definition VerifyCekCertWithHskCert ::
  "hygon_abi \<Rightarrow> 'k openssl \<Rightarrow> bytes \<Rightarrow> bytes \<Rightarrow> bytes \<Rightarrow> unit res" where
  "VerifyCekCertWithHskCert H L after cek_cert hsk_cert =
     bindE (YACL_ENFORCE (le_nat (fld (c_pubkey_usage H) cek_cert) = KEY_USAGE_TYPE_CEK H)
       (fmt ''CEK cert pubkey_usage type err, expect {}, got {}''
          [to_string (KEY_USAGE_TYPE_CEK H),
           to_string (le_nat (fld (c_pubkey_usage H) cek_cert))])) (\<lambda>_.
     bindE (YACL_ENFORCE (le_nat (fld (c_sig1_usage H) cek_cert) = KEY_USAGE_TYPE_HSK H)
       (fmt ''CEK cert sig1 usage type err, expect {}, got {}''
          [to_string (KEY_USAGE_TYPE_HSK H),
           to_string (le_nat (fld (c_sig1_usage H) cek_cert))])) (\<lambda>_.
     let issuer = pubkey_at H (h_ecc_pubkey H) hsk_cert after in
     bindE (ImportHygonSm2Pubkey L issuer) (\<lambda>pkey.
     bindE (ImportHygonSm2Sig L (sig_at H (c_ecc_sig1 H) cek_cert)) (\<lambda>sig_der.
     Sm2Verify L (take (cert_msg_len H) cek_cert) sig_der pkey (userid_view H issuer)))))"

definition VerifyPekCertWithCekCert ::
  "hygon_abi \<Rightarrow> 'k openssl \<Rightarrow> bytes \<Rightarrow> bytes \<Rightarrow> bytes \<Rightarrow> unit res" where
  "VerifyPekCertWithCekCert H L after pek_cert cek_cert =
     bindE (YACL_ENFORCE (le_nat (fld (c_pubkey_usage H) pek_cert) = KEY_USAGE_TYPE_PEK H)
       (fmt ''PEK cert pubkey_usage type err, expect {}, got {}''
          [to_string (KEY_USAGE_TYPE_PEK H),
           to_string (le_nat (fld (c_pubkey_usage H) pek_cert))])) (\<lambda>_.
     bindE (YACL_ENFORCE (le_nat (fld (c_sig1_usage H) pek_cert) = KEY_USAGE_TYPE_CEK H)
       (fmt ''PEK cert sig1 usage type err, expect {}, got {}''
          [to_string (KEY_USAGE_TYPE_CEK H),
           to_string (le_nat (fld (c_sig1_usage H) pek_cert))])) (\<lambda>_.
     let issuer = pubkey_at H (c_ecc_pubkey H) cek_cert after in
     bindE (ImportHygonSm2Pubkey L issuer) (\<lambda>pkey.
     bindE (ImportHygonSm2Sig L (sig_at H (c_ecc_sig1 H) pek_cert)) (\<lambda>sig_der.
     Sm2Verify L (take (cert_msg_len H) pek_cert) sig_der pkey (userid_view H issuer)))))"

definition quote_msg_len :: "hygon_abi \<Rightarrow> nat" where
  "quote_msg_len H = sum_sizes [q_user_pubkey_digest H, q_vm_id H, q_vm_version H,
     q_user_data H, q_mnonce H, q_measure H, q_policy H]"

definition VerifyQuoteSignature ::
  "hygon_abi \<Rightarrow> 'k openssl \<Rightarrow> bytes \<Rightarrow> bytes \<Rightarrow> bytes \<Rightarrow> unit res" where
  "VerifyQuoteSignature H L after quote pek_cert =
     (let issuer = pubkey_at H (c_ecc_pubkey H) pek_cert after in
      bindE (ImportHygonSm2Pubkey L issuer) (\<lambda>pkey.
      bindE (ImportHygonSm2Sig L (sig_at H (q_ecc_sig1 H) quote)) (\<lambda>sig_der.
      Sm2Verify L (take (quote_msg_len H) quote) sig_der pkey (userid_view H issuer))))"

text \<open>The loop of \<open>RetrieveCsvQuotePlainData\<close>: 32-bit words in memory order, each XORed.\<close>

fun xor_words :: "u32 \<Rightarrow> bytes \<Rightarrow> bytes" where
  "xor_words anonce (b0 # b1 # b2 # b3 # bs) =
     word_le 4 (le_word [b0, b1, b2, b3] XOR anonce) @ xor_words anonce bs"
| "xor_words anonce _ = []"

definition RetrieveCsvQuotePlainData :: "bytes \<Rightarrow> u32 \<Rightarrow> bytes res" where
  "RetrieveCsvQuotePlainData src_data anonce =
     bindE (YACL_ENFORCE (length src_data mod 4 = 0)
       (fmt ''Data size in bytes must be times of sizeof(uint32_t), but got {}''
          [to_string (length src_data)])) (\<lambda>_.
     Inr (xor_words anonce src_data))"

record csv_verifier =
  csv_report :: UnifiedAttestationReport
  csv_quote :: bytes
  csv_hsk_cert :: bytes
  csv_cek_cert :: bytes

text \<open>What lies in memory behind the certificates and behind the vector \<open>user_data\<close>.\<close>

record csv_memory =
  after_hsk_cert :: bytes
  after_cek_cert :: bytes
  after_pek_cert :: bytes
  after_user_data :: bytes

definition Csv_Init :: "ext \<Rightarrow> hygon_abi \<Rightarrow> UnifiedAttestationReport \<Rightarrow> csv_verifier res" where
  "Csv_Init X H report =
     bindE (YACL_ENFORCE (rep_str_report_version report = kReportVersion)
       (fmt ''Ua report version not match, expect {}, got {}''
          [kReportVersion, rep_str_report_version report])) (\<lambda>_.
     bindE (YACL_ENFORCE (rep_str_report_type report = kReportTypePassport)
       (fmt ''Unsupport Ua report type: {}, only {} is supported''
          [rep_str_report_type report, kReportTypePassport])) (\<lambda>_.
     bindE (YACL_ENFORCE (rep_str_tee_platform report = kPlatformCsv)
       (fmt ''Ua report platform not match, expect {}, got {}''
          [kPlatformCsv, rep_str_tee_platform report])) (\<lambda>_.
     bindE (JSON2PB (csv_of_json X) (rep_json_report report)) (\<lambda>hygon_csv_report.
     bindE (decode64 X (csv_b64_quote hygon_csv_report)) (\<lambda>quote_bytes.
     bindE (YACL_ENFORCE (length quote_bytes = sizeof_csv_attestation_report H)
       (fmt ''Csv quote size err, expect {}, got {}''
          [to_string (sizeof_csv_attestation_report H), to_string (length quote_bytes)])) (\<lambda>_.
     bindE (JSON2PB (chain_of_json X) (csv_json_cert_chain hygon_csv_report)) (\<lambda>chain.
     bindE (decode64 X (b64_hsk_cert chain)) (\<lambda>hsk_cert_bytes.
     bindE (YACL_ENFORCE (length hsk_cert_bytes = sizeof_CHIP_ROOT_CERT_t H)
       (fmt ''Csv hsk cert size err, expect {}, got {}''
          [to_string (sizeof_CHIP_ROOT_CERT_t H), to_string (length hsk_cert_bytes)])) (\<lambda>_.
     bindE (decode64 X (b64_cek_cert chain)) (\<lambda>cek_cert_bytes.
     bindE (YACL_ENFORCE (length cek_cert_bytes = sizeof_CSV_CERT_t H)
       (fmt ''Csv cek cert size err, expect {}, got {}''
          [to_string (sizeof_CSV_CERT_t H), to_string (length cek_cert_bytes)])) (\<lambda>_.
     Inr \<lparr>csv_report = report, csv_quote = quote_bytes, csv_hsk_cert = hsk_cert_bytes,
          csv_cek_cert = cek_cert_bytes\<rparr>)))))))))))"

definition Csv_Create :: "ext \<Rightarrow> hygon_abi \<Rightarrow> UnifiedAttestationReport \<Rightarrow> csv_verifier res" where
  "Csv_Create X H report = Csv_Init X H report"

definition anonce_of :: "hygon_abi \<Rightarrow> bytes \<Rightarrow> u32" where
  "anonce_of H quote = le_word (fld (q_anonce H) quote)"

definition Csv_VerifyPlatform ::
  "hygon_abi \<Rightarrow> 'k openssl \<Rightarrow> csv_memory \<Rightarrow> csv_verifier \<Rightarrow> unit res" where
  "Csv_VerifyPlatform H L M v =
     bindE (VerifyHskCertWithHrkPubkey H L (csv_hsk_cert v)) (\<lambda>_.
     bindE (VerifyCekCertWithHskCert H L (after_hsk_cert M) (csv_cek_cert v) (csv_hsk_cert v)) (\<lambda>_.
     bindE (RetrieveCsvQuotePlainData (fld (q_pek_cert H) (csv_quote v))
              (anonce_of H (csv_quote v))) (\<lambda>pek_cert.
     bindE (VerifyPekCertWithCekCert H L (after_cek_cert M) pek_cert (csv_cek_cert v)) (\<lambda>_.
     VerifyQuoteSignature H L (after_pek_cert M) (csv_quote v) pek_cert))))"

definition Csv_ParseUnifiedReport ::
  "ext \<Rightarrow> hygon_abi \<Rightarrow> csv_memory \<Rightarrow> csv_verifier \<Rightarrow> UnifiedAttestationAttributes
   \<Rightarrow> UnifiedAttestationAttributes res" where
  "Csv_ParseUnifiedReport X H M v attrs0 =
     (let quote = csv_quote v; anonce = anonce_of H quote;
          attrs = attrs0\<lparr>str_tee_platform := rep_str_tee_platform (csv_report v)\<rparr> in
      bindE (RetrieveCsvQuotePlainData (subbytes (fst (q_vm_id H)) (VM_ID_SIZE H) quote) anonce)
        (\<lambda>vm_id.
      let attrs = attrs\<lparr>hex_prod_id := BytesToHexString X vm_id\<rparr> in
      bindE (RetrieveCsvQuotePlainData
               (subbytes (fst (q_vm_version H)) (VM_VERSION_SIZE H) quote) anonce)
        (\<lambda>vm_version.
      let attrs = attrs\<lparr>hex_platform_sw_version := BytesToHexString X vm_version\<rparr> in
      bindE (RetrieveCsvQuotePlainData (subbytes (fst (q_user_data H)) (HASH_LEN H) quote) anonce)
        (\<lambda>user_data.
      let attrs = attrs\<lparr>hex_user_data := BytesToHexString X user_data\<rparr> in
      bindE (RetrieveCsvQuotePlainData
               (subbytes (fst (q_user_data H) + HASH_LEN H) (HASH_LEN H) quote) anonce)
        (\<lambda>public_key_hash.
      let attrs = attrs\<lparr>hex_hash_or_pem_pubkey := BytesToHexString X public_key_hash\<rparr> in
      bindE (RetrieveCsvQuotePlainData
               (subbytes (fst (q_mnonce H)) (GUEST_ATTESTATION_NONCE_SIZE H) quote) anonce)
        (\<lambda>mnonce.
      let attrs = attrs\<lparr>hex_nonce := BytesToHexString X mnonce\<rparr> in
      bindE (RetrieveCsvQuotePlainData (fld (q_measure H) quote) anonce)
        (\<lambda>measure_vec.
      let attrs = attrs\<lparr>hex_boot_measurement := BytesToHexString X measure_vec\<rparr>;
          policy = (le_word (fld (q_policy H) quote) :: u32) XOR anonce;
          attrs = attrs\<lparr>hex_secure_flags := BytesToHexString X (word_le 4 policy)\<rparr>
      in Inr (attrs\<lparr>hex_hash_or_pem_pubkey := BytesToHexString X
           (read_mem user_data (after_user_data M) (HASH_LEN H) (HASH_LEN H))\<rparr>))))))))"

section \<open>Masking\<close>

lemma word_le_4E: obtains c0 c1 c2 c3 where "word_le 4 w = [c0, c1, c2, c3]"
  using that length_4E [OF length_word_le [of 4 w]] by blast

lemma word_le_le_word_4: "word_le 4 (le_word [b0, b1, b2, b3] :: u32) = [b0, b1, b2, b3]"
  using nat_le_le_nat [of "[b0, b1, b2, b3]"]
    unat_le_word [of "[b0, b1, b2, b3]", where 'a = 32]
  by (simp add: word_le_def eval_nat_numeral del: le_nat.simps nat_le.simps)

lemma length_xor_words: "length (xor_words a bs) = 4 * (length bs div 4)"
proof (induction a bs rule: xor_words.induct)
  case (1 anonce b0 b1 b2 b3 bs)
  have "length (b0 # b1 # b2 # b3 # bs) div 4 = Suc (length bs div 4)" by simp
  with 1 show ?case by (simp del: length_Cons)
qed simp_all

lemma xor_words_xor_words: "xor_words a (xor_words b bs) = xor_words (b XOR a) bs"
proof (induction b bs rule: xor_words.induct)
  case (1 b b0 b1 b2 b3 bs)
  obtain c0 c1 c2 c3 where c: "word_le 4 (le_word [b0, b1, b2, b3] XOR b) = [c0, c1, c2, c3]"
    by (rule word_le_4E)
  have "le_word [c0, c1, c2, c3] = le_word [b0, b1, b2, b3] XOR b"
    unfolding c [symmetric] by (rule le_word_word_le) simp
  then show ?case using 1 c by (simp add: xor.assoc)
qed simp_all

lemma xor_words_0: "length bs mod 4 = 0 \<Longrightarrow> xor_words 0 bs = bs"
proof (induction "0 :: u32" bs rule: xor_words.induct)
  case (1 b0 b1 b2 b3 bs)
  then show ?case using word_le_le_word_4 [of b0 b1 b2 b3] by simp
qed simp_all

lemma xor_words_involution: "length bs mod 4 = 0 \<Longrightarrow> xor_words a (xor_words a bs) = bs"
  by (simp add: xor_words_xor_words xor_words_0)

lemma RetrieveCsvQuotePlainData_eq_Inr [exn_simps]:
  "RetrieveCsvQuotePlainData src a = Inr d \<longleftrightarrow> length src mod 4 = 0 \<and> d = xor_words a src"
  by (auto simp: RetrieveCsvQuotePlainData_def exn_simps)

lemma no_crash_Retrieve [simp]: "no_crash (RetrieveCsvQuotePlainData src a)"
  by (auto simp: RetrieveCsvQuotePlainData_def intro!: no_crash_bindE)

section \<open>The certificate chain\<close>

lemma BN_bin2bn_rev: "BN_bin2bn (rev bs) = le_nat bs"
  by (simp add: BN_bin2bn_def)

text \<open>
  The key of a Hygon public key, the DER form of a signature, and when the verification of a
  message succeeds: every call along the way does, the last one with return code one.
\<close>

definition sm2_key :: "'k openssl \<Rightarrow> bytes \<Rightarrow> 'k \<Rightarrow> bool" where
  "sm2_key L octets pk \<longleftrightarrow>
     EVP_PKEY_CTX_new_id_ok L \<and> OSSL_PARAM_BLD_new_ok L \<and> push_group_name L = 1 \<and>
     push_pub_key L octets = 1 \<and> OSSL_PARAM_BLD_to_param_ok L octets \<and>
     EVP_PKEY_fromdata_init L = 1 \<and> EVP_PKEY_fromdata L octets = (1, Some pk)"

definition sm2_der :: "'k openssl \<Rightarrow> nat \<Rightarrow> nat \<Rightarrow> bytes \<Rightarrow> bool" where
  "sm2_der L r s der \<longleftrightarrow>
     BN_new_ok L \<and> ECDSA_SIG_new_ok L \<and> ECDSA_SIG_set0 L r s = 1 \<and>
     0 < fst (i2d_ECDSA_SIG L r s) \<and>
     der = memcpy_at (zeros (nat (fst (i2d_ECDSA_SIG L r s)))) 0 (snd (i2d_ECDSA_SIG L r s))"

definition sm2_accepts :: "'k openssl \<Rightarrow> 'k \<Rightarrow> bytes \<Rightarrow> bytes \<Rightarrow> bytes \<Rightarrow> bool" where
  "sm2_accepts L pk uid msg der \<longleftrightarrow>
     EVP_PKEY_CTX_new_ok L pk \<and> EVP_PKEY_CTX_set1_id L pk uid = 1 \<and> EVP_MD_CTX_new_ok L \<and>
     EVP_DigestVerifyInit L pk uid = 1 \<and> EVP_DigestVerifyUpdate L pk uid msg = 1 \<and>
     EVP_DigestVerifyFinal L pk uid msg der = 1"

definition sm2_signed ::
  "hygon_abi \<Rightarrow> 'k openssl \<Rightarrow> ecc_pubkey_t \<Rightarrow> bytes \<Rightarrow> ecc_signature_t \<Rightarrow> bool" where
  "sm2_signed H L key msg sg \<longleftrightarrow>
     (\<exists>pk der. sm2_key L (hygon_pubkey_octets L key) pk \<and>
        sm2_der L (le_nat (sig_r sg)) (le_nat (sig_s sg)) der \<and>
        sm2_accepts L pk (userid_view H key) msg der)"

lemma ImportHygonSm2Pubkey_eq_Inr [exn_simps]:
  "ImportHygonSm2Pubkey L key = Inr pk \<longleftrightarrow> sm2_key L (hygon_pubkey_octets L key) pk"
  by (auto simp: ImportHygonSm2Pubkey_def sm2_key_def Let_def exn_simps split: prod.splits)

lemma ImportHygonSm2Sig_eq_Inr [exn_simps]:
  "ImportHygonSm2Sig L sg = Inr der \<longleftrightarrow> sm2_der L (le_nat (sig_r sg)) (le_nat (sig_s sg)) der"
  by (auto simp: ImportHygonSm2Sig_def sm2_der_def Let_def exn_simps BN_bin2bn_rev
      split: prod.splits)

lemma Sm2Verify_eq_Inr [exn_simps]:
  "Sm2Verify L msg der pk uid = Inr u \<longleftrightarrow> sm2_accepts L pk uid msg der"
  by (auto simp: Sm2Verify_def sm2_accepts_def exn_simps)

lemma no_crash_csv_basic [simp]:
  "no_crash (Sm2Verify L msg der pk uid)" "no_crash (ImportHygonSm2Pubkey L k)"
  "no_crash (ImportHygonSm2Sig L sg)"
  by (auto simp: Sm2Verify_def ImportHygonSm2Pubkey_def ImportHygonSm2Sig_def Let_def
      split: prod.splits intro!: no_crash_bindE)

lemma signature_check_iff:
  "bindE (ImportHygonSm2Pubkey L key) (\<lambda>pkey. bindE (ImportHygonSm2Sig L sg) (\<lambda>sig_der.
     Sm2Verify L msg sig_der pkey (userid_view H key))) = Inr () \<longleftrightarrow> sm2_signed H L key msg sg"
  by (auto simp: sm2_signed_def exn_simps)

lemma VerifyHskCertWithHrkPubkey_iff:
  "VerifyHskCertWithHrkPubkey H L hsk = Inr () \<longleftrightarrow>
     le_nat (fld (h_key_usage H) hsk) = KEY_USAGE_TYPE_HSK H \<and>
     sm2_signed H L kHrkPubkey (take (hsk_msg_len H) hsk) (sig_at H (h_ecc_sig H) hsk)"
  unfolding VerifyHskCertWithHrkPubkey_def Let_def
  by (simp add: signature_check_iff bindE_eq_Inr [of "YACL_ENFORCE _ _"] YACL_ENFORCE_eq_Inr)

lemma VerifyCekCertWithHskCert_iff:
  "VerifyCekCertWithHskCert H L after cek hsk = Inr () \<longleftrightarrow>
     le_nat (fld (c_pubkey_usage H) cek) = KEY_USAGE_TYPE_CEK H \<and>
     le_nat (fld (c_sig1_usage H) cek) = KEY_USAGE_TYPE_HSK H \<and>
     sm2_signed H L (pubkey_at H (h_ecc_pubkey H) hsk after)
       (take (cert_msg_len H) cek) (sig_at H (c_ecc_sig1 H) cek)"
  unfolding VerifyCekCertWithHskCert_def Let_def
  by (simp add: signature_check_iff bindE_eq_Inr [of "YACL_ENFORCE _ _"] YACL_ENFORCE_eq_Inr)

lemma VerifyPekCertWithCekCert_iff:
  "VerifyPekCertWithCekCert H L after pek cek = Inr () \<longleftrightarrow>
     le_nat (fld (c_pubkey_usage H) pek) = KEY_USAGE_TYPE_PEK H \<and>
     le_nat (fld (c_sig1_usage H) pek) = KEY_USAGE_TYPE_CEK H \<and>
     sm2_signed H L (pubkey_at H (c_ecc_pubkey H) cek after)
       (take (cert_msg_len H) pek) (sig_at H (c_ecc_sig1 H) pek)"
  unfolding VerifyPekCertWithCekCert_def Let_def
  by (simp add: signature_check_iff bindE_eq_Inr [of "YACL_ENFORCE _ _"] YACL_ENFORCE_eq_Inr)

lemma VerifyQuoteSignature_iff:
  "VerifyQuoteSignature H L after q pek = Inr () \<longleftrightarrow>
     sm2_signed H L (pubkey_at H (c_ecc_pubkey H) pek after)
       (take (quote_msg_len H) q) (sig_at H (q_ecc_sig1 H) q)"
  unfolding VerifyQuoteSignature_def Let_def by (simp add: signature_check_iff)

text \<open>The PEK certificate of a quote, unmasked.\<close>

definition pek_of :: "hygon_abi \<Rightarrow> bytes \<Rightarrow> bytes" where
  "pek_of H q = xor_words (anonce_of H q) (fld (q_pek_cert H) q)"

definition chain_of_trust ::
  "hygon_abi \<Rightarrow> 'k openssl \<Rightarrow> csv_memory \<Rightarrow> bytes \<Rightarrow> bytes \<Rightarrow> bytes \<Rightarrow> bytes \<Rightarrow> bool" where
  "chain_of_trust H L M hsk cek pek q \<longleftrightarrow>
     le_nat (fld (h_key_usage H) hsk) = KEY_USAGE_TYPE_HSK H \<and>
     sm2_signed H L kHrkPubkey (take (hsk_msg_len H) hsk) (sig_at H (h_ecc_sig H) hsk) \<and>
     le_nat (fld (c_pubkey_usage H) cek) = KEY_USAGE_TYPE_CEK H \<and>
     le_nat (fld (c_sig1_usage H) cek) = KEY_USAGE_TYPE_HSK H \<and>
     sm2_signed H L (pubkey_at H (h_ecc_pubkey H) hsk (after_hsk_cert M))
       (take (cert_msg_len H) cek) (sig_at H (c_ecc_sig1 H) cek) \<and>
     le_nat (fld (c_pubkey_usage H) pek) = KEY_USAGE_TYPE_PEK H \<and>
     le_nat (fld (c_sig1_usage H) pek) = KEY_USAGE_TYPE_CEK H \<and>
     sm2_signed H L (pubkey_at H (c_ecc_pubkey H) cek (after_cek_cert M))
       (take (cert_msg_len H) pek) (sig_at H (c_ecc_sig1 H) pek) \<and>
     sm2_signed H L (pubkey_at H (c_ecc_pubkey H) pek (after_pek_cert M))
       (take (quote_msg_len H) q) (sig_at H (q_ecc_sig1 H) q)"

lemma Csv_VerifyPlatform_chain:
  "Csv_VerifyPlatform H L M v = Inr () \<longleftrightarrow>
     length (fld (q_pek_cert H) (csv_quote v)) mod 4 = 0 \<and>
     chain_of_trust H L M (csv_hsk_cert v) (csv_cek_cert v) (pek_of H (csv_quote v)) (csv_quote v)"
  unfolding Csv_VerifyPlatform_def chain_of_trust_def pek_of_def
  by (auto simp: bindE_eq_Inr RetrieveCsvQuotePlainData_eq_Inr VerifyHskCertWithHrkPubkey_iff
      VerifyCekCertWithHskCert_iff VerifyPekCertWithCekCert_iff VerifyQuoteSignature_iff)

lemma Csv_VerifyPlatform_no_crash: "no_crash (Csv_VerifyPlatform H L M v)"
  by (auto simp: Csv_VerifyPlatform_def VerifyHskCertWithHrkPubkey_def
      VerifyCekCertWithHskCert_def VerifyPekCertWithCekCert_def VerifyQuoteSignature_def Let_def
      intro!: no_crash_bindE)

section \<open>Attributes\<close>

fun laid_out :: "nat \<Rightarrow> field list \<Rightarrow> bool" where
  "laid_out off [] = True"
| "laid_out off (f # fs) = (fst f = off \<and> laid_out (off + snd f) fs)"

text \<open>
  The layout of \<open>csv_attestation_report\<close>: the signed fields lie next to each other at its
  start, the nonce, the signature and the PEK certificate follow; the sizes are those of the
  constants and multiples of four.
\<close>

definition hygon_abi_doc :: "hygon_abi \<Rightarrow> bool" where
  "hygon_abi_doc H \<longleftrightarrow>
     laid_out 0 [q_user_pubkey_digest H, q_vm_id H, q_vm_version H, q_user_data H, q_mnonce H,
                 q_measure H, q_policy H] \<and>
     snd (q_vm_id H) = VM_ID_SIZE H \<and> snd (q_vm_version H) = VM_VERSION_SIZE H \<and>
     snd (q_user_data H) = 2 * HASH_LEN H \<and>
     snd (q_mnonce H) = GUEST_ATTESTATION_NONCE_SIZE H \<and>
     snd (q_policy H) = 4 \<and> snd (q_anonce H) = 4 \<and> HASH_LEN H = 32 \<and>
     VM_ID_SIZE H mod 4 = 0 \<and> VM_VERSION_SIZE H mod 4 = 0 \<and>
     GUEST_ATTESTATION_NONCE_SIZE H mod 4 = 0 \<and> snd (q_measure H) mod 4 = 0 \<and>
     sizeof_CSV_CERT_t H mod 4 = 0 \<and> snd (q_pek_cert H) = sizeof_CSV_CERT_t H \<and>
     quote_msg_len H \<le> fst (q_anonce H) \<and>
     fst (q_anonce H) + 4 \<le> fst (q_ecc_sig1 H) \<and>
     s_sig_r H + ECC_LEN H \<le> snd (q_ecc_sig1 H) \<and>
     s_sig_s H + ECC_LEN H \<le> snd (q_ecc_sig1 H) \<and>
     fst (q_ecc_sig1 H) + snd (q_ecc_sig1 H) \<le> fst (q_pek_cert H) \<and>
     fst (q_pek_cert H) + snd (q_pek_cert H) \<le> sizeof_csv_attestation_report H"

text \<open>A part of the quote, unmasked.\<close>

definition csv_plain :: "hygon_abi \<Rightarrow> bytes \<Rightarrow> nat \<Rightarrow> nat \<Rightarrow> bytes" where
  "csv_plain H q off n = xor_words (anonce_of H q) (subbytes off n q)"

definition csv_attrs ::
  "ext \<Rightarrow> hygon_abi \<Rightarrow> csv_memory \<Rightarrow> string \<Rightarrow> bytes \<Rightarrow> UnifiedAttestationAttributes
   \<Rightarrow> UnifiedAttestationAttributes" where
  "csv_attrs X H M plat q a = a\<lparr>
     str_tee_platform := plat,
     hex_prod_id := BytesToHexString X (csv_plain H q (fst (q_vm_id H)) (VM_ID_SIZE H)),
     hex_platform_sw_version :=
       BytesToHexString X (csv_plain H q (fst (q_vm_version H)) (VM_VERSION_SIZE H)),
     hex_user_data := BytesToHexString X (csv_plain H q (fst (q_user_data H)) 32),
     hex_hash_or_pem_pubkey := BytesToHexString X (take 32 (after_user_data M)),
     hex_nonce :=
       BytesToHexString X (csv_plain H q (fst (q_mnonce H)) (GUEST_ATTESTATION_NONCE_SIZE H)),
     hex_boot_measurement :=
       BytesToHexString X (csv_plain H q (fst (q_measure H)) (snd (q_measure H))),
     hex_secure_flags := BytesToHexString X
       (word_le 4 ((le_word (fld (q_policy H) q) :: u32) XOR anonce_of H q))\<rparr>"

lemma hygon_abi_offsets:
  assumes "hygon_abi_doc H"
  shows "fst (q_vm_id H) + VM_ID_SIZE H \<le> quote_msg_len H"
    and "fst (q_vm_version H) + VM_VERSION_SIZE H \<le> quote_msg_len H"
    and "fst (q_user_data H) + 64 \<le> quote_msg_len H"
    and "fst (q_mnonce H) + GUEST_ATTESTATION_NONCE_SIZE H \<le> quote_msg_len H"
    and "fst (q_measure H) + snd (q_measure H) \<le> quote_msg_len H"
    and "fst (q_policy H) + 4 \<le> quote_msg_len H"
    and "quote_msg_len H + 4 \<le> sizeof_csv_attestation_report H"
  using assms by (auto simp: hygon_abi_doc_def quote_msg_len_def sum_sizes_def)

lemma RetrieveCsvQuotePlainData_sub:
  assumes "off + n \<le> length q" and "n mod 4 = 0"
  shows "RetrieveCsvQuotePlainData (subbytes off n q) a = Inr (xor_words a (subbytes off n q))"
  using assms by (simp add: RetrieveCsvQuotePlainData_def min_absorb1)

lemma Csv_ParseUnifiedReport_outcome:
  assumes abi: "hygon_abi_doc H"
    and len: "length (csv_quote v) = sizeof_csv_attestation_report H"
  shows "Csv_ParseUnifiedReport X H M v a =
    Inr (csv_attrs X H M (rep_str_tee_platform (csv_report v)) (csv_quote v) a)"
proof -
  let ?q = "csv_quote v"
  note off = hygon_abi_offsets [OF abi]
  have mods: "VM_ID_SIZE H mod 4 = 0" "VM_VERSION_SIZE H mod 4 = 0" "HASH_LEN H = 32"
    "GUEST_ATTESTATION_NONCE_SIZE H mod 4 = 0" "snd (q_measure H) mod 4 = 0"
    using abi by (simp_all add: hygon_abi_doc_def)
  have user: "length (xor_words (anonce_of H ?q) (subbytes (fst (q_user_data H)) 32 ?q)) = 32"
    using off(3,7) len by (simp add: length_xor_words)
  have over: "read_mem (xor_words (anonce_of H ?q) (subbytes (fst (q_user_data H)) 32 ?q))
      after 32 32 = take 32 after" for after
    using user by (simp add: read_mem_outside subbytes_def)
  show ?thesis
    unfolding Csv_ParseUnifiedReport_def Let_def fld_def mods(3)
    using off len mods
    by (simp add: RetrieveCsvQuotePlainData_sub over csv_attrs_def csv_plain_def fld_def)
qed

lemma Csv_ParseUnifiedReport_platform:
  "Csv_ParseUnifiedReport X H M v a = Inr a' \<Longrightarrow>
   str_tee_platform a' = rep_str_tee_platform (csv_report v)"
  unfolding Csv_ParseUnifiedReport_def Let_def by (auto elim!: bindE_InrE)

lemma Csv_ParseUnifiedReport_no_crash: "no_crash (Csv_ParseUnifiedReport X H M v a)"
  unfolding Csv_ParseUnifiedReport_def Let_def by (auto intro!: no_crash_bindE)

lemma Csv_Create_eq_Inr:
  "Csv_Create X H r = Inr v \<longleftrightarrow>
     rep_str_report_version r = kReportVersion \<and> rep_str_report_type r = kReportTypePassport \<and>
     rep_str_tee_platform r = kPlatformCsv \<and>
     (\<exists>m c q hsk cek. csv_of_json X (rep_json_report r) = Inr m \<and>
        base64_decode X (csv_b64_quote m) = Some q \<and>
        length q = sizeof_csv_attestation_report H \<and>
        chain_of_json X (csv_json_cert_chain m) = Inr c \<and>
        base64_decode X (b64_hsk_cert c) = Some hsk \<and> length hsk = sizeof_CHIP_ROOT_CERT_t H \<and>
        base64_decode X (b64_cek_cert c) = Some cek \<and> length cek = sizeof_CSV_CERT_t H \<and>
        v = \<lparr>csv_report = r, csv_quote = q, csv_hsk_cert = hsk, csv_cek_cert = cek\<rparr>)"
  by (auto simp: Csv_Create_def Csv_Init_def exn_simps)

lemma Csv_Create_no_crash: "no_crash (Csv_Create X H r)"
  by (auto simp: Csv_Create_def Csv_Init_def intro!: no_crash_bindE)

interpretation csv: attestation_verifier "Csv_Create X H" "Csv_VerifyPlatform H L M"
    "Csv_ParseUnifiedReport X H M" csv_report kPlatformCsv
  for X H L M
  by unfold_locales
     (auto simp: Csv_Create_eq_Inr Csv_ParseUnifiedReport_platform Csv_Create_no_crash
       Csv_VerifyPlatform_no_crash Csv_ParseUnifiedReport_no_crash)

lemma xor_words_append:
  "length xs mod 4 = 0 \<Longrightarrow> xor_words a (xs @ ys) = xor_words a xs @ xor_words a ys"
proof (induction a xs rule: xor_words.induct)
  case (1 a b0 b1 b2 b3 bs)
  then show ?case by simp
qed simp_all

lemma csv_plain_take:
  assumes "off + 64 \<le> length q"
  shows "csv_plain H q off 32 = take 32 (csv_plain H q off 64)"
proof -
  have "subbytes off (32 + 32) q = subbytes off 32 q @ subbytes (off + 32) 32 q"
    by (simp only: subbytes_def take_add drop_drop add.commute)
  then have "subbytes off 64 q = subbytes off 32 q @ subbytes (off + 32) 32 q" by simp
  moreover have "length (xor_words w (subbytes off 32 q)) = 32" for w
    using assms by (simp add: length_xor_words min_absorb1)
  ultimately show ?thesis
    using assms by (simp add: csv_plain_def xor_words_append min_absorb1)
qed

section \<open>Malleability of the mask\<close>

text \<open>
  The quote in which the nonce is XORed with \<open>d\<close> and the masked PEK certificate as well.
  Nothing else changes; neither change touches the signed part.
\<close>

definition remask :: "hygon_abi \<Rightarrow> u32 \<Rightarrow> bytes \<Rightarrow> bytes" where
  "remask H d q =
     memcpy_at (memcpy_at q (fst (q_anonce H)) (word_le 4 (anonce_of H q XOR d)))
       (fst (q_pek_cert H)) (xor_words d (fld (q_pek_cert H) q))"

lemma remask_facts:
  assumes abi: "hygon_abi_doc H" and len: "length q = sizeof_csv_attestation_report H"
  shows "length (remask H d q) = length q"
    and "take (quote_msg_len H) (remask H d q) = take (quote_msg_len H) q"
    and "anonce_of H (remask H d q) = anonce_of H q XOR d"
    and "sig_at H (q_ecc_sig1 H) (remask H d q) = sig_at H (q_ecc_sig1 H) q"
    and "fld (q_pek_cert H) (remask H d q) = xor_words d (fld (q_pek_cert H) q)"
    and "off + n \<le> quote_msg_len H \<Longrightarrow> subbytes off n (remask H d q) = subbytes off n q"
proof -
  define q1 where "q1 = memcpy_at q (fst (q_anonce H)) (word_le 4 (anonce_of H q XOR d))"
  have H: "quote_msg_len H \<le> fst (q_anonce H)" "fst (q_anonce H) + 4 \<le> fst (q_ecc_sig1 H)"
    "s_sig_r H + ECC_LEN H \<le> snd (q_ecc_sig1 H)" "s_sig_s H + ECC_LEN H \<le> snd (q_ecc_sig1 H)"
    "fst (q_ecc_sig1 H) + snd (q_ecc_sig1 H) \<le> fst (q_pek_cert H)"
    "fst (q_pek_cert H) + snd (q_pek_cert H) \<le> length q" "snd (q_anonce H) = 4"
    "snd (q_pek_cert H) mod 4 = 0"
    using abi len by (auto simp: hygon_abi_doc_def)
  have f1: "fits q (fst (q_anonce H)) (word_le 4 (anonce_of H q XOR d))"
    using H by (simp add: fits_def)
  have l1: "length q1 = length q" using f1 by (simp add: q1_def length_memcpy_at)
  have lp: "length (xor_words d (fld (q_pek_cert H) q)) = snd (q_pek_cert H)"
  proof -
    have "length (fld (q_pek_cert H) q) = snd (q_pek_cert H)" using H by (simp add: fld_def)
    with H(8) show ?thesis by (simp add: length_xor_words) presburger
  qed
  have f2: "fits q1 (fst (q_pek_cert H)) (xor_words d (fld (q_pek_cert H) q))"
    using H lp l1 by (simp add: fits_def)
  have r: "remask H d q = memcpy_at q1 (fst (q_pek_cert H)) (xor_words d (fld (q_pek_cert H) q))"
    by (simp add: remask_def q1_def)
  show "length (remask H d q) = length q" using f2 l1 by (simp add: r length_memcpy_at)
  have s1: "subbytes off n (remask H d q) = subbytes off n q1"
    if "off + n \<le> fst (q_pek_cert H)" for off n
    using f2 that by (simp add: r subbytes_memcpy_before)
  have s2: "subbytes off n q1 = subbytes off n q" if "off + n \<le> fst (q_anonce H)" for off n
    using f1 that by (simp add: q1_def subbytes_memcpy_before)
  have s3: "subbytes off n q1 = subbytes off n q" if "fst (q_anonce H) + 4 \<le> off" for off n
    using f1 that by (simp add: q1_def subbytes_memcpy_after)
  show sub: "subbytes off n (remask H d q) = subbytes off n q"
    if "off + n \<le> quote_msg_len H" for off n
    using that H s1 s2 by simp
  show "take (quote_msg_len H) (remask H d q) = take (quote_msg_len H) q"
    using sub [of 0 "quote_msg_len H"] by (simp add: subbytes_def)
  have "fld (q_anonce H) (remask H d q) = word_le 4 (anonce_of H q XOR d)"
  proof -
    have "fld (q_anonce H) (remask H d q) = subbytes (fst (q_anonce H)) 4 q1"
      using H s1 by (simp add: fld_def)
    also have "\<dots> = word_le 4 (anonce_of H q XOR d)"
      using subbytes_memcpy_same [OF f1] by (simp add: q1_def)
    finally show ?thesis .
  qed
  then show "anonce_of H (remask H d q) = anonce_of H q XOR d"
    by (simp add: anonce_of_def le_word_word_le)
  show "sig_at H (q_ecc_sig1 H) (remask H d q) = sig_at H (q_ecc_sig1 H) q"
    using H s1 s3 by (simp add: sig_at_def)
  show "fld (q_pek_cert H) (remask H d q) = xor_words d (fld (q_pek_cert H) q)"
    using subbytes_memcpy_same [OF f2] lp by (simp add: r fld_def)
qed

lemma pek_of_remask:
  assumes "hygon_abi_doc H" and "length q = sizeof_csv_attestation_report H"
  shows "pek_of H (remask H d q) = pek_of H q"
  by (simp add: pek_of_def remask_facts [OF assms] xor_words_xor_words xor.assoc xor.commute xor.left_commute)

lemma csv_plain_remask:
  assumes "hygon_abi_doc H" and "length q = sizeof_csv_attestation_report H"
    and "off + n \<le> quote_msg_len H"
  shows "csv_plain H (remask H d q) off n = xor_words d (csv_plain H q off n)"
  using assms by (simp add: csv_plain_def remask_facts xor_words_xor_words)


section \<open>A concrete layout\<close>

text \<open>
  The published layout of Hygon's structures, and an OpenSSL that accepts a signature when its
  number \<open>r\<close> is the length of the user id. With them the hypotheses of the theorems below
  are evaluated.
\<close>

definition hygon_layout :: hygon_abi where
  "hygon_layout = \<lparr>ECC_LEN = 32, HASH_LEN = 32, VM_ID_SIZE = 16, VM_VERSION_SIZE = 16,
     GUEST_ATTESTATION_NONCE_SIZE = 16, KEY_USAGE_TYPE_HSK = 0x13, KEY_USAGE_TYPE_CEK = 0x1004,
     KEY_USAGE_TYPE_PEK = 0x1002,
     sizeof_csv_attestation_report = 2548, q_user_pubkey_digest = (0, 32), q_vm_id = (32, 16),
     q_vm_version = (48, 16), q_user_data = (64, 64), q_mnonce = (128, 16),
     q_measure = (144, 32), q_policy = (176, 4), q_anonce = (188, 4), q_ecc_sig1 = (192, 144),
     q_pek_cert = (336, 2084),
     sizeof_CHIP_ROOT_CERT_t = 832, h_version = (0, 4), h_key_id = (4, 16),
     h_certifying_id = (20, 16), h_key_usage = (36, 4), h_reserved1 = (40, 24),
     h_ecc_pubkey = (64, 404), h_reserved2 = (468, 108), h_ecc_sig = (576, 144),
     sizeof_CSV_CERT_t = 2084, c_version = (0, 4), c_api_major = (4, 1), c_api_minor = (5, 1),
     c_reserved1 = (6, 1), c_reserved2 = (7, 1), c_pubkey_usage = (8, 4),
     c_pubkey_algo = (12, 4), c_ecc_pubkey = (16, 404), c_reserved3 = (420, 624),
     c_sig1_usage = (1044, 4), c_ecc_sig1 = (1052, 144),
     p_Qx = 4, p_Qy = 76, p_user_id = 148, u_len = (0, 2), u_uid = 2, s_sig_r = 0, s_sig_s = 72\<rparr>"

definition layout_openssl :: "bytes openssl" where
  "layout_openssl = \<lparr>POINT_CONVERSION_UNCOMPRESSED = 4, EVP_PKEY_CTX_new_id_ok = True,
     OSSL_PARAM_BLD_new_ok = True, push_group_name = 1, push_pub_key = (\<lambda>_. 1),
     OSSL_PARAM_BLD_to_param_ok = (\<lambda>_. True), EVP_PKEY_fromdata_init = 1,
     EVP_PKEY_fromdata = (\<lambda>k. (1, Some k)), BN_new_ok = True, ECDSA_SIG_new_ok = True,
     ECDSA_SIG_set0 = (\<lambda>r s. 1), i2d_ECDSA_SIG = (\<lambda>r s. (1, [word_of_nat r])),
     EVP_PKEY_CTX_new_ok = (\<lambda>_. True), EVP_PKEY_CTX_set1_id = (\<lambda>_ _. 1),
     EVP_MD_CTX_new_ok = True, EVP_DigestVerifyInit = (\<lambda>_ _. 1),
     EVP_DigestVerifyUpdate = (\<lambda>_ _ _. 1),
     EVP_DigestVerifyFinal =
       (\<lambda>_ uid _ der. if der = [word_of_nat (length uid)] then 1 else 0)\<rparr>"

lemma hygon_layout_doc [simp]: "hygon_abi_doc hygon_layout"
  by (simp add: hygon_abi_doc_def hygon_layout_def quote_msg_len_def sum_sizes_def)

definition sample_hsk :: bytes where
  "sample_hsk = zeros 36 @ word_le 4 (0x13 :: u32) @ zeros 536 @ [13] @ zeros 255"

definition sample_cek :: bytes where
  "sample_cek = zeros 8 @ word_le 4 (0x1004 :: u32) @ zeros 1032 @ word_le 4 (0x13 :: u32) @
     zeros 1036"

definition sample_pek :: bytes where
  "sample_pek = zeros 8 @ word_le 4 (0x1002 :: u32) @ zeros 1032 @
     word_le 4 (0x1004 :: u32) @ zeros 1036"

definition sample_quote :: bytes where
  "sample_quote = zeros 188 @ word_le 4 (0x04030201 :: u32) @ zeros 144 @
     xor_words 0x04030201 sample_pek @ zeros 128"

lemma sample_lengths [simp]:
  "length sample_hsk = 832" "length sample_cek = 2084" "length sample_pek = 2084"
  "length sample_quote = 2548"
  by (simp_all add: sample_hsk_def sample_cek_def sample_pek_def sample_quote_def
      length_xor_words)

lemma fld_sample:
  "le_nat (fld (h_key_usage hygon_layout) sample_hsk) = KEY_USAGE_TYPE_HSK hygon_layout"
  "le_nat (fld (c_pubkey_usage hygon_layout) sample_cek) = KEY_USAGE_TYPE_CEK hygon_layout"
  "le_nat (fld (c_sig1_usage hygon_layout) sample_cek) = KEY_USAGE_TYPE_HSK hygon_layout"
  "le_nat (fld (c_pubkey_usage hygon_layout) sample_pek) = KEY_USAGE_TYPE_PEK hygon_layout"
  "le_nat (fld (c_sig1_usage hygon_layout) sample_pek) = KEY_USAGE_TYPE_CEK hygon_layout"
  by (simp_all add: fld_def hygon_layout_def sample_hsk_def sample_cek_def sample_pek_def
      subbytes_append subbytes_zeros_min subbytes_word_le le_nat_word_le_32)

lemma pek_of_sample: "pek_of hygon_layout sample_quote = sample_pek"
proof -
  have a: "anonce_of hygon_layout sample_quote = 0x04030201"
    by (simp add: anonce_of_def fld_def hygon_layout_def sample_quote_def subbytes_append
        subbytes_zeros_min subbytes_word_le le_word_word_le)
  have "length (xor_words w sample_pek) = 2084" for w by (simp add: length_xor_words)
  note len = this
  have "subbytes 0 2084 (xor_words 0x04030201 sample_pek) = xor_words 0x04030201 sample_pek"
    by (simp add: subbytes_def len)
  with len have "fld (q_pek_cert hygon_layout) sample_quote =
      xor_words (0x04030201) sample_pek"
    by (simp add: fld_def hygon_layout_def sample_quote_def subbytes_append subbytes_zeros_min)
  then show ?thesis by (simp add: pek_of_def a xor_words_involution)
qed

lemma sm2_signed_layout:
  assumes "le_nat (sig_r sg) = length (userid_view hygon_layout key)"
  shows "sm2_signed hygon_layout layout_openssl key msg sg"
  unfolding sm2_signed_def
proof (intro exI conjI)
  show "sm2_key layout_openssl (hygon_pubkey_octets layout_openssl key)
      (hygon_pubkey_octets layout_openssl key)"
    by (simp add: sm2_key_def layout_openssl_def)
  show "sm2_der layout_openssl (le_nat (sig_r sg)) (le_nat (sig_s sg))
      [word_of_nat (length (userid_view hygon_layout key))]"
    unfolding assms by (simp add: sm2_der_def layout_openssl_def memcpy_at_def zeros_def)
  show "sm2_accepts layout_openssl (hygon_pubkey_octets layout_openssl key)
      (userid_view hygon_layout key) msg [word_of_nat (length (userid_view hygon_layout key))]"
    by (simp add: sm2_accepts_def layout_openssl_def)
qed

lemma hrk_user_id: "userid_view hygon_layout kHrkPubkey = str_bytes ''HYGON-SSD-HRK''"
  by (simp add: userid_view_def kHrkPubkey_def word_le_def fld_def subbytes_def hygon_layout_def
     nat_le_4 str_bytes_def)

definition no_memory :: csv_memory where
  "no_memory = \<lparr>after_hsk_cert = [], after_cek_cert = [], after_pek_cert = [],
     after_user_data = []\<rparr>"

lemma sample_userids:
  "userid_view hygon_layout (pubkey_at hygon_layout (h_ecc_pubkey hygon_layout) sample_hsk []) = []"
  "userid_view hygon_layout (pubkey_at hygon_layout (c_ecc_pubkey hygon_layout) sample_cek []) = []"
  "userid_view hygon_layout (pubkey_at hygon_layout (c_ecc_pubkey hygon_layout) sample_pek []) = []"
  by (simp_all add: userid_view_def pubkey_at_def fld_def hygon_layout_def sample_hsk_def
      sample_cek_def sample_pek_def subbytes_def)

lemma sample_sigs:
  "le_nat (sig_r (sig_at hygon_layout (h_ecc_sig hygon_layout) sample_hsk)) = 13"
  "le_nat (sig_r (sig_at hygon_layout (c_ecc_sig1 hygon_layout) sample_cek)) = 0"
  "le_nat (sig_r (sig_at hygon_layout (c_ecc_sig1 hygon_layout) sample_pek)) = 0"
  "le_nat (sig_r (sig_at hygon_layout (q_ecc_sig1 hygon_layout) sample_quote)) = 0"
  by (simp_all add: sig_at_def hygon_layout_def sample_hsk_def sample_cek_def sample_pek_def
      sample_quote_def subbytes_def length_xor_words)

lemma sample_chain:
  "chain_of_trust hygon_layout layout_openssl no_memory sample_hsk sample_cek sample_pek
     sample_quote"
  by (simp add: chain_of_trust_def fld_sample no_memory_def sm2_signed_layout sample_sigs
      sample_userids hrk_user_id)

text \<open>A report, in the JSON form of \<open>ref_ext\<close>.\<close>

definition csv_report_of :: "bytes \<Rightarrow> bytes \<Rightarrow> bytes \<Rightarrow> UnifiedAttestationReport" where
  "csv_report_of hsk cek q =
     \<lparr>rep_str_report_version = kReportVersion, rep_str_report_type = kReportTypePassport,
      rep_str_tee_platform = kPlatformCsv,
      rep_json_report = enc_strs [bytes_str q, enc_strs [bytes_str hsk, bytes_str cek], []]\<rparr>"

lemma Csv_Create_report_of:
  assumes "length hsk = sizeof_CHIP_ROOT_CERT_t H" and "length cek = sizeof_CSV_CERT_t H"
    and "length q = sizeof_csv_attestation_report H"
  shows "Csv_Create ref_ext H (csv_report_of hsk cek q) =
    Inr \<lparr>csv_report = csv_report_of hsk cek q, csv_quote = q, csv_hsk_cert = hsk,
         csv_cek_cert = cek\<rparr>"
  using assms by (simp add: Csv_Create_eq_Inr csv_report_of_def ref_ext_def parse_fields_enc)

definition sample_csv :: csv_verifier where
  "sample_csv = \<lparr>csv_report = csv_report_of sample_hsk sample_cek sample_quote,
     csv_quote = sample_quote, csv_hsk_cert = sample_hsk, csv_cek_cert = sample_cek\<rparr>"

lemma Csv_Create_sample:
  "Csv_Create ref_ext hygon_layout (csv_report_of sample_hsk sample_cek sample_quote) =
   Inr sample_csv"
  unfolding sample_csv_def by (rule Csv_Create_report_of) (simp_all add: hygon_layout_def)

section \<open>Properties\<close>

text \<open>
  \<^bold>\<open>C6\<close>. A CSV report is accepted exactly when the certificates form a chain from the built-in
  Hygon root key (the HSK certificate is signed by it, the CEK certificate by the HSK, the
  unmasked PEK certificate by the CEK, each with the key usage of its level, and the signed
  part of the quote by the PEK) and some policy entry matches the attributes of the quote, all
  entries before it being passed over.
\<close>

theorem Csv_accepted_iff:
  assumes abi: "hygon_abi_doc H" and create: "Csv_Create X H r = Inr v"
  shows "VerifyReport X (Csv_VerifyPlatform H L M) (Csv_ParseUnifiedReport X H M) v policy = Inr ()
    \<longleftrightarrow> chain_of_trust H L M (csv_hsk_cert v) (csv_cek_cert v) (pek_of H (csv_quote v))
          (csv_quote v) \<and>
        (\<exists>pre e post. main_attributes policy = pre @ e # post \<and>
           attrs_match X (csv_attrs X H M kPlatformCsv (csv_quote v) empty_attrs) e \<and>
           list_all (passed_over X (csv_attrs X H M kPlatformCsv (csv_quote v) empty_attrs)) pre)"
proof -
  have len: "length (csv_quote v) = sizeof_csv_attestation_report H"
    and plat: "rep_str_tee_platform (csv_report v) = kPlatformCsv"
    using create by (auto simp: Csv_Create_eq_Inr)
  have "length (fld (q_pek_cert H) (csv_quote v)) mod 4 = 0"
    using abi len by (auto simp: hygon_abi_doc_def fld_def)
  then show ?thesis
    by (simp add: csv.VerifyReport_iff [where X = X and H = H] Csv_VerifyPlatform_chain
        Csv_ParseUnifiedReport_outcome [OF abi len] plat accepts_first_iff)
qed

theorem Csv_accepted_iff_witness:
  "VerifyReport ref_ext (Csv_VerifyPlatform hygon_layout layout_openssl no_memory)
     (Csv_ParseUnifiedReport ref_ext hygon_layout no_memory) sample_csv
     \<lparr>main_attributes = [empty_attrs]\<rparr> = Inr ()"
  unfolding Csv_accepted_iff [OF hygon_layout_doc Csv_Create_sample]
  by (auto simp: sample_csv_def pek_of_sample sample_chain intro!: exI [of _ "[]"])

text \<open>
  Masking and unmasking with the nonce of a quote are inverse: data unmasks to \<open>p\<close>
  exactly when \<open>p\<close> unmasks to the data; in particular the function fails on both or none.
\<close>

lemma csv_unmask_roundtrip:
  "RetrieveCsvQuotePlainData src anonce = Inr p \<longleftrightarrow> RetrieveCsvQuotePlainData p anonce = Inr src"
proof -
  have "length (xor_words anonce bs) mod 4 = 0" for bs by (simp add: length_xor_words)
  then show ?thesis by (auto simp: RetrieveCsvQuotePlainData_eq_Inr xor_words_involution)
qed



text \<open>
  \<^bold>\<open>C35\<close>. The public-key attribute of a CSV report is not taken from the report: whatever the
  quote holds, it is the hexadecimal form of the 32 bytes that lie in memory behind the vector
  of the unmasked user data, a read past the end of that vector.
\<close>

theorem csv_pubkey_overread:
  assumes "hygon_abi_doc H" and "length (csv_quote v) = sizeof_csv_attestation_report H"
  shows "\<exists>attrs. Csv_ParseUnifiedReport X H M v a = Inr attrs \<and>
    hex_hash_or_pem_pubkey attrs = BytesToHexString X (take 32 (after_user_data M))"
  using assms by (simp add: Csv_ParseUnifiedReport_outcome csv_attrs_def)

theorem csv_pubkey_overread_witness:
  "\<exists>attrs. Csv_ParseUnifiedReport ref_ext hygon_layout
       (no_memory\<lparr>after_user_data := replicate 40 0xAB\<rparr>) sample_csv empty_attrs = Inr attrs \<and>
     hex_hash_or_pem_pubkey attrs = BytesToHexString ref_ext (replicate 32 0xAB)"
  using csv_pubkey_overread [of hygon_layout sample_csv ref_ext
      "no_memory\<lparr>after_user_data := replicate 40 0xAB\<rparr>" empty_attrs]
  by (simp add: sample_csv_def) (simp add: hygon_layout_def)

end
