(* ===== verification/Sgx2_Verifier.thy ===== *)
theory Sgx2_Verifier
  imports Attr_Policy
begin

unbundle bit_operations_syntax

text \<open>
  The SGX DCAP verifier (\<open>verification/sgx2/sgx2_verifier.cc\<close>). The quote is kept as the raw
  bytes the code reads through a cast pointer; where the fields of \<open>sgx_quote3_t\<close> lie, the
  constants and the two entry points of the quote verification library come from the Intel
  SDK, which is not in the repository: they are the record \<open>sgx_sdk\<close>, an argument of the
  definitions. \<open>sgx_abi_doc\<close> states what the code relies on of the layout.
\<close>

section \<open>The Intel SDK\<close>

text \<open>The results the code distinguishes; every other value takes the default branch.\<close>

datatype sgx_ql_qv_result_t = SGX_QL_QV_RESULT_OK
  | SGX_QL_QV_RESULT_CONFIG_NEEDED
  | SGX_QL_QV_RESULT_OUT_OF_DATE
  | SGX_QL_QV_RESULT_OUT_OF_DATE_CONFIG_NEEDED
  | SGX_QL_QV_RESULT_SW_HARDENING_NEEDED
  | SGX_QL_QV_RESULT_CONFIG_AND_SW_HARDENING_NEEDED
  | SGX_QL_QV_RESULT_INVALID_SIGNATURE
  | SGX_QL_QV_RESULT_REVOKED
  | SGX_QL_QV_RESULT_UNSPECIFIED
  | SGX_QL_QV_RESULT_OTHER u32

text \<open>
  \<open>sgx_ql_qve_collateral_t\<close> as the verifiers fill it: the version and, for each item, the
  bytes the pointer refers to (without the terminating zero that \<open>std::string\<close> keeps behind
  them) and the size field.
\<close>

record sgx_ql_qve_collateral_t =
  cd_version :: u32
  cd_pck_crl_issuer_chain :: "string \<times> u32"
  cd_root_ca_crl :: "string \<times> u32"
  cd_pck_crl :: "string \<times> u32"
  cd_tcb_info_issuer_chain :: "string \<times> u32"
  cd_tcb_info :: "string \<times> u32"
  cd_qe_identity_issuer_chain :: "string \<times> u32"
  cd_qe_identity :: "string \<times> u32"

text \<open>
  The library calls return \<open>None\<close> as error code for \<open>SGX_QL_SUCCESS\<close> and \<open>Some c\<close> for
  any other; the verification also yields the verification result. \<open>qv_result_code\<close> is the
  value of an enumerator of the result.
\<close>

record sgx_sdk =
  sizeof_sgx_quote3_t :: nat
  sizeof_sgx_measurement_t :: nat
  sizeof_sgx_report_data_t :: nat
  sizeof_sgx_ql_qv_supplemental_t :: nat
  q3_mr_enclave :: nat
  q3_mr_signer :: nat
  q3_isv_prod_id :: field
  q3_isv_svn :: field
  q3_report_data :: nat
  q3_attributes_flags :: field
  SGX_FLAGS_DEBUG :: u64
  qv_result_code :: "sgx_ql_qv_result_t \<Rightarrow> u32"
  qv_get_quote_supplemental_data_size :: "u32 option \<times> u32"
  qv_verify_quote :: "bytes \<Rightarrow> sgx_ql_qve_collateral_t \<Rightarrow> int \<Rightarrow> u32
    \<Rightarrow> u32 option \<times> sgx_ql_qv_result_t"

definition inside :: "nat \<Rightarrow> field \<Rightarrow> bool" where
  "inside n f \<longleftrightarrow> fst f + snd f \<le> n"

text \<open>
  The fields the verifier reads lie inside \<open>sgx_quote3_t\<close>; the product id and the SVN are
  16-bit, the flags 64-bit integers, the report data has 64 bytes.
\<close>

definition sgx_abi_doc :: "sgx_sdk \<Rightarrow> bool" where
  "sgx_abi_doc S \<longleftrightarrow>
     inside (sizeof_sgx_quote3_t S) (q3_mr_enclave S, sizeof_sgx_measurement_t S) \<and>
     inside (sizeof_sgx_quote3_t S) (q3_mr_signer S, sizeof_sgx_measurement_t S) \<and>
     inside (sizeof_sgx_quote3_t S) (q3_isv_prod_id S) \<and> snd (q3_isv_prod_id S) = 2 \<and>
     inside (sizeof_sgx_quote3_t S) (q3_isv_svn S) \<and> snd (q3_isv_svn S) = 2 \<and>
     inside (sizeof_sgx_quote3_t S) (q3_attributes_flags S) \<and> snd (q3_attributes_flags S) = 8 \<and>
     inside (sizeof_sgx_quote3_t S) (q3_report_data S, sizeof_sgx_report_data_t S) \<and>
     sizeof_sgx_report_data_t S = 64"

definition read_field :: "bytes \<Rightarrow> bytes \<Rightarrow> field \<Rightarrow> bytes" where
  "read_field buf after f = read_mem buf after (fst f) (snd f)"

lemma read_field_inside [byte_simps]:
  "inside n f \<Longrightarrow> n \<le> length buf \<Longrightarrow>
   read_field buf after f = subbytes (fst f) (snd f) buf"
  by (simp add: read_field_def inside_def read_mem_inside)

section \<open>The verifier\<close>

record sgx2_verifier =
  sgx2_report :: UnifiedAttestationReport
  sgx2_quote :: bytes
  sgx2_collateral :: SgxQlQveCollateral

definition Sgx2_kReportDataSize :: nat where "Sgx2_kReportDataSize = 64"

definition SetCollateral :: "string \<Rightarrow> string \<Rightarrow> (string \<times> u32) res" where
  "SetCollateral name value =
     bindE (YACL_ENFORCE (value \<noteq> []) (fmt ''Invlaid collateral data: {}'' [name])) (\<lambda>_.
     Inr (value, word_of_nat (length value) + 1))"

definition InitializeCollateralData :: "SgxQlQveCollateral \<Rightarrow> sgx_ql_qve_collateral_t res" where
  "InitializeCollateralData collateral =
     bindE (SetCollateral ''pck_crl_issuer_chain'' (col_pck_crl_issuer_chain collateral)) (\<lambda>a.
     bindE (SetCollateral ''root_ca_crl'' (col_root_ca_crl collateral)) (\<lambda>b.
     bindE (SetCollateral ''pck_crl'' (col_pck_crl collateral)) (\<lambda>c.
     bindE (SetCollateral ''tcb_info_issuer_chain'' (col_tcb_info_issuer_chain collateral)) (\<lambda>d.
     bindE (SetCollateral ''tcb_info'' (col_tcb_info collateral)) (\<lambda>e.
     bindE (SetCollateral ''qe_identity_issuer_chain''
              (col_qe_identity_issuer_chain collateral)) (\<lambda>f.
     bindE (SetCollateral ''qe_identity'' (col_qe_identity collateral)) (\<lambda>g.
     Inr \<lparr>cd_version = col_version collateral, cd_pck_crl_issuer_chain = a, cd_root_ca_crl = b,
          cd_pck_crl = c, cd_tcb_info_issuer_chain = d, cd_tcb_info = e,
          cd_qe_identity_issuer_chain = f, cd_qe_identity = g\<rparr>)))))))"

definition Sgx2_Init :: "ext \<Rightarrow> UnifiedAttestationReport \<Rightarrow> sgx2_verifier res" where
  "Sgx2_Init X report =
     bindE (YACL_ENFORCE (rep_str_report_version report = kReportVersion)
       (fmt ''Only version {} is supported, but {}''
          [kReportVersion, rep_str_report_version report])) (\<lambda>_.
     bindE (YACL_ENFORCE (rep_str_report_type report = kReportTypePassport)
       (fmt ''Only {} is supported now, but {}''
          [kReportTypePassport, rep_str_report_type report])) (\<lambda>_.
     bindE (YACL_ENFORCE (rep_str_tee_platform report = kPlatformSgxDcap)
       (fmt ''It's not {} platfrom, input platform is {}''
          [kPlatformSgxDcap, rep_str_tee_platform report])) (\<lambda>_.
     bindE (JSON2PB (dcap_of_json X) (rep_json_report report)) (\<lambda>dcap_report.
     bindE (decode64 X (dcap_b64_quote dcap_report)) (\<lambda>quote.
     bindE (if dcap_json_collateral dcap_report \<noteq> []
            then JSON2PB (collateral_of_json X) (dcap_json_collateral dcap_report)
            else Inr empty_collateral) (\<lambda>collateral.
     Inr \<lparr>sgx2_report = report, sgx2_quote = quote, sgx2_collateral = collateral\<rparr>))))))"

text \<open>The factory function: the constructor runs \<open>Init\<close>.\<close>

definition Sgx2_Create :: "ext \<Rightarrow> UnifiedAttestationReport \<Rightarrow> sgx2_verifier res" where
  "Sgx2_Create X report = Sgx2_Init X report"

text \<open>\<open>after\<close> is the memory behind the quote vector; see \<open>read_mem\<close>.\<close>

definition Sgx2_ParseUnifiedReport ::
  "ext \<Rightarrow> sgx_sdk \<Rightarrow> bytes \<Rightarrow> sgx2_verifier \<Rightarrow> UnifiedAttestationAttributes
   \<Rightarrow> UnifiedAttestationAttributes res" where
  "Sgx2_ParseUnifiedReport X S after v attrs0 =
     (let attrs = attrs0\<lparr>str_tee_platform := rep_str_tee_platform (sgx2_report v)\<rparr>;
          quote = sgx2_quote v in
      bindE (YACL_ENFORCE (sizeof_sgx_quote3_t S \<le> length quote)
        (fmt ''quote size:{} is less than sgx_quote3_t:{}''
           [to_string (length quote), to_string (sizeof_sgx_quote3_t S)])) (\<lambda>_.
      let mr_enclave = BytesToHexString X
            (read_mem quote after (q3_mr_enclave S) (sizeof_sgx_measurement_t S));
          mr_signer = BytesToHexString X
            (read_mem quote after (q3_mr_signer S) (sizeof_sgx_measurement_t S));
          prod_id = le_nat (read_field quote after (q3_isv_prod_id S));
          svn = le_nat (read_field quote after (q3_isv_svn S)) in
      bindE (YACL_ENFORCE (Sgx2_kReportDataSize = sizeof_sgx_report_data_t S)
        (fmt ''Report data size is not {}'' [to_string Sgx2_kReportDataSize])) (\<lambda>_.
      let half_report_data_size = Sgx2_kReportDataSize div 2;
          hex_user_data' = BytesToHexString X
            (read_mem quote after (q3_report_data S) half_report_data_size);
          hex_public_key_hash = BytesToHexString X
            (read_mem quote after (q3_report_data S + half_report_data_size)
               half_report_data_size);
          flags = (le_word (read_field quote after (q3_attributes_flags S)) :: u64);
          attrs = attrs\<lparr>hex_ta_measurement := mr_enclave, hex_signer := mr_signer,
                        hex_prod_id := to_string prod_id, str_min_isvsvn := to_string svn,
                        hex_user_data := hex_user_data',
                        hex_hash_or_pem_pubkey := hex_public_key_hash\<rparr>
      in Inr (attrs\<lparr>bool_debug_disabled :=
           if flags AND SGX_FLAGS_DEBUG S = SGX_FLAGS_DEBUG S then ''false'' else ''true''\<rparr>))))"

text \<open>The number of an error code in a message.\<close>

definition quote3_error :: "u32 option \<Rightarrow> nat" where
  "quote3_error dcap_ret = (case dcap_ret of None \<Rightarrow> 0 | Some c \<Rightarrow> unat c)"

text \<open>The \<open>switch\<close> over the verification result.\<close>

definition check_quote_verification_result ::
  "'a sgx_sdk_scheme \<Rightarrow> sgx_ql_qv_result_t \<Rightarrow> unit res" where
  "check_quote_verification_result S r =
     (case r of
        SGX_QL_QV_RESULT_OK \<Rightarrow> Inr ()
      | SGX_QL_QV_RESULT_CONFIG_NEEDED \<Rightarrow> Inr ()
      | SGX_QL_QV_RESULT_OUT_OF_DATE \<Rightarrow> Inr ()
      | SGX_QL_QV_RESULT_OUT_OF_DATE_CONFIG_NEEDED \<Rightarrow> Inr ()
      | SGX_QL_QV_RESULT_SW_HARDENING_NEEDED \<Rightarrow> Inr ()
      | SGX_QL_QV_RESULT_CONFIG_AND_SW_HARDENING_NEEDED \<Rightarrow> Inr ()
      | _ \<Rightarrow> YACL_THROW (fmt ''Fail to verify dcap quote, quote verification result: {}''
               [to_string (unat (qv_result_code S r))]))"

definition Sgx2_VerifyPlatform :: "sgx_sdk \<Rightarrow> int \<Rightarrow> sgx2_verifier \<Rightarrow> unit res" where
  "Sgx2_VerifyPlatform S current_time v =
     bindE (InitializeCollateralData (sgx2_collateral v)) (\<lambda>collateral_data.
     let (dcap_ret, supplemental_data_size) = qv_get_quote_supplemental_data_size S in
     bindE (YACL_ENFORCE (dcap_ret = None)
       (fmt ''Fail to get supplemental data size, error code: {}''
          [to_string (quote3_error dcap_ret)])) (\<lambda>_.
     bindE (YACL_ENFORCE (unat supplemental_data_size = sizeof_sgx_ql_qv_supplemental_t S)
       (''Size is not same with header definition in SGX SDK, please make sure '' @
        ''you are using same version of SGX SDK and DCAP QVL.'')) (\<lambda>_.
     let (dcap_ret, quote_verification_result) =
           qv_verify_quote S (sgx2_quote v) collateral_data current_time supplemental_data_size in
     bindE (YACL_ENFORCE (dcap_ret = None)
       (''Fail to verify dcap quote, error code: '' @ fmt_x (quote3_error dcap_ret))) (\<lambda>_.
     check_quote_verification_result S quote_verification_result))))"

section \<open>Collateral\<close>

lemma SetCollateral_eq_Inr [exn_simps]:
  "SetCollateral name value = Inr d \<longleftrightarrow> value \<noteq> [] \<and> d = (value, word_of_nat (length value) + 1)"
  by (auto simp: SetCollateral_def exn_simps)

definition collateral_complete :: "SgxQlQveCollateral \<Rightarrow> bool" where
  "collateral_complete c \<longleftrightarrow>
     col_pck_crl_issuer_chain c \<noteq> [] \<and> col_root_ca_crl c \<noteq> [] \<and> col_pck_crl c \<noteq> [] \<and>
     col_tcb_info_issuer_chain c \<noteq> [] \<and> col_tcb_info c \<noteq> [] \<and>
     col_qe_identity_issuer_chain c \<noteq> [] \<and> col_qe_identity c \<noteq> []"

definition collateral_item :: "string \<Rightarrow> string \<times> u32" where
  "collateral_item s = (s, word_of_nat (length s) + 1)"

definition collateral_view :: "SgxQlQveCollateral \<Rightarrow> sgx_ql_qve_collateral_t" where
  "collateral_view c =
     \<lparr>cd_version = col_version c,
      cd_pck_crl_issuer_chain = collateral_item (col_pck_crl_issuer_chain c),
      cd_root_ca_crl = collateral_item (col_root_ca_crl c),
      cd_pck_crl = collateral_item (col_pck_crl c),
      cd_tcb_info_issuer_chain = collateral_item (col_tcb_info_issuer_chain c),
      cd_tcb_info = collateral_item (col_tcb_info c),
      cd_qe_identity_issuer_chain = collateral_item (col_qe_identity_issuer_chain c),
      cd_qe_identity = collateral_item (col_qe_identity c)\<rparr>"

lemma InitializeCollateralData_eq_Inr [exn_simps]:
  "InitializeCollateralData c = Inr d \<longleftrightarrow> collateral_complete c \<and> d = collateral_view c"
  by (auto simp: InitializeCollateralData_def collateral_complete_def collateral_view_def
      collateral_item_def exn_simps)

lemma no_crash_InitializeCollateralData: "no_crash (InitializeCollateralData c)"
  by (auto simp: InitializeCollateralData_def SetCollateral_def intro!: no_crash_bindE)

section \<open>Platform verification\<close>

definition acceptable_result :: "sgx_ql_qv_result_t \<Rightarrow> bool" where
  "acceptable_result r \<longleftrightarrow>
     r \<in> {SGX_QL_QV_RESULT_OK, SGX_QL_QV_RESULT_CONFIG_NEEDED, SGX_QL_QV_RESULT_OUT_OF_DATE,
          SGX_QL_QV_RESULT_OUT_OF_DATE_CONFIG_NEEDED, SGX_QL_QV_RESULT_SW_HARDENING_NEEDED,
          SGX_QL_QV_RESULT_CONFIG_AND_SW_HARDENING_NEEDED}"

lemma check_quote_verification_result_eq_Inr [exn_simps]:
  "check_quote_verification_result S r = Inr u \<longleftrightarrow> acceptable_result r"
  by (cases r) (simp_all add: check_quote_verification_result_def acceptable_result_def)

lemma no_crash_check_quote_verification_result [simp]:
  "no_crash (check_quote_verification_result S r)"
  by (cases r) (simp_all add: check_quote_verification_result_def)

lemma Sgx2_VerifyPlatform_iff:
  "Sgx2_VerifyPlatform S t v = Inr () \<longleftrightarrow>
     collateral_complete (sgx2_collateral v) \<and>
     (\<exists>sz r. qv_get_quote_supplemental_data_size S = (None, sz) \<and>
        unat sz = sizeof_sgx_ql_qv_supplemental_t S \<and>
        qv_verify_quote S (sgx2_quote v) (collateral_view (sgx2_collateral v)) t sz = (None, r) \<and>
        acceptable_result r)"
  by (auto simp: Sgx2_VerifyPlatform_def exn_simps split: prod.splits)

lemma Sgx2_VerifyPlatform_no_crash: "no_crash (Sgx2_VerifyPlatform S t v)"
  unfolding Sgx2_VerifyPlatform_def
  by (auto intro!: no_crash_bindE no_crash_InitializeCollateralData split: prod.splits)

section \<open>Attributes\<close>

text \<open>The attributes of an SGX quote, read from the bytes of the quote.\<close>

definition sgx2_debug :: "sgx_sdk \<Rightarrow> bytes \<Rightarrow> bool" where
  "sgx2_debug S q \<longleftrightarrow>
     (le_word (subbytes (fst (q3_attributes_flags S)) 8 q) :: u64) AND SGX_FLAGS_DEBUG S
       = SGX_FLAGS_DEBUG S"

definition sgx2_svn :: "sgx_sdk \<Rightarrow> bytes \<Rightarrow> nat" where
  "sgx2_svn S q = le_nat (subbytes (fst (q3_isv_svn S)) 2 q)"

definition sgx2_attrs ::
  "ext \<Rightarrow> sgx_sdk \<Rightarrow> string \<Rightarrow> bytes \<Rightarrow> UnifiedAttestationAttributes
   \<Rightarrow> UnifiedAttestationAttributes" where
  "sgx2_attrs X S plat q a = a\<lparr>
     str_tee_platform := plat,
     hex_ta_measurement :=
       BytesToHexString X (subbytes (q3_mr_enclave S) (sizeof_sgx_measurement_t S) q),
     hex_signer :=
       BytesToHexString X (subbytes (q3_mr_signer S) (sizeof_sgx_measurement_t S) q),
     hex_prod_id := to_string (le_nat (subbytes (fst (q3_isv_prod_id S)) 2 q)),
     str_min_isvsvn := to_string (sgx2_svn S q),
     hex_user_data := BytesToHexString X (subbytes (q3_report_data S) 32 q),
     hex_hash_or_pem_pubkey := BytesToHexString X (subbytes (q3_report_data S + 32) 32 q),
     bool_debug_disabled := (if sgx2_debug S q then ''false'' else ''true'')\<rparr>"

lemma Sgx2_ParseUnifiedReport_outcome:
  assumes "sgx_abi_doc S"
  shows "Sgx2_ParseUnifiedReport X S after v a =
    (if sizeof_sgx_quote3_t S \<le> length (sgx2_quote v)
     then Inr (sgx2_attrs X S (rep_str_tee_platform (sgx2_report v)) (sgx2_quote v) a)
     else Inl (Exn Yacl_Exception
       (fmt ''quote size:{} is less than sgx_quote3_t:{}''
          [to_string (length (sgx2_quote v)), to_string (sizeof_sgx_quote3_t S)])))"
  using assms
  by (simp add: Sgx2_ParseUnifiedReport_def Let_def sgx_abi_doc_def inside_def
      Sgx2_kReportDataSize_def sgx2_attrs_def sgx2_debug_def sgx2_svn_def read_field_def
      read_mem_inside)

lemma Sgx2_ParseUnifiedReport_platform:
  "Sgx2_ParseUnifiedReport X S after v a = Inr a' \<Longrightarrow>
   str_tee_platform a' = rep_str_tee_platform (sgx2_report v)"
  by (auto simp: Sgx2_ParseUnifiedReport_def Let_def exn_simps)

lemma Sgx2_ParseUnifiedReport_no_crash: "no_crash (Sgx2_ParseUnifiedReport X S after v a)"
  by (auto simp: Sgx2_ParseUnifiedReport_def Let_def intro!: no_crash_bindE)

lemma sgx2_svn_bound: "sgx2_svn S q < 2 ^ 31"
proof -
  have "sgx2_svn S q < 256 ^ length (subbytes (fst (q3_isv_svn S)) 2 q)"
    unfolding sgx2_svn_def by (rule le_nat_bound)
  also have "\<dots> \<le> 256 ^ 2" by (rule power_increasing) simp_all
  finally show ?thesis by simp
qed

lemma Sgx2_Create_eq_Inr:
  "Sgx2_Create X r = Inr v \<longleftrightarrow>
     rep_str_report_version r = kReportVersion \<and> rep_str_report_type r = kReportTypePassport \<and>
     rep_str_tee_platform r = kPlatformSgxDcap \<and>
     (\<exists>d q c. dcap_of_json X (rep_json_report r) = Inr d \<and>
        base64_decode X (dcap_b64_quote d) = Some q \<and>
        (if dcap_json_collateral d = [] then c = empty_collateral
         else collateral_of_json X (dcap_json_collateral d) = Inr c) \<and>
        v = \<lparr>sgx2_report = r, sgx2_quote = q, sgx2_collateral = c\<rparr>)"
  by (auto simp: Sgx2_Create_def Sgx2_Init_def exn_simps split: if_splits)

lemma Sgx2_Create_no_crash: "no_crash (Sgx2_Create X r)"
  by (auto simp: Sgx2_Create_def Sgx2_Init_def intro!: no_crash_bindE)

interpretation sgx2: attestation_verifier "Sgx2_Create X" "Sgx2_VerifyPlatform S t"
    "Sgx2_ParseUnifiedReport X S after" sgx2_report kPlatformSgxDcap
  for X S t after
  by unfold_locales
     (auto simp: Sgx2_Create_eq_Inr Sgx2_ParseUnifiedReport_platform Sgx2_Create_no_crash
       Sgx2_VerifyPlatform_no_crash Sgx2_ParseUnifiedReport_no_crash)

section \<open>A concrete layout\<close>

text \<open>
  The layout of \<open>sgx_quote3_t\<close> in the Intel SDK, with a quote verification library that
  accepts a quote when its last byte is one.
\<close>

definition sgx_layout :: sgx_sdk where
  "sgx_layout = \<lparr>sizeof_sgx_quote3_t = 436, sizeof_sgx_measurement_t = 32,
     sizeof_sgx_report_data_t = 64, sizeof_sgx_ql_qv_supplemental_t = 536,
     q3_mr_enclave = 112, q3_mr_signer = 176, q3_isv_prod_id = (304, 2), q3_isv_svn = (306, 2),
     q3_report_data = 368, q3_attributes_flags = (96, 8), SGX_FLAGS_DEBUG = 2,
     qv_result_code = (\<lambda>_. 0), qv_get_quote_supplemental_data_size = (None, 536),
     qv_verify_quote = (\<lambda>q c t n. (None, if last q = 1 then SGX_QL_QV_RESULT_OK
        else SGX_QL_QV_RESULT_INVALID_SIGNATURE))\<rparr>"

lemma sgx_layout_doc [simp]: "sgx_abi_doc sgx_layout"
  by (simp add: sgx_abi_doc_def sgx_layout_def inside_def)

definition sample_collateral :: SgxQlQveCollateral where
  "sample_collateral = \<lparr>col_version = 3, col_tee_type = 0, col_pck_crl_issuer_chain = ''a'',
     col_root_ca_crl = ''b'', col_pck_crl = ''c'', col_tcb_info_issuer_chain = ''d'',
     col_tcb_info = ''e'', col_qe_identity_issuer_chain = ''f'', col_qe_identity = ''g''\<rparr>"

text \<open>A DCAP report, in the JSON form of \<open>ref_ext\<close>.\<close>

definition dcap_report_of :: "string \<Rightarrow> bytes \<Rightarrow> UnifiedAttestationReport" where
  "dcap_report_of plat q =
     \<lparr>rep_str_report_version = kReportVersion, rep_str_report_type = kReportTypePassport,
      rep_str_tee_platform = plat,
      rep_json_report = enc_strs [bytes_str q,
        projr (json_of_collateral ref_ext sample_collateral)]\<rparr>"

lemma sample_collateral_complete [simp]: "collateral_complete sample_collateral"
  by (simp add: collateral_complete_def sample_collateral_def)

lemma dcap_report_of_parse:
  "\<exists>d. dcap_of_json ref_ext (rep_json_report (dcap_report_of plat q)) = Inr d \<and>
       base64_decode ref_ext (dcap_b64_quote d) = Some q \<and> dcap_json_collateral d \<noteq> [] \<and>
       collateral_of_json ref_ext (dcap_json_collateral d) = Inr sample_collateral"
  by (simp add: dcap_report_of_def ref_ext_def parse_fields_enc)

lemma Sgx2_Create_report_of:
  "Sgx2_Create ref_ext (dcap_report_of kPlatformSgxDcap q) =
   Inr \<lparr>sgx2_report = dcap_report_of kPlatformSgxDcap q, sgx2_quote = q,
        sgx2_collateral = sample_collateral\<rparr>"
  using dcap_report_of_parse [of kPlatformSgxDcap q]
  by (auto simp: Sgx2_Create_eq_Inr) (auto simp: dcap_report_of_def)

definition sample_sgx_quote :: bytes where
  "sample_sgx_quote = zeros 112 @ replicate 32 0xAA @ zeros 162 @ [7, 0] @ zeros 127 @ [1]"

definition sample_sgx2 :: sgx2_verifier where
  "sample_sgx2 = \<lparr>sgx2_report = dcap_report_of kPlatformSgxDcap sample_sgx_quote,
     sgx2_quote = sample_sgx_quote, sgx2_collateral = sample_collateral\<rparr>"

definition sample_sgx_entry :: UnifiedAttestationAttributes where
  "sample_sgx_entry = empty_attrs\<lparr>hex_ta_measurement := BytesToHexString ref_ext (replicate 32 0xAA),
     str_min_isvsvn := to_string 6, bool_debug_disabled := ''true''\<rparr>"

lemma sample_sgx_fields:
  "length sample_sgx_quote = 436" "last sample_sgx_quote = 1"
  "subbytes 112 32 sample_sgx_quote = replicate 32 0xAA"
  "sgx2_svn sgx_layout sample_sgx_quote = 7" "\<not> sgx2_debug sgx_layout sample_sgx_quote"
  by (simp_all add: sample_sgx_quote_def sgx2_svn_def sgx2_debug_def sgx_layout_def subbytes_def
      le_word_def)

lemma sample_sgx2_accepted:
  "VerifyReport ref_ext (Sgx2_VerifyPlatform sgx_layout t)
     (Sgx2_ParseUnifiedReport ref_ext sgx_layout after) sample_sgx2
     \<lparr>main_attributes = [sample_sgx_entry]\<rparr> = Inr ()"
proof -
  have plat: "Sgx2_VerifyPlatform sgx_layout t sample_sgx2 = Inr ()"
    by (simp add: Sgx2_VerifyPlatform_iff sample_sgx2_def sgx_layout_def sample_sgx_fields
        acceptable_result_def)
  let ?a = "sgx2_attrs ref_ext sgx_layout kPlatformSgxDcap sample_sgx_quote empty_attrs"
  have parse: "Sgx2_ParseUnifiedReport ref_ext sgx_layout after sample_sgx2 empty_attrs = Inr ?a"
    by (simp add: Sgx2_ParseUnifiedReport_outcome sample_sgx2_def sample_sgx_fields
        dcap_report_of_def) (simp add: sgx_layout_def)
  have mr: "hex_ta_measurement ?a = BytesToHexString ref_ext (replicate 32 0xAA)"
    using sample_sgx_fields(3) by (simp add: sgx2_attrs_def) (simp add: sgx_layout_def)
  have svn: "str_min_isvsvn ?a = to_string 7" and dbg: "bool_debug_disabled ?a = ''true''"
    by (simp_all add: sgx2_attrs_def sample_sgx_fields)
  have "attrs_match ref_ext ?a sample_sgx_entry"
    unfolding attrs_match_def early_strings_ok_def svn_debug_ok_def late_strings_ok_def
    by (simp add: sample_sgx_entry_def mr svn dbg str_ok_def pubkey_ok_def
        svn_ok_decimal bool_ok_def EqualsIgnoreCase_refl)
  then show ?thesis using plat parse by (simp add: sgx2.VerifyReport_iff)
qed

section \<open>Properties\<close>

text \<open>
  \<^bold>\<open>C2\<close>. Soundness of the acceptance of an SGX report. If \<open>VerifyReport\<close> returns, then the
  quote verification library accepted the very quote of the report with its complete
  collateral, and one policy entry is enforced on the bytes of the quote: a pinned MRENCLAVE,
  MRSIGNER or user data equals the bytes in the quote, a demanded minimal SVN is not above the
  SVN of the quote, and a demanded disabled debug mode means that the debug flag is clear.
\<close>

theorem Sgx2_accepted_sound:
  assumes abi: "sgx_abi_doc S" and absl: "absl_doc X" and create: "Sgx2_Create X r = Inr v"
    and ok: "VerifyReport X (Sgx2_VerifyPlatform S t) (Sgx2_ParseUnifiedReport X S after) v policy
      = Inr ()"
  shows "\<exists>e \<in> set (main_attributes policy).
    (\<exists>sz res. qv_verify_quote S (sgx2_quote v) (collateral_view (sgx2_collateral v)) t sz
        = (None, res) \<and> acceptable_result res \<and> collateral_complete (sgx2_collateral v)) \<and>
    (\<forall>m. m \<noteq> [] \<and> hex_ta_measurement e = BytesToHexString X m \<longrightarrow>
       subbytes (q3_mr_enclave S) (sizeof_sgx_measurement_t S) (sgx2_quote v) = m) \<and>
    (\<forall>m. m \<noteq> [] \<and> hex_signer e = BytesToHexString X m \<longrightarrow>
       subbytes (q3_mr_signer S) (sizeof_sgx_measurement_t S) (sgx2_quote v) = m) \<and>
    (\<forall>m. m \<noteq> [] \<and> hex_user_data e = BytesToHexString X m \<longrightarrow>
       subbytes (q3_report_data S) 32 (sgx2_quote v) = m) \<and>
    (\<forall>n < 2 ^ 31. str_min_isvsvn e = to_string n \<longrightarrow> n \<le> sgx2_svn S (sgx2_quote v)) \<and>
    (bool_debug_disabled e = ''true'' \<longrightarrow> \<not> sgx2_debug S (sgx2_quote v))"
proof -
  obtain attrs e where plat: "Sgx2_VerifyPlatform S t v = Inr ()"
    and parse: "Sgx2_ParseUnifiedReport X S after v empty_attrs = Inr attrs"
    and e: "e \<in> set (main_attributes policy)" and m: "attrs_match X attrs e"
    using sgx2.VerifyReport_sound [OF create ok] by blast
  have attrs: "attrs = sgx2_attrs X S (rep_str_tee_platform (sgx2_report v)) (sgx2_quote v)
      empty_attrs"
    using parse by (simp add: Sgx2_ParseUnifiedReport_outcome [OF abi] split: if_splits)
  note D = attrs_matchD [OF m, unfolded attrs sgx2_attrs_def, simplified]
  have svn: "n \<le> sgx2_svn S (sgx2_quote v)"
    if "n < 2 ^ 31" and "str_min_isvsvn e = to_string n" for n
    using D(6) that(2) svn_ok_decimal [OF that(1) sgx2_svn_bound] by simp
  have dbg: "\<not> sgx2_debug S (sgx2_quote v)" if "bool_debug_disabled e = ''true''"
    using D(7) that bool_ok_true [OF absl] by simp
  show ?thesis
    using e plat D(4,5,8) svn dbg
    by (intro bexI [of _ e]) (auto simp: Sgx2_VerifyPlatform_iff str_ok_hex [OF absl])
qed

theorem Sgx2_accepted_sound_witness:
  "\<not> sgx2_debug sgx_layout sample_sgx_quote \<and> 6 \<le> sgx2_svn sgx_layout sample_sgx_quote \<and>
   subbytes 112 32 sample_sgx_quote = replicate 32 0xAA"
proof -
  have create: "Sgx2_Create ref_ext (dcap_report_of kPlatformSgxDcap sample_sgx_quote) =
      Inr sample_sgx2"
    by (simp add: Sgx2_Create_report_of sample_sgx2_def)
  have "replicate 32 (0xAA :: byte) \<noteq> []" by simp
  then show ?thesis
    using Sgx2_accepted_sound [OF sgx_layout_doc ref_absl_doc create sample_sgx2_accepted]
    by (auto simp: sample_sgx_entry_def sample_sgx2_def
        dest!: spec [of _ "replicate 32 0xAA"] spec [of _ 6]) (simp_all add: sgx_layout_def)
qed

text \<open>
  \<^bold>\<open>C30\<close>. The attributes of an SGX quote are a function of the quote alone, whatever lies behind
  it in memory: a quote shorter than \<open>sgx_quote3_t\<close> is rejected, for every other one each
  attribute is the content of its field.
\<close>

theorem Sgx2_parse_inside_quote:
  assumes "sgx_abi_doc S"
  shows "Sgx2_ParseUnifiedReport X S after v a =
    (if sizeof_sgx_quote3_t S \<le> length (sgx2_quote v)
     then Inr (sgx2_attrs X S (rep_str_tee_platform (sgx2_report v)) (sgx2_quote v) a)
     else Inl (Exn Yacl_Exception
       (fmt ''quote size:{} is less than sgx_quote3_t:{}''
          [to_string (length (sgx2_quote v)), to_string (sizeof_sgx_quote3_t S)])))"
  by (rule Sgx2_ParseUnifiedReport_outcome [OF assms])

theorem Sgx2_parse_inside_quote_witness:
  "Sgx2_ParseUnifiedReport ref_ext sgx_layout [1, 2, 3] sample_sgx2 empty_attrs =
     Inr (sgx2_attrs ref_ext sgx_layout kPlatformSgxDcap sample_sgx_quote empty_attrs)"
  using Sgx2_parse_inside_quote [OF sgx_layout_doc, of ref_ext "[1, 2, 3]" sample_sgx2 empty_attrs]
  by (simp add: sample_sgx2_def sample_sgx_fields dcap_report_of_def) (simp add: sgx_layout_def)

end
