(* ===== verification/Tdx_Verifier.thy ===== *)
theory Tdx_Verifier
  imports Sgx2_Verifier
begin

unbundle bit_operations_syntax

text \<open>
  The TDX verifier (\<open>verification/tdx/tdx_verifier.cc\<close>). As for SGX the quote is raw bytes
  and the layout of \<open>sgx_quote4_t\<close>, \<open>sgx_quote5_t\<close> and \<open>sgx_report2_body_t\<close> is a parameter:
  the record \<open>tdx_sdk\<close>, which extends \<open>sgx_sdk\<close>. The main results are the attributes of a
  quote of version 4, which are read inside the quote, and the condition under which the same
  holds of version 5.
\<close>

section \<open>The Intel SDK for TDX\<close>

text \<open>
  Offsets of \<open>rb_\<close> fields are relative to the report body, the others to the quote.
  \<open>rb_rt_mr\<close> is the start of an array of four measurements.
\<close>

record tdx_sdk = sgx_sdk +
  sizeof_sgx_quote4_t :: nat
  sizeof_sgx_quote5_t :: nat
  sizeof_sgx_report2_body_t :: nat
  sizeof_tee_measurement_t :: nat
  q4_header_tee_type :: field
  q4_header_version :: field
  q4_report_body :: nat
  q5_body :: nat
  rb_mr_seam :: nat
  rb_mrsigner_seam :: nat
  rb_td_attributes :: nat
  rb_mr_td :: nat
  rb_mr_config_id :: nat
  rb_mr_owner :: nat
  rb_mr_owner_config :: nat
  rb_rt_mr :: nat
  rb_report_data :: nat
  tdx_qv_get_quote_supplemental_data_size :: "u32 option \<times> u32"
  tdx_qv_verify_quote :: "bytes \<Rightarrow> sgx_ql_qve_collateral_t \<Rightarrow> int \<Rightarrow> u32
    \<Rightarrow> u32 option \<times> sgx_ql_qv_result_t"

definition tdx_abi_doc :: "tdx_sdk \<Rightarrow> bool" where
  "tdx_abi_doc S \<longleftrightarrow>
     inside (sizeof_sgx_quote4_t S) (q4_header_tee_type S) \<and>
     inside (sizeof_sgx_quote4_t S) (q4_header_version S) \<and>
     inside (sizeof_sgx_quote4_t S) (q4_report_body S, sizeof_sgx_report2_body_t S) \<and>
     inside (sizeof_sgx_report2_body_t S) (rb_mr_seam S, sizeof_tee_measurement_t S) \<and>
     inside (sizeof_sgx_report2_body_t S) (rb_mrsigner_seam S, sizeof_tee_measurement_t S) \<and>
     inside (sizeof_sgx_report2_body_t S) (rb_mr_td S, sizeof_tee_measurement_t S) \<and>
     inside (sizeof_sgx_report2_body_t S) (rb_mr_config_id S, sizeof_tee_measurement_t S) \<and>
     inside (sizeof_sgx_report2_body_t S) (rb_mr_owner S, sizeof_tee_measurement_t S) \<and>
     inside (sizeof_sgx_report2_body_t S) (rb_mr_owner_config S, sizeof_tee_measurement_t S) \<and>
     inside (sizeof_sgx_report2_body_t S) (rb_rt_mr S, 4 * sizeof_tee_measurement_t S) \<and>
     inside (sizeof_sgx_report2_body_t S) (rb_td_attributes S, 8) \<and>
     inside (sizeof_sgx_report2_body_t S) (rb_report_data S, sizeof_sgx_report_data_t S) \<and>
     sizeof_sgx_report_data_t S = 64"

section \<open>The verifier\<close>

record tdx_verifier =
  tdx_report :: UnifiedAttestationReport
  tdx_quote :: bytes
  tdx_collateral :: SgxQlQveCollateral

definition Tdx_kReportDataSize :: nat where "Tdx_kReportDataSize = 64"
definition kIntelTeeTypeTdx :: nat where "kIntelTeeTypeTdx = 0x81"

definition Tdx_SetCollateral :: "string \<Rightarrow> string \<Rightarrow> (string \<times> u32) res" where
  "Tdx_SetCollateral name value =
     bindE (YACL_ENFORCE (value \<noteq> []) (fmt ''Invlaid collateral data: {}'' [name])) (\<lambda>_.
     Inr (value, word_of_nat (length value) + 1))"

definition Tdx_InitializeCollateralData ::
  "SgxQlQveCollateral \<Rightarrow> sgx_ql_qve_collateral_t res" where
  "Tdx_InitializeCollateralData collateral =
     bindE (Tdx_SetCollateral ''pck_crl_issuer_chain''
              (col_pck_crl_issuer_chain collateral)) (\<lambda>a.
     bindE (Tdx_SetCollateral ''root_ca_crl'' (col_root_ca_crl collateral)) (\<lambda>b.
     bindE (Tdx_SetCollateral ''pck_crl'' (col_pck_crl collateral)) (\<lambda>c.
     bindE (Tdx_SetCollateral ''tcb_info_issuer_chain''
              (col_tcb_info_issuer_chain collateral)) (\<lambda>d.
     bindE (Tdx_SetCollateral ''tcb_info'' (col_tcb_info collateral)) (\<lambda>e.
     bindE (Tdx_SetCollateral ''qe_identity_issuer_chain''
              (col_qe_identity_issuer_chain collateral)) (\<lambda>f.
     bindE (Tdx_SetCollateral ''qe_identity'' (col_qe_identity collateral)) (\<lambda>g.
     Inr \<lparr>cd_version = col_version collateral, cd_pck_crl_issuer_chain = a, cd_root_ca_crl = b,
          cd_pck_crl = c, cd_tcb_info_issuer_chain = d, cd_tcb_info = e,
          cd_qe_identity_issuer_chain = f, cd_qe_identity = g\<rparr>)))))))"

text \<open>A pointer into the quote is the offset it points to.\<close>

definition GetMrHex :: "ext \<Rightarrow> tdx_sdk \<Rightarrow> bytes \<Rightarrow> bytes \<Rightarrow> nat \<Rightarrow> string" where
  "GetMrHex X S quote after mr =
     BytesToHexString X (read_mem quote after mr (sizeof_tee_measurement_t S))"

definition ParseReportBodyPfMeasurements ::
  "ext \<Rightarrow> tdx_sdk \<Rightarrow> bytes \<Rightarrow> bytes \<Rightarrow> nat \<Rightarrow> string" where
  "ParseReportBodyPfMeasurements X S quote after report_body =
     GetMrHex X S quote after (report_body + rb_mr_seam S) @
     GetMrHex X S quote after (report_body + rb_mrsigner_seam S) @
     GetMrHex X S quote after (report_body + rb_mr_td S) @
     GetMrHex X S quote after (report_body + rb_mr_config_id S) @
     GetMrHex X S quote after (report_body + rb_mr_owner S) @
     GetMrHex X S quote after (report_body + rb_mr_owner_config S)"

definition rt_mr :: "tdx_sdk \<Rightarrow> nat \<Rightarrow> nat" where
  "rt_mr S i = rb_rt_mr S + i * sizeof_tee_measurement_t S"

definition ParseReportBodyBootMeasurements ::
  "ext \<Rightarrow> tdx_sdk \<Rightarrow> bytes \<Rightarrow> bytes \<Rightarrow> nat \<Rightarrow> string" where
  "ParseReportBodyBootMeasurements X S quote after report_body =
     GetMrHex X S quote after (report_body + rt_mr S 0) @
     GetMrHex X S quote after (report_body + rt_mr S 1)"

definition ParseReportBodyTaMeasurements ::
  "ext \<Rightarrow> tdx_sdk \<Rightarrow> bytes \<Rightarrow> bytes \<Rightarrow> nat \<Rightarrow> string" where
  "ParseReportBodyTaMeasurements X S quote after report_body =
     GetMrHex X S quote after (report_body + rt_mr S 2) @
     GetMrHex X S quote after (report_body + rt_mr S 3)"

text \<open>The report is parsed as a \<open>DcapReport\<close>, although the generator writes an \<open>IntelTdxReport\<close>.\<close>

definition Tdx_Init :: "ext \<Rightarrow> UnifiedAttestationReport \<Rightarrow> tdx_verifier res" where
  "Tdx_Init X report =
     bindE (YACL_ENFORCE (rep_str_report_version report = kReportVersion)
       (fmt ''Only version {} is supported, but {}''
          [kReportVersion, rep_str_report_version report])) (\<lambda>_.
     bindE (YACL_ENFORCE (rep_str_report_type report = kReportTypePassport)
       (fmt ''Only {} is supported now, but {}''
          [kReportTypePassport, rep_str_report_type report])) (\<lambda>_.
     bindE (YACL_ENFORCE (rep_str_tee_platform report = kPlatformTdx)
       (fmt ''It's not {} platfrom, input platform is {}''
          [kPlatformTdx, rep_str_tee_platform report])) (\<lambda>_.
     bindE (JSON2PB (dcap_of_json X) (rep_json_report report)) (\<lambda>dcap_report.
     bindE (decode64 X (dcap_b64_quote dcap_report)) (\<lambda>quote.
     bindE (if dcap_json_collateral dcap_report \<noteq> []
            then JSON2PB (collateral_of_json X) (dcap_json_collateral dcap_report)
            else Inr empty_collateral) (\<lambda>collateral.
     Inr \<lparr>tdx_report = report, tdx_quote = quote, tdx_collateral = collateral\<rparr>))))))"

definition Tdx_Create :: "ext \<Rightarrow> UnifiedAttestationReport \<Rightarrow> tdx_verifier res" where
  "Tdx_Create X report = Tdx_Init X report"

text \<open>The selection of the report body by the version of the quote.\<close>

definition Tdx_select_report_body :: "tdx_sdk \<Rightarrow> nat \<Rightarrow> nat res" where
  "Tdx_select_report_body S quote_version =
     (if quote_version = 4 then Inr (q4_report_body S)
      else if quote_version = 5 then Inr (q5_body S)
      else YACL_THROW (fmt ''Error version in TDX quote: {}'' [to_string quote_version]))"

definition Tdx_ParseUnifiedReport ::
  "ext \<Rightarrow> tdx_sdk \<Rightarrow> bytes \<Rightarrow> tdx_verifier \<Rightarrow> UnifiedAttestationAttributes
   \<Rightarrow> UnifiedAttestationAttributes res" where
  "Tdx_ParseUnifiedReport X S after v attrs0 =
     (let attrs = attrs0\<lparr>str_tee_platform := rep_str_tee_platform (tdx_report v)\<rparr>;
          quote = tdx_quote v in
      bindE (YACL_ENFORCE (sizeof_sgx_quote4_t S \<le> length quote)
        (fmt ''quote size:{} is less than sgx_quote4_t:{}''
           [to_string (length quote), to_string (sizeof_sgx_quote4_t S)])) (\<lambda>_.
      bindE (YACL_ENFORCE (sizeof_sgx_quote5_t S \<le> length quote)
        (fmt ''quote size:{} is less than sgx_quote5_t:{}''
           [to_string (length quote), to_string (sizeof_sgx_quote5_t S)])) (\<lambda>_.
      bindE (YACL_ENFORCE (le_nat (read_field quote after (q4_header_tee_type S)) = kIntelTeeTypeTdx)
        (''Error tee_type in quote: '' @
         fmt_X (le_nat (read_field quote after (q4_header_tee_type S))))) (\<lambda>_.
      let quote_version = le_nat (read_field quote after (q4_header_version S)) in
      bindE (Tdx_select_report_body S quote_version) (\<lambda>report_body.
      let attrs = attrs\<lparr>hex_platform_measurement :=
                          ParseReportBodyPfMeasurements X S quote after report_body,
                        hex_boot_measurement :=
                          ParseReportBodyBootMeasurements X S quote after report_body,
                        hex_ta_measurement :=
                          ParseReportBodyTaMeasurements X S quote after report_body\<rparr> in
      bindE (YACL_ENFORCE (Tdx_kReportDataSize = sizeof_sgx_report_data_t S)
        (fmt ''Report data size is not {}'' [to_string Tdx_kReportDataSize])) (\<lambda>_.
      let half_report_data_size = Tdx_kReportDataSize div 2;
          p_report_data = report_body + rb_report_data S;
          hex_user_data' = BytesToHexString X
            (read_mem quote after p_report_data half_report_data_size);
          hex_public_key_hash = BytesToHexString X
            (read_mem quote after (p_report_data + half_report_data_size) half_report_data_size);
          flags = (le_word (read_mem quote after (report_body + rb_td_attributes S) 8) :: u64);
          attrs = attrs\<lparr>hex_user_data := hex_user_data',
                        hex_hash_or_pem_pubkey := hex_public_key_hash\<rparr>
      in Inr (attrs\<lparr>bool_debug_disabled :=
           if flags AND SGX_FLAGS_DEBUG S = SGX_FLAGS_DEBUG S then ''false'' else ''true''\<rparr>)))))))"

definition Tdx_check_quote_verification_result ::
  "'a sgx_sdk_scheme \<Rightarrow> sgx_ql_qv_result_t \<Rightarrow> unit res" where
  "Tdx_check_quote_verification_result S r =
     (case r of
        SGX_QL_QV_RESULT_OK \<Rightarrow> Inr ()
      | SGX_QL_QV_RESULT_CONFIG_NEEDED \<Rightarrow> Inr ()
      | SGX_QL_QV_RESULT_OUT_OF_DATE \<Rightarrow> Inr ()
      | SGX_QL_QV_RESULT_OUT_OF_DATE_CONFIG_NEEDED \<Rightarrow> Inr ()
      | SGX_QL_QV_RESULT_SW_HARDENING_NEEDED \<Rightarrow> Inr ()
      | SGX_QL_QV_RESULT_CONFIG_AND_SW_HARDENING_NEEDED \<Rightarrow> Inr ()
      | _ \<Rightarrow> YACL_THROW (fmt ''Fail to verify dcap quote, quote verification result: {}''
               [to_string (unat (qv_result_code S r))]))"

definition Tdx_VerifyPlatform :: "tdx_sdk \<Rightarrow> int \<Rightarrow> tdx_verifier \<Rightarrow> unit res" where
  "Tdx_VerifyPlatform S current_time v =
     bindE (Tdx_InitializeCollateralData (tdx_collateral v)) (\<lambda>collateral_data.
     let (dcap_ret, supplemental_data_size) = tdx_qv_get_quote_supplemental_data_size S in
     bindE (YACL_ENFORCE (dcap_ret = None)
       (fmt ''Fail to get supplemental data size, error code: {}''
          [to_string (quote3_error dcap_ret)])) (\<lambda>_.
     bindE (YACL_ENFORCE (unat supplemental_data_size = sizeof_sgx_ql_qv_supplemental_t S)
       (''Size is not same with header definition in SGX SDK, please make sure '' @
        ''you are using same version of SGX SDK and DCAP QVL.'')) (\<lambda>_.
     let (dcap_ret, quote_verification_result) =
           tdx_qv_verify_quote S (tdx_quote v) collateral_data current_time
             supplemental_data_size in
     bindE (YACL_ENFORCE (dcap_ret = None)
       (''Fail to verify dcap quote, error code: '' @ fmt_x (quote3_error dcap_ret))) (\<lambda>_.
     Tdx_check_quote_verification_result S quote_verification_result))))"

section \<open>Equivalence with the SGX helpers\<close>

text \<open>
  The file repeats three helpers of the SGX verifier; they compute the same functions, so the
  lemmas about those carry over.
\<close>

lemma Tdx_SetCollateral_eq: "Tdx_SetCollateral = SetCollateral"
  by (simp add: fun_eq_iff Tdx_SetCollateral_def SetCollateral_def)

lemma Tdx_InitializeCollateralData_eq: "Tdx_InitializeCollateralData = InitializeCollateralData"
  by (simp add: fun_eq_iff Tdx_InitializeCollateralData_def InitializeCollateralData_def
      Tdx_SetCollateral_eq)

lemma Tdx_check_quote_verification_result_eq:
  "Tdx_check_quote_verification_result = check_quote_verification_result"
  by (simp add: fun_eq_iff Tdx_check_quote_verification_result_def
      check_quote_verification_result_def)

lemmas tdx_helper_eqs =
  Tdx_SetCollateral_eq Tdx_InitializeCollateralData_eq Tdx_check_quote_verification_result_eq

section \<open>Platform verification\<close>

lemma Tdx_VerifyPlatform_iff:
  "Tdx_VerifyPlatform S t v = Inr () \<longleftrightarrow>
     collateral_complete (tdx_collateral v) \<and>
     (\<exists>sz r. tdx_qv_get_quote_supplemental_data_size S = (None, sz) \<and>
        unat sz = sizeof_sgx_ql_qv_supplemental_t S \<and>
        tdx_qv_verify_quote S (tdx_quote v) (collateral_view (tdx_collateral v)) t sz
          = (None, r) \<and>
        acceptable_result r)"
  by (auto simp: Tdx_VerifyPlatform_def tdx_helper_eqs exn_simps split: prod.splits)

lemma Tdx_VerifyPlatform_no_crash: "no_crash (Tdx_VerifyPlatform S t v)"
  unfolding Tdx_VerifyPlatform_def tdx_helper_eqs
  by (auto intro!: no_crash_bindE no_crash_InitializeCollateralData split: prod.splits)

section \<open>Attributes\<close>

text \<open>Where the report body of a quote starts, by the version in its header.\<close>

definition tdx_body :: "tdx_sdk \<Rightarrow> bytes \<Rightarrow> nat option" where
  "tdx_body S q =
     (let ver = le_nat (subbytes (fst (q4_header_version S)) (snd (q4_header_version S)) q) in
      if ver = 4 then Some (q4_report_body S) else if ver = 5 then Some (q5_body S) else None)"

definition tdx_header_ok :: "tdx_sdk \<Rightarrow> bytes \<Rightarrow> bool" where
  "tdx_header_ok S q \<longleftrightarrow>
     sizeof_sgx_quote4_t S \<le> length q \<and> sizeof_sgx_quote5_t S \<le> length q \<and>
     le_nat (subbytes (fst (q4_header_tee_type S)) (snd (q4_header_tee_type S)) q) = 0x81"

definition tdx_mr :: "ext \<Rightarrow> tdx_sdk \<Rightarrow> bytes \<Rightarrow> nat \<Rightarrow> string" where
  "tdx_mr X S q off = BytesToHexString X (subbytes off (sizeof_tee_measurement_t S) q)"

definition tdx_flags :: "tdx_sdk \<Rightarrow> bytes \<Rightarrow> nat \<Rightarrow> u64" where
  "tdx_flags S q b = le_word (subbytes (b + rb_td_attributes S) 8 q)"

definition tdx_debug :: "tdx_sdk \<Rightarrow> bytes \<Rightarrow> nat \<Rightarrow> bool" where
  "tdx_debug S q b \<longleftrightarrow> tdx_flags S q b AND SGX_FLAGS_DEBUG S = SGX_FLAGS_DEBUG S"

definition tdx_attrs ::
  "ext \<Rightarrow> tdx_sdk \<Rightarrow> string \<Rightarrow> bytes \<Rightarrow> nat \<Rightarrow> UnifiedAttestationAttributes
   \<Rightarrow> UnifiedAttestationAttributes" where
  "tdx_attrs X S plat q b a = a\<lparr>
     str_tee_platform := plat,
     hex_platform_measurement :=
       tdx_mr X S q (b + rb_mr_seam S) @ tdx_mr X S q (b + rb_mrsigner_seam S) @
       tdx_mr X S q (b + rb_mr_td S) @ tdx_mr X S q (b + rb_mr_config_id S) @
       tdx_mr X S q (b + rb_mr_owner S) @ tdx_mr X S q (b + rb_mr_owner_config S),
     hex_boot_measurement :=
       tdx_mr X S q (b + rt_mr S 0) @ tdx_mr X S q (b + rt_mr S 1),
     hex_ta_measurement :=
       tdx_mr X S q (b + rt_mr S 2) @ tdx_mr X S q (b + rt_mr S 3),
     hex_user_data := BytesToHexString X (subbytes (b + rb_report_data S) 32 q),
     hex_hash_or_pem_pubkey := BytesToHexString X (subbytes (b + rb_report_data S + 32) 32 q),
     bool_debug_disabled := (if tdx_debug S q b then ''false'' else ''true'')\<rparr>"

lemma Tdx_parse_header:
  assumes "tdx_abi_doc S" and "sizeof_sgx_quote4_t S \<le> length q"
  shows "read_field q after (q4_header_tee_type S) =
      subbytes (fst (q4_header_tee_type S)) (snd (q4_header_tee_type S)) q"
    and "read_field q after (q4_header_version S) =
      subbytes (fst (q4_header_version S)) (snd (q4_header_version S)) q"
  using assms by (simp_all add: tdx_abi_doc_def inside_def read_field_def read_mem_inside)

lemma GetMrHex_inside:
  assumes "tdx_abi_doc S" and "b + sizeof_sgx_report2_body_t S \<le> length q"
  shows "GetMrHex X S q after (b + rb_mr_seam S) = tdx_mr X S q (b + rb_mr_seam S)"
    and "GetMrHex X S q after (b + rb_mrsigner_seam S) = tdx_mr X S q (b + rb_mrsigner_seam S)"
    and "GetMrHex X S q after (b + rb_mr_td S) = tdx_mr X S q (b + rb_mr_td S)"
    and "GetMrHex X S q after (b + rb_mr_config_id S) = tdx_mr X S q (b + rb_mr_config_id S)"
    and "GetMrHex X S q after (b + rb_mr_owner S) = tdx_mr X S q (b + rb_mr_owner S)"
    and "GetMrHex X S q after (b + rb_mr_owner_config S) =
      tdx_mr X S q (b + rb_mr_owner_config S)"
    and "i < 4 \<Longrightarrow> GetMrHex X S q after (b + rt_mr S i) = tdx_mr X S q (b + rt_mr S i)"
proof -
  have mr: "GetMrHex X S q after (b + off) = tdx_mr X S q (b + off)"
    if "inside (sizeof_sgx_report2_body_t S) (off, sizeof_tee_measurement_t S)" for off
    using that assms(2) by (simp add: GetMrHex_def tdx_mr_def inside_def read_mem_inside)
  show "GetMrHex X S q after (b + rb_mr_seam S) = tdx_mr X S q (b + rb_mr_seam S)"
    and "GetMrHex X S q after (b + rb_mrsigner_seam S) = tdx_mr X S q (b + rb_mrsigner_seam S)"
    and "GetMrHex X S q after (b + rb_mr_td S) = tdx_mr X S q (b + rb_mr_td S)"
    and "GetMrHex X S q after (b + rb_mr_config_id S) = tdx_mr X S q (b + rb_mr_config_id S)"
    and "GetMrHex X S q after (b + rb_mr_owner S) = tdx_mr X S q (b + rb_mr_owner S)"
    and "GetMrHex X S q after (b + rb_mr_owner_config S) =
      tdx_mr X S q (b + rb_mr_owner_config S)"
    using assms(1) by (auto simp: tdx_abi_doc_def intro!: mr)
  show "GetMrHex X S q after (b + rt_mr S i) = tdx_mr X S q (b + rt_mr S i)" if "i < 4"
  proof (rule mr)
    have "(i + 1) * sizeof_tee_measurement_t S \<le> 4 * sizeof_tee_measurement_t S"
      using that by (intro mult_le_mono1) simp
    then have "i * sizeof_tee_measurement_t S + sizeof_tee_measurement_t S
        \<le> 4 * sizeof_tee_measurement_t S"
      by (simp only: add_mult_distrib mult_1)
    moreover have "rb_rt_mr S + 4 * sizeof_tee_measurement_t S \<le> sizeof_sgx_report2_body_t S"
      using assms(1) by (simp add: tdx_abi_doc_def inside_def)
    ultimately show "inside (sizeof_sgx_report2_body_t S) (rt_mr S i, sizeof_tee_measurement_t S)"
      unfolding inside_def rt_mr_def fst_conv snd_conv by linarith
  qed
qed

text \<open>The result when the report body lies inside the quote.\<close>

lemma Tdx_ParseUnifiedReport_inside:
  assumes abi: "tdx_abi_doc S" and hdr: "tdx_header_ok S (tdx_quote v)"
    and body: "tdx_body S (tdx_quote v) = Some b"
    and len: "b + sizeof_sgx_report2_body_t S \<le> length (tdx_quote v)"
  shows "Tdx_ParseUnifiedReport X S after v a =
    Inr (tdx_attrs X S (rep_str_tee_platform (tdx_report v)) (tdx_quote v) b a)"
proof -
  let ?q = "tdx_quote v"
  note field = Tdx_parse_header [OF abi, of ?q after] and mrs = GetMrHex_inside [OF abi len]
  have rd: "read_mem ?q after (b + rb_td_attributes S) 8 =
      subbytes (b + rb_td_attributes S) 8 ?q"
    "read_mem ?q after (b + rb_report_data S) 32 = subbytes (b + rb_report_data S) 32 ?q"
    "read_mem ?q after (b + rb_report_data S + 32) 32 =
      subbytes (b + rb_report_data S + 32) 32 ?q"
    using abi len by (auto simp: tdx_abi_doc_def inside_def intro!: read_mem_inside)
  have sz: "sizeof_sgx_report_data_t S = 64" using abi by (simp add: tdx_abi_doc_def)
  have ver: "Tdx_select_report_body S
      (le_nat (subbytes (fst (q4_header_version S)) (snd (q4_header_version S)) ?q)) = Inr b"
    using body by (auto simp: tdx_body_def Tdx_select_report_body_def Let_def split: if_splits)
  show ?thesis
    using hdr unfolding tdx_header_ok_def
    by (simp add: Tdx_ParseUnifiedReport_def Let_def field ver sz rd mrs kIntelTeeTypeTdx_def
        Tdx_kReportDataSize_def ParseReportBodyPfMeasurements_def
        ParseReportBodyBootMeasurements_def ParseReportBodyTaMeasurements_def tdx_attrs_def
        tdx_debug_def tdx_flags_def)
qed

lemma Tdx_ParseUnifiedReport_v4:
  assumes "tdx_abi_doc S" and "tdx_header_ok S (tdx_quote v)"
    and "le_nat (subbytes (fst (q4_header_version S)) (snd (q4_header_version S))
           (tdx_quote v)) = 4"
  shows "Tdx_ParseUnifiedReport X S after v a =
    Inr (tdx_attrs X S (rep_str_tee_platform (tdx_report v)) (tdx_quote v)
           (q4_report_body S) a)"
proof (rule Tdx_ParseUnifiedReport_inside [OF assms(1,2)])
  show "tdx_body S (tdx_quote v) = Some (q4_report_body S)"
    using assms(3) by (simp add: tdx_body_def)
  show "q4_report_body S + sizeof_sgx_report2_body_t S \<le> length (tdx_quote v)"
    using assms(1,2) by (simp add: tdx_abi_doc_def inside_def tdx_header_ok_def)
qed

lemma Tdx_ParseUnifiedReport_eq_Inr:
  assumes "tdx_abi_doc S" and "Tdx_ParseUnifiedReport X S after v a = Inr a'"
  shows "tdx_header_ok S (tdx_quote v) \<and> tdx_body S (tdx_quote v) \<noteq> None"
proof -
  have len: "sizeof_sgx_quote4_t S \<le> length (tdx_quote v)"
    using assms(2) by (auto simp: Tdx_ParseUnifiedReport_def Let_def exn_simps)
  show ?thesis
    using assms(2) Tdx_parse_header [OF assms(1) len]
    by (auto simp: Tdx_ParseUnifiedReport_def Let_def exn_simps tdx_header_ok_def tdx_body_def
        Tdx_select_report_body_def kIntelTeeTypeTdx_def split: if_splits)
qed

lemma Tdx_ParseUnifiedReport_platform:
  "Tdx_ParseUnifiedReport X S after v a = Inr a' \<Longrightarrow>
   str_tee_platform a' = rep_str_tee_platform (tdx_report v)"
  unfolding Tdx_ParseUnifiedReport_def Let_def
  by (auto elim!: bindE_InrE)

lemma no_crash_Tdx_select_report_body [simp]: "no_crash (Tdx_select_report_body S k)"
  by (simp add: Tdx_select_report_body_def)

lemma Tdx_ParseUnifiedReport_no_crash: "no_crash (Tdx_ParseUnifiedReport X S after v a)"
  by (auto simp: Tdx_ParseUnifiedReport_def Let_def intro!: no_crash_bindE)

lemma Tdx_Create_eq_Inr:
  "Tdx_Create X r = Inr v \<longleftrightarrow>
     rep_str_report_version r = kReportVersion \<and> rep_str_report_type r = kReportTypePassport \<and>
     rep_str_tee_platform r = kPlatformTdx \<and>
     (\<exists>d q c. dcap_of_json X (rep_json_report r) = Inr d \<and>
        base64_decode X (dcap_b64_quote d) = Some q \<and>
        (if dcap_json_collateral d = [] then c = empty_collateral
         else collateral_of_json X (dcap_json_collateral d) = Inr c) \<and>
        v = \<lparr>tdx_report = r, tdx_quote = q, tdx_collateral = c\<rparr>)"
  by (auto simp: Tdx_Create_def Tdx_Init_def exn_simps split: if_splits)

lemma Tdx_Create_no_crash: "no_crash (Tdx_Create X r)"
  by (auto simp: Tdx_Create_def Tdx_Init_def intro!: no_crash_bindE)

interpretation tdx: attestation_verifier "Tdx_Create X" "Tdx_VerifyPlatform S t"
    "Tdx_ParseUnifiedReport X S after" tdx_report kPlatformTdx
  for X S t after
  by unfold_locales
     (auto simp: Tdx_Create_eq_Inr Tdx_ParseUnifiedReport_platform Tdx_Create_no_crash
       Tdx_VerifyPlatform_no_crash Tdx_ParseUnifiedReport_no_crash)

section \<open>A concrete layout\<close>

text \<open>
  The layout of the TDX structures in the Intel SDK, where the fields of \<open>sgx_quote5_t\<close>
  before the body are shorter than the ones of a version 4 quote with its body.
\<close>

definition tdx_layout :: tdx_sdk where
  "tdx_layout = sgx_sdk.extend sgx_layout
     \<lparr>sizeof_sgx_quote4_t = 636, sizeof_sgx_quote5_t = 54, sizeof_sgx_report2_body_t = 584,
      sizeof_tee_measurement_t = 48, q4_header_tee_type = (4, 4), q4_header_version = (0, 2),
      q4_report_body = 48, q5_body = 54, rb_mr_seam = 16, rb_mrsigner_seam = 64,
      rb_td_attributes = 120, rb_mr_td = 136, rb_mr_config_id = 184, rb_mr_owner = 232,
      rb_mr_owner_config = 280, rb_rt_mr = 328, rb_report_data = 520,
      tdx_qv_get_quote_supplemental_data_size = (None, 536),
      tdx_qv_verify_quote = (\<lambda>q c t n. (None, SGX_QL_QV_RESULT_OK))\<rparr>"

lemma tdx_layout_doc [simp]: "tdx_abi_doc tdx_layout"
  by (simp add: tdx_abi_doc_def tdx_layout_def sgx_layout_def sgx_sdk.extend_def inside_def)

lemma Tdx_Create_report_of:
  "Tdx_Create ref_ext (dcap_report_of kPlatformTdx q) =
   Inr \<lparr>tdx_report = dcap_report_of kPlatformTdx q, tdx_quote = q,
        tdx_collateral = sample_collateral\<rparr>"
  using dcap_report_of_parse [of kPlatformTdx q]
  by (auto simp: Tdx_Create_eq_Inr) (auto simp: dcap_report_of_def)

definition tdx_mr_bytes :: "tdx_sdk \<Rightarrow> bytes \<Rightarrow> nat \<Rightarrow> bytes" where
  "tdx_mr_bytes S q off = subbytes off (sizeof_tee_measurement_t S) q"

lemma tdx_mr_eq: "tdx_mr X S q off = BytesToHexString X (tdx_mr_bytes S q off)"
  by (simp add: tdx_mr_def tdx_mr_bytes_def)

definition tdx_header :: "byte \<Rightarrow> bytes" where
  "tdx_header ver = [ver, 0, 0, 0, 0x81, 0, 0, 0] @ zeros 40"

definition sample_tdx_quote :: "byte \<Rightarrow> bytes \<Rightarrow> bytes" where
  "sample_tdx_quote ver body = tdx_header ver @ body @ zeros (588 - length body)"

definition sample_tdx :: "bytes \<Rightarrow> tdx_verifier" where
  "sample_tdx q = \<lparr>tdx_report = dcap_report_of kPlatformTdx q, tdx_quote = q,
     tdx_collateral = sample_collateral\<rparr>"

lemma sample_tdx_quote_header:
  assumes "length body \<le> 588"
  shows "length (sample_tdx_quote ver body) = 636"
    and "take 2 (sample_tdx_quote ver body) = [ver, 0]"
    and "tdx_header_ok tdx_layout (sample_tdx_quote ver body)"
    and "tdx_body tdx_layout (sample_tdx_quote 4 body) = Some 48"
  using assms
  by (simp_all add: sample_tdx_quote_def tdx_header_def tdx_header_ok_def tdx_body_def
      tdx_layout_def sgx_sdk.extend_def subbytes_def)

lemma sample_tdx_accepted:
  "VerifyReport ref_ext (Tdx_VerifyPlatform tdx_layout t)
     (Tdx_ParseUnifiedReport ref_ext tdx_layout after)
     (sample_tdx (sample_tdx_quote 4 (zeros 520 @ replicate 32 0x11)))
     \<lparr>main_attributes = [empty_attrs\<lparr>hex_user_data :=
        BytesToHexString ref_ext (replicate 32 0x11)\<rparr>]\<rparr> = Inr ()"
proof -
  let ?q = "sample_tdx_quote 4 (zeros 520 @ replicate 32 0x11)" and ?v = "sample_tdx
    (sample_tdx_quote 4 (zeros 520 @ replicate 32 0x11))"
  have plat: "Tdx_VerifyPlatform tdx_layout t ?v = Inr ()"
    by (simp add: Tdx_VerifyPlatform_iff sample_tdx_def tdx_layout_def sgx_sdk.extend_def
        sgx_layout_def acceptable_result_def)
  let ?a = "tdx_attrs ref_ext tdx_layout kPlatformTdx ?q 48 empty_attrs"
  have parse: "Tdx_ParseUnifiedReport ref_ext tdx_layout after ?v empty_attrs = Inr ?a"
    using Tdx_ParseUnifiedReport_inside [of tdx_layout ?v 48 ref_ext after empty_attrs]
    by (simp add: sample_tdx_quote_header sample_tdx_def dcap_report_of_def)
       (simp add: tdx_layout_def sgx_sdk.extend_def)
  have "hex_user_data ?a = BytesToHexString ref_ext (replicate 32 0x11)"
    by (simp add: tdx_attrs_def)
       (simp add: tdx_layout_def sgx_sdk.extend_def sample_tdx_quote_def tdx_header_def
          subbytes_def)
  then have "attrs_match ref_ext ?a
      (empty_attrs\<lparr>hex_user_data := BytesToHexString ref_ext (replicate 32 0x11)\<rparr>)"
    by (simp add: attrs_match_def early_strings_ok_def svn_debug_ok_def late_strings_ok_def
        str_ok_def pubkey_ok_def svn_ok_def bool_ok_def EqualsIgnoreCase_refl)
  then show ?thesis using plat parse by (simp add: tdx.VerifyReport_iff)
qed

section \<open>Properties\<close>

text \<open>
  \<^bold>\<open>C8\<close>. Soundness of the acceptance of a TDX report whose report body lies inside the quote,
  as it does for every quote of version 4. If \<open>VerifyReport\<close> returns, the quote verification
  library accepted the quote, and one policy entry is enforced on its bytes: a pinned platform
  measurement is the concatenation of the six platform registers, the pinned boot measurement
  that of RTMR0 and RTMR1, the pinned application measurement that of RTMR2 and RTMR3, and
  pinned user data is the first half of the report data.
\<close>

theorem Tdx_accepted_sound:
  assumes abi: "tdx_abi_doc S" and absl: "absl_doc X" and create: "Tdx_Create X r = Inr v"
    and body: "tdx_body S (tdx_quote v) = Some b"
      "b + sizeof_sgx_report2_body_t S \<le> length (tdx_quote v)"
    and ok: "VerifyReport X (Tdx_VerifyPlatform S t) (Tdx_ParseUnifiedReport X S after) v policy
      = Inr ()"
  shows "\<exists>e \<in> set (main_attributes policy).
    (\<exists>sz res. tdx_qv_verify_quote S (tdx_quote v) (collateral_view (tdx_collateral v)) t sz
        = (None, res) \<and> acceptable_result res \<and> collateral_complete (tdx_collateral v)) \<and>
    (\<forall>m. m \<noteq> [] \<and> hex_platform_measurement e = BytesToHexString X m \<longrightarrow>
       concat (map (\<lambda>off. tdx_mr_bytes S (tdx_quote v) (b + off))
         [rb_mr_seam S, rb_mrsigner_seam S, rb_mr_td S, rb_mr_config_id S, rb_mr_owner S,
          rb_mr_owner_config S]) = m) \<and>
    (\<forall>m. m \<noteq> [] \<and> hex_boot_measurement e = BytesToHexString X m \<longrightarrow>
       concat (map (\<lambda>i. tdx_mr_bytes S (tdx_quote v) (b + rt_mr S i)) [0, 1]) = m) \<and>
    (\<forall>m. m \<noteq> [] \<and> hex_ta_measurement e = BytesToHexString X m \<longrightarrow>
       concat (map (\<lambda>i. tdx_mr_bytes S (tdx_quote v) (b + rt_mr S i)) [2, 3]) = m) \<and>
    (\<forall>m. m \<noteq> [] \<and> hex_user_data e = BytesToHexString X m \<longrightarrow>
       subbytes (b + rb_report_data S) 32 (tdx_quote v) = m)"
proof -
  obtain attrs e where plat: "Tdx_VerifyPlatform S t v = Inr ()"
    and parse: "Tdx_ParseUnifiedReport X S after v empty_attrs = Inr attrs"
    and e: "e \<in> set (main_attributes policy)" and m: "attrs_match X attrs e"
    using tdx.VerifyReport_sound [OF create ok] by blast
  have attrs: "attrs = tdx_attrs X S (rep_str_tee_platform (tdx_report v)) (tdx_quote v) b
      empty_attrs"
    using parse Tdx_ParseUnifiedReport_eq_Inr [OF abi parse]
    by (simp add: Tdx_ParseUnifiedReport_inside [OF abi _ body])
  note D = attrs_matchD [OF m, unfolded attrs tdx_attrs_def tdx_mr_eq
      BytesToHexString_append [OF absl, symmetric], simplified]
  show ?thesis
    using e plat D(2,3,4,8)
    by (intro bexI [of _ e]) (auto simp: Tdx_VerifyPlatform_iff str_ok_hex [OF absl])
qed

theorem Tdx_accepted_sound_witness:
  "subbytes 568 32 (sample_tdx_quote 4 (zeros 520 @ replicate 32 0x11)) = replicate 32 0x11"
proof -
  let ?q = "sample_tdx_quote 4 (zeros 520 @ replicate 32 0x11)"
  have len: "length (zeros 520 @ replicate 32 (0x11 :: byte)) \<le> 588" by simp
  have create: "Tdx_Create ref_ext (dcap_report_of kPlatformTdx ?q) = Inr (sample_tdx ?q)"
    by (simp add: Tdx_Create_report_of sample_tdx_def)
  have body: "tdx_body tdx_layout (tdx_quote (sample_tdx ?q)) = Some 48"
    "48 + sizeof_sgx_report2_body_t tdx_layout \<le> length (tdx_quote (sample_tdx ?q))"
    using sample_tdx_quote_header(1,4) [OF len]
    by (simp_all add: sample_tdx_def) (simp add: tdx_layout_def sgx_sdk.extend_def)
  have "replicate 32 (0x11 :: byte) \<noteq> []" by simp
  then have "subbytes (48 + rb_report_data tdx_layout) 32 ?q = replicate 32 0x11"
    using Tdx_accepted_sound [OF tdx_layout_doc ref_absl_doc create body sample_tdx_accepted]
    by (auto simp: sample_tdx_def dest!: spec [of _ "replicate 32 0x11"])
  then show ?thesis by (simp add: tdx_layout_def sgx_sdk.extend_def)
qed



text \<open>
  The debug attribute of a TDX report ignores the debug bit of the TD attributes. It is
  computed with the mask of the SGX debug flag, which is bit 1; a version 4 quote of a
  debuggable trust domain, whose TD attributes are just bit 0, is reported as having debug
  disabled.
\<close>

lemma tdx_debug_bit_ignored:
  assumes "tdx_header_ok tdx_layout (tdx_quote v)" and "take 2 (tdx_quote v) = [4, 0]"
    and "tdx_flags tdx_layout (tdx_quote v) 48 = 1"
  shows "\<exists>attrs. Tdx_ParseUnifiedReport X tdx_layout after v a = Inr attrs \<and>
    bool_debug_disabled attrs = ''true''"
proof -
  have "le_nat (subbytes (fst (q4_header_version tdx_layout)) (snd (q4_header_version tdx_layout))
      (tdx_quote v)) = 4"
    using assms(2) by (simp add: tdx_layout_def sgx_sdk.extend_def subbytes_def)
  moreover have "q4_report_body tdx_layout = 48" "SGX_FLAGS_DEBUG tdx_layout = 2"
    by (simp_all add: tdx_layout_def sgx_sdk.extend_def sgx_layout_def)
  ultimately show ?thesis
    using assms(1,3)
    by (simp add: Tdx_ParseUnifiedReport_v4 tdx_attrs_def tdx_debug_def)
qed

lemma tdx_debug_bit_ignored_witness:
  "\<exists>attrs. Tdx_ParseUnifiedReport ref_ext tdx_layout []
      (sample_tdx (sample_tdx_quote 4 (zeros 120 @ [1]))) empty_attrs = Inr attrs \<and>
    bool_debug_disabled attrs = ''true''"
proof -
  have "tdx_flags tdx_layout (sample_tdx_quote 4 (zeros 120 @ [1])) 48 = 1"
    by (simp add: tdx_flags_def tdx_layout_def sgx_sdk.extend_def sample_tdx_quote_def
        tdx_header_def subbytes_def le_word_def)
  then show ?thesis
    using tdx_debug_bit_ignored [of "sample_tdx (sample_tdx_quote 4 (zeros 120 @ [1]))"
        ref_ext "[]" empty_attrs] sample_tdx_quote_header(1-3) [of "zeros 120 @ [1]" 4]
    by (simp add: sample_tdx_def)
qed

end
