(* ===== verification/C_Buffers.thy ===== *)
theory C_Buffers
  imports Ual_Messages
begin

text \<open>
  The buffers of the C API, which the verification and the generation wrappers share
  (\<open>verification/wrapper/verifier_wrapper_c_api.cc\<close> and
  \<open>generation/wrapper/generator_wrapper_c_api.cc\<close>): \<open>strncpy\<close>, the \<open>catch\<close> clauses that fill
  the message buffers, and the final termination of the strings.
\<close>

section \<open>The code\<close>

text \<open>
  A buffer of the caller with its length variable. The contract of the caller is that the
  length is not above the size of the memory.
\<close>

record c_buffer =
  cb_mem :: string
  cb_len :: u32

definition buffer_ok :: "c_buffer \<Rightarrow> bool" where
  "buffer_ok b \<longleftrightarrow> unat (cb_len b) \<le> length (cb_mem b)"

abbreviation NUL :: char where "NUL \<equiv> CHR 0x00"

definition strlen :: "string \<Rightarrow> nat" where
  "strlen s = length (takeWhile (\<lambda>c. c \<noteq> NUL) s)"

text \<open>
  \<open>strncpy\<close>: at most \<open>n\<close> characters of the C string \<open>src\<close>, filled up with zeros to \<open>n\<close>;
  the rest of the destination stays.
\<close>

definition strncpy :: "string \<Rightarrow> string \<Rightarrow> nat \<Rightarrow> string" where
  "strncpy dst src n =
     (let s = take n (takeWhile (\<lambda>c. c \<noteq> NUL) src) in
      s @ replicate (n - length s) NUL @ drop n dst)"

definition put_str :: "string \<Rightarrow> c_buffer \<Rightarrow> c_buffer" where
  "put_str s b = b\<lparr>cb_mem := strncpy (cb_mem b) s (unat (cb_len b))\<rparr>"

text \<open>\<open>ensure ... end with '\0'\<close>: the last step of every function of the C API.\<close>

definition end_with_nul :: "c_buffer \<Rightarrow> c_buffer" where
  "end_with_nul b =
     (if 0 < cb_len b
      then let mem = (cb_mem b)[unat (cb_len b) - 1 := NUL]
           in \<lparr>cb_mem = mem, cb_len = word_of_nat (strlen mem + 1)\<rparr>
      else b)"

text \<open>The \<open>catch\<close> clauses: the error code and the two buffers.\<close>

definition c_handlers ::
  "(exn \<Rightarrow> string) \<Rightarrow> exn \<Rightarrow> c_buffer \<Rightarrow> c_buffer \<Rightarrow> (int \<times> c_buffer \<times> c_buffer) res" where
  "c_handlers stack_trace ex msg det =
     (case ex of
        Exn Yacl_ArgumentError what \<Rightarrow>
          Inr (error_code kArgumentError, put_str what msg, put_str (stack_trace ex) det)
      | Exn Yacl_InvalidFormat what \<Rightarrow>
          Inr (error_code kInvalidFormat, put_str what msg, put_str (stack_trace ex) det)
      | Exn Yacl_Exception what \<Rightarrow>
          Inr (error_code kInternalError, put_str what msg, put_str (stack_trace ex) det)
      | Exn Std_exception what \<Rightarrow> Inr (error_code kInternalError, put_str what msg, det)
      | Null_deref \<Rightarrow> Inl Null_deref)"

section \<open>Bounds and contents\<close>

lemma strlen_le: "i < length s \<Longrightarrow> s ! i = NUL \<Longrightarrow> strlen s \<le> i"
  unfolding strlen_def by (metis (mono_tags, lifting) linorder_not_less nth_mem set_takeWhileD
      takeWhile_nth)

lemma strncpy_frame:
  "n \<le> length dst \<Longrightarrow> length (strncpy dst s n) = length dst \<and> drop n (strncpy dst s n) = drop n dst"
  by (auto simp: strncpy_def Let_def)

text \<open>
  What a call leaves of a message buffer \<open>b\<close> of the caller: the memory has its size, nothing
  behind the length the caller gave is written, and unless that length is zero, the contents
  are a terminated string and the length variable is the size of that string with its
  terminator, not above the length given.
\<close>

definition buffer_result :: "c_buffer \<Rightarrow> c_buffer \<Rightarrow> bool" where
  "buffer_result b b' \<longleftrightarrow>
     length (cb_mem b') = length (cb_mem b) \<and>
     drop (unat (cb_len b)) (cb_mem b') = drop (unat (cb_len b)) (cb_mem b) \<and>
     (cb_len b \<noteq> 0 \<longrightarrow>
        unat (cb_len b') = strlen (cb_mem b') + 1 \<and> unat (cb_len b') \<le> unat (cb_len b))"

lemma end_with_nul_result:
  assumes "buffer_ok b"
  shows "buffer_result b (end_with_nul b)"
proof (cases "cb_len b = 0")
  case True
  then show ?thesis by (simp add: buffer_result_def end_with_nul_def)
next
  case False
  let ?n = "unat (cb_len b)" and ?mem = "(cb_mem b)[unat (cb_len b) - 1 := NUL]"
  have n: "0 < ?n" "?n \<le> length (cb_mem b)" "?n < 2 ^ 32"
    using False assms unsigned_less [of "cb_len b", where ?'a = nat]
    by (simp_all add: buffer_ok_def unat_gt_0)
  then have len: "strlen ?mem \<le> ?n - 1" by (intro strlen_le) simp_all
  then have "strlen ?mem + 1 < 2 ^ 32" using n by linarith
  then have "unat (word_of_nat (strlen ?mem + 1) :: u32) = strlen ?mem + 1"
    unfolding unat_of_nat by simp
  then show ?thesis
    using False len n
    by (simp add: end_with_nul_def Let_def buffer_result_def word_greater_zero_iff)
qed

lemma end_with_nul_put_str:
  assumes "buffer_ok b"
  shows "buffer_result b (end_with_nul (put_str s b))"
proof -
  have f: "length (cb_mem (put_str s b)) = length (cb_mem b)"
    "drop (unat (cb_len b)) (cb_mem (put_str s b)) = drop (unat (cb_len b)) (cb_mem b)"
    "cb_len (put_str s b) = cb_len b"
    using assms strncpy_frame [of "unat (cb_len b)" "cb_mem b" s]
    by (simp_all add: put_str_def buffer_ok_def)
  then have "buffer_result (put_str s b) (end_with_nul (put_str s b))"
    using assms by (intro end_with_nul_result) (simp add: buffer_ok_def)
  then show ?thesis using f by (auto simp: buffer_result_def)
qed

text \<open>The string a buffer holds after a message was stored: the message, cut to fit.\<close>

lemma takeWhile_update:
  "n < length xs \<Longrightarrow> \<not> P z \<Longrightarrow> takeWhile P (xs[n := z]) = take n (takeWhile P xs)"
proof (induction xs arbitrary: n)
  case (Cons x xs)
  then show ?case by (cases n) simp_all
qed simp

lemma takeWhile_strncpy:
  assumes "0 < n" and "n \<le> length dst"
  shows "takeWhile (\<lambda>c. c \<noteq> NUL) ((strncpy dst s n)[n - 1 := NUL]) =
    take (n - 1) (takeWhile (\<lambda>c. c \<noteq> NUL) s)"
proof -
  let ?P = "\<lambda>c. c \<noteq> NUL" and ?t = "takeWhile (\<lambda>c. c \<noteq> NUL) s"
  let ?k = "n - length (take n ?t)"
  have all: "c \<noteq> NUL" if "c \<in> set (take n ?t)" for c
    using set_takeWhileD [OF in_set_takeD [OF that]] by (rule conjunct2)
  have tw: "takeWhile ?P (strncpy dst s n) =
      take n ?t @ takeWhile ?P (replicate ?k NUL @ drop n dst)"
    unfolding strncpy_def Let_def by (rule takeWhile_append2) (rule all)
  have "take (n - 1) (takeWhile ?P (strncpy dst s n)) = take (n - 1) ?t"
  proof (cases "?k = 0")
    case True
    then have "n - 1 - length (take n ?t) = 0" by simp
    then show ?thesis unfolding tw take_append by (simp add: min_absorb1)
  next
    case False
    then obtain k where k: "?k = Suc k" by (cases ?k) simp_all
    have "takeWhile ?P (replicate ?k NUL @ drop n dst) = []" unfolding k by simp
    then show ?thesis unfolding tw by (simp only: append_Nil2 take_take) (simp add: min_absorb1)
  qed
  moreover have "n - 1 < length (strncpy dst s n)"
    using strncpy_frame [OF assms(2), of s] assms by simp
  ultimately show ?thesis by (simp add: takeWhile_update)
qed

lemma end_with_nul_text:
  assumes "buffer_ok b" and "cb_len b \<noteq> 0"
  shows "takeWhile (\<lambda>c. c \<noteq> NUL) (cb_mem (end_with_nul (put_str s b))) =
    take (unat (cb_len b) - 1) (takeWhile (\<lambda>c. c \<noteq> NUL) s)"
  using takeWhile_strncpy [of "unat (cb_len b)" "cb_mem b" s] assms
  by (simp add: end_with_nul_def put_str_def Let_def buffer_ok_def word_greater_zero_iff unat_gt_0)

definition sample_buffer :: c_buffer where
  "sample_buffer = \<lparr>cb_mem = ''xxxxxxxx'', cb_len = 8\<rparr>"

lemma sample_buffer_ok: "buffer_ok sample_buffer"
  by (simp add: sample_buffer_def buffer_ok_def)

end
