(* ===== verification/Verifier_Api.thy ===== *)
theory Verifier_Api
  imports Csv_Verifier Tdx_Verifier C_Buffers "HOL-Library.AList"
begin

text \<open>
  The entry points of the verification library: the factory that selects a verifier by the
  platform of the report (\<open>verification/verifier_factory.h\<close>), the C++ wrapper that turns
  exceptions into a \<open>Status\<close> (\<open>verification/wrapper/verifier_wrapper.cc\<close>) and the C API over
  caller-provided buffers (\<open>verification/wrapper/verifier_wrapper_c_api.cc\<close>).
\<close>

section \<open>Objects and environment\<close>

text \<open>A pointer to an \<open>AttestationVerifier\<close>, by the class of the object.\<close>

datatype verifier_object =
    Sgx2AttestationVerifier sgx2_verifier
  | TdxAttestationVerifier tdx_verifier
  | CsvAttestationVerifier csv_verifier

text \<open>
  What the calls depend on besides their arguments: the libraries, the clock, the memory
  behind the buffers that are read through pointers, and the stack trace an exception carries.
\<close>

record 'k verifier_env =
  env_ext :: ext
  env_sgx :: sgx_sdk
  env_tdx :: tdx_sdk
  env_hygon :: hygon_abi
  env_ssl :: "'k openssl"
  env_time :: int
  env_after_quote :: bytes
  env_csv_memory :: csv_memory
  env_stack_trace :: "exn \<Rightarrow> string"

text \<open>The two virtual methods.\<close>

definition VerifyPlatform_of :: "'k verifier_env \<Rightarrow> verifier_object \<Rightarrow> unit res" where
  "VerifyPlatform_of E obj =
     (case obj of
        Sgx2AttestationVerifier v \<Rightarrow> Sgx2_VerifyPlatform (env_sgx E) (env_time E) v
      | TdxAttestationVerifier v \<Rightarrow> Tdx_VerifyPlatform (env_tdx E) (env_time E) v
      | CsvAttestationVerifier v \<Rightarrow>
          Csv_VerifyPlatform (env_hygon E) (env_ssl E) (env_csv_memory E) v)"

definition ParseUnifiedReport_of ::
  "'k verifier_env \<Rightarrow> verifier_object \<Rightarrow> UnifiedAttestationAttributes
   \<Rightarrow> UnifiedAttestationAttributes res" where
  "ParseUnifiedReport_of E obj attrs =
     (case obj of
        Sgx2AttestationVerifier v \<Rightarrow>
          Sgx2_ParseUnifiedReport (env_ext E) (env_sgx E) (env_after_quote E) v attrs
      | TdxAttestationVerifier v \<Rightarrow>
          Tdx_ParseUnifiedReport (env_ext E) (env_tdx E) (env_after_quote E) v attrs
      | CsvAttestationVerifier v \<Rightarrow>
          Csv_ParseUnifiedReport (env_ext E) (env_hygon E) (env_csv_memory E) v attrs)"

section \<open>The factory\<close>

type_synonym creator = "UnifiedAttestationReport \<Rightarrow> verifier_object res"

text \<open>
  \<open>creators_\<close>, in the order in which the hash map is traversed; the order matters only for
  the text of the error message.
\<close>

record VerifierFactory =
  creators :: "(string \<times> creator) list"

definition empty_factory :: VerifierFactory where
  "empty_factory = \<lparr>creators = []\<rparr>"

definition Register :: "string \<Rightarrow> creator \<Rightarrow> VerifierFactory \<Rightarrow> VerifierFactory" where
  "Register name creator f = f\<lparr>creators := AList.update name creator (creators f)\<rparr>"

definition Factory_Create :: "ext \<Rightarrow> VerifierFactory \<Rightarrow> string \<Rightarrow> verifier_object res" where
  "Factory_Create X f report_json_str =
     bindE (JSON2PB (report_of_json X) report_json_str) (\<lambda>report.
     let name = rep_str_tee_platform report;
         supported_platforms = map fst (creators f) in
     bindE (YACL_ENFORCE (map_of (creators f) name \<noteq> None)
       (fmt ''Supported platform list: {}, but not include {}''
          [join_str '', '' supported_platforms, name])) (\<lambda>_.
     case map_of (creators f) name of Some creator \<Rightarrow> creator report | None \<Rightarrow> Inl Null_deref))"

definition sgx2_creator :: "ext \<Rightarrow> creator" where
  "sgx2_creator X r = bindE (Sgx2_Create X r) (\<lambda>v. Inr (Sgx2AttestationVerifier v))"

definition tdx_creator :: "ext \<Rightarrow> creator" where
  "tdx_creator X r = bindE (Tdx_Create X r) (\<lambda>v. Inr (TdxAttestationVerifier v))"

definition csv_creator :: "ext \<Rightarrow> hygon_abi \<Rightarrow> creator" where
  "csv_creator X H r = bindE (Csv_Create X H r) (\<lambda>v. Inr (CsvAttestationVerifier v))"

text \<open>The registrations of \<open>AttestationReportVerify\<close> and of \<open>CreateFactory\<close>.\<close>

definition CreateFactory :: "'k verifier_env \<Rightarrow> VerifierFactory" where
  "CreateFactory E =
     Register kPlatformCsv (csv_creator (env_ext E) (env_hygon E))
       (Register kPlatformSgxDcap (sgx2_creator (env_ext E))
         (Register kPlatformTdx (tdx_creator (env_ext E)) empty_factory))"

section \<open>The C++ wrapper\<close>

definition verify_with_policy ::
  "'k verifier_env \<Rightarrow> VerifierFactory \<Rightarrow> string \<Rightarrow> string \<Rightarrow> unit res" where
  "verify_with_policy E factory report_json_str policy_json_str =
     bindE (JSON2PB (policy_of_json (env_ext E)) policy_json_str) (\<lambda>policy.
     bindE (Factory_Create (env_ext E) factory report_json_str) (\<lambda>verifier.
     VerifyReport (env_ext E) (VerifyPlatform_of E) (ParseUnifiedReport_of E) verifier policy))"

text \<open>The \<open>catch\<close> clauses, tried in order; a crash is not an exception and passes through.\<close>

definition AttestationReportVerify ::
  "'k verifier_env \<Rightarrow> string \<Rightarrow> string \<Rightarrow> Status res" where
  "AttestationReportVerify E report_json_str policy_json_str =
     (case verify_with_policy E (CreateFactory E) report_json_str policy_json_str of
        Inr _ \<Rightarrow> Inr \<lparr>code = 0, message = ''success'', details = []\<rparr>
      | Inl (Exn Yacl_ArgumentError what) \<Rightarrow>
          Inr \<lparr>code = error_code kArgumentError, message = what,
               details = env_stack_trace E (Exn Yacl_ArgumentError what)\<rparr>
      | Inl (Exn Yacl_InvalidFormat what) \<Rightarrow>
          Inr \<lparr>code = error_code kInvalidFormat, message = what,
               details = env_stack_trace E (Exn Yacl_InvalidFormat what)\<rparr>
      | Inl (Exn Yacl_Exception what) \<Rightarrow>
          Inr \<lparr>code = error_code kInternalError, message = what,
               details = env_stack_trace E (Exn Yacl_Exception what)\<rparr>
      | Inl (Exn Std_exception what) \<Rightarrow>
          Inr \<lparr>code = error_code kInternalError, message = what, details = []\<rparr>
      | Inl Null_deref \<Rightarrow> Inl Null_deref)"

section \<open>The C API\<close>

definition GetAttributesMaxSize :: nat where
  "GetAttributesMaxSize = kAttributeMaxSize"

definition c_AttestationReportVerify ::
  "'k verifier_env \<Rightarrow> string \<Rightarrow> u32 \<Rightarrow> string \<Rightarrow> u32 \<Rightarrow> c_buffer \<Rightarrow> c_buffer
   \<Rightarrow> (int \<times> c_buffer \<times> c_buffer) res" where
  "c_AttestationReportVerify E report_json_c_str report_json_str_len policy_json_c_str
       policy_json_str_len msg det =
     bindE
       (case verify_with_policy E (CreateFactory E)
               (take (unat report_json_str_len) report_json_c_str)
               (take (unat policy_json_str_len) policy_json_c_str) of
          Inr _ \<Rightarrow> Inr (0, msg, det)
        | Inl ex \<Rightarrow> c_handlers (env_stack_trace E) ex msg det)
       (\<lambda>(code, msg, det). Inr (code, end_with_nul msg, end_with_nul det))"

definition parse_attributes_body ::
  "'k verifier_env \<Rightarrow> string \<Rightarrow> c_buffer \<Rightarrow> c_buffer res" where
  "parse_attributes_body E report_json_str attrs_buf =
     bindE (Factory_Create (env_ext E) (CreateFactory E) report_json_str) (\<lambda>verifier.
     bindE (ParseUnifiedReport_of E verifier empty_attrs) (\<lambda>attrs.
     bindE (PB2JSON (json_of_attrs (env_ext E)) attrs) (\<lambda>attrs_json.
     bindE (YACL_ENFORCE (length attrs_json \<le> unat (cb_len attrs_buf))
       (fmt ''attrs_buf_len(got {}) should not be less than attrs json size({})''
          [to_string (unat (cb_len attrs_buf)), to_string (length attrs_json)])) (\<lambda>_.
     let attrs_buf_len = word_of_nat (length attrs_json) in
     Inr \<lparr>cb_mem = take (unat attrs_buf_len) attrs_json @
                    drop (unat attrs_buf_len) (cb_mem attrs_buf),
          cb_len = attrs_buf_len\<rparr>))))"

definition c_ParseAttributesFromReport ::
  "'k verifier_env \<Rightarrow> string \<Rightarrow> u32 \<Rightarrow> c_buffer \<Rightarrow> c_buffer \<Rightarrow> c_buffer
   \<Rightarrow> (int \<times> c_buffer \<times> c_buffer \<times> c_buffer) res" where
  "c_ParseAttributesFromReport E report_json_c_str report_json_str_len attrs_buf msg det =
     bindE
       (case parse_attributes_body E (take (unat report_json_str_len) report_json_c_str)
               attrs_buf of
          Inr attrs_buf \<Rightarrow> Inr (attrs_buf, 0, msg, det)
        | Inl ex \<Rightarrow> bindE (c_handlers (env_stack_trace E) ex msg det) (\<lambda>r. Inr (attrs_buf, r)))
       (\<lambda>(attrs_buf, code, msg, det).
          Inr (code, attrs_buf, end_with_nul msg, end_with_nul det))"

section \<open>Selection of the verifier\<close>

lemma map_of_CreateFactory:
  "map_of (creators (CreateFactory E)) name =
     (if name = kPlatformCsv then Some (csv_creator (env_ext E) (env_hygon E))
      else if name = kPlatformSgxDcap then Some (sgx2_creator (env_ext E))
      else if name = kPlatformTdx then Some (tdx_creator (env_ext E)) else None)"
  by (simp add: CreateFactory_def Register_def empty_factory_def update_conv')

lemma Factory_Create_eq_Inr:
  "Factory_Create (env_ext E) (CreateFactory E) s = Inr obj \<longleftrightarrow>
     (\<exists>r. report_of_json (env_ext E) s = Inr r \<and>
        ((\<exists>v. obj = Sgx2AttestationVerifier v \<and> Sgx2_Create (env_ext E) r = Inr v) \<or>
         (\<exists>v. obj = TdxAttestationVerifier v \<and> Tdx_Create (env_ext E) r = Inr v) \<or>
         (\<exists>v. obj = CsvAttestationVerifier v \<and>
              Csv_Create (env_ext E) (env_hygon E) r = Inr v)))"
proof -
  have sel: "(if rep_str_tee_platform r = kPlatformCsv
         then csv_creator (env_ext E) (env_hygon E) r = Inr obj
         else if rep_str_tee_platform r = kPlatformSgxDcap
         then sgx2_creator (env_ext E) r = Inr obj
         else rep_str_tee_platform r = kPlatformTdx \<and> tdx_creator (env_ext E) r = Inr obj) \<longleftrightarrow>
        ((\<exists>v. obj = Sgx2AttestationVerifier v \<and> Sgx2_Create (env_ext E) r = Inr v) \<or>
         (\<exists>v. obj = TdxAttestationVerifier v \<and> Tdx_Create (env_ext E) r = Inr v) \<or>
         (\<exists>v. obj = CsvAttestationVerifier v \<and>
              Csv_Create (env_ext E) (env_hygon E) r = Inr v))" for r
    using sgx2.Create_guards [of "env_ext E" r] tdx.Create_guards [of "env_ext E" r]
      csv.Create_guards [of "env_ext E" "env_hygon E" r]
    by (auto simp: sgx2_creator_def tdx_creator_def csv_creator_def exn_simps platform_defs)
  have step: "bindE (YACL_ENFORCE (map_of (creators (CreateFactory E)) name \<noteq> None) msg)
      (\<lambda>_. case map_of (creators (CreateFactory E)) name of Some creator \<Rightarrow> creator r
          | None \<Rightarrow> Inl Null_deref) = Inr obj \<longleftrightarrow>
    (if name = kPlatformCsv then csv_creator (env_ext E) (env_hygon E) r = Inr obj
     else if name = kPlatformSgxDcap then sgx2_creator (env_ext E) r = Inr obj
     else name = kPlatformTdx \<and> tdx_creator (env_ext E) r = Inr obj)" for name msg r
    by (simp add: map_of_CreateFactory)
  show ?thesis
    unfolding Factory_Create_def Let_def bindE_eq_Inr [of "JSON2PB _ _"] JSON2PB_eq_Inr step sel ..
qed

lemma VerifyReport_of:
  "VerifyReport X (VerifyPlatform_of E) (ParseUnifiedReport_of E) (Sgx2AttestationVerifier v1) p =
     VerifyReport X (Sgx2_VerifyPlatform (env_sgx E) (env_time E))
       (Sgx2_ParseUnifiedReport (env_ext E) (env_sgx E) (env_after_quote E)) v1 p"
  "VerifyReport X (VerifyPlatform_of E) (ParseUnifiedReport_of E) (TdxAttestationVerifier v2) p =
     VerifyReport X (Tdx_VerifyPlatform (env_tdx E) (env_time E))
       (Tdx_ParseUnifiedReport (env_ext E) (env_tdx E) (env_after_quote E)) v2 p"
  "VerifyReport X (VerifyPlatform_of E) (ParseUnifiedReport_of E) (CsvAttestationVerifier v3) p =
     VerifyReport X (Csv_VerifyPlatform (env_hygon E) (env_ssl E) (env_csv_memory E))
       (Csv_ParseUnifiedReport (env_ext E) (env_hygon E) (env_csv_memory E)) v3 p"
  by (simp_all add: VerifyReport_def VerifyPlatform_of_def ParseUnifiedReport_of_def)

lemma Factory_Create_no_crash: "no_crash (Factory_Create X (CreateFactory E) s)"
  using Sgx2_Create_no_crash [of "env_ext E"] Tdx_Create_no_crash [of "env_ext E"]
    Csv_Create_no_crash [of "env_ext E" "env_hygon E"]
  unfolding Factory_Create_def Let_def
  by (auto simp: map_of_CreateFactory sgx2_creator_def tdx_creator_def csv_creator_def
      intro!: no_crash_bindE)

lemma ParseUnifiedReport_of_no_crash: "no_crash (ParseUnifiedReport_of E obj a)"
  by (cases obj) (simp_all add: ParseUnifiedReport_of_def Sgx2_ParseUnifiedReport_no_crash
      Tdx_ParseUnifiedReport_no_crash Csv_ParseUnifiedReport_no_crash)

lemma verify_with_policy_no_crash: "no_crash (verify_with_policy E (CreateFactory E) rj pj)"
proof -
  have "no_crash (VerifyReport X (VerifyPlatform_of E) (ParseUnifiedReport_of E) obj p)" for X obj p
    by (cases obj) (simp_all only: VerifyReport_of sgx2.VerifyReport_no_crash
        tdx.VerifyReport_no_crash csv.VerifyReport_no_crash)
  then show ?thesis
    by (auto simp: verify_with_policy_def Factory_Create_no_crash intro!: no_crash_bindE)
qed

lemma AttestationReportVerify_code:
  "\<exists>st. AttestationReportVerify E rj pj = Inr st \<and>
     (code st = 0 \<longleftrightarrow> (\<exists>policy obj. policy_of_json (env_ext E) pj = Inr policy \<and>
        Factory_Create (env_ext E) (CreateFactory E) rj = Inr obj \<and>
        VerifyReport (env_ext E) (VerifyPlatform_of E) (ParseUnifiedReport_of E) obj policy
          = Inr ()))"
proof -
  let ?m = "verify_with_policy E (CreateFactory E) rj pj"
  have ok: "?m = Inr () \<longleftrightarrow> (\<exists>policy obj. policy_of_json (env_ext E) pj = Inr policy \<and>
      Factory_Create (env_ext E) (CreateFactory E) rj = Inr obj \<and>
      VerifyReport (env_ext E) (VerifyPlatform_of E) (ParseUnifiedReport_of E) obj policy = Inr ())"
    by (simp add: verify_with_policy_def exn_simps)
  have "\<exists>st. AttestationReportVerify E rj pj = Inr st \<and> (code st = 0 \<longleftrightarrow> ?m = Inr ())"
    by (rule no_crash_cases [OF verify_with_policy_no_crash [of E rj pj]])
       (auto simp: AttestationReportVerify_def split: exn_class.splits)
  then show ?thesis unfolding ok .
qed

section \<open>A concrete environment\<close>

text \<open>An environment in which the hypotheses hold.\<close>

definition sample_env :: "bytes verifier_env" where
  "sample_env = \<lparr>env_ext = ref_ext, env_sgx = sgx_layout, env_tdx = tdx_layout,
     env_hygon = hygon_layout, env_ssl = layout_openssl, env_time = 0, env_after_quote = [],
     env_csv_memory = no_memory, env_stack_trace = (\<lambda>_. ''trace'')\<rparr>"

section \<open>Properties\<close>

text \<open>
  \<^bold>\<open>C1\<close>. \<open>AttestationReportVerify\<close> returns a status on every input, and its code is zero
  exactly when the policy and the report parse and the verifier of the report's platform can be
  constructed and accepts the report under the policy. No other verifier is consulted: the
  constructors admit only their own platform.
\<close>

theorem AttestationReportVerify_ok_iff:
  "\<exists>st. AttestationReportVerify E rj pj = Inr st \<and>
     (code st = 0 \<longleftrightarrow>
      (\<exists>policy r. policy_of_json (env_ext E) pj = Inr policy \<and>
         report_of_json (env_ext E) rj = Inr r \<and>
         ((\<exists>v. Sgx2_Create (env_ext E) r = Inr v \<and>
             VerifyReport (env_ext E) (Sgx2_VerifyPlatform (env_sgx E) (env_time E))
               (Sgx2_ParseUnifiedReport (env_ext E) (env_sgx E) (env_after_quote E)) v policy
               = Inr ()) \<or>
          (\<exists>v. Tdx_Create (env_ext E) r = Inr v \<and>
             VerifyReport (env_ext E) (Tdx_VerifyPlatform (env_tdx E) (env_time E))
               (Tdx_ParseUnifiedReport (env_ext E) (env_tdx E) (env_after_quote E)) v policy
               = Inr ()) \<or>
          (\<exists>v. Csv_Create (env_ext E) (env_hygon E) r = Inr v \<and>
             VerifyReport (env_ext E)
               (Csv_VerifyPlatform (env_hygon E) (env_ssl E) (env_csv_memory E))
               (Csv_ParseUnifiedReport (env_ext E) (env_hygon E) (env_csv_memory E)) v policy
               = Inr ()))))"
proof -
  let ?V = "VerifyReport (env_ext E) (VerifyPlatform_of E) (ParseUnifiedReport_of E)"
  have obj: "(\<exists>policy obj. policy_of_json (env_ext E) pj = Inr policy \<and>
      Factory_Create (env_ext E) (CreateFactory E) rj = Inr obj \<and> ?V obj policy = Inr ()) \<longleftrightarrow>
    (\<exists>policy r. policy_of_json (env_ext E) pj = Inr policy \<and>
       report_of_json (env_ext E) rj = Inr r \<and>
       ((\<exists>v. Sgx2_Create (env_ext E) r = Inr v \<and>
           ?V (Sgx2AttestationVerifier v) policy = Inr ()) \<or>
        (\<exists>v. Tdx_Create (env_ext E) r = Inr v \<and>
           ?V (TdxAttestationVerifier v) policy = Inr ()) \<or>
        (\<exists>v. Csv_Create (env_ext E) (env_hygon E) r = Inr v \<and>
           ?V (CsvAttestationVerifier v) policy = Inr ())))"
    unfolding Factory_Create_eq_Inr by blast
  show ?thesis
    using AttestationReportVerify_code [of E rj pj] unfolding obj VerifyReport_of .
qed

lemma c_verify_result:
  assumes "buffer_ok msg" and "buffer_ok det"
  shows "\<exists>st msg' det'.
    AttestationReportVerify E (take (unat rlen) rj) (take (unat plen) pj) = Inr st \<and>
    c_AttestationReportVerify E rj rlen pj plen msg det = Inr (code st, msg', det') \<and>
    buffer_result msg msg' \<and> buffer_result det det' \<and>
    (code st \<noteq> 0 \<and> cb_len msg \<noteq> 0 \<longrightarrow>
       takeWhile (\<lambda>c. c \<noteq> NUL) (cb_mem msg') =
         take (unat (cb_len msg) - 1) (takeWhile (\<lambda>c. c \<noteq> NUL) (message st)))"
proof (rule no_crash_cases [OF verify_with_policy_no_crash
        [of E "take (unat rlen) rj" "take (unat plen) pj"]])
  fix u
  assume "verify_with_policy E (CreateFactory E) (take (unat rlen) rj) (take (unat plen) pj) = Inr u"
  then show ?thesis
    using assms by (simp add: AttestationReportVerify_def c_AttestationReportVerify_def
        end_with_nul_result)
next
  fix c w
  assume "verify_with_policy E (CreateFactory E) (take (unat rlen) rj) (take (unat plen) pj) =
    Inl (Exn c w)"
  then show ?thesis
    using assms
    by (cases c) (simp_all add: AttestationReportVerify_def c_AttestationReportVerify_def
        c_handlers_def end_with_nul_result end_with_nul_put_str end_with_nul_text)
qed

text \<open>
  \<^bold>\<open>C20\<close>. The C function \<open>AttestationReportVerify\<close> agrees with the C++ one. For buffers that
  are as large as their lengths say it returns, with the code of the C++ status; it writes
  nothing behind the given lengths; a message buffer of non-zero length then holds a terminated
  string and its length variable the size of that string with the terminator, and after an
  error the string is the message of the status, cut to the buffer.
\<close>

theorem c_AttestationReportVerify_refines:
  assumes "buffer_ok msg" and "buffer_ok det"
  shows "\<exists>st msg' det'.
    AttestationReportVerify E (take (unat rlen) rj) (take (unat plen) pj) = Inr st \<and>
    c_AttestationReportVerify E rj rlen pj plen msg det = Inr (code st, msg', det') \<and>
    buffer_result msg msg' \<and> buffer_result det det' \<and>
    (code st \<noteq> 0 \<and> cb_len msg \<noteq> 0 \<longrightarrow>
       takeWhile (\<lambda>c. c \<noteq> NUL) (cb_mem msg') =
         take (unat (cb_len msg) - 1) (takeWhile (\<lambda>c. c \<noteq> NUL) (message st)))"
  using assms by (rule c_verify_result)

theorem c_AttestationReportVerify_refines_witness:
  "\<exists>rc msg' det'. c_AttestationReportVerify sample_env [] 0 [] 0 sample_buffer sample_buffer =
     Inr (rc, msg', det') \<and> buffer_result sample_buffer msg' \<and> buffer_result sample_buffer det'"
  using c_AttestationReportVerify_refines [OF sample_buffer_ok sample_buffer_ok,
      of sample_env 0 "[]" 0 "[]"]
  by blast

lemma c_parse_result:
  assumes "buffer_ok attrs" and "buffer_ok msg" and "buffer_ok det"
  shows "\<exists>rc attrs' msg' det'.
    c_ParseAttributesFromReport E rj rlen attrs msg det = Inr (rc, attrs', msg', det') \<and>
    buffer_result msg msg' \<and> buffer_result det det' \<and>
    length (cb_mem attrs') = length (cb_mem attrs) \<and>
    drop (unat (cb_len attrs)) (cb_mem attrs') = drop (unat (cb_len attrs)) (cb_mem attrs) \<and>
    (if rc = 0
     then \<exists>obj a json. Factory_Create (env_ext E) (CreateFactory E) (take (unat rlen) rj) = Inr obj \<and>
            ParseUnifiedReport_of E obj empty_attrs = Inr a \<and>
            json_of_attrs (env_ext E) a = Inr json \<and>
            unat (cb_len attrs') = length json \<and> length json \<le> unat (cb_len attrs) \<and>
            take (length json) (cb_mem attrs') = json
     else attrs' = attrs)"
proof -
  let ?m = "parse_attributes_body E (take (unat rlen) rj) attrs"
  have "no_crash ?m"
    by (auto simp: parse_attributes_body_def Let_def Factory_Create_no_crash
        ParseUnifiedReport_of_no_crash intro!: no_crash_bindE)
  then show ?thesis
  proof (rule no_crash_cases)
    fix b
    assume m: "?m = Inr b"
    then obtain obj a json where run:
        "Factory_Create (env_ext E) (CreateFactory E) (take (unat rlen) rj) = Inr obj"
        "ParseUnifiedReport_of E obj empty_attrs = Inr a" "json_of_attrs (env_ext E) a = Inr json"
        "length json \<le> unat (cb_len attrs)"
      and b: "b = \<lparr>cb_mem = take (unat (word_of_nat (length json) :: u32)) json @
          drop (unat (word_of_nat (length json) :: u32)) (cb_mem attrs),
          cb_len = word_of_nat (length json)\<rparr>"
      by (auto simp: parse_attributes_body_def Let_def exn_simps)
    have "length json < 2 ^ 32"
      using run(4) unsigned_less [of "cb_len attrs", where ?'a = nat] by simp
    then have n: "unat (word_of_nat (length json) :: u32) = length json"
      unfolding unat_of_nat by simp
    show ?thesis
      using run b n m assms
      by (simp add: c_ParseAttributesFromReport_def end_with_nul_result buffer_ok_def)
  next
    fix c w
    assume "?m = Inl (Exn c w)"
    then show ?thesis
      using assms by (cases c) (simp_all add: c_ParseAttributesFromReport_def c_handlers_def
          end_with_nul_result end_with_nul_put_str)
  qed
qed

text \<open>
  \<^bold>\<open>C22\<close>. \<open>ParseAttributesFromReport\<close> returns on every input, stays inside the three buffers,
  and with code zero has stored exactly the JSON text of the report's attributes, whose size is
  the new length; with any other code the attribute buffer is as it was. A buffer too small for
  the text is an error.
\<close>

theorem c_ParseAttributesFromReport_outcome:
  assumes "buffer_ok attrs" and "buffer_ok msg" and "buffer_ok det"
  shows "\<exists>rc attrs' msg' det'.
    c_ParseAttributesFromReport E rj rlen attrs msg det = Inr (rc, attrs', msg', det') \<and>
    buffer_result msg msg' \<and> buffer_result det det' \<and>
    length (cb_mem attrs') = length (cb_mem attrs) \<and>
    drop (unat (cb_len attrs)) (cb_mem attrs') = drop (unat (cb_len attrs)) (cb_mem attrs) \<and>
    (if rc = 0
     then \<exists>obj a json. Factory_Create (env_ext E) (CreateFactory E) (take (unat rlen) rj) = Inr obj \<and>
            ParseUnifiedReport_of E obj empty_attrs = Inr a \<and>
            json_of_attrs (env_ext E) a = Inr json \<and>
            unat (cb_len attrs') = length json \<and> length json \<le> unat (cb_len attrs) \<and>
            take (length json) (cb_mem attrs') = json
     else attrs' = attrs)"
  using assms by (rule c_parse_result)

theorem c_ParseAttributesFromReport_outcome_witness:
  "\<exists>rc attrs' msg' det'. c_ParseAttributesFromReport sample_env [] 0 sample_buffer sample_buffer
     sample_buffer = Inr (rc, attrs', msg', det') \<and> length (cb_mem attrs') = 8"
  using c_ParseAttributesFromReport_outcome [OF sample_buffer_ok sample_buffer_ok sample_buffer_ok,
      of sample_env "[]" 0]
  by (auto simp: sample_buffer_def)

end
