(* ===== verification/Report_Data.thy ===== *)
theory Report_Data
  imports Csv_Verifier Tdx_Verifier
begin

unbundle bit_operations_syntax

text \<open>
  The first half of report generation: the 64 bytes of report data that each platform binds
  into its quote (\<open>PrepareSgxReportData\<close>, \<open>PrepareTdxReportData\<close> and \<open>PrepareCsvUserData\<close> in
  the three files under \<open>generation/\<close>) and the collateral that is put beside the quote
  (\<open>collateral/intel_collateral.cc\<close>, \<open>collateral/hygon_collateral.cc\<close>). The three preparation
  functions have one contract, the locale \<open>report_data_preparer\<close>.
\<close>

section \<open>Report data: the code\<close>

text \<open>Sizes from the headers of the Intel and Hygon SDKs.\<close>

record gen_sizes =
  SGX_HASH_SIZE :: nat
  SGX_REPORT_DATA_SIZE :: nat
  TDX_REPORT_DATA_SIZE :: nat
  GUEST_ATTESTATION_DATA_SIZE :: nat

definition hex_len_msg :: "string \<Rightarrow> nat \<Rightarrow> nat \<Rightarrow> string" where
  "hex_len_msg what limit got =
     fmt (what @ '' length should not be greater than {}, got {}'') [to_string limit, to_string got]"

definition PrepareSgxReportData ::
  "ext \<Rightarrow> gen_sizes \<Rightarrow> UnifiedAttestationGenerationParams \<Rightarrow> bytes res" where
  "PrepareSgxReportData X Z gen_params =
     (let nonce = par_report_hex_nonce gen_params;
          hex_user_data' = par_hex_user_data (par_report_params gen_params);
          pem = par_pem_public_key (par_report_params gen_params) in
      bindE (YACL_ENFORCE (length nonce \<le> SGX_HASH_SIZE Z * 2)
        (hex_len_msg ''report_hex_nonce'' (SGX_HASH_SIZE Z * 2) (length nonce))) (\<lambda>_.
      bindE (YACL_ENFORCE (length hex_user_data' \<le> SGX_HASH_SIZE Z * 2)
        (hex_len_msg ''hex_user_data'' (SGX_HASH_SIZE Z * 2) (length hex_user_data'))) (\<lambda>_.
      bindE (YACL_ENFORCE (nonce = [] \<or> hex_user_data' = [])
        ''Not support both nonce and user data'') (\<lambda>_.
      let d = zeros (SGX_REPORT_DATA_SIZE Z);
          d = (if nonce \<noteq> [] then memcpy_at d 0 (HexStringToBytes X nonce) else d);
          d = (if hex_user_data' \<noteq> [] then memcpy_at d 0 (HexStringToBytes X hex_user_data') else d);
          d = (if pem \<noteq> [] then memcpy_at d (SGX_HASH_SIZE Z) (Sha256 X (HexStringToBytes X pem))
               else d)
      in Inr d))))"

definition PrepareTdxReportData ::
  "ext \<Rightarrow> gen_sizes \<Rightarrow> UnifiedAttestationGenerationParams \<Rightarrow> bytes res" where
  "PrepareTdxReportData X Z gen_params =
     (let nonce = par_report_hex_nonce gen_params;
          hex_user_data' = par_hex_user_data (par_report_params gen_params);
          pem = par_pem_public_key (par_report_params gen_params) in
      bindE (YACL_ENFORCE (length nonce \<le> SGX_HASH_SIZE Z * 2)
        (hex_len_msg ''report_hex_nonce'' (SGX_HASH_SIZE Z * 2) (length nonce))) (\<lambda>_.
      bindE (YACL_ENFORCE (length hex_user_data' \<le> SGX_HASH_SIZE Z * 2)
        (hex_len_msg ''hex_user_data'' (SGX_HASH_SIZE Z * 2) (length hex_user_data'))) (\<lambda>_.
      bindE (YACL_ENFORCE (nonce = [] \<or> hex_user_data' = [])
        ''Not support both nonce and user data'') (\<lambda>_.
      let d = zeros (TDX_REPORT_DATA_SIZE Z);
          d = (if nonce \<noteq> [] then memcpy_at d 0 (HexStringToBytes X nonce) else d);
          d = (if hex_user_data' \<noteq> [] then memcpy_at d 0 (HexStringToBytes X hex_user_data') else d);
          d = (if pem \<noteq> [] then memcpy_at d (SGX_HASH_SIZE Z) (Sha256 X (HexStringToBytes X pem))
               else d)
      in Inr d))))"

text \<open>
  \<open>csv_attestation_user_data\<close>, without padding between its members. The random generator and
  the hash SM3 are arguments.
\<close>

record csv_attestation_user_data =
  ud_data :: bytes
  ud_mnonce :: bytes
  ud_hash :: bytes

definition PrepareCsvUserData ::
  "ext \<Rightarrow> gen_sizes \<Rightarrow> hygon_abi \<Rightarrow> (nat \<Rightarrow> bytes) \<Rightarrow> (bytes \<Rightarrow> bytes)
   \<Rightarrow> UnifiedAttestationGenerationParams \<Rightarrow> csv_attestation_user_data res" where
  "PrepareCsvUserData X Z H FillRand Sm3 gen_params =
     (let nonce = par_report_hex_nonce gen_params;
          hex_user_data' = par_hex_user_data (par_report_params gen_params);
          pem = par_pem_public_key (par_report_params gen_params) in
      bindE (YACL_ENFORCE (length nonce \<le> GUEST_ATTESTATION_NONCE_SIZE H * 2)
        (hex_len_msg ''report_hex_nonce'' (GUEST_ATTESTATION_NONCE_SIZE H * 2)
           (length nonce))) (\<lambda>_.
      bindE (YACL_ENFORCE (length hex_user_data' \<le> HASH_LEN H * 2)
        (hex_len_msg ''hex_user_data'' (HASH_LEN H * 2) (length hex_user_data'))) (\<lambda>_.
      bindE (YACL_ENFORCE (nonce = [] \<or> hex_user_data' = [])
        ''Not support both nonce and user data'') (\<lambda>_.
      let d = zeros (GUEST_ATTESTATION_DATA_SIZE Z);
          d = (if nonce \<noteq> [] then memcpy_at d 0 (HexStringToBytes X nonce) else d);
          d = (if hex_user_data' \<noteq> [] then memcpy_at d 0 (HexStringToBytes X hex_user_data') else d);
          d = (if pem \<noteq> [] then memcpy_at d (HASH_LEN H) (Sha256 X (HexStringToBytes X pem))
               else d);
          mnonce = FillRand (GUEST_ATTESTATION_NONCE_SIZE H);
          user_data_hash = Sm3 (take (GUEST_ATTESTATION_DATA_SIZE Z +
                                      GUEST_ATTESTATION_NONCE_SIZE H) (d @ mnonce))
      in Inr \<lparr>ud_data = d, ud_mnonce = mnonce,
              ud_hash = memcpy_at (zeros (HASH_LEN H)) 0 user_data_hash\<rparr>))))"

section \<open>Collateral: the code\<close>

text \<open>
  \<open>buf\<close> is the memory at the pointer. A length of zero makes the index wrap around to the last
  32-bit number, a read outside of the buffer.
\<close>

definition CharArray2String :: "string \<Rightarrow> u32 \<Rightarrow> string res" where
  "CharArray2String buf buf_len =
     (if length buf \<le> unat (buf_len - 1) then Inl Null_deref
      else if buf ! unat (buf_len - 1) = CHR 0x00 then Inr (take (unat (buf_len - 1)) buf)
      else Inr (take (unat buf_len) buf))"

text \<open>\<open>sgx_ql_qve_collateral_t\<close> as the Intel library returns it.\<close>

record raw_collateral = sgx_ql_qve_collateral_t +
  cd_tee_type :: u32

definition GetIntelCollateral ::
  "(bytes \<Rightarrow> u32 \<Rightarrow> u32 option \<times> raw_collateral option) \<Rightarrow> bytes \<Rightarrow> u32
   \<Rightarrow> SgxQlQveCollateral res" where
  "GetIntelCollateral tee_qv_get_collateral quote quote_size =
     (let (ret, p_quote_collateral) = tee_qv_get_collateral quote quote_size in
      bindE (YACL_ENFORCE (ret = None \<and> p_quote_collateral \<noteq> None)
        (''tee_qv_get_collateral err: '' @ fmt_x (quote3_error ret))) (\<lambda>_.
      case p_quote_collateral of None \<Rightarrow> Inl Null_deref | Some c \<Rightarrow>
      bindE (case_prod CharArray2String (cd_pck_crl_issuer_chain c)) (\<lambda>pck_crl_issuer_chain.
      bindE (case_prod CharArray2String (cd_root_ca_crl c)) (\<lambda>root_ca_crl.
      bindE (case_prod CharArray2String (cd_pck_crl c)) (\<lambda>pck_crl.
      bindE (case_prod CharArray2String (cd_tcb_info_issuer_chain c)) (\<lambda>tcb_info_issuer_chain.
      bindE (case_prod CharArray2String (cd_tcb_info c)) (\<lambda>tcb_info.
      bindE (case_prod CharArray2String (cd_qe_identity_issuer_chain c))
        (\<lambda>qe_identity_issuer_chain.
      bindE (case_prod CharArray2String (cd_qe_identity c)) (\<lambda>qe_identity.
      Inr \<lparr>col_version = cd_version c, col_tee_type = cd_tee_type c,
           col_pck_crl_issuer_chain = pck_crl_issuer_chain, col_root_ca_crl = root_ca_crl,
           col_pck_crl = pck_crl, col_tcb_info_issuer_chain = tcb_info_issuer_chain,
           col_tcb_info = tcb_info, col_qe_identity_issuer_chain = qe_identity_issuer_chain,
           col_qe_identity = qe_identity\<rparr>)))))))))"

definition kHygonCertUrl :: string where "kHygonCertUrl = ''https://cert.hygon.cn''"
definition kHygonHskCekSubUrl :: string where "kHygonHskCekSubUrl = ''/hsk_cek?snumber=''"

text \<open>
  The HTTP client: the return code of \<open>Init\<close> for a server, and for a GET of a resource of the
  server either the error code and text of the controller or the body.
\<close>

record http_client =
  channel_init :: "string \<Rightarrow> int"
  http_get :: "string \<Rightarrow> string \<Rightarrow> (nat \<times> string) + bytes"

definition GetHygonCsvCollateral ::
  "ext \<Rightarrow> hygon_abi \<Rightarrow> http_client \<Rightarrow> string \<Rightarrow> HygonCsvCertChain res" where
  "GetHygonCsvCollateral X H C chip_id =
     bindE (YACL_ENFORCE (channel_init C kHygonCertUrl = 0)
       ''hygon cert server channel init failed'') (\<lambda>_.
     bindE (case http_get C kHygonCertUrl (kHygonHskCekSubUrl @ chip_id) of
              Inl (error_code', error_text) \<Rightarrow>
                YACL_THROW (fmt ''Get hygon csv hsk and cek failed, error code: {}, message: {}''
                  [to_string error_code', error_text])
            | Inr body \<Rightarrow> Inr body) (\<lambda>response_body.
     bindE (YACL_ENFORCE
       (length response_body = sizeof_CHIP_ROOT_CERT_t H + sizeof_CSV_CERT_t H)
       (fmt ''hsk and cek length should be {}, but got {}''
          [to_string (sizeof_CHIP_ROOT_CERT_t H + sizeof_CSV_CERT_t H),
           to_string (length response_body)])) (\<lambda>_.
     Inr \<lparr>b64_hsk_cert = base64_encode X (take (sizeof_CHIP_ROOT_CERT_t H) response_body),
          b64_cek_cert = base64_encode X
            (subbytes (sizeof_CHIP_ROOT_CERT_t H) (sizeof_CSV_CERT_t H) response_body)\<rparr>)))"

section \<open>The contract of the preparation functions\<close>

definition gen_sizes_doc :: "gen_sizes \<Rightarrow> hygon_abi \<Rightarrow> bool" where
  "gen_sizes_doc Z H \<longleftrightarrow> SGX_HASH_SIZE Z = 32 \<and> SGX_REPORT_DATA_SIZE Z = 64 \<and>
     TDX_REPORT_DATA_SIZE Z = 64 \<and> GUEST_ATTESTATION_DATA_SIZE Z = 64 \<and> HASH_LEN H = 32 \<and>
     GUEST_ATTESTATION_NONCE_SIZE H \<le> 32"

text \<open>A byte string filled up with zeros to 32 bytes.\<close>

definition pad32 :: "bytes \<Rightarrow> bytes" where
  "pad32 b = b @ zeros (32 - length b)"

text \<open>What the report data is meant to be: user data or nonce, then the key hash.\<close>

definition report_data_spec :: "ext \<Rightarrow> UnifiedAttestationGenerationParams \<Rightarrow> bytes" where
  "report_data_spec X p =
     (let u = par_hex_user_data (par_report_params p); k = par_pem_public_key (par_report_params p)
      in pad32 (HexStringToBytes X (if u = [] then par_report_hex_nonce p else u)) @
         (if k = [] then zeros 32 else Sha256 X (HexStringToBytes X k)))"

definition params_ok :: "nat \<Rightarrow> UnifiedAttestationGenerationParams \<Rightarrow> bool" where
  "params_ok nonce_max p \<longleftrightarrow>
     length (par_report_hex_nonce p) \<le> nonce_max * 2 \<and>
     length (par_hex_user_data (par_report_params p)) \<le> 32 * 2 \<and>
     (par_report_hex_nonce p = [] \<or> par_hex_user_data (par_report_params p) = [])"

text \<open>The three copies into a cleared array of 64 bytes stay inside and give the specification.\<close>

lemma copies_spec:
  assumes "absl_doc X" and "sha256_doc X"
    and "length n \<le> 64" and "length u \<le> 64" and "n = [] \<or> u = []"
  shows "(let d = zeros 64;
          d = (if n \<noteq> [] then memcpy_at d 0 (HexStringToBytes X n) else d);
          d = (if u \<noteq> [] then memcpy_at d 0 (HexStringToBytes X u) else d);
          d = (if k \<noteq> [] then memcpy_at d 32 (Sha256 X (HexStringToBytes X k)) else d) in d) =
    pad32 (HexStringToBytes X (if u = [] then n else u)) @
      (if k = [] then zeros 32 else Sha256 X (HexStringToBytes X k))"
proof -
  let ?s = "if u = [] then n else u"
  let ?b = "HexStringToBytes X ?s"
  have b: "length ?b \<le> 32" using assms(1,3,4) by (auto simp: length_HexStringToBytes)
  have nil: "HexStringToBytes X [] = []"
    using length_HexStringToBytes [OF assms(1), of "[]"] by simp
  have first: "(let d = zeros 64; d = (if n \<noteq> [] then memcpy_at d 0 (HexStringToBytes X n) else d)
      in if u \<noteq> [] then memcpy_at d 0 (HexStringToBytes X u) else d) = pad32 ?b @ zeros 32"
  proof -
    have "memcpy_at (zeros 64) 0 (HexStringToBytes X s) = pad32 (HexStringToBytes X s) @ zeros 32"
      if "length s \<le> 64" for s
      using that length_HexStringToBytes [OF assms(1), of s]
      by (simp add: memcpy_at_def pad32_def zeros_def replicate_add [symmetric])
    moreover have "zeros 64 = zeros 32 @ zeros 32" by (simp add: zeros_def replicate_add [symmetric])
    ultimately show ?thesis
      using assms(3-5) by (auto simp: nil pad32_def Let_def)
  qed
  have "length (pad32 ?b) = 32" using b by (simp add: pad32_def)
  then have "memcpy_at (pad32 ?b @ zeros 32) 32 (Sha256 X (HexStringToBytes X k)) =
      pad32 ?b @ Sha256 X (HexStringToBytes X k)"
    by (simp add: memcpy_at_def length_Sha256 [OF assms(2)])
  then show ?thesis using first by (simp add: Let_def)
qed

text \<open>
  The contract holds when the libraries behave as documented and the sizes are those of the
  headers, the proposition \<open>doc\<close>; \<open>nonce_max\<close> is the largest nonce in bytes.
\<close>

locale report_data_preparer =
  fixes prepare :: "UnifiedAttestationGenerationParams \<Rightarrow> bytes res"
    and X :: ext and nonce_max :: nat and doc :: bool
  assumes absl: "doc \<Longrightarrow> absl_doc X" and sha256: "doc \<Longrightarrow> sha256_doc X"
    and nonce_max: "doc \<Longrightarrow> nonce_max \<le> 32"
    and prepare_iff:
      "doc \<Longrightarrow> prepare p = Inr d \<longleftrightarrow> params_ok nonce_max p \<and> d = report_data_spec X p"
begin

lemma prepare_length: "doc \<Longrightarrow> prepare p = Inr d \<Longrightarrow> length d = 64"
  using nonce_max
  by (auto simp: prepare_iff params_ok_def report_data_spec_def Let_def pad32_def
      length_HexStringToBytes absl length_Sha256 sha256)

text \<open>User data of 32 bytes is the first half, the hash of the decoded key the second.\<close>

lemma prepare_user_data:
  assumes "doc" and "prepare p = Inr d"
    and "par_hex_user_data (par_report_params p) = BytesToHexString X u" and "length u = 32"
  shows "take 32 d = u"
proof -
  have "BytesToHexString X u \<noteq> []" using assms(1,4) by (auto simp: BytesToHexString_eq_Nil absl)
  then show ?thesis
    using assms by (simp add: prepare_iff report_data_spec_def pad32_def HexStringToBytes_hex absl
        Let_def)
qed

lemma prepare_pubkey:
  assumes "doc" and "prepare p = Inr d" and "par_pem_public_key (par_report_params p) = k"
    and "k \<noteq> []"
  shows "drop 32 d = Sha256 X (HexStringToBytes X k)"
proof -
  have "length (pad32 (HexStringToBytes X (if par_hex_user_data (par_report_params p) = []
      then par_report_hex_nonce p else par_hex_user_data (par_report_params p)))) = 32"
    using assms(1,2) nonce_max by (auto simp: prepare_iff params_ok_def pad32_def
        length_HexStringToBytes absl)
  then show ?thesis using assms by (simp add: prepare_iff report_data_spec_def Let_def)
qed

end

lemma three_checks_iff:
  "bindE (YACL_ENFORCE a m1) (\<lambda>_. bindE (YACL_ENFORCE b m2) (\<lambda>_. bindE (YACL_ENFORCE c m3)
     (\<lambda>_. Inr x))) = Inr d \<longleftrightarrow> a \<and> b \<and> c \<and> d = x"
  by (auto simp: exn_simps)

lemma copies_iff:
  assumes "absl_doc X" and "sha256_doc X" and "nmax \<le> 32"
  shows "(length n \<le> nmax * 2 \<and> length u \<le> 32 * 2 \<and> (n = [] \<or> u = []) \<and>
      d = (let d = zeros 64;
          d = (if n \<noteq> [] then memcpy_at d 0 (HexStringToBytes X n) else d);
          d = (if u \<noteq> [] then memcpy_at d 0 (HexStringToBytes X u) else d);
          d = (if k \<noteq> [] then memcpy_at d 32 (Sha256 X (HexStringToBytes X k)) else d) in d)) \<longleftrightarrow>
    (length n \<le> nmax * 2 \<and> length u \<le> 32 * 2 \<and> (n = [] \<or> u = []) \<and>
     d = pad32 (HexStringToBytes X (if u = [] then n else u)) @
      (if k = [] then zeros 32 else Sha256 X (HexStringToBytes X k)))"
  using copies_spec [OF assms(1,2), of n u k] assms(3) by auto

interpretation sgx_data: report_data_preparer "PrepareSgxReportData X Z" X "SGX_HASH_SIZE Z"
    "absl_doc X \<and> sha256_doc X \<and> gen_sizes_doc Z H"
  for X Z H
proof unfold_locales
  fix p d
  assume "absl_doc X \<and> sha256_doc X \<and> gen_sizes_doc Z H"
  then have doc: "absl_doc X" "sha256_doc X" "SGX_HASH_SIZE Z = 32" "SGX_REPORT_DATA_SIZE Z = 64"
    by (simp_all add: gen_sizes_doc_def)
  show "PrepareSgxReportData X Z p = Inr d \<longleftrightarrow>
      params_ok (SGX_HASH_SIZE Z) p \<and> d = report_data_spec X p"
    using copies_iff [OF doc(1,2) order_refl, of "par_report_hex_nonce p"
        "par_hex_user_data (par_report_params p)" d "par_pem_public_key (par_report_params p)"]
    unfolding PrepareSgxReportData_def params_ok_def report_data_spec_def Let_def doc
      three_checks_iff conj_assoc by simp
qed (auto simp: gen_sizes_doc_def)

interpretation tdx_data: report_data_preparer "PrepareTdxReportData X Z" X "SGX_HASH_SIZE Z"
    "absl_doc X \<and> sha256_doc X \<and> gen_sizes_doc Z H"
  for X Z H
proof unfold_locales
  fix p d
  assume "absl_doc X \<and> sha256_doc X \<and> gen_sizes_doc Z H"
  then have doc: "absl_doc X" "sha256_doc X" "SGX_HASH_SIZE Z = 32" "TDX_REPORT_DATA_SIZE Z = 64"
    by (simp_all add: gen_sizes_doc_def)
  show "PrepareTdxReportData X Z p = Inr d \<longleftrightarrow>
      params_ok (SGX_HASH_SIZE Z) p \<and> d = report_data_spec X p"
    using copies_iff [OF doc(1,2) order_refl, of "par_report_hex_nonce p"
        "par_hex_user_data (par_report_params p)" d "par_pem_public_key (par_report_params p)"]
    unfolding PrepareTdxReportData_def params_ok_def report_data_spec_def Let_def doc
      three_checks_iff conj_assoc by simp
qed (auto simp: gen_sizes_doc_def)

text \<open>For CSV the report data is the member \<open>data\<close> of the structure.\<close>

definition csv_report_data ::
  "ext \<Rightarrow> gen_sizes \<Rightarrow> hygon_abi \<Rightarrow> (nat \<Rightarrow> bytes) \<Rightarrow> (bytes \<Rightarrow> bytes)
   \<Rightarrow> UnifiedAttestationGenerationParams \<Rightarrow> bytes res" where
  "csv_report_data X Z H FillRand Sm3 p =
     bindE (PrepareCsvUserData X Z H FillRand Sm3 p) (\<lambda>ud. Inr (ud_data ud))"

interpretation csv_data: report_data_preparer "csv_report_data X Z H FillRand Sm3" X
    "GUEST_ATTESTATION_NONCE_SIZE H" "absl_doc X \<and> sha256_doc X \<and> gen_sizes_doc Z H"
  for X Z H FillRand Sm3
proof unfold_locales
  fix p d
  assume "absl_doc X \<and> sha256_doc X \<and> gen_sizes_doc Z H"
  then have doc: "absl_doc X" "sha256_doc X" "HASH_LEN H = 32"
    "GUEST_ATTESTATION_NONCE_SIZE H \<le> 32" "GUEST_ATTESTATION_DATA_SIZE Z = 64"
    by (simp_all add: gen_sizes_doc_def)
  show "csv_report_data X Z H FillRand Sm3 p = Inr d \<longleftrightarrow>
      params_ok (GUEST_ATTESTATION_NONCE_SIZE H) p \<and> d = report_data_spec X p"
    using copies_iff [OF doc(1,2,4), of "par_report_hex_nonce p"
        "par_hex_user_data (par_report_params p)" d "par_pem_public_key (par_report_params p)"]
    unfolding csv_report_data_def PrepareCsvUserData_def params_ok_def report_data_spec_def Let_def
      bindE_assoc bindE_Inr csv_attestation_user_data.select_convs doc(3,5) three_checks_iff
      conj_assoc by simp
qed (auto simp: gen_sizes_doc_def)

section \<open>Collateral\<close>

text \<open>An item of the collateral as documented: a terminated text whose size counts the zero.\<close>

definition item_terminated :: "string \<times> u32 \<Rightarrow> bool" where
  "item_terminated it \<longleftrightarrow>
     1 < unat (snd it) \<and> unat (snd it) \<le> length (fst it) \<and>
     fst it ! (unat (snd it) - 1) = CHR 0x00"

definition item_text :: "string \<times> u32 \<Rightarrow> string" where
  "item_text it = take (unat (snd it) - 1) (fst it)"

lemma unat_minus_1: "0 < unat w \<Longrightarrow> unat (w - 1 :: u32) = unat w - 1"
  by (metis One_nat_def Suc_leI unat_1 unat_minus_one unat_0 less_irrefl)

lemma CharArray2String_terminated:
  assumes "item_terminated it"
  shows "case_prod CharArray2String it = Inr (item_text it)" and "item_text it \<noteq> []"
    and "collateral_item (item_text it) = (item_text it, snd it)"
proof -
  obtain buf n where it: "it = (buf, n)" by (cases it)
  have n: "1 < unat n" "unat n \<le> length buf" "buf ! (unat n - 1) = CHR 0x00"
    using assms by (simp_all add: item_terminated_def it)
  have m: "unat (n - 1) = unat n - 1" using n(1) by (intro unat_minus_1) simp
  show "case_prod CharArray2String it = Inr (item_text it)"
    using n by (simp add: it CharArray2String_def item_text_def m)
  show "item_text it \<noteq> []" using n by (auto simp: it item_text_def)
  have "length (item_text it) = unat n - 1" using n by (simp add: it item_text_def)
  then have "word_of_nat (length (item_text it)) + 1 = n"
    using m by (metis of_nat_unat ucast_id diff_add_cancel)
  then show "collateral_item (item_text it) = (item_text it, snd it)"
    by (simp add: collateral_item_def it)
qed

definition raw_terminated :: "raw_collateral \<Rightarrow> bool" where
  "raw_terminated c \<longleftrightarrow>
     list_all item_terminated [cd_pck_crl_issuer_chain c, cd_root_ca_crl c, cd_pck_crl c,
       cd_tcb_info_issuer_chain c, cd_tcb_info c, cd_qe_identity_issuer_chain c, cd_qe_identity c]"

lemma GetIntelCollateral_terminated:
  assumes "get q n = (None, Some c)" and "raw_terminated c"
  shows "GetIntelCollateral get q n =
    Inr \<lparr>col_version = cd_version c, col_tee_type = cd_tee_type c,
         col_pck_crl_issuer_chain = item_text (cd_pck_crl_issuer_chain c),
         col_root_ca_crl = item_text (cd_root_ca_crl c), col_pck_crl = item_text (cd_pck_crl c),
         col_tcb_info_issuer_chain = item_text (cd_tcb_info_issuer_chain c),
         col_tcb_info = item_text (cd_tcb_info c),
         col_qe_identity_issuer_chain = item_text (cd_qe_identity_issuer_chain c),
         col_qe_identity = item_text (cd_qe_identity c)\<rparr>"
  using assms by (simp add: GetIntelCollateral_def raw_terminated_def CharArray2String_terminated)

lemma GetHygonCsvCollateral_eq_Inr:
  assumes "GetHygonCsvCollateral X H C chip = Inr chain" and "base64_doc X"
  shows "\<exists>hsk cek. base64_decode X (b64_hsk_cert chain) = Some hsk \<and>
    length hsk = sizeof_CHIP_ROOT_CERT_t H \<and>
    base64_decode X (b64_cek_cert chain) = Some cek \<and> length cek = sizeof_CSV_CERT_t H \<and>
    http_get C kHygonCertUrl (kHygonHskCekSubUrl @ chip) = Inr (hsk @ cek)"
proof -
  let ?n = "sizeof_CHIP_ROOT_CERT_t H"
  obtain body where body: "http_get C kHygonCertUrl (kHygonHskCekSubUrl @ chip) = Inr body"
    and len: "length body = ?n + sizeof_CSV_CERT_t H"
    and chain: "chain = \<lparr>b64_hsk_cert = base64_encode X (take ?n body),
      b64_cek_cert = base64_encode X (subbytes ?n (sizeof_CSV_CERT_t H) body)\<rparr>"
    using assms(1) unfolding GetHygonCsvCollateral_def
    by (auto elim!: bindE_InrE simp: exn_simps split: sum.splits prod.splits)
  have "subbytes ?n (sizeof_CSV_CERT_t H) body = drop ?n body" using len by (simp add: subbytes_def)
  then show ?thesis
    using body len chain
    by (intro exI [of _ "take ?n body"] exI [of _ "drop ?n body"])
       (simp add: base64_roundtrip [OF assms(2)])
qed

section \<open>Concrete instances\<close>

definition sample_raw_collateral :: raw_collateral where
  "sample_raw_collateral = (let it = (\<lambda>c. ([c, CHR 0x00], 2)) in
     \<lparr>cd_version = 3, cd_pck_crl_issuer_chain = it CHR ''a'', cd_root_ca_crl = it CHR ''b'',
      cd_pck_crl = it CHR ''c'', cd_tcb_info_issuer_chain = it CHR ''d'',
      cd_tcb_info = it CHR ''e'', cd_qe_identity_issuer_chain = it CHR ''f'',
      cd_qe_identity = it CHR ''g'', cd_tee_type = 0\<rparr>)"

lemma sample_raw_terminated [simp]: "raw_terminated sample_raw_collateral"
  by (simp add: raw_terminated_def sample_raw_collateral_def item_terminated_def Let_def)

lemma GetIntelCollateral_sample:
  "GetIntelCollateral (\<lambda>_ _. (None, Some sample_raw_collateral)) q n = Inr sample_collateral"
  by (simp add: GetIntelCollateral_terminated [where get = "\<lambda>_ _. (None, Some sample_raw_collateral)"
        and c = sample_raw_collateral])
     (simp add: sample_raw_collateral_def sample_collateral_def item_text_def Let_def)

definition gen_layout :: gen_sizes where
  "gen_layout = \<lparr>SGX_HASH_SIZE = 32, SGX_REPORT_DATA_SIZE = 64, TDX_REPORT_DATA_SIZE = 64,
     GUEST_ATTESTATION_DATA_SIZE = 64\<rparr>"

lemma gen_layout_doc [simp]: "gen_sizes_doc gen_layout hygon_layout"
  by (simp add: gen_sizes_doc_def gen_layout_def hygon_layout_def)

definition sample_params :: "string \<Rightarrow> string \<Rightarrow> UnifiedAttestationGenerationParams" where
  "sample_params hex_user_data' pem = \<lparr>par_tee_identity = ''1'',
     par_report_type = kReportTypePassport, par_report_hex_nonce = [],
     par_report_params = \<lparr>par_hex_user_data = hex_user_data', par_pem_public_key = pem\<rparr>\<rparr>"

section \<open>Properties\<close>



text \<open>
  \<^bold>\<open>C29\<close>. The report data of all three platforms has one form. With the sizes of the headers,
  each preparation function accepts exactly the parameters with a nonce and user data that are
  not too long and not both given, and returns 64 bytes: the decoded user data or nonce padded
  with zeros to 32 bytes, then the hash of the decoded key or zeros. No copy leaves the array.
\<close>

theorem report_data_uniform:
  assumes "absl_doc X" and "sha256_doc X" and "gen_sizes_doc Z H"
  shows "(PrepareSgxReportData X Z p = Inr d \<longleftrightarrow> params_ok 32 p \<and> d = report_data_spec X p) \<and>
    (PrepareTdxReportData X Z p = Inr d \<longleftrightarrow> params_ok 32 p \<and> d = report_data_spec X p) \<and>
    (csv_report_data X Z H FillRand Sm3 p = Inr d \<longleftrightarrow>
       params_ok (GUEST_ATTESTATION_NONCE_SIZE H) p \<and> d = report_data_spec X p) \<and>
    (params_ok 32 p \<longrightarrow> length (report_data_spec X p) = 64)"
proof -
  have doc: "absl_doc X \<and> sha256_doc X \<and> gen_sizes_doc Z H" using assms by simp
  have "SGX_HASH_SIZE Z = 32" using assms(3) by (simp add: gen_sizes_doc_def)
  then show ?thesis
    using sgx_data.prepare_iff [OF doc, of p d] tdx_data.prepare_iff [OF doc, of p d]
      csv_data.prepare_iff [OF doc, of FillRand Sm3 p d] sgx_data.prepare_length [OF doc, of p]
      sgx_data.prepare_iff [OF doc, of p "report_data_spec X p"]
    by simp
qed

theorem report_data_uniform_witness:
  "PrepareSgxReportData ref_ext gen_layout (sample_params ''0aff'' []) =
     Inr ([0x0a, 0xff] @ zeros 30 @ zeros 32) \<and>
   PrepareTdxReportData ref_ext gen_layout (sample_params ''0aff'' []) =
     Inr ([0x0a, 0xff] @ zeros 30 @ zeros 32)"
proof -
  have spec: "report_data_spec ref_ext (sample_params ''0aff'' []) =
      [0x0a, 0xff] @ zeros 30 @ zeros 32"
    by (simp add: report_data_spec_def sample_params_def ref_ext_def pad32_def hex_val_def)
  have "params_ok 32 (sample_params ''0aff'' [])" by (simp add: params_ok_def sample_params_def)
  then show ?thesis
    using report_data_uniform [OF ref_absl_doc ref_sha256_doc gen_layout_doc,
        of "sample_params ''0aff'' []" "[0x0a, 0xff] @ zeros 30 @ zeros 32"]
    by (simp only: spec)
qed

end
