(* ===== verification/Generators.thy ===== *)
theory Generators
  imports Report_Data C_Buffers
begin

unbundle bit_operations_syntax

text \<open>
  Report generation: the three generators (\<open>generation/sgx2/sgx2_generator.cc\<close>,
  \<open>generation/tdx/tdx_generator.cc\<close>, \<open>generation/csv/csv_generator.cc\<close>), the choice between
  them at build time (\<open>generation/wrapper/generator_wrapper.cc\<close>), the JSON entry point
  (\<open>generation/interface/generator.cc\<close>), the C API
  (\<open>generation/wrapper/generator_wrapper_c_api.cc\<close>) and the report over a digest of user data
  that the proxies send (\<open>proxy/utils/ra_util.cc\<close>). The devices, the quoting libraries, the
  random generator and the SM3 functions are the record \<open>gen_env\<close>.
\<close>

section \<open>Environment\<close>

text \<open>
  A device call returns its code and what it writes. \<open>sgx_gen_quote\<close> gets the report data and
  the quote length and returns the new length and the bytes written to the quote buffer;
  \<open>tdx_att_get_quote\<close> returns a pointer to a buffer with its size; \<open>csv_get_report\<close> gets the
  page shared with the firmware and returns its new contents.
\<close>

record gen_env =
  ge_ext :: ext
  ge_sizes :: gen_sizes
  ge_hygon :: hygon_abi
  ge_errno :: nat
  ge_stack_trace :: "exn \<Rightarrow> string"
  sgx_open :: int
  sgx_get_quote_size :: "int \<times> u32"
  sgx_gen_quote :: "bytes \<Rightarrow> u32 \<Rightarrow> int \<times> u32 \<times> bytes"
  tdx_att_get_quote :: "bytes \<Rightarrow> u32 option \<times> (bytes \<times> u32) option"
  tee_qv_get_collateral :: "bytes \<Rightarrow> u32 \<Rightarrow> u32 option \<times> raw_collateral option"
  csv_open :: int
  csv_get_report :: "bytes \<Rightarrow> int \<times> bytes"
  csv_FillRand :: "nat \<Rightarrow> bytes"
  csv_Sm3 :: "bytes \<Rightarrow> bytes"
  csv_HmacSm3 :: "bytes \<Rightarrow> bytes \<Rightarrow> bytes"
  csv_http :: http_client
  sizeof_csv_attestation_user_data :: nat
  SN_LEN :: nat
  q_sn :: field
  q_reserved2 :: field
  q_mac_block :: nat

section \<open>The generators\<close>

definition kSgxDevice :: string where "kSgxDevice = ''/dev/sgx''"
definition kCsvDevice :: string where "kCsvDevice = ''/dev/csv-guest''"
definition kPageSize :: nat where "kPageSize = 4096"

definition report_type_check :: "string \<Rightarrow> unit res" where
  "report_type_check t =
     YACL_ENFORCE (t = kReportTypeBgcheck \<or> t = kReportTypePassport)
       (fmt ''Unsupport report_type: {}'' [t])"

definition Sgx2_GenerateReport ::
  "gen_env \<Rightarrow> UnifiedAttestationGenerationParams \<Rightarrow> UnifiedAttestationReport res" where
  "Sgx2_GenerateReport E gen_params =
     bindE (report_type_check (par_report_type gen_params)) (\<lambda>_.
     bindE (YACL_ENFORCE (0 \<le> sgx_open E) (fmt ''Fail to open {}'' [kSgxDevice])) (\<lambda>_.
     let (rc, quote_size) = sgx_get_quote_size E in
     bindE (YACL_ENFORCE (rc = 0)
       (fmt ''Fail to get quote size, errno = {}'' [to_string (ge_errno E)])) (\<lambda>_.
     bindE (PrepareSgxReportData (ge_ext E) (ge_sizes E) gen_params) (\<lambda>report_data.
     let quote = zeros (unat quote_size);
         (rc, quote_size, written) = sgx_gen_quote E report_data quote_size;
         quote = memcpy_at quote 0 written in
     bindE (YACL_ENFORCE (rc = 0)
       (fmt ''Fail to get quote, errno = {}'' [to_string (ge_errno E)])) (\<lambda>_.
     let b64_quote = base64_encode (ge_ext E) quote in
     bindE (if par_report_type gen_params = kReportTypePassport
            then bindE (GetIntelCollateral (tee_qv_get_collateral E) quote quote_size)
                   (PB2JSON (json_of_collateral (ge_ext E)))
            else Inr []) (\<lambda>json_collateral.
     bindE (PB2JSON (json_of_dcap (ge_ext E))
              \<lparr>dcap_b64_quote = b64_quote, dcap_json_collateral = json_collateral\<rparr>) (\<lambda>json_report.
     Inr \<lparr>rep_str_report_version = kReportVersion,
          rep_str_report_type = par_report_type gen_params,
          rep_str_tee_platform = kPlatformSgxDcap, rep_json_report = json_report\<rparr>)))))))"

definition Tdx_GenerateReport ::
  "gen_env \<Rightarrow> UnifiedAttestationGenerationParams \<Rightarrow> UnifiedAttestationReport res" where
  "Tdx_GenerateReport E gen_params =
     bindE (report_type_check (par_report_type gen_params)) (\<lambda>_.
     bindE (PrepareTdxReportData (ge_ext E) (ge_sizes E) gen_params) (\<lambda>report_data.
     let (ret, p_quote_buf) = tdx_att_get_quote E report_data in
     bindE (YACL_ENFORCE (ret = None \<and> p_quote_buf \<noteq> None)
       (''tdx_att_get_quote err: '' @ fmt_x (quote3_error ret))) (\<lambda>_.
     case p_quote_buf of None \<Rightarrow> Inl Null_deref | Some (buf, quote_size) \<Rightarrow>
     let quote = take (unat quote_size) buf;
         b64_quote = base64_encode (ge_ext E) quote in
     bindE (if par_report_type gen_params = kReportTypePassport
            then bindE (GetIntelCollateral (tee_qv_get_collateral E) quote quote_size)
                   (PB2JSON (json_of_collateral (ge_ext E)))
            else Inr []) (\<lambda>json_collateral.
     bindE (PB2JSON (json_of_tdx (ge_ext E))
              \<lparr>tdx_b64_quote = b64_quote, tdx_json_collateral = json_collateral\<rparr>) (\<lambda>json_report.
     Inr \<lparr>rep_str_report_version = kReportVersion,
          rep_str_report_type = par_report_type gen_params,
          rep_str_tee_platform = kPlatformTdx, rep_json_report = json_report\<rparr>)))))"

definition user_data_bytes :: "csv_attestation_user_data \<Rightarrow> bytes" where
  "user_data_bytes ud = ud_data ud @ ud_mnonce ud @ ud_hash ud"

definition Csv_GenerateReport ::
  "gen_env \<Rightarrow> UnifiedAttestationGenerationParams \<Rightarrow> UnifiedAttestationReport res" where
  "Csv_GenerateReport E gen_params =
     (let H = ge_hygon E; X = ge_ext E in
     bindE (report_type_check (par_report_type gen_params)) (\<lambda>_.
     bindE (YACL_ENFORCE (sizeof_csv_attestation_report H \<le> kPageSize)
       (fmt ''csv report size should not be greater than PAGESIZE({})''
          [to_string kPageSize])) (\<lambda>_.
     bindE (PrepareCsvUserData X (ge_sizes E) H (csv_FillRand E) (csv_Sm3 E) gen_params)
       (\<lambda>user_data.
     bindE (YACL_ENFORCE (0 \<le> csv_open E) (fmt ''Fail to open {}'' [kCsvDevice])) (\<lambda>_.
     bindE (YACL_ENFORCE
       (sizeof_csv_attestation_user_data E < sizeof_csv_attestation_report H)
       (fmt (''csv_attestation_report's size(got {}) should be greater '' @
             ''than csv_attestation_user_data's size(got {})'')
          [to_string (sizeof_csv_attestation_report H),
           to_string (sizeof_csv_attestation_user_data E)])) (\<lambda>_.
     let quote = memcpy_at (zeros kPageSize) 0
                   (take (sizeof_csv_attestation_user_data E) (user_data_bytes user_data));
         (rc, quote) = csv_get_report E quote in
     bindE (YACL_ENFORCE (rc = 0)
       (fmt ''Csv ioctl GET_ATTESTATION_REPORT failed, errno = {}''
          [to_string (ge_errno E)])) (\<lambda>_.
     let hmac_res = csv_HmacSm3 E (ud_mnonce user_data)
           (fld (q_pek_cert H) quote @ fld (q_sn E) quote @ fld (q_reserved2 E) quote) in
     bindE (YACL_ENFORCE
       (take (HASH_LEN H) hmac_res = subbytes (q_mac_block E) (HASH_LEN H) quote)
       ''PEK cert and chip id hmac verify failed'') (\<lambda>_.
     let quote = memcpy_at quote (fst (q_reserved2 E)) (zeros (snd (q_reserved2 E)));
         b64_quote = base64_encode X (take (sizeof_csv_attestation_report H) quote);
         chip_id_str = bytes_str (xor_words (anonce_of H quote)
                         (subbytes (fst (q_sn E)) (SN_LEN E) quote)) in
     bindE (if par_report_type gen_params = kReportTypePassport
            then bindE (GetHygonCsvCollateral X H (csv_http E) chip_id_str)
                   (PB2JSON (json_of_chain X))
            else Inr []) (\<lambda>json_cert_chain.
     bindE (PB2JSON (json_of_csv X)
              \<lparr>csv_b64_quote = b64_quote, csv_json_cert_chain = json_cert_chain,
               csv_str_chip_id = chip_id_str\<rparr>) (\<lambda>json_report.
     Inr \<lparr>rep_str_report_version = kReportVersion,
          rep_str_report_type = par_report_type gen_params,
          rep_str_tee_platform = kPlatformCsv, rep_json_report = json_report\<rparr>))))))))))"

section \<open>The entry points\<close>

text \<open>The macros of the build; the first that is defined decides.\<close>

record tee_build =
  TEE_TYPE_SGX2 :: bool
  TEE_TYPE_TDX :: bool
  TEE_TYPE_CSV :: bool

datatype generator_object =
  Sgx2AttestationGenerator | TdxAttestationGenerator | CsvAttestationGenerator

definition CreateAttestationGenerator :: "tee_build \<Rightarrow> generator_object res" where
  "CreateAttestationGenerator B =
     (if TEE_TYPE_SGX2 B then Inr Sgx2AttestationGenerator
      else if TEE_TYPE_TDX B then Inr TdxAttestationGenerator
      else if TEE_TYPE_CSV B then Inr CsvAttestationGenerator
      else YACL_THROW ''Unsupported TEE type!'')"

primrec GenerateReport ::
  "gen_env \<Rightarrow> generator_object \<Rightarrow> UnifiedAttestationGenerationParams
   \<Rightarrow> UnifiedAttestationReport res" where
  "GenerateReport E Sgx2AttestationGenerator p = Sgx2_GenerateReport E p"
| "GenerateReport E TdxAttestationGenerator p = Tdx_GenerateReport E p"
| "GenerateReport E CsvAttestationGenerator p = Csv_GenerateReport E p"

definition GenerateReportJson :: "gen_env \<Rightarrow> generator_object \<Rightarrow> string \<Rightarrow> string res" where
  "GenerateReportJson E g gen_params_json =
     bindE (JSON2PB (params_of_json (ge_ext E)) gen_params_json) (\<lambda>gen_params.
     bindE (GenerateReport E g gen_params) (\<lambda>report.
     PB2JSON (json_of_report (ge_ext E)) report))"

definition GenRaReport :: "gen_env \<Rightarrow> tee_build \<Rightarrow> bytes \<Rightarrow> UnifiedAttestationReport res" where
  "GenRaReport E B user_data =
     bindE (CreateAttestationGenerator B) (\<lambda>generator.
     let digest = Sha256 (ge_ext E) user_data in
     GenerateReport E generator
       \<lparr>par_tee_identity = ''1'', par_report_type = ''Passport'', par_report_hex_nonce = [],
        par_report_params = \<lparr>par_hex_user_data = BytesToHexString (ge_ext E) digest,
                             par_pem_public_key = []\<rparr>\<rparr>)"

section \<open>The C API\<close>

definition GetAttestationReportSize :: "int \<times> nat" where
  "GetAttestationReportSize = (0, kReportMaxSize)"

text \<open>The \<open>try\<close> block; \<open>None\<close> stands for a null pointer.\<close>

definition generate_body ::
  "gen_env \<Rightarrow> tee_build \<Rightarrow> string option \<Rightarrow> u32 \<Rightarrow> c_buffer option \<Rightarrow> c_buffer option res" where
  "generate_body E B params_buf params_len report_buf =
     bindE (YACL_ENFORCE (params_buf \<noteq> None \<and> report_buf \<noteq> None)
       ''params_buf or report_buf is null'') (\<lambda>_.
     case (params_buf, report_buf) of
       (Some params, Some buf) \<Rightarrow>
         bindE (JSON2PB (params_of_json (ge_ext E)) (take (unat params_len) params)) (\<lambda>gen_params.
         bindE (CreateAttestationGenerator B) (\<lambda>generator.
         bindE (GenerateReport E generator gen_params) (\<lambda>report.
         bindE (PB2JSON (json_of_report (ge_ext E)) report) (\<lambda>report_json.
         bindE (YACL_ENFORCE (length report_json \<le> unat (cb_len buf))
           (fmt ''report_len(got {}) should not be less than report json size({})''
              [to_string (unat (cb_len buf)), to_string (length report_json)])) (\<lambda>_.
         let report_len = word_of_nat (length report_json) in
         Inr (Some \<lparr>cb_mem = take (unat report_len) report_json @
                             drop (unat report_len) (cb_mem buf),
                    cb_len = report_len\<rparr>))))))
     | _ \<Rightarrow> Inl Null_deref)"

definition c_GenerateAttestationReport ::
  "gen_env \<Rightarrow> tee_build \<Rightarrow> string option \<Rightarrow> u32 \<Rightarrow> c_buffer option \<Rightarrow> c_buffer \<Rightarrow> c_buffer
   \<Rightarrow> (int \<times> c_buffer option \<times> c_buffer \<times> c_buffer) res" where
  "c_GenerateAttestationReport E B params_buf params_len report_buf msg det =
     bindE
       (case generate_body E B params_buf params_len report_buf of
          Inr report_buf \<Rightarrow> Inr (report_buf, 0, msg, det)
        | Inl ex \<Rightarrow> bindE (c_handlers (ge_stack_trace E) ex msg det) (\<lambda>r. Inr (report_buf, r)))
       (\<lambda>(report_buf, code, msg, det).
          Inr (code, report_buf, end_with_nul msg, end_with_nul det))"

section \<open>What the devices do\<close>

text \<open>
  The quote of an SGX device has the length asked for, at least that of \<open>sgx_quote3_t\<close>, and
  carries the report data it was given.
\<close>

definition sgx_device_doc :: "gen_env \<Rightarrow> sgx_sdk \<Rightarrow> bool" where
  "sgx_device_doc E S \<longleftrightarrow>
     (\<forall>rd n n' q. sgx_gen_quote E rd n = (0, n', q) \<longrightarrow>
        length q = unat n \<and> sizeof_sgx_quote3_t S \<le> unat n \<and>
        subbytes (q3_report_data S) (length rd) q = rd)"

text \<open>The quote of a TDX device is of version 4 and carries the report data it was given.\<close>

definition tdx_device_doc :: "gen_env \<Rightarrow> tdx_sdk \<Rightarrow> bool" where
  "tdx_device_doc E S \<longleftrightarrow>
     (\<forall>rd buf n. tdx_att_get_quote E rd = (None, Some (buf, n)) \<longrightarrow>
        tdx_header_ok S (take (unat n) buf) \<and>
        tdx_body S (take (unat n) buf) = Some (q4_report_body S) \<and>
        subbytes (q4_report_body S + rb_report_data S) (length rd) (take (unat n) buf) = rd)"

text \<open>
  The firmware keeps the size of the page and puts the first 64 bytes, the user data, masked
  with the nonce into the report. The field that the generator clears lies behind the PEK
  certificate and inside the report.
\<close>

definition csv_device_doc :: "gen_env \<Rightarrow> bool" where
  "csv_device_doc E \<longleftrightarrow>
     (\<forall>page page'. csv_get_report E page = (0, page') \<longrightarrow>
        length page' = length page \<and>
        csv_plain (ge_hygon E) page' (fst (q_user_data (ge_hygon E))) 64 = take 64 page) \<and>
     64 \<le> sizeof_csv_attestation_user_data E \<and>
     sizeof_csv_attestation_user_data E \<le>
       64 + GUEST_ATTESTATION_NONCE_SIZE (ge_hygon E) + HASH_LEN (ge_hygon E) \<and>
     fst (q_pek_cert (ge_hygon E)) + snd (q_pek_cert (ge_hygon E)) \<le> fst (q_reserved2 E) \<and>
     fst (q_reserved2 E) + snd (q_reserved2 E) \<le> sizeof_csv_attestation_report (ge_hygon E)"

section \<open>Generated reports are understood by the verifiers\<close>

lemma subbytes_halves:
  assumes "subbytes off 64 q = d" and "length d = 64"
  shows "subbytes off 32 q = take 32 d" and "subbytes (off + 32) 32 q = drop 32 d"
  using assms by (auto simp: subbytes_def drop_take min_absorb1 add.commute)

lemma sgx_generated:
  assumes doc: "absl_doc (ge_ext E)" "sha256_doc (ge_ext E)" "gen_sizes_doc (ge_sizes E) (ge_hygon E)"
    and wire: "base64_doc (ge_ext E)" "json_doc (ge_ext E)" and dev: "sgx_device_doc E S"
    and gen: "Sgx2_GenerateReport E p = Inr r" and type: "par_report_type p = kReportTypePassport"
  shows "\<exists>v. Sgx2_Create (ge_ext E) r = Inr v \<and> params_ok 32 p \<and>
    sizeof_sgx_quote3_t S \<le> length (sgx2_quote v) \<and>
    subbytes (q3_report_data S) 64 (sgx2_quote v) = report_data_spec (ge_ext E) p"
proof -
  let ?X = "ge_ext E"
  have docs: "absl_doc ?X \<and> sha256_doc ?X \<and> gen_sizes_doc (ge_sizes E) (ge_hygon E)"
    and size: "SGX_HASH_SIZE (ge_sizes E) = 32"
    using doc by (simp_all add: gen_sizes_doc_def)
  obtain rc0 n where sz: "sgx_get_quote_size E = (rc0, n)" by (cases "sgx_get_quote_size E")
  obtain rd where prep: "PrepareSgxReportData ?X (ge_sizes E) p = Inr rd"
    using gen unfolding Sgx2_GenerateReport_def Let_def sz by (auto elim!: bindE_InrE)
  obtain rc n' q where q: "sgx_gen_quote E rd n = (rc, n', q)" by (cases "sgx_gen_quote E rd n")
  obtain jc col jr where rc: "rc = 0" and jc: "json_of_collateral ?X col = Inr jc"
      and jr: "json_of_dcap ?X \<lparr>dcap_b64_quote =
          base64_encode ?X (memcpy_at (zeros (unat n)) 0 q), dcap_json_collateral = jc\<rparr> = Inr jr"
      and r: "r = \<lparr>rep_str_report_version = kReportVersion,
          rep_str_report_type = kReportTypePassport, rep_str_tee_platform = kPlatformSgxDcap,
          rep_json_report = jr\<rparr>"
    using gen unfolding Sgx2_GenerateReport_def Let_def type sz
    by (auto simp: prep q exn_simps)
  have rd: "params_ok 32 p" "rd = report_data_spec ?X p" "length rd = 64"
    using sgx_data.prepare_iff [OF docs, of p rd] sgx_data.prepare_length [OF docs prep] prep size
    by simp_all
  have dq: "length q = unat n" "sizeof_sgx_quote3_t S \<le> unat n"
    "subbytes (q3_report_data S) 64 q = rd"
    using dev q rc unfolding sgx_device_doc_def rd(3) [symmetric] by blast+
  have "memcpy_at (zeros (unat n)) 0 q = q" using dq(1) by (simp add: memcpy_at_def)
  then have "Sgx2_Create ?X r = Inr \<lparr>sgx2_report = r, sgx2_quote = q, sgx2_collateral = col\<rparr>"
    using wire jc jr r by (auto simp: Sgx2_Create_eq_Inr json_doc_def base64_roundtrip)
  then show ?thesis using dq rd by simp
qed

lemma tdx_generated:
  assumes doc: "absl_doc (ge_ext E)" "sha256_doc (ge_ext E)" "gen_sizes_doc (ge_sizes E) (ge_hygon E)"
    and wire: "base64_doc (ge_ext E)" "json_doc (ge_ext E)" and dev: "tdx_device_doc E S"
    and gen: "Tdx_GenerateReport E p = Inr r" and type: "par_report_type p = kReportTypePassport"
  shows "\<exists>v. Tdx_Create (ge_ext E) r = Inr v \<and> params_ok 32 p \<and> tdx_header_ok S (tdx_quote v) \<and>
    tdx_body S (tdx_quote v) = Some (q4_report_body S) \<and>
    subbytes (q4_report_body S + rb_report_data S) 64 (tdx_quote v) =
      report_data_spec (ge_ext E) p"
proof -
  let ?X = "ge_ext E"
  have docs: "absl_doc ?X \<and> sha256_doc ?X \<and> gen_sizes_doc (ge_sizes E) (ge_hygon E)"
    and size: "SGX_HASH_SIZE (ge_sizes E) = 32"
    using doc by (simp_all add: gen_sizes_doc_def)
  obtain rd where prep: "PrepareTdxReportData ?X (ge_sizes E) p = Inr rd"
    using gen unfolding Tdx_GenerateReport_def Let_def by (auto elim!: bindE_InrE)
  obtain ret pbuf where q: "tdx_att_get_quote E rd = (ret, pbuf)" by (cases "tdx_att_get_quote E rd")
  obtain buf n where buf: "ret = None" "pbuf = Some (buf, n)"
    using gen unfolding Tdx_GenerateReport_def Let_def by (auto simp: prep q exn_simps)
  let ?q = "take (unat n) buf"
  obtain jc col jr where jc: "json_of_collateral ?X col = Inr jc"
      and jr: "json_of_tdx ?X \<lparr>tdx_b64_quote = base64_encode ?X ?q,
          tdx_json_collateral = jc\<rparr> = Inr jr"
      and r: "r = \<lparr>rep_str_report_version = kReportVersion,
          rep_str_report_type = kReportTypePassport, rep_str_tee_platform = kPlatformTdx,
          rep_json_report = jr\<rparr>"
    using gen unfolding Tdx_GenerateReport_def Let_def type
    by (auto simp: prep q buf exn_simps)
  have rd: "params_ok 32 p" "rd = report_data_spec ?X p" "length rd = 64"
    using tdx_data.prepare_iff [OF docs, of p rd] tdx_data.prepare_length [OF docs prep] prep size
    by simp_all
  have "tdx_header_ok S ?q \<and> tdx_body S ?q = Some (q4_report_body S) \<and>
      subbytes (q4_report_body S + rb_report_data S) 64 ?q = rd"
    using dev q buf unfolding tdx_device_doc_def rd(3) [symmetric] by blast
  moreover have "Tdx_Create ?X r =
      Inr \<lparr>tdx_report = r, tdx_quote = ?q, tdx_collateral = col\<rparr>"
    using wire jc jr r by (auto simp: Tdx_Create_eq_Inr json_doc_def base64_roundtrip)
  ultimately show ?thesis using rd by simp
qed

lemma csv_plain_prefix:
  assumes "hygon_abi_doc H" and "off + n \<le> quote_msg_len H"
    and "take (fst (q_pek_cert H)) q' = take (fst (q_pek_cert H)) q"
  shows "csv_plain H q' off n = csv_plain H q off n"
proof -
  let ?k = "fst (q_pek_cert H)"
  have sub: "subbytes o' m q' = subbytes o' m q" if "o' + m \<le> ?k" for o' m
  proof -
    have "subbytes o' m (take ?k r) = subbytes o' m r" for r :: bytes
      using that by (simp add: subbytes_def drop_take min_absorb1)
    then show ?thesis using assms(3) by metis
  qed
  have "quote_msg_len H \<le> ?k" "fst (q_anonce H) + snd (q_anonce H) \<le> ?k"
    using assms(1) by (auto simp: hygon_abi_doc_def)
  then show ?thesis using assms(2) by (simp add: csv_plain_def anonce_of_def fld_def sub)
qed

lemma csv_generated:
  assumes doc: "absl_doc (ge_ext E)" "sha256_doc (ge_ext E)" "gen_sizes_doc (ge_sizes E) (ge_hygon E)"
    and wire: "base64_doc (ge_ext E)" "json_doc (ge_ext E)" and dev: "csv_device_doc E"
    and abi: "hygon_abi_doc (ge_hygon E)"
    and gen: "Csv_GenerateReport E p = Inr r" and type: "par_report_type p = kReportTypePassport"
  shows "\<exists>v. Csv_Create (ge_ext E) (ge_hygon E) r = Inr v \<and>
    params_ok (GUEST_ATTESTATION_NONCE_SIZE (ge_hygon E)) p \<and>
    csv_plain (ge_hygon E) (csv_quote v) (fst (q_user_data (ge_hygon E))) 64 =
      report_data_spec (ge_ext E) p"
proof -
  let ?X = "ge_ext E" and ?H = "ge_hygon E"
  have docs: "absl_doc ?X \<and> sha256_doc ?X \<and> gen_sizes_doc (ge_sizes E) ?H"
    using doc by simp
  obtain ud where prep: "PrepareCsvUserData ?X (ge_sizes E) ?H (csv_FillRand E) (csv_Sm3 E) p = Inr ud"
    using gen unfolding Csv_GenerateReport_def Let_def by (auto elim!: bindE_InrE)
  let ?page = "memcpy_at (zeros kPageSize) 0
      (take (sizeof_csv_attestation_user_data E) (user_data_bytes ud))"
  obtain rc page where pg: "csv_get_report E ?page = (rc, page)" by (cases "csv_get_report E ?page")
  let ?q = "memcpy_at page (fst (q_reserved2 E)) (zeros (snd (q_reserved2 E)))"
  let ?n = "sizeof_csv_attestation_report ?H"
  obtain chip chain jc jr where rc: "rc = 0" and n: "?n \<le> kPageSize"
      and m: "sizeof_csv_attestation_user_data E < ?n"
      and chain: "GetHygonCsvCollateral ?X ?H (csv_http E) chip = Inr chain"
      and jc: "json_of_chain ?X chain = Inr jc"
      and jr: "json_of_csv ?X \<lparr>csv_b64_quote = base64_encode ?X (take ?n ?q),
          csv_json_cert_chain = jc, csv_str_chip_id = chip\<rparr> = Inr jr"
      and r: "r = \<lparr>rep_str_report_version = kReportVersion,
          rep_str_report_type = kReportTypePassport, rep_str_tee_platform = kPlatformCsv,
          rep_json_report = jr\<rparr>"
    using gen unfolding Csv_GenerateReport_def Let_def type
    by (auto simp: prep pg exn_simps)
  have cd: "csv_report_data ?X (ge_sizes E) ?H (csv_FillRand E) (csv_Sm3 E) p = Inr (ud_data ud)"
    by (simp add: csv_report_data_def prep)
  have rd: "params_ok (GUEST_ATTESTATION_NONCE_SIZE ?H) p" "ud_data ud = report_data_spec ?X p"
    "length (ud_data ud) = 64"
    using csv_data.prepare_iff [OF docs, of "csv_FillRand E" "csv_Sm3 E" p "ud_data ud"] cd
      csv_data.prepare_length [OF docs cd] by simp_all
  have D: "length page = length ?page"
    "csv_plain ?H page (fst (q_user_data ?H)) 64 = take 64 ?page"
    "64 \<le> sizeof_csv_attestation_user_data E"
    "fst (q_pek_cert ?H) + snd (q_pek_cert ?H) \<le> fst (q_reserved2 E)"
    "fst (q_reserved2 E) + snd (q_reserved2 E) \<le> ?n"
    using dev pg rc unfolding csv_device_doc_def by blast+
  have "length ?page = length (zeros kPageSize)"
    using m n by (intro length_memcpy_at) (simp add: fits_def)
  then have len: "length page = kPageSize" unfolding D(1) length_zeros .
  have data: "take 64 ?page = report_data_spec ?X p"
    using rd(2,3) D(3) by (simp add: memcpy_at_def user_data_bytes_def)
  have fit: "fits page (fst (q_reserved2 E)) (zeros (snd (q_reserved2 E)))"
    using D(5) n len by (simp add: fits_def)
  have "take (fst (q_pek_cert ?H)) (take ?n ?q) = take (fst (q_pek_cert ?H)) page"
    using take_memcpy_at [OF fit, of "fst (q_pek_cert ?H)"] D(4,5) by (simp add: min_absorb1)
  then have "csv_plain ?H (take ?n ?q) (fst (q_user_data ?H)) 64 =
      csv_plain ?H page (fst (q_user_data ?H)) 64"
    by (rule csv_plain_prefix [OF abi hygon_abi_offsets(3) [OF abi]])
  then have plain: "csv_plain ?H (take ?n ?q) (fst (q_user_data ?H)) 64 = report_data_spec ?X p"
    unfolding D(2) data .
  obtain hsk cek where certs: "base64_decode ?X (b64_hsk_cert chain) = Some hsk"
      "length hsk = sizeof_CHIP_ROOT_CERT_t ?H" "base64_decode ?X (b64_cek_cert chain) = Some cek"
      "length cek = sizeof_CSV_CERT_t ?H"
    using GetHygonCsvCollateral_eq_Inr [OF chain wire(1)] by blast
  moreover have "length (take ?n ?q) = ?n" using fit len n by (simp add: length_memcpy_at)
  moreover have "csv_of_json ?X jr = Inr \<lparr>csv_b64_quote = base64_encode ?X (take ?n ?q),
      csv_json_cert_chain = jc, csv_str_chip_id = chip\<rparr>" "chain_of_json ?X jc = Inr chain"
    using wire(2) jc jr unfolding json_doc_def by blast+
  ultimately have "Csv_Create ?X ?H r = Inr \<lparr>csv_report = r, csv_quote = take ?n ?q,
      csv_hsk_cert = hsk, csv_cek_cert = cek\<rparr>"
    unfolding Csv_Create_eq_Inr using r certs base64_roundtrip [OF wire(1), of "take ?n ?q"] by simp
  then show ?thesis using rd plain by simp
qed
section \<open>The C API\<close>

text \<open>Collateral of the Intel library as it is documented.\<close>

definition collateral_doc :: "gen_env \<Rightarrow> bool" where
  "collateral_doc E \<longleftrightarrow>
     (\<forall>q n c. tee_qv_get_collateral E q n = (None, Some c) \<longrightarrow> raw_terminated c)"

lemma GetIntelCollateral_no_crash:
  assumes "\<And>c. get q n = (None, Some c) \<Longrightarrow> raw_terminated c"
  shows "no_crash (GetIntelCollateral get q n)"
proof (cases "\<exists>c. get q n = (None, Some c)")
  case True
  then show ?thesis using assms by (auto simp: GetIntelCollateral_terminated)
next
  case False
  then show ?thesis
    by (cases "get q n") (auto simp: GetIntelCollateral_def no_crash_def YACL_ENFORCE_def)
qed

lemma no_crash_prepare [simp]:
  "no_crash (PrepareSgxReportData X Z p)" "no_crash (PrepareTdxReportData X Z p)"
  "no_crash (PrepareCsvUserData X Z H FillRand Sm3 p)"
  unfolding PrepareSgxReportData_def PrepareTdxReportData_def PrepareCsvUserData_def Let_def
  by (intro no_crash_bindE no_crash_basic)+

lemma no_crash_report_type_check [simp]: "no_crash (report_type_check t)"
  by (simp add: report_type_check_def)

lemma no_crash_GetHygonCsvCollateral [simp]: "no_crash (GetHygonCsvCollateral X H C chip)"
  unfolding GetHygonCsvCollateral_def by (auto intro!: no_crash_bindE split: sum.splits prod.splits)

lemma GenerateReport_no_crash:
  assumes "collateral_doc E"
  shows "no_crash (GenerateReport E g p)"
proof -
  have col: "no_crash (GetIntelCollateral (tee_qv_get_collateral E) q n)" for q n
    using assms by (intro GetIntelCollateral_no_crash) (auto simp: collateral_doc_def)
  show ?thesis
  proof (cases g)
    case Sgx2AttestationGenerator
    then show ?thesis unfolding Sgx2AttestationGenerator GenerateReport.simps
        Sgx2_GenerateReport_def Let_def
      by (auto intro!: no_crash_bindE simp: col split: prod.splits)
  next
    case TdxAttestationGenerator
    then show ?thesis unfolding TdxAttestationGenerator GenerateReport.simps
        Tdx_GenerateReport_def Let_def
      by (auto intro!: no_crash_bindE simp: col exn_simps split: prod.splits)
  next
    case CsvAttestationGenerator
    then show ?thesis unfolding CsvAttestationGenerator GenerateReport.simps
        Csv_GenerateReport_def Let_def
      by (auto intro!: no_crash_bindE split: prod.splits)
  qed
qed

lemma generate_body_null:
  "ps = None \<or> rb = None \<Longrightarrow>
   generate_body E B ps n rb = Inl (Exn Yacl_Exception ''params_buf or report_buf is null'')"
  by (auto simp: generate_body_def)

lemma generate_body_eq_Inr:
  "generate_body E B (Some ps) n (Some buf) = Inr b' \<longleftrightarrow>
     (\<exists>g json. CreateAttestationGenerator B = Inr g \<and>
        GenerateReportJson E g (take (unat n) ps) = Inr json \<and> length json \<le> unat (cb_len buf) \<and>
        b' = Some \<lparr>cb_mem = take (unat (word_of_nat (length json) :: u32)) json @
            drop (unat (word_of_nat (length json) :: u32)) (cb_mem buf),
            cb_len = word_of_nat (length json)\<rparr>)"
  unfolding generate_body_def GenerateReportJson_def Let_def
  by (auto simp: exn_simps)

lemma no_crash_generate_body:
  assumes "collateral_doc E"
  shows "no_crash (generate_body E B ps n rb)"
proof (cases "ps = None \<or> rb = None")
  case True
  then show ?thesis by (simp add: generate_body_null)
next
  case False
  have "no_crash (CreateAttestationGenerator B)" by (simp add: CreateAttestationGenerator_def)
  with False show ?thesis
    using GenerateReport_no_crash [OF assms]
    by (auto simp: generate_body_def Let_def intro!: no_crash_bindE)
qed

section \<open>A concrete environment\<close>

text \<open>
  Devices with the documented behaviour: the SGX and TDX devices put the report data into a
  quote of zeros, the CSV firmware uses the nonce zero, so that masked data is plain.
\<close>

definition sample_gen_env :: gen_env where
  "sample_gen_env = \<lparr>ge_ext = ref_ext, ge_sizes = gen_layout, ge_hygon = hygon_layout,
     ge_errno = 0, ge_stack_trace = (\<lambda>_. ''trace''), sgx_open = 3,
     sgx_get_quote_size = (0, 436),
     sgx_gen_quote = (\<lambda>rd n. if n = 436 \<and> length rd = 64
       then (0, 436, zeros 368 @ rd @ zeros 3 @ [1]) else (1, n, [])),
     tdx_att_get_quote = (\<lambda>rd. if length rd = 64
       then (None, Some (sample_tdx_quote 4 (zeros 520 @ rd), 636)) else (Some 1, None)),
     tee_qv_get_collateral = (\<lambda>_ _. (None, Some sample_raw_collateral)),
     csv_open = 3,
     csv_get_report = (\<lambda>page. if length page = 4096
       then (0, zeros 64 @ take 64 page @ zeros 3968) else (1, page)),
     csv_FillRand = zeros, csv_Sm3 = (\<lambda>_. zeros 32), csv_HmacSm3 = (\<lambda>_ _. zeros 32),
     csv_http = \<lparr>channel_init = (\<lambda>_. 0), http_get = (\<lambda>_ _. Inr (sample_hsk @ sample_cek))\<rparr>,
     sizeof_csv_attestation_user_data = 112, SN_LEN = 64, q_sn = (2420, 64),
     q_reserved2 = (2484, 32), q_mac_block = 2516\<rparr>"

lemma sample_collateral_doc [simp]: "collateral_doc sample_gen_env"
  by (simp add: collateral_doc_def sample_gen_env_def)

lemma sample_sgx_device [simp]: "sgx_device_doc sample_gen_env sgx_layout"
  by (auto simp: sgx_device_doc_def sample_gen_env_def sgx_layout_def subbytes_def
      split: if_splits)

lemma sample_tdx_device [simp]: "tdx_device_doc sample_gen_env tdx_layout"
proof -
  have "subbytes (q4_report_body tdx_layout + rb_report_data tdx_layout) 64
      (take 636 (sample_tdx_quote 4 (zeros 520 @ rd))) = rd" if "length rd = 64" for rd
    using that by (simp add: tdx_layout_def sgx_sdk.extend_def sample_tdx_quote_def tdx_header_def
        subbytes_def)
  moreover have "take 636 (sample_tdx_quote 4 (zeros 520 @ rd)) = sample_tdx_quote 4 (zeros 520 @ rd)"
    if "length rd = 64" for rd
    using sample_tdx_quote_header(1) [of "zeros 520 @ rd" 4] that by simp
  moreover have "q4_report_body tdx_layout = 48" by (simp add: tdx_layout_def sgx_sdk.extend_def)
  ultimately show ?thesis
    using sample_tdx_quote_header(3) [of "zeros 520 @ _" 4] sample_tdx_quote_header(4)
    by (auto simp: tdx_device_doc_def sample_gen_env_def split: if_splits)
qed

lemma sample_csv_device [simp]: "csv_device_doc sample_gen_env"
proof -
  have "csv_plain hygon_layout (zeros 64 @ take 64 page @ zeros 3968) 64 64 = take 64 page"
    if "length page = 4096" for page
  proof -
    have "anonce_of hygon_layout (zeros 64 @ take 64 page @ zeros 3968) = 0"
      using that by (simp add: anonce_of_def fld_def hygon_layout_def subbytes_def le_word_def)
    moreover have "subbytes 64 64 (zeros 64 @ take 64 page @ zeros 3968) = take 64 page"
      using that by (simp add: subbytes_def)
    ultimately show ?thesis using that by (simp add: csv_plain_def xor_words_0)
  qed
  then show ?thesis
    by (auto simp: csv_device_doc_def sample_gen_env_def split: if_splits)
       (simp_all add: hygon_layout_def)
qed

definition sgx_build :: tee_build where
  "sgx_build = \<lparr>TEE_TYPE_SGX2 = True, TEE_TYPE_TDX = False, TEE_TYPE_CSV = False\<rparr>"

text \<open>The report the sample SGX device gives for some parameters.\<close>

lemma sample_sgx_generated:
  assumes "params_ok 32 p" and "par_report_type p = kReportTypePassport"
  shows "Sgx2_GenerateReport sample_gen_env p =
    Inr (dcap_report_of kPlatformSgxDcap (zeros 368 @ report_data_spec ref_ext p @ zeros 3 @ [1]))"
proof -
  have doc: "absl_doc ref_ext \<and> sha256_doc ref_ext \<and> gen_sizes_doc gen_layout hygon_layout" by simp
  have prep: "PrepareSgxReportData ref_ext gen_layout p = Inr (report_data_spec ref_ext p)"
    using sgx_data.prepare_iff [OF doc, of p "report_data_spec ref_ext p"] assms(1)
    by (simp add: gen_layout_def)
  have len: "length (report_data_spec ref_ext p) = 64"
    by (rule sgx_data.prepare_length [OF doc prep])
  have jc: "PB2JSON (json_of_collateral ref_ext) sample_collateral =
      Inr (projr (json_of_collateral ref_ext sample_collateral))"
    and jd: "PB2JSON (json_of_dcap ref_ext) m =
      Inr (enc_strs [dcap_b64_quote m, dcap_json_collateral m])" for m
    by (simp_all add: PB2JSON_def ref_ext_def)
  have b64: "base64_encode ref_ext = bytes_str" by (simp add: ref_ext_def)
  show ?thesis
    unfolding Sgx2_GenerateReport_def Let_def assms(2)
    by (simp add: sample_gen_env_def report_type_check_def prep len memcpy_at_def
        GetIntelCollateral_sample jc jd b64 dcap_report_of_def)
qed

section \<open>Properties\<close>

lemma c_generate_result:
  assumes "collateral_doc E" and "buffer_ok buf" and "buffer_ok msg" and "buffer_ok det"
  shows "\<exists>rc buf' msg' det'.
    c_GenerateAttestationReport E B (Some ps) n (Some buf) msg det = Inr (rc, Some buf', msg', det') \<and>
    buffer_result msg msg' \<and> buffer_result det det' \<and>
    length (cb_mem buf') = length (cb_mem buf) \<and>
    drop (unat (cb_len buf)) (cb_mem buf') = drop (unat (cb_len buf)) (cb_mem buf) \<and>
    (if rc = 0
     then \<exists>g json. CreateAttestationGenerator B = Inr g \<and>
            GenerateReportJson E g (take (unat n) ps) = Inr json \<and>
            length json \<le> unat (cb_len buf) \<and> unat (cb_len buf') = length json \<and>
            take (length json) (cb_mem buf') = json
     else buf' = buf \<and> \<not> (\<exists>g json. CreateAttestationGenerator B = Inr g \<and>
            GenerateReportJson E g (take (unat n) ps) = Inr json \<and>
            length json \<le> unat (cb_len buf)))"
proof (rule no_crash_cases [OF no_crash_generate_body [OF assms(1), of B "Some ps" n "Some buf"]])
  fix b
  assume m: "generate_body E B (Some ps) n (Some buf) = Inr b"
  then obtain g json where run: "CreateAttestationGenerator B = Inr g"
      "GenerateReportJson E g (take (unat n) ps) = Inr json" "length json \<le> unat (cb_len buf)"
    and b: "b = Some \<lparr>cb_mem = take (unat (word_of_nat (length json) :: u32)) json @
            drop (unat (word_of_nat (length json) :: u32)) (cb_mem buf),
            cb_len = word_of_nat (length json)\<rparr>"
    unfolding generate_body_eq_Inr by blast
  have "length json < 2 ^ 32"
    using run(3) unsigned_less [of "cb_len buf", where ?'a = nat] by simp
  then have "unat (word_of_nat (length json) :: u32) = length json" unfolding unat_of_nat by simp
  then show ?thesis
    using run b m assms
    by (simp add: c_GenerateAttestationReport_def end_with_nul_result buffer_ok_def)
next
  fix c w
  assume m: "generate_body E B (Some ps) n (Some buf) = Inl (Exn c w)"
  have "\<not> (\<exists>g json. CreateAttestationGenerator B = Inr g \<and>
      GenerateReportJson E g (take (unat n) ps) = Inr json \<and> length json \<le> unat (cb_len buf))"
    using generate_body_eq_Inr [of E B ps n buf] m by force
  then show ?thesis
    using m assms by (cases c) (simp_all add: c_GenerateAttestationReport_def c_handlers_def
        end_with_nul_result end_with_nul_put_str)
qed



text \<open>
  Null pointers for the parameters or the report are reported, not followed:
  \<open>GenerateAttestationReport\<close> then returns the code of an internal error.
\<close>

lemma c_GenerateAttestationReport_null:
  assumes "ps = None \<or> rb = None"
  shows "\<exists>msg' det'. c_GenerateAttestationReport E B ps n rb msg det = Inr (18, rb, msg', det')"
  using assms by (simp add: c_GenerateAttestationReport_def generate_body_null c_handlers_def)

end
