(* ===== verification/Api_Clients.thy ===== *)
theory Api_Clients
  imports Verifier_Api Generators
begin

text \<open>
  Two clients of the C API: the Rust wrapper (\<open>cargo/trustflow-attestation-rs/src/lib.rs\<close>) and the
  sample program (\<open>attestation/sample/generation/main.cc\<close>). Both bring their own buffers; the
  theory shows that the wrapper returns what the C++ functions return.
\<close>

section \<open>The part of Rust that the wrapper uses\<close>

text \<open>
  Strings are the bytes of their UTF-8 form. A call ends with a value, an error, a panic, or in a
  crash of the library. The text of a conversion error is not modelled beyond its beginning.
\<close>

datatype rust_error = Error_text string | Error_utf8 string | Error_json string

datatype 'a rust = Ok 'a | Err rust_error | Panic | Crash

primrec and_then :: "'a rust \<Rightarrow> ('a \<Rightarrow> 'b rust) \<Rightarrow> 'b rust" where
  "and_then (Ok x) f = f x"
| "and_then (Err e) f = Err e"
| "and_then Panic f = Panic"
| "and_then Crash f = Crash"

text \<open>The well-formed byte sequences of UTF-8.\<close>

definition between :: "nat \<Rightarrow> nat \<Rightarrow> nat \<Rightarrow> bool" where
  "between a b n \<longleftrightarrow> a \<le> n \<and> n \<le> b"

fun utf8_valid :: "nat list \<Rightarrow> bool" where
  "utf8_valid [] \<longleftrightarrow> True"
| "utf8_valid (a # bs) \<longleftrightarrow>
     (if a \<le> 0x7F then utf8_valid bs
      else case bs of [] \<Rightarrow> False
      | b # cs \<Rightarrow>
         if between 0xC2 0xDF a then between 0x80 0xBF b \<and> utf8_valid cs
         else case cs of [] \<Rightarrow> False
         | c # ds \<Rightarrow>
            if between 0xE0 0xEF a
            then between (if a = 0xE0 then 0xA0 else 0x80) (if a = 0xED then 0x9F else 0xBF) b \<and>
                 between 0x80 0xBF c \<and> utf8_valid ds
            else case ds of [] \<Rightarrow> False
            | d # es \<Rightarrow>
                between 0xF0 0xF4 a \<and>
                between (if a = 0xF0 then 0x90 else 0x80) (if a = 0xF4 then 0x8F else 0xBF) b \<and>
                between 0x80 0xBF c \<and> between 0x80 0xBF d \<and> utf8_valid es)"

definition from_utf8 :: "string \<Rightarrow> string \<Rightarrow> string rust" where
  "from_utf8 context s = (if utf8_valid (map of_char s) then Ok s else Err (Error_utf8 context))"

text \<open>\<open>CString::new\<close> refuses a zero byte inside; a slice up to \<open>n\<close> panics if the vector is shorter.\<close>

definition CString_new :: "string \<Rightarrow> string \<Rightarrow> string rust" where
  "CString_new failure s = (if NUL \<in> set s then Err (Error_text failure) else Ok (s @ [NUL]))"

definition slice_to :: "string \<Rightarrow> u32 \<Rightarrow> string rust" where
  "slice_to v n = (if unat n \<le> length v then Ok (take (unat n) v) else Panic)"

definition c_call :: "'a res \<Rightarrow> 'a rust" where
  "c_call r = (case r of Inr x \<Rightarrow> Ok x | Inl _ \<Rightarrow> Crash)"

section \<open>The wrapper\<close>

definition BUFFER_SIZE_IN_BYTES :: u32 where "BUFFER_SIZE_IN_BYTES = 8192"

definition zeroed :: "u32 \<Rightarrow> c_buffer" where
  "zeroed n = \<lparr>cb_mem = replicate (unat n) NUL, cb_len = n\<rparr>"

text \<open>The null pointer for the details, of length zero.\<close>

definition no_details :: c_buffer where
  "no_details = \<lparr>cb_mem = [], cb_len = 0\<rparr>"

text \<open>A code other than zero becomes an error with the text of the message buffer.\<close>

definition message_error :: "c_buffer \<Rightarrow> 'a rust" where
  "message_error msg =
     and_then (slice_to (cb_mem msg) (cb_len msg)) (\<lambda>v.
     and_then (from_utf8 ''parse error msg failed, '' v) (\<lambda>v. Err (Error_text v)))"

definition get_attributes_max_size :: "u32 rust" where
  "get_attributes_max_size = Ok (word_of_nat GetAttributesMaxSize)"

text \<open>\<open>from_slice\<close> is the JSON parser of \<open>serde_json\<close>.\<close>

definition parse_attributes_from_report ::
  "'k verifier_env \<Rightarrow> (string \<Rightarrow> string + UnifiedAttestationAttributes) \<Rightarrow> string
   \<Rightarrow> UnifiedAttestationAttributes rust" where
  "parse_attributes_from_report E from_slice report_json_str =
     and_then (CString_new ''attestation_report_verify: report_json_str ffi failure'' report_json_str)
       (\<lambda>c_report_json_str.
     and_then get_attributes_max_size (\<lambda>attrs_len.
     and_then (c_call (c_ParseAttributesFromReport E c_report_json_str (word_of_nat (length report_json_str))
                 (zeroed attrs_len) (zeroed BUFFER_SIZE_IN_BYTES) no_details)) (\<lambda>(code, attrs_buf, msg, _).
     if code \<noteq> 0 then message_error msg
     else and_then (slice_to (cb_mem attrs_buf) (cb_len attrs_buf)) (\<lambda>s.
       case from_slice s of Inl e \<Rightarrow> Err (Error_json e) | Inr attrs \<Rightarrow> Ok attrs))))"

definition attestation_report_verify :: "'k verifier_env \<Rightarrow> string \<Rightarrow> string \<Rightarrow> unit rust" where
  "attestation_report_verify E report_json_str policy_json_str =
     and_then (CString_new ''attestation_report_verify: report_json_str ffi failure'' report_json_str)
       (\<lambda>c_report_json_str.
     and_then (CString_new ''attestation_report_verify: policy_json_str ffi failure'' policy_json_str)
       (\<lambda>c_policy_json_str.
     and_then (c_call (c_AttestationReportVerify E c_report_json_str (word_of_nat (length report_json_str))
                 c_policy_json_str (word_of_nat (length policy_json_str)) (zeroed BUFFER_SIZE_IN_BYTES) no_details))
       (\<lambda>(code, msg, _).
     if code \<noteq> 0 then message_error msg else Ok ())))"

definition get_attestation_report_size :: "string \<Rightarrow> u32 rust" where
  "get_attestation_report_size params_json_str =
     and_then (CString_new ''attestation_report_verify: params_json_str ffi failure'' params_json_str) (\<lambda>_.
     let (code, report_len) = GetAttestationReportSize in
     if code \<noteq> 0 then Err (Error_text ''get_attestation_report_size failed'')
     else Ok (word_of_nat report_len))"

definition generate_attestation_report :: "gen_env \<Rightarrow> tee_build \<Rightarrow> string \<Rightarrow> string rust" where
  "generate_attestation_report E B params_json_str =
     and_then (get_attestation_report_size params_json_str) (\<lambda>report_len.
     and_then (CString_new ''attestation_report_verify: params_json_str ffi failure'' params_json_str)
       (\<lambda>c_params_json_str.
     and_then (c_call (c_GenerateAttestationReport E B (Some c_params_json_str)
                 (word_of_nat (length params_json_str)) (Some (zeroed report_len))
                 (zeroed BUFFER_SIZE_IN_BYTES) no_details)) (\<lambda>(code, report_buf, msg, _).
     if code \<noteq> 0 then message_error msg
     else case report_buf of
            None \<Rightarrow> Crash
          | Some buf \<Rightarrow> and_then (slice_to (cb_mem buf) (cb_len buf)) (from_utf8 []))))"

section \<open>The sample program\<close>

text \<open>
  It generates a report twice, through the class and through the C API; the devices may behave
  differently the second time. The report and the two message buffers are printed as C strings.
\<close>

definition main_params :: "ext \<Rightarrow> UnifiedAttestationGenerationParams" where
  "main_params X =
     \<lparr>par_tee_identity = [], par_report_type = ''Passport'', par_report_hex_nonce = [],
      par_report_params = \<lparr>par_hex_user_data = BytesToHexString X (str_bytes ''user_data''),
                           par_pem_public_key = []\<rparr>\<rparr>"

definition c_str :: "c_buffer \<Rightarrow> string" where
  "c_str b = takeWhile (\<lambda>c. c \<noteq> NUL) (cb_mem b)"

definition sample_body ::
  "gen_env \<Rightarrow> gen_env \<Rightarrow> tee_build \<Rightarrow> (UnifiedAttestationGenerationParams \<Rightarrow> string + string)
   \<Rightarrow> (string \<times> c_buffer) res" where
  "sample_body E E' B json_of_params =
     bindE (CreateAttestationGenerator B) (\<lambda>generator.
     let gen_params = main_params (ge_ext E) in
     bindE (GenerateReport E generator gen_params) (\<lambda>report.
     bindE (PB2JSON (json_of_report (ge_ext E)) report) (\<lambda>report_json.
     bindE (PB2JSON json_of_params gen_params) (\<lambda>params_buf.
     let (code, report_len) = GetAttestationReportSize in
     bindE (YACL_ENFORCE (code = error_code kOk) (fmt ''GetAttestationReportSize err: {}'' [to_string (nat code)])) (\<lambda>_.
     bindE (c_GenerateAttestationReport E' B (Some (params_buf @ [NUL])) (word_of_nat (length params_buf))
              (Some (zeroed (word_of_nat report_len))) (zeroed 512) (zeroed 4096))
       (\<lambda>(code, report_buf, msg, det).
     bindE (YACL_ENFORCE (code = error_code kOk)
       (fmt ''GenerateAttestationReport err: {}, msg: {}, details: {}'' [to_string (nat code), c_str msg, c_str det]))
       (\<lambda>_.
     case report_buf of None \<Rightarrow> Inl Null_deref | Some buf \<Rightarrow> Inr (report_json, buf))))))))"

definition sample_main ::
  "gen_env \<Rightarrow> gen_env \<Rightarrow> tee_build \<Rightarrow> (UnifiedAttestationGenerationParams \<Rightarrow> string + string) \<Rightarrow> int option" where
  "sample_main E E' B json_of_params =
     (case sample_body E E' B json_of_params of
        Inr _ \<Rightarrow> Some 0 | Inl (Exn _ _) \<Rightarrow> Some (- 1) | Inl Null_deref \<Rightarrow> None)"

section \<open>Buffers\<close>

lemma zeroed_ok [simp]: "buffer_ok (zeroed n)" "buffer_ok no_details"
  by (simp_all add: buffer_ok_def zeroed_def no_details_def)

lemma zeroed_sel [simp]: "cb_len (zeroed n) = n" "length (cb_mem (zeroed n)) = unat n"
  by (simp_all add: zeroed_def)

lemma take_strlen:
  assumes "strlen s < length s"
  shows "take (strlen s + 1) s = takeWhile (\<lambda>c. c \<noteq> NUL) s @ [NUL]"
proof -
  have "s ! strlen s = NUL"
    using nth_length_takeWhile [of "\<lambda>c. c \<noteq> NUL" s] assms by (simp add: strlen_def)
  moreover have "take (strlen s) s = takeWhile (\<lambda>c. c \<noteq> NUL) s"
    by (simp add: strlen_def takeWhile_eq_take [symmetric])
  ultimately show ?thesis using assms by (simp add: take_Suc_conv_app_nth)
qed

text \<open>The error for a message, as it is in the buffer that a call leaves.\<close>

definition error_for :: "string \<Rightarrow> 'a rust" where
  "error_for m =
     (let v = take 8191 (takeWhile (\<lambda>c. c \<noteq> NUL) m) @ [NUL] in
      if utf8_valid (map of_char v) then Err (Error_text v) else Err (Error_utf8 ''parse error msg failed, ''))"

lemma message_error_text:
  assumes "buffer_result (zeroed BUFFER_SIZE_IN_BYTES) msg'"
    and "takeWhile (\<lambda>c. c \<noteq> NUL) (cb_mem msg') = take 8191 (takeWhile (\<lambda>c. c \<noteq> NUL) m)"
  shows "message_error msg' = error_for m"
proof -
  have len: "length (cb_mem msg') = 8192" "unat (cb_len msg') = strlen (cb_mem msg') + 1" "unat (cb_len msg') \<le> 8192"
    using assms(1) by (simp_all add: buffer_result_def BUFFER_SIZE_IN_BYTES_def)
  then have "take (unat (cb_len msg')) (cb_mem msg') = take 8191 (takeWhile (\<lambda>c. c \<noteq> NUL) m) @ [NUL]"
    using take_strlen [of "cb_mem msg'"] assms(2) by simp
  then show ?thesis
    using len by (simp add: message_error_def slice_to_def from_utf8_def error_for_def Let_def)
qed

lemma message_error_Err:
  assumes "buffer_result (zeroed BUFFER_SIZE_IN_BYTES) msg'"
  shows "\<exists>e. message_error msg' = Err e"
  using assms by (simp add: buffer_result_def BUFFER_SIZE_IN_BYTES_def message_error_def slice_to_def from_utf8_def)

lemma c_argument:
  "length s < 2 ^ 32 \<Longrightarrow> take (unat (word_of_nat (length s) :: u32)) (s @ [NUL]) = s"
  by (simp add: unat_of_nat)

text \<open>The sample program ends with zero only if both interfaces produced a report.\<close>

lemma sample_main_ok:
  assumes "collateral_doc E'" "json_of_params (main_params (ge_ext E)) = Inr ps" "length ps < 2 ^ 32"
    and "sample_main E E' B json_of_params = Some 0"
  shows "\<exists>g r json json'. CreateAttestationGenerator B = Inr g \<and>
    GenerateReport E g (main_params (ge_ext E)) = Inr r \<and> json_of_report (ge_ext E) r = Inr json \<and>
    GenerateReportJson E' g ps = Inr json' \<and> length json' \<le> 40960"
proof -
  let ?n = "word_of_nat (length ps) :: u32"
  obtain rc buf' msg' det' where c:
    "c_GenerateAttestationReport E' B (Some (ps @ [NUL])) ?n (Some (zeroed 40960)) (zeroed 512) (zeroed 4096) =
       Inr (rc, Some buf', msg', det')"
    "rc = 0 \<longrightarrow> (\<exists>g json. CreateAttestationGenerator B = Inr g \<and> GenerateReportJson E' g ps = Inr json \<and>
       length json \<le> 40960)"
    using c_generate_result [OF assms(1) zeroed_ok(1) [of 40960] zeroed_ok(1) [of 512] zeroed_ok(1) [of 4096],
        of B "ps @ [NUL]" ?n]
    unfolding c_argument [OF assms(3)] by (auto split: if_splits)
  obtain x where "sample_body E E' B json_of_params = Inr x"
    using assms(4) by (auto simp: sample_main_def split: sum.splits exn.splits)
  then show ?thesis
    using c assms(2)
    by (auto simp: sample_body_def Let_def exn_simps GetAttestationReportSize_def kReportMaxSize_def error_code_def)
qed

section \<open>Properties\<close>

text \<open>
  \<^bold>\<open>C21\<close>: verification through Rust agrees with the C++ function. For strings without zero bytes
  below 4 GiB the call neither panics nor crashes: it returns normally exactly if the C++
  status has the code zero, and otherwise with the message of the status as error, cut to the
  buffer and followed by a zero byte, or with a conversion error if that text is not UTF-8. A
  string with a zero byte is refused.
\<close>

theorem rust_verify_refines:
  assumes "length report < 2 ^ 32" "length policy < 2 ^ 32"
  shows "if NUL \<in> set report \<union> set policy
    then \<exists>m. attestation_report_verify E report policy = Err (Error_text m)
    else \<exists>st. AttestationReportVerify E report policy = Inr st \<and>
      attestation_report_verify E report policy = (if code st = 0 then Ok () else error_for (message st))"
proof (cases "NUL \<in> set report \<union> set policy")
  case True
  then show ?thesis by (auto simp: attestation_report_verify_def CString_new_def)
next
  case False
  let ?r = "word_of_nat (length report) :: u32" and ?p = "word_of_nat (length policy) :: u32"
  obtain st msg' det' where c: "AttestationReportVerify E report policy = Inr st"
    "c_AttestationReportVerify E (report @ [NUL]) ?r (policy @ [NUL]) ?p (zeroed BUFFER_SIZE_IN_BYTES) no_details =
       Inr (code st, msg', det')"
    "buffer_result (zeroed BUFFER_SIZE_IN_BYTES) msg'"
    "code st \<noteq> 0 \<longrightarrow> takeWhile (\<lambda>c. c \<noteq> NUL) (cb_mem msg') = take 8191 (takeWhile (\<lambda>c. c \<noteq> NUL) (message st))"
    using c_verify_result [OF zeroed_ok(1) [of BUFFER_SIZE_IN_BYTES] zeroed_ok(2), of E ?r "report @ [NUL]" ?p "policy @ [NUL]"]
    unfolding c_argument [OF assms(1)] c_argument [OF assms(2)] by (auto simp: BUFFER_SIZE_IN_BYTES_def)
  have "code st \<noteq> 0 \<Longrightarrow> (message_error msg' :: unit rust) = error_for (message st)"
    using message_error_text [OF c(3)] c(4) by blast
  then have "attestation_report_verify E report policy = (if code st = 0 then Ok () else error_for (message st))"
    using False c(2) by (simp add: attestation_report_verify_def CString_new_def c_call_def)
  then show ?thesis using False c(1) by simp
qed

theorem rust_verify_refines_witness:
  "\<exists>st. AttestationReportVerify sample_env ''r'' ''p'' = Inr st \<and>
     attestation_report_verify sample_env ''r'' ''p'' = (if code st = 0 then Ok () else error_for (message st))"
  using rust_verify_refines [of "''r''" "''p''" sample_env] by simp

text \<open>
  \<^bold>\<open>C28\<close>: generation through Rust agrees with the JSON entry point of the generator. With the
  documented collateral the call neither panics nor crashes, and it returns a report exactly if
  the generator of the build produces this report as valid UTF-8 text of at most 40960 bytes.
\<close>

theorem rust_generate_refines:
  assumes "collateral_doc E" "length params < 2 ^ 32" "NUL \<notin> set params"
  shows "case generate_attestation_report E B params of
      Ok json \<Rightarrow> (\<exists>g. CreateAttestationGenerator B = Inr g \<and> GenerateReportJson E g params = Inr json) \<and>
        length json \<le> 40960 \<and> utf8_valid (map of_char json)
    | Err e \<Rightarrow> \<not> (\<exists>g json. CreateAttestationGenerator B = Inr g \<and> GenerateReportJson E g params = Inr json \<and>
        length json \<le> 40960 \<and> utf8_valid (map of_char json))
    | _ \<Rightarrow> False"
proof -
  let ?n = "word_of_nat (length params) :: u32" and ?buf = "zeroed 40960"
  obtain rc buf' msg' det' where c:
    "c_GenerateAttestationReport E B (Some (params @ [NUL])) ?n (Some ?buf) (zeroed BUFFER_SIZE_IN_BYTES) no_details =
       Inr (rc, Some buf', msg', det')"
    "buffer_result (zeroed BUFFER_SIZE_IN_BYTES) msg'" "length (cb_mem buf') = 40960"
    "if rc = 0 then \<exists>g json. CreateAttestationGenerator B = Inr g \<and> GenerateReportJson E g params = Inr json \<and>
       length json \<le> 40960 \<and> unat (cb_len buf') = length json \<and> take (length json) (cb_mem buf') = json
     else \<not> (\<exists>g json. CreateAttestationGenerator B = Inr g \<and> GenerateReportJson E g params = Inr json \<and>
       length json \<le> 40960)"
    using c_generate_result [OF assms(1) zeroed_ok(1) [of 40960] zeroed_ok(1) [of BUFFER_SIZE_IN_BYTES] zeroed_ok(2),
        of B "params @ [NUL]" ?n]
    unfolding c_argument [OF assms(2)] by (auto split: if_splits)
  obtain e where err: "(message_error msg' :: string rust) = Err e" using message_error_Err [OF c(2)] by blast
  have run: "generate_attestation_report E B params =
      (if rc \<noteq> 0 then message_error msg' else and_then (slice_to (cb_mem buf') (cb_len buf')) (from_utf8 []))"
    using assms(3) c(1)
    by (simp add: generate_attestation_report_def get_attestation_report_size_def CString_new_def c_call_def
        GetAttestationReportSize_def kReportMaxSize_def)
  show ?thesis
  proof (cases "rc = 0")
    case True
    then show ?thesis using c(3,4) run by (auto simp: slice_to_def from_utf8_def split: if_splits)
  next
    case False
    then show ?thesis using c(4) run err by auto
  qed
qed

theorem rust_generate_refines_witness:
  "generate_attestation_report sample_gen_env sgx_build ''{}'' \<noteq> Panic \<and>
   generate_attestation_report sample_gen_env sgx_build ''{}'' \<noteq> Crash"
  using rust_generate_refines [OF sample_collateral_doc, of "''{}''" sgx_build] by (auto split: rust.splits)

end
