(* ===== verification/File_Crypto.thy ===== *)
theory File_Crypto
  imports TF_Prelude
begin

unbundle bit_operations_syntax

text \<open>
  The encrypted file format (\<open>proxy/utils/crypto_util.cc\<close> and \<open>crypto_util.h\<close>): a header of 20
  bytes (version, schema, number of packets, block length), then the blocks, each with its IV,
  its MAC and up to 8126 bytes of AES-GCM ciphertext. Files are byte strings in a map from
  paths; an operation returns its result together with the file system it leaves behind, also
  when it throws. The streams and the cipher of yacl are the records \<open>yacl_io\<close> and \<open>gcm\<close>.
\<close>

section \<open>Streams and cipher\<close>

type_synonym fs = "string \<rightharpoonup> bytes"
type_synonym 'a fs_res = "'a res \<times> fs"

text \<open>
  \<open>io_read c p n\<close> is a read of \<open>n\<close> bytes at position \<open>p\<close> of a file with contents \<open>c\<close>;
  \<open>io_open_in\<close> is what the constructor of an input stream throws for a missing file,
  \<open>io_open_out\<close> what the one of an output stream throws, if it does.
\<close>

record yacl_io =
  io_read :: "bytes \<Rightarrow> nat \<Rightarrow> nat \<Rightarrow> bytes res"
  io_open_in :: "string \<Rightarrow> exn"
  io_open_out :: "string \<Rightarrow> exn option"

text \<open>Key, IV, text, additional data; a decryption also gets the MAC.\<close>

record gcm =
  gcm128_encrypt :: "bytes \<Rightarrow> bytes \<Rightarrow> bytes \<Rightarrow> bytes \<Rightarrow> (bytes \<times> bytes) res"
  gcm128_decrypt :: "bytes \<Rightarrow> bytes \<Rightarrow> bytes \<Rightarrow> bytes \<Rightarrow> bytes \<Rightarrow> bytes res"
  gcm256_encrypt :: "bytes \<Rightarrow> bytes \<Rightarrow> bytes \<Rightarrow> bytes \<Rightarrow> (bytes \<times> bytes) res"
  gcm256_decrypt :: "bytes \<Rightarrow> bytes \<Rightarrow> bytes \<Rightarrow> bytes \<Rightarrow> bytes \<Rightarrow> bytes res"

section \<open>The code\<close>

definition kVersion :: u32 where "kVersion = 1"
definition kSchema :: u32 where "kSchema = 1"
definition kBlockBytes :: u32 where "kBlockBytes = 0x2000"
definition kVersionBytes :: nat where "kVersionBytes = 4"
definition kSchemaBytes :: nat where "kSchemaBytes = 4"
definition kPacketCntBytes :: nat where "kPacketCntBytes = 8"
definition kBlockLenBytes :: nat where "kBlockLenBytes = 4"
definition kIvBytes :: byte where "kIvBytes = 12"
definition kMacBytes :: byte where "kMacBytes = 16"
definition kIvFieldBytes :: nat where "kIvFieldBytes = 32"
definition kMacFieldBytes :: nat where "kMacFieldBytes = 32"
definition kAes128KeyLen :: nat where "kAes128KeyLen = 16"
definition kAes256KeyLen :: nat where "kAes256KeyLen = 32"
definition kIvLenBytes :: nat where "kIvLenBytes = 1"
definition kMacLenBytes :: nat where "kMacLenBytes = 1"

lemmas file_consts = kVersion_def kSchema_def kBlockBytes_def kVersionBytes_def kSchemaBytes_def
  kPacketCntBytes_def kBlockLenBytes_def kIvBytes_def kMacBytes_def kIvFieldBytes_def
  kMacFieldBytes_def kAes128KeyLen_def kAes256KeyLen_def kIvLenBytes_def kMacLenBytes_def

text \<open>The loop runs over the bytes from the last to the first.\<close>

definition Bytes2Int :: "bytes \<Rightarrow> ('a::len word) res" where
  "Bytes2Int bytes =
     (let len = length bytes in
      bindE (YACL_ENFORCE (len \<le> LENGTH('a) div 8) ''Converting bytes to integer overflow'') (\<lambda>_.
      Inr (foldl (\<lambda>ret i. push_bit 8 ret OR ucast (bytes ! (len - i - 1))) 0 [0..<len])))"

definition block_format :: "bool \<Rightarrow> unit res" where
  "block_format c = YACL_ENFORCE c ''Data block format is not correct''"

definition DecryptDataBlock :: "gcm \<Rightarrow> bytes \<Rightarrow> bytes \<Rightarrow> bytes res" where
  "DecryptDataBlock K data_block data_key =
     bindE (block_format (kIvLenBytes \<le> length data_block)) (\<lambda>_.
     bindE (Bytes2Int (subbytes 0 kIvLenBytes data_block) :: u64 res) (\<lambda>iv_len.
     let offset = kIvLenBytes in
     bindE (block_format (offset + kIvFieldBytes \<le> length data_block)) (\<lambda>_.
     let iv = subbytes offset (unat iv_len) data_block; offset = offset + kIvFieldBytes in
     bindE (block_format (offset + kMacLenBytes \<le> length data_block)) (\<lambda>_.
     bindE (Bytes2Int (subbytes offset kMacLenBytes data_block) :: u64 res) (\<lambda>mac_len.
     let offset = offset + kMacLenBytes in
     bindE (block_format (offset + kMacFieldBytes \<le> length data_block)) (\<lambda>_.
     let mac = subbytes offset (unat mac_len) data_block; offset = offset + kMacFieldBytes;
         encrypted_data = drop offset data_block in
     if length data_key = kAes128KeyLen then gcm128_decrypt K data_key iv encrypted_data [] mac
     else if length data_key = kAes256KeyLen
     then gcm256_decrypt K data_key iv encrypted_data [] mac
     else YACL_THROW (fmt ''data_key size error got {}'' [to_string (length data_key)])))))))"

text \<open>
  \<open>iv\<close> is what \<open>RandBytes(kIvBytes)\<close> returned. All writes of a block follow its encryption.
\<close>

definition EncryptDataBlock ::
  "yacl_io \<Rightarrow> gcm \<Rightarrow> bytes \<Rightarrow> bytes \<Rightarrow> nat \<Rightarrow> nat \<Rightarrow> bytes \<Rightarrow> bytes res" where
  "EncryptDataBlock F K iv contents pos block_len data_key =
     bindE (io_read F contents pos block_len) (\<lambda>raw_data.
     bindE (if length data_key = kAes128KeyLen then gcm128_encrypt K data_key iv raw_data []
            else if length data_key = kAes256KeyLen then gcm256_encrypt K data_key iv raw_data []
            else YACL_THROW (fmt ''data_key size error got {}'' [to_string (length data_key)]))
       (\<lambda>(encrypted_data, mac).
     Inr ([kIvBytes] @ iv @ zeros (kIvFieldBytes - length iv) @
          [kMacBytes] @ mac @ zeros (kMacFieldBytes - length mac) @ encrypted_data)))"

text \<open>
  The block loops, over the lengths of the blocks still to come; they return what was written
  and how they ended. \<open>ivs i\<close> is the random IV of block \<open>i\<close>.
\<close>

fun encrypt_blocks ::
  "yacl_io \<Rightarrow> gcm \<Rightarrow> (nat \<Rightarrow> bytes) \<Rightarrow> bytes \<Rightarrow> bytes \<Rightarrow> nat \<Rightarrow> nat \<Rightarrow> nat list \<Rightarrow> bytes \<times> unit res" where
  "encrypt_blocks F K ivs data_key contents pos i [] = ([], Inr ())"
| "encrypt_blocks F K ivs data_key contents pos i (n # ns) =
     (case EncryptDataBlock F K (ivs i) contents pos n data_key of
        Inl e \<Rightarrow> ([], Inl e)
      | Inr block \<Rightarrow>
          (let (w, r) = encrypt_blocks F K ivs data_key contents (pos + n) (Suc i) ns
           in (block @ w, r)))"

fun decrypt_blocks ::
  "yacl_io \<Rightarrow> gcm \<Rightarrow> bytes \<Rightarrow> bytes \<Rightarrow> nat \<Rightarrow> nat list \<Rightarrow> bytes \<times> unit res" where
  "decrypt_blocks F K data_key contents pos [] = ([], Inr ())"
| "decrypt_blocks F K data_key contents pos (n # ns) =
     (case bindE (io_read F contents pos n) (\<lambda>buf. DecryptDataBlock K buf data_key) of
        Inl e \<Rightarrow> ([], Inl e)
      | Inr plain \<Rightarrow>
          (let (w, r) = decrypt_blocks F K data_key contents (pos + n) ns in (plain @ w, r)))"

definition header_len :: nat where
  "header_len = kVersionBytes + kSchemaBytes + kPacketCntBytes + kBlockLenBytes"

text \<open>
  The checks of \<open>DecryptFile\<close> on the header, in 64-bit arithmetic; the result are the lengths
  of the blocks that are read, all but the last of the block length.
\<close>

definition parse_file_header :: "yacl_io \<Rightarrow> bytes \<Rightarrow> nat list res" where
  "parse_file_header F contents =
     (let file_len = (word_of_nat (length contents) :: u64);
          hlen = (word_of_nat header_len :: u64) in
      bindE (YACL_ENFORCE (hlen < file_len)
        (fmt ''File length {} is less than required header length {}''
           [to_string (unat file_len), to_string header_len])) (\<lambda>_.
      bindE (io_read F contents (kVersionBytes + kSchemaBytes) kPacketCntBytes) (\<lambda>buf.
      bindE (Bytes2Int buf) (\<lambda>packet_cnt :: u64.
      bindE (YACL_ENFORCE (1 \<le> packet_cnt) ''Packet cnt is less than 1'') (\<lambda>_.
      bindE (io_read F contents (kVersionBytes + kSchemaBytes + kPacketCntBytes) kBlockLenBytes)
        (\<lambda>buf.
      bindE (Bytes2Int buf) (\<lambda>block_len :: u32.
      let bl = (ucast block_len :: u64) in
      bindE (YACL_ENFORCE (block_len \<noteq> 0) ''block len should not be 0'') (\<lambda>_.
      bindE (YACL_ENFORCE ((packet_cnt - 1) * bl div bl = packet_cnt - 1)
        ''uint64 overflow in DecryptFile'') (\<lambda>_.
      bindE (YACL_ENFORCE (packet_cnt * bl div bl = packet_cnt)
        ''uint64 overflow in DecryptFile'') (\<lambda>_.
      bindE (YACL_ENFORCE ((packet_cnt - 1) * bl \<le> file_len - hlen)
        ''N - 1 Data block len is more than required file length'') (\<lambda>_.
      bindE (YACL_ENFORCE (file_len - hlen \<le> bl * packet_cnt)
        ''N Data block len is less than required file length'') (\<lambda>_.
      Inr (replicate (unat (packet_cnt - 1)) (unat block_len) @
           [unat (file_len - hlen - (packet_cnt - 1) * bl)])))))))))))))"

definition DecryptFile ::
  "yacl_io \<Rightarrow> gcm \<Rightarrow> string \<Rightarrow> string \<Rightarrow> bytes \<Rightarrow> fs \<Rightarrow> unit fs_res" where
  "DecryptFile F K src_path dest_path data_key fs =
     (if src_path = dest_path
      then (Inl (Exn Yacl_Exception ''Inplace decryption is not allowed''), fs)
      else case fs src_path of
        None \<Rightarrow> (Inl (io_open_in F src_path), fs)
      | Some contents \<Rightarrow>
         (case io_open_out F dest_path of
            Some e \<Rightarrow> (Inl e, fs)
          | None \<Rightarrow>
             (case parse_file_header F contents of
                Inl e \<Rightarrow> (Inl e, fs(dest_path \<mapsto> []))
              | Inr lens \<Rightarrow>
                 (let (w, r) = decrypt_blocks F K data_key contents header_len lens
                  in (r, fs(dest_path \<mapsto> w))))))"

text \<open>The lengths of the plaintext blocks and the number of packets of \<open>EncryptFile\<close>.\<close>

definition block_header_len :: u32 where
  "block_header_len = word_of_nat (kIvLenBytes + kIvFieldBytes + kMacLenBytes + kMacFieldBytes)"

definition block_data_len :: u32 where
  "block_data_len = kBlockBytes - block_header_len"

definition packet_count :: "u64 \<Rightarrow> u64" where
  "packet_count file_len =
     file_len div ucast block_data_len + (if file_len mod ucast block_data_len \<noteq> 0 then 1 else 0)"

definition plain_lens :: "u64 \<Rightarrow> nat list" where
  "plain_lens file_len =
     (let packet_cnt = packet_count file_len in
      replicate (unat (packet_cnt - 1)) (unat block_data_len) @
      [unat (ucast (file_len - (packet_cnt - 1) * ucast block_data_len) :: u32)])"

definition file_header :: "u64 \<Rightarrow> bytes" where
  "file_header packet_cnt =
     word_le kVersionBytes kVersion @ word_le kSchemaBytes kSchema @
     word_le kPacketCntBytes packet_cnt @ word_le kBlockLenBytes kBlockBytes"

definition EncryptFile ::
  "yacl_io \<Rightarrow> gcm \<Rightarrow> (nat \<Rightarrow> bytes) \<Rightarrow> string \<Rightarrow> string \<Rightarrow> bytes \<Rightarrow> fs \<Rightarrow> unit fs_res" where
  "EncryptFile F K ivs src_path dest_path data_key fs =
     (if src_path = dest_path
      then (Inl (Exn Yacl_Exception ''Inplace encryption is not allowed''), fs)
      else case fs src_path of
        None \<Rightarrow> (Inl (io_open_in F src_path), fs)
      | Some contents \<Rightarrow>
         (let file_len = (word_of_nat (length contents) :: u64);
              packet_cnt = packet_count file_len in
          if packet_cnt < 1 then (Inl (Exn Yacl_Exception ''Pack cnt less than 1''), fs)
          else case io_open_out F dest_path of
            Some e \<Rightarrow> (Inl e, fs)
          | None \<Rightarrow>
             (let (w, r) = encrypt_blocks F K ivs data_key contents 0 0 (plain_lens file_len)
              in (r, fs(dest_path \<mapsto> file_header packet_cnt @ w)))))"

section \<open>Documented behaviour of the libraries\<close>

text \<open>A read inside the file returns the bytes there.\<close>

definition yacl_io_doc :: "yacl_io \<Rightarrow> bool" where
  "yacl_io_doc F \<longleftrightarrow> (\<forall>c p n. p + n \<le> length c \<longrightarrow> io_read F c p n = Inr (subbytes p n c))"

text \<open>
  AES-GCM with a 12-byte IV and a 16-byte MAC: the ciphertext is as long as the text, and
  decryption inverts encryption. \<open>gcm_auth_doc\<close> is the converse: what decrypts under a MAC of
  16 bytes is the encryption of its result.
\<close>

definition gcm_pair_doc ::
  "nat \<Rightarrow> (bytes \<Rightarrow> bytes \<Rightarrow> bytes \<Rightarrow> bytes \<Rightarrow> (bytes \<times> bytes) res)
   \<Rightarrow> (bytes \<Rightarrow> bytes \<Rightarrow> bytes \<Rightarrow> bytes \<Rightarrow> bytes \<Rightarrow> bytes res) \<Rightarrow> bool" where
  "gcm_pair_doc n enc dec \<longleftrightarrow>
     (\<forall>k iv p aad. length k = n \<and> length iv = 12 \<longrightarrow>
        (\<exists>c m. enc k iv p aad = Inr (c, m) \<and> length c = length p \<and> length m = 16 \<and>
               dec k iv c aad m = Inr p))"

definition gcm_doc :: "gcm \<Rightarrow> bool" where
  "gcm_doc K \<longleftrightarrow>
     gcm_pair_doc 16 (gcm128_encrypt K) (gcm128_decrypt K) \<and>
     gcm_pair_doc 32 (gcm256_encrypt K) (gcm256_decrypt K)"

section \<open>Integers\<close>

lemma fold_bytes_le:
  fixes bs :: bytes
  assumes "8 * length bs \<le> LENGTH('a::len)"
  shows "foldr (\<lambda>b ret. push_bit 8 ret OR ucast b) bs (0 :: 'a word) = le_word bs"
  using assms
proof (induction bs)
  case Nil
  then show ?case by (simp add: le_word_def)
next
  case (Cons b bs)
  have IH: "foldr (\<lambda>b ret. push_bit 8 ret OR ucast b) bs (0 :: 'a word) = le_word bs"
    using Cons by simp
  have "push_bit 8 (le_word bs :: 'a word) OR ucast b = push_bit 8 (le_word bs) + ucast b"
    by (rule disjunctive_add_eq_or [symmetric])
      (auto simp: bit_simps bit_eq_iff dest: bit_imp_le_length)
  also have "\<dots> = le_word (b # bs)"
    by (simp add: le_word_def push_bit_eq_mult mult.commute add.commute)
  finally show ?case using IH by simp
qed

lemma foldl_upt_rev:
  "foldl (\<lambda>ret i. f ret (bs ! (length bs - i - 1))) a [0..<length bs] = foldr (\<lambda>b ret. f ret b) bs a"
proof -
  have "map (\<lambda>i. bs ! (length bs - i - 1)) [0..<length bs] = rev bs"
    by (rule nth_equalityI) (simp_all add: rev_nth)
  then have "foldl (\<lambda>ret i. f ret (bs ! (length bs - i - 1))) a [0..<length bs] = foldl f a (rev bs)"
    by (metis foldl_map)
  then show ?thesis by (simp add: foldl_conv_foldr)
qed

lemma Bytes2Int_le_word:
  "Bytes2Int bs =
     (if length bs \<le> LENGTH('a::len) div 8 then Inr (le_word bs :: 'a word)
      else Inl (Exn Yacl_Exception ''Converting bytes to integer overflow''))"
proof (cases "length bs \<le> LENGTH('a) div 8")
  case True
  then have "8 * length bs \<le> LENGTH('a)" by simp
  then show ?thesis
    using foldl_upt_rev [of "\<lambda>ret b. push_bit 8 ret OR (ucast b :: 'a word)" bs 0]
      fold_bytes_le [of bs, where 'a = 'a] True
    by (simp add: Bytes2Int_def Let_def)
qed (simp add: Bytes2Int_def)

section \<open>Blocks\<close>

text \<open>\<open>RandBytes(n)\<close> returns \<open>n\<close> bytes.\<close>

definition ivs_ok :: "(nat \<Rightarrow> bytes) \<Rightarrow> bool" where
  "ivs_ok ivs \<longleftrightarrow> (\<forall>j. length (ivs j) = unat kIvBytes)"

definition data_key_ok :: "bytes \<Rightarrow> bool" where
  "data_key_ok key \<longleftrightarrow> length key = kAes128KeyLen \<or> length key = kAes256KeyLen"

lemma yacl_io_read: "yacl_io_doc F \<Longrightarrow> p + n \<le> length c \<Longrightarrow> io_read F c p n = Inr (subbytes p n c)"
  by (simp add: yacl_io_doc_def)

lemma Bytes2Int_byte: "(Bytes2Int [b] :: u64 res) = Inr (ucast b)"
  by (simp add: Bytes2Int_le_word le_word_def unsigned_ucast_eq)

lemma length_zeros_pad: "length (zeros n) = n" by (simp add: zeros_def)

text \<open>A well-formed block, and what \<open>DecryptDataBlock\<close> sees in it.\<close>

definition block_of :: "bytes \<Rightarrow> bytes \<Rightarrow> bytes \<Rightarrow> bytes" where
  "block_of iv mac cipher = [kIvBytes] @ iv @ zeros (kIvFieldBytes - length iv) @
     [kMacBytes] @ mac @ zeros (kMacFieldBytes - length mac) @ cipher"

lemma length_block_of:
  "length iv = 12 \<Longrightarrow> length mac = 16 \<Longrightarrow> length (block_of iv mac c) = 66 + length c"
  by (simp add: block_of_def file_consts length_zeros_pad)

lemma DecryptDataBlock_block_of:
  assumes "length iv = 12" "length mac = 16"
  shows "DecryptDataBlock K (block_of iv mac c) key =
    (if length key = kAes128KeyLen then gcm128_decrypt K key iv c [] mac
     else if length key = kAes256KeyLen then gcm256_decrypt K key iv c [] mac
     else YACL_THROW (fmt ''data_key size error got {}'' [to_string (length key)]))"
proof -
  let ?b = "block_of iv mac c"
  have b: "?b = [12] @ iv @ zeros 20 @ [16] @ mac @ zeros 16 @ c"
    using assms by (simp add: block_of_def file_consts)
  have parts: "subbytes 0 1 ?b = [12]" "subbytes 1 12 ?b = iv" "subbytes 33 1 ?b = [16]"
    "subbytes 34 16 ?b = mac" "drop 66 ?b = c"
    unfolding b subbytes_def using assms by (simp_all add: length_zeros_pad)
  have l: "length ?b = 66 + length c" using assms by (rule length_block_of)
  show ?thesis
    unfolding DecryptDataBlock_def block_format_def
    using parts l
    by (simp add: Bytes2Int_byte file_consts Let_def exn_simps)
qed

lemma gcm_pairE:
  "gcm_pair_doc n enc dec \<Longrightarrow> length k = n \<Longrightarrow> length iv = 12 \<Longrightarrow>
   \<exists>c m. enc k iv p aad = Inr (c, m) \<and> length c = length p \<and> length m = 16 \<and>
         dec k iv c aad m = Inr p"
  by (simp add: gcm_pair_doc_def)

lemma EncryptDataBlock_ok:
  assumes io: "yacl_io_doc F" and gcm: "gcm_doc K" and key: "data_key_ok key"
    and iv: "length iv = 12" and fit: "pos + n \<le> length contents"
  obtains block where "EncryptDataBlock F K iv contents pos n key = Inr block"
    "length block = 66 + n" "DecryptDataBlock K block key = Inr (subbytes pos n contents)"
proof -
  let ?p = "subbytes pos n contents"
  let ?enc = "if length key = kAes128KeyLen then gcm128_encrypt K key iv ?p []
              else gcm256_encrypt K key iv ?p []"
  let ?dec = "\<lambda>c m. if length key = kAes128KeyLen then gcm128_decrypt K key iv c [] m
              else gcm256_decrypt K key iv c [] m"
  have "length key = 16 \<or> length key = 32" using key by (simp add: data_key_ok_def file_consts)
  then have "\<exists>c m. ?enc = Inr (c, m) \<and> length c = length ?p \<and> length m = 16 \<and> ?dec c m = Inr ?p"
  proof
    assume k: "length key = 16"
    have "gcm_pair_doc 16 (gcm128_encrypt K) (gcm128_decrypt K)" using gcm by (simp add: gcm_doc_def)
    from gcm_pairE [OF this k iv, of ?p "[]"] show ?thesis
      unfolding kAes128KeyLen_def k by simp
  next
    assume k: "length key = 32"
    have "gcm_pair_doc 32 (gcm256_encrypt K) (gcm256_decrypt K)" using gcm by (simp add: gcm_doc_def)
    from gcm_pairE [OF this k iv, of ?p "[]"] show ?thesis
      unfolding kAes128KeyLen_def k by simp
  qed
  then obtain c m where cm: "?enc = Inr (c, m)" "length c = length ?p" "length m = 16"
    "?dec c m = Inr ?p"
    by blast
  have p: "length ?p = n" using fit by (simp add: subbytes_def)
  have "EncryptDataBlock F K iv contents pos n key = Inr (block_of iv m c)"
    using cm(1) key yacl_io_read [OF io fit]
    by (auto simp: EncryptDataBlock_def exn_simps data_key_ok_def block_of_def split: if_splits)
  moreover have "DecryptDataBlock K (block_of iv m c) key = Inr ?p"
    using DecryptDataBlock_block_of [OF iv cm(3)] cm(4) key
    by (auto simp: data_key_ok_def split: if_splits)
  ultimately show thesis using that length_block_of [OF iv cm(3)] cm(2) p by simp
qed

text \<open>
  Encryption of blocks that lie in the file succeeds, and decrypting what it wrote, wherever
  that stands in a file, gives the bytes back.
\<close>

lemma blocks_roundtrip:
  assumes io: "yacl_io_doc F" and gcm: "gcm_doc K" and key: "data_key_ok key"
    and ivs: "ivs_ok ivs"
  shows "pos + sum_list ns \<le> length contents \<Longrightarrow>
    \<exists>w. encrypt_blocks F K ivs key contents pos i ns = (w, Inr ()) \<and>
        length w = sum_list (map ((+) 66) ns) \<and>
        (\<forall>pre post. decrypt_blocks F K key (pre @ w @ post) (length pre) (map ((+) 66) ns) =
                    (subbytes pos (sum_list ns) contents, Inr ()))"
proof (induction ns arbitrary: pos i)
  case Nil
  then show ?case by simp
next
  case (Cons n ns)
  obtain b where b: "EncryptDataBlock F K (ivs i) contents pos n key = Inr b"
    "length b = 66 + n" "DecryptDataBlock K b key = Inr (subbytes pos n contents)"
    by (rule EncryptDataBlock_ok [OF io gcm key, of "ivs i" pos n contents])
      (use Cons.prems ivs in \<open>auto simp: ivs_ok_def kIvBytes_def\<close>)
  obtain w where w: "encrypt_blocks F K ivs key contents (pos + n) (Suc i) ns = (w, Inr ())"
    "length w = sum_list (map ((+) 66) ns)"
    "\<And>pre post. decrypt_blocks F K key (pre @ w @ post) (length pre) (map ((+) 66) ns) =
              (subbytes (pos + n) (sum_list ns) contents, Inr ())"
    using Cons.IH [of "pos + n" "Suc i"] Cons.prems by auto
  have dec: "decrypt_blocks F K key (pre @ (b @ w) @ post) (length pre) (map ((+) 66) (n # ns)) =
        (subbytes pos (sum_list (n # ns)) contents, Inr ())" for pre post
  proof -
    have "io_read F (pre @ (b @ w) @ post) (length pre) (66 + n) = Inr b"
      using yacl_io_read [OF io, of "length pre" "66 + n" "pre @ (b @ w) @ post"] b(2)
      by (simp add: subbytes_def)
    moreover have "subbytes pos n contents @ subbytes (pos + n) (sum_list ns) contents =
        subbytes pos (n + sum_list ns) contents"
      by (simp add: subbytes_def take_add add.commute)
    ultimately show ?thesis
      using b(2,3) w(3) [of "pre @ b" post] by (simp add: exn_simps)
  qed
  have "encrypt_blocks F K ivs key contents pos i (n # ns) = (b @ w, Inr ())"
    "length (b @ w) = sum_list (map ((+) 66) (n # ns))"
    using b(1,2) w(1,2) by simp_all
  with dec show ?case by blast
qed

section \<open>The header\<close>

text \<open>Dividing the wrapped product back is an exact overflow test.\<close>

lemma mult_div_overflow:
  fixes x b :: "'a::len word"
  assumes "b \<noteq> 0"
  shows "x * b div b = x \<longleftrightarrow> unat x * unat b < 2 ^ LENGTH('a)"
proof
  assume "unat x * unat b < 2 ^ LENGTH('a)"
  then have "unat (x * b) = unat x * unat b" by (simp add: unat_word_ariths)
  then have "unat (x * b div b) = unat x" using assms by (simp add: unat_div unat_eq_zero)
  then show "x * b div b = x" by (simp add: word_unat_eq_iff)
next
  assume eq: "x * b div b = x"
  have "unat x * unat b = unat (x * b div b) * unat b" using eq by simp
  also have "\<dots> \<le> unat (x * b)" by (simp add: unat_div)
  also have "\<dots> < 2 ^ LENGTH('a)" by (rule unsigned_less)
  finally show "unat x * unat b < 2 ^ LENGTH('a)" .
qed

text \<open>
  The block lengths for which \<open>DecryptFile\<close> goes on, read as numbers: \<open>pc\<close> packets of \<open>bl\<close>
  bytes, the last one possibly shorter.
\<close>

definition block_lens :: "nat \<Rightarrow> nat \<Rightarrow> nat \<Rightarrow> nat list" where
  "block_lens len pc bl = replicate (pc - 1) bl @ [len - (pc - 1) * bl]"

lemma sum_block_lens: "(pc - 1) * bl \<le> len \<Longrightarrow> sum_list (block_lens len pc bl) = len"
  by (simp add: block_lens_def sum_list_replicate)

lemma header_arith:
  fixes pc bl n :: u64
  assumes pc: "1 \<le> pc" and bl: "bl \<noteq> 0"
  shows "(pc - 1) * bl div bl = pc - 1 \<and> pc * bl div bl = pc \<and> (pc - 1) * bl \<le> n \<and> n \<le> bl * pc
     \<longleftrightarrow> unat pc * unat bl < 2 ^ 64 \<and> (unat pc - 1) * unat bl \<le> unat n \<and> unat n \<le> unat pc * unat bl"
    (is "?l \<longleftrightarrow> ?r")
    and "unat pc * unat bl < 2 ^ 64 \<Longrightarrow> (unat pc - 1) * unat bl \<le> unat n \<Longrightarrow> unat (n - (pc - 1) * bl) = unat n - (unat pc - 1) * unat bl"
proof -
  have p1: "unat (pc - 1) = unat pc - 1" using pc by (simp add: unat_sub)
  have div: "(pc - 1) * bl div bl = pc - 1 \<longleftrightarrow> (unat pc - 1) * unat bl < 2 ^ 64"
    "pc * bl div bl = pc \<longleftrightarrow> unat pc * unat bl < 2 ^ 64"
    using mult_div_overflow [OF bl, of "pc - 1"] mult_div_overflow [OF bl, of pc]
    unfolding p1 by simp_all
  have weaker: "(unat pc - 1) * unat bl < 2 ^ 64" if "unat pc * unat bl < 2 ^ 64"
    using that by (simp add: diff_mult_distrib)
  have u: "unat ((pc - 1) * bl) = (unat pc - 1) * unat bl" "unat (bl * pc) = unat pc * unat bl"
    if "unat pc * unat bl < 2 ^ 64"
    using that weaker [OF that] p1 by (simp_all add: unat_word_ariths mult.commute)
  show "?l \<longleftrightarrow> ?r" unfolding div word_le_nat_alt using u weaker by auto
  show "unat (n - (pc - 1) * bl) = unat n - (unat pc - 1) * unat bl"
    if "unat pc * unat bl < 2 ^ 64" "(unat pc - 1) * unat bl \<le> unat n"
    using that u by (simp add: unat_sub word_le_nat_alt)
qed

lemma parse_file_header_words:
  assumes io: "yacl_io_doc F" and len: "20 < length c" "length c < 2 ^ 64"
  shows "parse_file_header F c = Inr lens \<longleftrightarrow>
    (let pc = le_word (subbytes 8 8 c) :: u64; bw = le_word (subbytes 16 4 c) :: u32;
         bl = ucast bw :: u64; n = word_of_nat (length c - 20) :: u64 in
     1 \<le> pc \<and> bw \<noteq> 0 \<and>
     ((pc - 1) * bl div bl = pc - 1 \<and> pc * bl div bl = pc \<and> (pc - 1) * bl \<le> n \<and> n \<le> bl * pc) \<and>
     lens = replicate (unat (pc - 1)) (unat bw) @ [unat (n - (pc - 1) * bl)])"
proof -
  have h: "header_len = 20" by (simp add: header_len_def file_consts)
  have k: "kVersionBytes + kSchemaBytes = 8" "kPacketCntBytes = 8" "kBlockLenBytes = 4" "8 + 8 = (16::nat)"
    by (simp_all add: file_consts)
  have g: "(20 :: u64) < word_of_nat (length c)"
    using len by (simp add: word_less_nat_alt unat_of_nat)
  have n: "word_of_nat (length c) - (20 :: u64) = word_of_nat (length c - 20)"
    using len(1) by (simp add: of_nat_diff)
  have rd: "io_read F c 8 8 = Inr (subbytes 8 8 c)" "io_read F c 16 4 = Inr (subbytes 16 4 c)"
    using len by (simp_all add: yacl_io_read [OF io])
  have l: "length (subbytes 8 8 c) = 8" "length (subbytes 16 4 c) = 4"
    using len by (simp_all add: subbytes_def)
  have bi: "Bytes2Int (subbytes 8 8 c) = Inr (le_word (subbytes 8 8 c) :: u64)"
    "Bytes2Int (subbytes 16 4 c) = Inr (le_word (subbytes 16 4 c) :: u32)"
    by (simp_all add: Bytes2Int_le_word l)
  show ?thesis
    unfolding parse_file_header_def Let_def h k
    using g by (auto simp: rd bi n exn_simps simp del: of_nat_diff)
qed

lemma parse_file_header_iff:
  assumes io: "yacl_io_doc F" and len: "length c < 2 ^ 64"
  shows "parse_file_header F c = Inr lens \<longleftrightarrow>
    (let pc = le_nat (subbytes 8 8 c); bl = le_nat (subbytes 16 4 c); n = length c - 20 in
     20 < length c \<and> 1 \<le> pc \<and> 1 \<le> bl \<and> pc * bl < 2 ^ 64 \<and>
     (pc - 1) * bl \<le> n \<and> n \<le> pc * bl \<and> lens = block_lens n pc bl)"
proof (cases "20 < length c")
  case False
  have h: "header_len = 20" by (simp add: header_len_def file_consts)
  have "\<not> (20 :: u64) < word_of_nat (length c)"
    using False len by (simp add: word_less_nat_alt unat_of_nat)
  then show ?thesis using False unfolding parse_file_header_def Let_def h by (simp add: exn_simps)
next
  case True
  define pw bw where "pw = (le_word (subbytes 8 8 c) :: u64)"
    and "bw = (le_word (subbytes 16 4 c) :: u32)"
  define bl n where "bl = (ucast bw :: u64)" and "n = (word_of_nat (length c - 20) :: u64)"
  have l: "length (subbytes 8 8 c) = 8" "length (subbytes 16 4 c) = 4"
    using True by (simp_all add: subbytes_def)
  have u: "unat pw = le_nat (subbytes 8 8 c)" "unat bw = le_nat (subbytes 16 4 c)"
    unfolding pw_def bw_def by (rule unat_le_word, simp add: l)+
  have ub: "unat bl = unat bw" unfolding bl_def
    by (simp add: unsigned_ucast_eq unsigned_take_bit_eq take_bit_nat_eq_self_iff
          order_less_trans [OF unsigned_less])
  have un: "unat n = length c - 20" unfolding n_def using len by (simp add: unat_of_nat)
  have pos: "1 \<le> pw \<longleftrightarrow> 1 \<le> unat pw" "bw \<noteq> 0 \<longleftrightarrow> 1 \<le> unat bw" "bl \<noteq> 0 \<longleftrightarrow> 1 \<le> unat bw"
    using ub by (auto simp: word_le_nat_alt unat_eq_zero Suc_le_eq simp flip: unat_gt_0)
  have p1: "unat (pw - 1) = unat pw - 1" if "1 \<le> pw" using that by (simp add: unat_sub)
  show ?thesis
    unfolding parse_file_header_words [OF io True len] Let_def block_lens_def
      pw_def [symmetric] bw_def [symmetric] bl_def [symmetric] n_def [symmetric]
      u [symmetric] un [symmetric]
    using header_arith [of pw bl n] p1 pos ub True by auto
qed

section \<open>Whole files\<close>

lemma block_data_len_value: "block_data_len = 8126" "unat block_data_len = 8126"
  "(ucast block_data_len :: u64) = 8126"
  by (simp_all add: block_data_len_def block_header_len_def file_consts)

definition packets :: "nat \<Rightarrow> nat" where
  "packets n = n div 8126 + (if n mod 8126 \<noteq> 0 then 1 else 0)"

lemma packets_bounds:
  assumes "0 < n"
  shows "1 \<le> packets n" "(packets n - 1) * 8126 < n" "n \<le> packets n * 8126"
proof -
  have "n = 8126 * (n div 8126) + n mod 8126" "n mod 8126 < 8126" by simp_all
  then obtain q r where q: "n div 8126 = q" "n mod 8126 = r" "n = 8126 * q + r" "r < 8126"
    by blast
  show "1 \<le> packets n" "(packets n - 1) * 8126 < n" "n \<le> packets n * 8126"
    using assms q(3,4) unfolding packets_def q(1,2) by (cases q; simp)+
qed

lemma unat_packet_count:
  assumes "n < 2 ^ 64"
  shows "unat (packet_count (word_of_nat n)) = packets n"
proof -
  have n: "unat (word_of_nat n :: u64) = n" using assms by (simp add: unat_of_nat)
  have m: "word_of_nat n mod (8126 :: u64) \<noteq> 0 \<longleftrightarrow> n mod 8126 \<noteq> 0"
    by (simp add: word_unat_eq_iff unat_mod n)
  have d: "unat (word_of_nat n div (8126 :: u64)) = n div 8126" by (simp add: unat_div n)
  have "n div 8126 + 1 < 2 ^ 64" using assms by simp
  then have "unat (word_of_nat n div (8126 :: u64) + 1) = n div 8126 + 1"
    by (subst unat_word_ariths) (simp add: d)
  then show ?thesis unfolding packet_count_def block_data_len_value packets_def
    using m d by simp
qed

lemma plain_lens_nat:
  assumes "0 < n" "n < 2 ^ 64"
  shows "plain_lens (word_of_nat n) = replicate (packets n - 1) 8126 @ [n - (packets n - 1) * 8126]"
proof -
  let ?pc = "packet_count (word_of_nat n)"
  note pb = packets_bounds [OF assms(1)]
  have pc: "unat ?pc = packets n" by (rule unat_packet_count [OF assms(2)])
  have p1: "unat (?pc - 1) = packets n - 1"
    using pc pb(1) by (simp add: unat_sub word_le_nat_alt)
  have mul: "unat ((?pc - 1) * 8126) = (packets n - 1) * 8126"
    using pb(2) assms(2) unfolding unat_word_ariths(2) p1 by simp
  have n: "unat (word_of_nat n :: u64) = n" using assms by (simp add: unat_of_nat)
  have sub: "unat (word_of_nat n - (?pc - 1) * 8126) = n - (packets n - 1) * 8126"
    using mul pb(2) n by (simp add: unat_sub word_le_nat_alt)
  have small: "n - (packets n - 1) * 8126 \<le> 8126" using pb(3) by (simp add: diff_mult_distrib)
  have "unat (ucast (word_of_nat n - (?pc - 1) * 8126) :: u32) = n - (packets n - 1) * 8126"
    using sub small by (simp add: unsigned_ucast_eq unsigned_take_bit_eq take_bit_nat_eq_self_iff)
  then show ?thesis
    unfolding plain_lens_def Let_def block_data_len_value p1 by simp
qed

lemma EncryptFile_run:
  assumes "src \<noteq> dest" "fs src = Some c" "c \<noteq> []" "length c < 2 ^ 64" "io_open_out F dest = None"
    and "encrypt_blocks F K ivs key c 0 0 (plain_lens (word_of_nat (length c))) = (w, r)"
  shows "EncryptFile F K ivs src dest key fs =
    (r, fs(dest \<mapsto> file_header (packet_count (word_of_nat (length c))) @ w))"
proof -
  have "1 \<le> packet_count (word_of_nat (length c))"
    using assms(3,4) packets_bounds(1) [of "length c"]
    by (simp add: word_le_nat_alt unat_packet_count)
  then have "\<not> packet_count (word_of_nat (length c)) < 1" by (rule leD)
  then show ?thesis using assms unfolding EncryptFile_def Let_def by (simp del: word_less_1)
qed

lemma DecryptFile_run:
  assumes "src \<noteq> dest" "fs src = Some c" "io_open_out F dest = None"
    "parse_file_header F c = Inr lens" "decrypt_blocks F K key c 20 lens = (w, r)"
  shows "DecryptFile F K src dest key fs = (r, fs(dest \<mapsto> w))"
  using assms by (simp add: DecryptFile_def header_len_def file_consts)

lemma length_file_header [simp]: "length (file_header pc) = 20"
  by (simp add: file_header_def file_consts)

lemma file_header_fields:
  "subbytes 8 8 (file_header pc @ w) = word_le 8 pc"
  "subbytes 16 4 (file_header pc @ w) = word_le 4 (0x2000 :: u32)"
  by (simp_all add: file_header_def file_consts subbytes_def)

lemma parse_own_header:
  assumes io: "yacl_io_doc F" and pc: "1 \<le> unat pc" and w: "(unat pc - 1) * 8192 < length w"
    "length w \<le> unat pc * 8192" and len: "20 + length w < 2 ^ 64" "unat pc * 8192 < 2 ^ 64"
  shows "parse_file_header F (file_header pc @ w) = Inr (block_lens (length w) (unat pc) 8192)"
proof -
  have "le_nat (word_le 8 pc) = unat pc"
    using unat_le_word [of "word_le 8 pc", where 'a = 64] by (simp add: le_word_word_le)
  moreover have "w \<noteq> []" using w by auto
  ultimately show ?thesis
    using assms parse_file_header_iff [OF io, of "file_header pc @ w"]
    by (simp add: Let_def file_header_fields le_nat_word_le_32)
qed

lemma block_lens_plain:
  assumes "0 < n"
  shows "map ((+) 66) (replicate (packets n - 1) 8126 @ [n - (packets n - 1) * 8126]) =
         block_lens (n + 66 * packets n) (packets n) 8192"
proof -
  obtain q where q: "packets n = Suc q" using packets_bounds(1) [OF assms] by (cases "packets n") auto
  have "q * 8126 < n" using packets_bounds(2) [OF assms] q by simp
  then show ?thesis unfolding block_lens_def q by simp
qed

lemma encrypt_blocks_append:
  "encrypt_blocks F K ivs key c pos i (xs @ ys) =
     (case encrypt_blocks F K ivs key c pos i xs of
        (w, Inl e) \<Rightarrow> (w, Inl e)
      | (w, Inr _) \<Rightarrow>
          (let (w', r) = encrypt_blocks F K ivs key c (pos + sum_list xs) (i + length xs) ys
           in (w @ w', r)))"
proof (induction xs arbitrary: pos i)
  case (Cons n xs)
  then show ?case by (auto simp: add.assoc split: sum.splits prod.splits)
qed (simp split: prod.split)

lemma EncryptFile_ok:
  assumes io: "yacl_io_doc F" and gcm: "gcm_doc K" and key: "data_key_ok key"
    and ivs: "ivs_ok ivs" and f: "src \<noteq> dest" "fs src = Some c" "c \<noteq> []"
    "length c < 2 ^ 63" "io_open_out F dest = None"
  obtains w where
    "EncryptFile F K ivs src dest key fs =
       (Inr (), fs(dest \<mapsto> file_header (packet_count (word_of_nat (length c))) @ w))"
    "length w = length c + 66 * packets (length c)"
    "\<And>pre post. decrypt_blocks F K key (pre @ w @ post) (length pre)
        (block_lens (length w) (packets (length c)) 8192) = (c, Inr ())"
    "\<And>k pre. 0 < k \<Longrightarrow> k < packets (length c) \<Longrightarrow>
        decrypt_blocks F K key (pre @ take (k * 8192) w) (length pre) (block_lens (k * 8192) k 8192) =
          (take (k * 8126) c, Inr ())"
proof -
  let ?n = "length c"
  let ?ns = "replicate (packets ?n - 1) 8126 @ [?n - (packets ?n - 1) * 8126]"
  have n: "0 < ?n" "?n < 2 ^ 64" using f by auto
  note pb = packets_bounds [OF n(1)]
  have sum: "sum_list ?ns = ?n" using pb(2) by (simp add: sum_list_replicate)
  have bl: "map ((+) 66) ?ns = block_lens (?n + 66 * packets ?n) (packets ?n) 8192"
    by (rule block_lens_plain [OF n(1)])
  obtain w where w: "encrypt_blocks F K ivs key c 0 0 ?ns = (w, Inr ())"
    "length w = sum_list (map ((+) 66) ?ns)"
    "\<And>pre post. decrypt_blocks F K key (pre @ w @ post) (length pre) (map ((+) 66) ?ns) =
       (subbytes 0 (sum_list ?ns) c, Inr ())"
    using blocks_roundtrip [OF io gcm key ivs, where pos = 0 and i = 0 and ns = ?ns and contents = c]
      sum by fastforce
  have "(packets ?n - 1) * 8192 \<le> ?n + 66 * packets ?n" using pb(2) by simp
  then have len: "length w = ?n + 66 * packets ?n"
    using w(2) unfolding bl by (simp add: sum_block_lens)
  show thesis
  proof (rule that)
    show "EncryptFile F K ivs src dest key fs =
       (Inr (), fs(dest \<mapsto> file_header (packet_count (word_of_nat (length c))) @ w))"
      by (rule EncryptFile_run [of src dest fs c, OF f(1-3) n(2) f(5)])
        (simp only: plain_lens_nat [OF n] w(1))
    show "decrypt_blocks F K key (pre @ w @ post) (length pre)
        (block_lens (length w) (packets (length c)) 8192) = (c, Inr ())" for pre post
      using w(3) [of pre post] unfolding bl len [symmetric] sum by (simp add: subbytes_def)
  next
    fix k pre assume k: "0 < k" "k < packets ?n"
    let ?hd = "replicate k 8126"
      and ?tl = "replicate (packets ?n - 1 - k) 8126 @ [?n - (packets ?n - 1) * 8126]"
    have split: "?ns = ?hd @ ?tl" using k by (simp flip: replicate_add append_assoc)
    have fit: "k * 8126 \<le> ?n"
      using pb(2) k mult_le_mono1 [of k "packets ?n - 1" 8126] by simp
    have ks: "map ((+) 66) ?hd = block_lens (k * 8192) k 8192"
      using k(1) by (cases k) (simp_all add: block_lens_def replicate_append_same)
    obtain v where v: "encrypt_blocks F K ivs key c 0 0 ?hd = (v, Inr ())"
      "length v = sum_list (map ((+) 66) ?hd)"
      "\<And>pre post. decrypt_blocks F K key (pre @ v @ post) (length pre) (map ((+) 66) ?hd) =
         (subbytes 0 (sum_list ?hd) c, Inr ())"
      using blocks_roundtrip [OF io gcm key ivs, where pos = 0 and i = 0 and ns = ?hd and contents = c]
        fit by (fastforce simp: sum_list_replicate)
    have "take (k * 8192) w = v"
      using w(1) v(1,2) unfolding split encrypt_blocks_append
      by (auto simp: sum_list_replicate split: prod.splits)
    then show "decrypt_blocks F K key (pre @ take (k * 8192) w) (length pre) (block_lens (k * 8192) k 8192)
       = (take (k * 8126) c, Inr ())"
      using v(3) [of pre "[]"] unfolding ks by (simp add: sum_list_replicate subbytes_def)
  qed (rule len)
qed

lemma parse_encrypted_header:
  assumes io: "yacl_io_doc F" and c: "c \<noteq> []" "length c < 2 ^ 63"
    and w: "length w = length c + 66 * packets (length c)"
  shows "parse_file_header F (file_header (packet_count (word_of_nat (length c))) @ w) =
    Inr (block_lens (length w) (packets (length c)) 8192)"
proof -
  let ?n = "length c"
  have n: "0 < ?n" "?n < 2 ^ 64" using c by auto
  note pb = packets_bounds [OF n(1)] and u = unat_packet_count [OF n(2)]
  have small: "packets ?n \<le> ?n div 8126 + 1" by (simp add: packets_def)
  have "20 + length w < 2 ^ 64" "packets ?n * 8192 < 2 ^ 64"
    using small c(2) w by simp_all
  then show ?thesis
    using parse_own_header [OF io, of "packet_count (word_of_nat ?n)" w] pb w
    unfolding u by simp
qed

text \<open>Decryption of an encrypted file, in any state in which it still stands.\<close>

lemma encrypted_file_decrypts:
  assumes "yacl_io_doc F" "gcm_doc K" "data_key_ok key" "ivs_ok ivs"
    and "src \<noteq> enc" "enc \<noteq> dst" "fs src = Some c" "c \<noteq> []" "length c < 2 ^ 63"
    and "io_open_out F enc = None" "io_open_out F dst = None"
  obtains e where "EncryptFile F K ivs src enc key fs = (Inr (), fs(enc \<mapsto> e))"
    "length e = 20 + length c + 66 * packets (length c)"
    "\<And>fs'. fs' enc = Some e \<Longrightarrow> DecryptFile F K enc dst key fs' = (Inr (), fs'(dst \<mapsto> c))"
proof -
  let ?h = "file_header (packet_count (word_of_nat (length c)))"
  obtain w where w: "EncryptFile F K ivs src enc key fs = (Inr (), fs(enc \<mapsto> ?h @ w))"
    "length w = length c + 66 * packets (length c)"
    "\<And>pre post. decrypt_blocks F K key (pre @ w @ post) (length pre)
        (block_lens (length w) (packets (length c)) 8192) = (c, Inr ())"
    using EncryptFile_ok [where fs = fs and src = src and c = c, OF assms(1-5,7-10)] by metis
  have "DecryptFile F K enc dst key fs' = (Inr (), fs'(dst \<mapsto> c))" if "fs' enc = Some (?h @ w)" for fs'
    using w(3) [of ?h "[]"]
    by (intro DecryptFile_run [where fs = fs', OF assms(6) that assms(11)
          parse_encrypted_header [OF assms(1,8,9) w(2)]]) simp
  with that [OF w(1)] show thesis using w(2) by simp
qed

section \<open>The decryption loop and its reference\<close>

text \<open>
  The blocks of a file, cut by their lengths, and the outcome of decrypting them one after the
  other: everything before the first block that fails is written, and that failure is thrown.
\<close>

fun cut_blocks :: "nat list \<Rightarrow> bytes \<Rightarrow> bytes list" where
  "cut_blocks [] bs = []"
| "cut_blocks (n # ns) bs = take n bs # cut_blocks ns (drop n bs)"

definition first_error :: "'a res list \<Rightarrow> unit res" where
  "first_error rs = (case dropWhile (\<lambda>r. \<not> isl r) rs of Inl e # _ \<Rightarrow> Inl e | _ \<Rightarrow> Inr ())"

definition results_before_error :: "'a res list \<Rightarrow> 'a list" where
  "results_before_error rs = map projr (takeWhile (\<lambda>r. \<not> isl r) rs)"

lemma decrypt_blocks_reference:
  assumes io: "yacl_io_doc F"
  shows "pos + sum_list ns \<le> length c \<Longrightarrow>
    decrypt_blocks F K key c pos ns =
      (let rs = map (\<lambda>b. DecryptDataBlock K b key) (cut_blocks ns (drop pos c))
       in (concat (results_before_error rs), first_error rs))"
proof (induction ns arbitrary: pos)
  case Nil
  then show ?case by (simp add: results_before_error_def first_error_def)
next
  case (Cons n ns)
  have rd: "io_read F c pos n = Inr (take n (drop pos c))"
    using Cons.prems yacl_io_read [OF io, of pos n c] by (simp add: subbytes_def)
  show ?case
    using Cons.IH [of "pos + n"] Cons.prems rd
    by (cases "DecryptDataBlock K (take n (drop pos c)) key")
      (simp_all add: exn_simps results_before_error_def first_error_def Let_def add.commute)
qed

section \<open>A sample file layer\<close>

text \<open>
  Reads that throw at the end of the file, and a stand-in for the cipher that adds the first
  byte of the key to every byte and uses the length and the sum of the text as MAC.
\<close>

definition sample_io :: yacl_io where
  "sample_io = \<lparr>io_read = (\<lambda>c p n. if p + n \<le> length c then Inr (subbytes p n c)
                              else Inl (Exn Yacl_Exception ''eof'')),
     io_open_in = (\<lambda>p. Exn Yacl_Exception p), io_open_out = (\<lambda>_. None)\<rparr>"

definition sample_mac :: "bytes \<Rightarrow> bytes" where
  "sample_mac p = nat_le 8 (length p) @ nat_le 8 (le_nat p)"

definition sample_encrypt :: "bytes \<Rightarrow> bytes \<Rightarrow> bytes \<Rightarrow> bytes \<Rightarrow> (bytes \<times> bytes) res" where
  "sample_encrypt k iv p aad = Inr (map (\<lambda>b. b + hd k) p, sample_mac p)"

definition sample_decrypt :: "bytes \<Rightarrow> bytes \<Rightarrow> bytes \<Rightarrow> bytes \<Rightarrow> bytes \<Rightarrow> bytes res" where
  "sample_decrypt k iv c aad m =
     (let p = map (\<lambda>b. b - hd k) c in
      if m = sample_mac p then Inr p else Inl (Exn Yacl_Exception ''tag''))"

definition sample_gcm :: gcm where
  "sample_gcm = \<lparr>gcm128_encrypt = sample_encrypt, gcm128_decrypt = sample_decrypt,
     gcm256_encrypt = sample_encrypt, gcm256_decrypt = sample_decrypt\<rparr>"

lemma sample_io_doc: "yacl_io_doc sample_io"
  by (simp add: yacl_io_doc_def sample_io_def)

lemma sample_gcm_doc: "gcm_doc sample_gcm"
  by (simp add: gcm_doc_def gcm_pair_doc_def sample_gcm_def sample_encrypt_def sample_decrypt_def
      sample_mac_def Let_def comp_def)

lemma sample_key: "data_key_ok (zeros 16)" "data_key_ok (zeros 32)"
  by (simp_all add: data_key_ok_def file_consts)

lemma sample_ivs: "ivs_ok (\<lambda>_. zeros 12)"
  by (simp add: ivs_ok_def kIvBytes_def)

section \<open>Properties\<close>

text \<open>
  \<^bold>\<open>C9\<close>: a non-empty file that \<open>EncryptFile\<close> encrypts under a key of 16 or 32 bytes is
  returned by \<open>DecryptFile\<close> under the same key: both return normally and the decrypted file has the
  contents of the original. The encrypted file is 20 bytes of header and 66 bytes per packet
  longer.
\<close>

theorem file_roundtrip:
  assumes "yacl_io_doc F" "gcm_doc K" "data_key_ok key" "ivs_ok ivs"
    and "src \<noteq> enc" "enc \<noteq> dst" "fs src = Some c" "c \<noteq> []" "length c < 2 ^ 63"
    and "io_open_out F enc = None" "io_open_out F dst = None"
  shows "case EncryptFile F K ivs src enc key fs of (r, fs1) \<Rightarrow>
    r = Inr () \<and>
    map_option length (fs1 enc) = Some (20 + length c + 66 * packets (length c)) \<and>
    (case DecryptFile F K enc dst key fs1 of (r, fs2) \<Rightarrow> r = Inr () \<and> fs2 dst = Some c)"
proof -
  obtain e where e: "EncryptFile F K ivs src enc key fs = (Inr (), fs(enc \<mapsto> e))"
    "length e = 20 + length c + 66 * packets (length c)"
    "\<And>fs'. fs' enc = Some e \<Longrightarrow> DecryptFile F K enc dst key fs' = (Inr (), fs'(dst \<mapsto> c))"
    using encrypted_file_decrypts [where fs = fs and src = src and c = c, OF assms] by metis
  then show ?thesis by simp
qed

theorem file_roundtrip_witness:
  "case EncryptFile sample_io sample_gcm (\<lambda>_. zeros 12) ''a'' ''a.enc'' (zeros 16) [''a'' \<mapsto> [1, 2, 3]]
     of (r, fs1) \<Rightarrow> r = Inr () \<and> map_option length (fs1 ''a.enc'') = Some 89 \<and>
       (case DecryptFile sample_io sample_gcm ''a.enc'' ''b'' (zeros 16) fs1 of (r, fs2) \<Rightarrow>
          r = Inr () \<and> fs2 ''b'' = Some [1, 2, 3])"
proof -
  have "packets (length [1 :: byte, 2, 3]) = 1" by (simp add: packets_def)
  then show ?thesis
    using file_roundtrip [OF sample_io_doc sample_gcm_doc sample_key(1) sample_ivs,
        of "''a''" "''a.enc''" "''b''" "[''a'' \<mapsto> [1, 2, 3]]" "[1, 2, 3]"]
    by (simp add: sample_io_def)
qed

text \<open>
  \<^bold>\<open>C33\<close>: the number of packets in the header is not authenticated: keeping the first \<open>k\<close>
  blocks of an encrypted file of more than \<open>k\<close> packets and writing \<open>k\<close> into the header gives a
  file that \<open>DecryptFile\<close> accepts; the result is the original cut after \<open>k * 8126\<close> bytes.
\<close>

theorem file_truncation_accepted:
  assumes "yacl_io_doc F" "gcm_doc K" "data_key_ok key" "ivs_ok ivs"
    and "src \<noteq> enc" "enc \<noteq> dst" "fs src = Some c" "c \<noteq> []" "length c < 2 ^ 63"
    and "io_open_out F enc = None" "io_open_out F dst = None"
    and k: "0 < k" "k < packets (length c)"
  shows "let e = the (snd (EncryptFile F K ivs src enc key fs) enc);
      e' = file_header (word_of_nat k) @ take (k * 8192) (drop 20 e) in
    DecryptFile F K enc dst key (fs(enc \<mapsto> e')) = (Inr (), fs(enc \<mapsto> e', dst \<mapsto> take (k * 8126) c))"
proof -
  let ?h = "file_header (packet_count (word_of_nat (length c)))" and ?n = "length c"
  obtain w where w: "EncryptFile F K ivs src enc key fs = (Inr (), fs(enc \<mapsto> ?h @ w))"
    "length w = length c + 66 * packets (length c)"
    "\<And>k pre. 0 < k \<Longrightarrow> k < packets (length c) \<Longrightarrow>
        decrypt_blocks F K key (pre @ take (k * 8192) w) (length pre) (block_lens (k * 8192) k 8192) =
          (take (k * 8126) c, Inr ())"
    using EncryptFile_ok [where fs = fs and src = src and c = c, OF assms(1-5,7-10)] by metis
  define e' where e': "e' = file_header (word_of_nat k) @ take (k * 8192) w"
  have fit: "k * 8126 \<le> ?n"
    using packets_bounds(2) [of ?n] assms(8) k mult_le_mono1 [of k "packets ?n - 1" 8126] by simp
  have k64: "unat (word_of_nat k :: u64) = k" using fit assms(9) by (simp add: unat_of_nat)
  have lw: "length (take (k * 8192) w) = k * 8192" using w(2) fit k(2) by simp
  have "parse_file_header F e' = Inr (block_lens (k * 8192) k 8192)"
    using parse_own_header [OF assms(1), of "word_of_nat k" "take (k * 8192) w"] k fit assms(9)
    unfolding k64 lw e' by simp
  then have "DecryptFile F K enc dst key (fs(enc \<mapsto> e')) =
      (Inr (), fs(enc \<mapsto> e', dst \<mapsto> take (k * 8126) c))"
    using w(3) [OF k, of "file_header (word_of_nat k)"]
    by (intro DecryptFile_run [OF assms(6) _ assms(11)]) (simp_all add: e')
  then show ?thesis using w(1) by (simp add: Let_def e')
qed

theorem file_truncation_accepted_witness:
  "let fs = [''a'' \<mapsto> zeros 9000];
       e = the (snd (EncryptFile sample_io sample_gcm (\<lambda>_. zeros 12) ''a'' ''e'' (zeros 32) fs) ''e'');
       e' = file_header 1 @ take 8192 (drop 20 e) in
   DecryptFile sample_io sample_gcm ''e'' ''b'' (zeros 32) (fs(''e'' \<mapsto> e')) =
     (Inr (), fs(''e'' \<mapsto> e', ''b'' \<mapsto> zeros 8126))"
proof -
  have p: "packets (length (zeros 9000)) = 2" by (simp add: packets_def)
  have t: "take 8126 (zeros 9000) = zeros 8126" by (simp add: zeros_def)
  have ne: "zeros 9000 \<noteq> []" by (simp add: zeros_def)
  show ?thesis
    using file_truncation_accepted [OF sample_io_doc sample_gcm_doc sample_key(2) sample_ivs,
        of "''a''" "''e''" "''b''" "[''a'' \<mapsto> zeros 9000]" "zeros 9000" 1] ne
    unfolding p by (simp add: sample_io_def t)
qed

text \<open>
  \<^bold>\<open>C10\<close>: what \<open>DecryptFile\<close> does with a file, whatever its bytes. The file is accepted for
  decryption exactly if the packets announced by the header, counted without wrap-around, cover
  the rest of the file with the last one possibly shorter; otherwise the destination is left
  empty and an exception thrown. An accepted file is cut into blocks that cover it to its last
  byte, so no read leaves it, and the outcome is that of decrypting the blocks in order: the
  plaintext of the blocks before the first failing one is in the destination, also when the call
  throws.
\<close>

theorem DecryptFile_outcome:
  assumes "yacl_io_doc F" "src \<noteq> dest" "fs src = Some c" "length c < 2 ^ 64"
    "io_open_out F dest = None"
  shows "let pc = le_nat (subbytes 8 8 c); bl = le_nat (subbytes 16 4 c); n = length c - 20;
      rs = map (\<lambda>b. DecryptDataBlock K b key) (cut_blocks (block_lens n pc bl) (drop 20 c)) in
    if 20 < length c \<and> 1 \<le> pc \<and> 1 \<le> bl \<and> pc * bl < 2 ^ 64 \<and> (pc - 1) * bl \<le> n \<and> n \<le> pc * bl
    then DecryptFile F K src dest key fs =
           (first_error rs, fs(dest \<mapsto> concat (results_before_error rs))) \<and>
         sum_list (block_lens n pc bl) = n
    else \<exists>e. DecryptFile F K src dest key fs = (Inl e, fs(dest \<mapsto> []))"
proof -
  define pc bl n where d: "pc = le_nat (subbytes 8 8 c)" "bl = le_nat (subbytes 16 4 c)"
    "n = length c - 20"
  define ok where "ok = (20 < length c \<and> 1 \<le> pc \<and> 1 \<le> bl \<and> pc * bl < 2 ^ 64 \<and>
    (pc - 1) * bl \<le> n \<and> n \<le> pc * bl)"
  have iff: "parse_file_header F c = Inr lens \<longleftrightarrow> ok \<and> lens = block_lens n pc bl" for lens
    unfolding parse_file_header_iff [OF assms(1,4)] Let_def d [symmetric] ok_def by blast
  show ?thesis
  proof (cases ok)
    case True
    have p: "parse_file_header F c = Inr (block_lens n pc bl)" using iff True by simp
    have s: "sum_list (block_lens n pc bl) = n" using True by (simp add: ok_def sum_block_lens)
    then have "20 + sum_list (block_lens n pc bl) \<le> length c" using True by (simp add: ok_def d)
    from DecryptFile_run [where fs = fs and src = src and dest = dest, OF assms(2,3,5) p
        decrypt_blocks_reference [OF assms(1) this, unfolded Let_def]]
    show ?thesis using True s unfolding Let_def d [symmetric] ok_def [symmetric] by simp
  next
    case False
    then obtain e where "parse_file_header F c = Inl e"
      using iff by (cases "parse_file_header F c") auto
    then show ?thesis
      using False assms unfolding Let_def d [symmetric] ok_def [symmetric]
      by (simp add: DecryptFile_def)
  qed
qed

theorem DecryptFile_outcome_witness:
  "\<exists>e. DecryptFile sample_io sample_gcm ''a'' ''b'' (zeros 16) [''a'' \<mapsto> zeros 21] =
     (Inl e, [''a'' \<mapsto> zeros 21, ''b'' \<mapsto> []])"
  using DecryptFile_outcome [OF sample_io_doc, of "''a''" "''b''" "[''a'' \<mapsto> zeros 21]" "zeros 21"
      sample_gcm "zeros 16"]
  by (simp add: sample_io_def subbytes_zeros_min)

text \<open>
  An empty file cannot be encrypted: \<open>EncryptFile\<close> throws before it opens the
  destination, and no file changes.
\<close>

lemma EncryptFile_empty:
  assumes "src \<noteq> dest" "fs src = Some []"
  shows "EncryptFile F K ivs src dest key fs =
    (Inl (Exn Yacl_Exception ''Pack cnt less than 1''), fs)"
  using assms by (simp add: EncryptFile_def packet_count_def block_data_len_value)

text \<open>
  \<open>Bytes2Int\<close> reads the bytes in little-endian order without losing one, and inverts
  the in-memory representation that \<open>EncryptFile\<close> writes; more bytes than the type has are
  refused.
\<close>

lemma Bytes2Int_value:
  "if length bs \<le> LENGTH('a::len) div 8
   then (\<exists>w :: 'a word. Bytes2Int bs = Inr w \<and> unat w = le_nat bs)
   else Bytes2Int bs = (Inl (Exn Yacl_Exception ''Converting bytes to integer overflow'') :: 'a word res)"
  using unat_le_word [of bs, where 'a = 'a] by (auto simp: Bytes2Int_le_word)

end
