(* ===== verification/Jwe.thy ===== *)
theory Jwe
  imports File_Crypto Reference_Libs
begin

text \<open>
  Encrypted requests and responses of the capsule manager (\<open>GenEncryptedRequest\<close>,
  \<open>ParseEncryptedResponse\<close> of \<open>proxy/utils/crypto_util.h\<close>) with the certificate helpers of
  \<open>crypto_util.cc\<close>. RSA, base64url, the JSON form of the messages and OpenSSL's certificate
  parser are the record \<open>jose\<close>; AES-GCM is the record \<open>gcm\<close> of the file format.
\<close>

section \<open>Messages\<close>

record jwe_header =
  jwe_alg :: string
  jwe_enc :: string

record jws_header =
  jws_alg :: string
  jws_x5c :: "string list"

record jws =
  jws_protected :: string
  jws_payload :: string
  jws_signature :: string

record jwe =
  jwe_protected :: string
  jwe_encrypted_key :: string
  jwe_iv :: string
  jwe_ciphertext :: string
  jwe_tag :: string
  jwe_aad :: string

record EncryptedRequest =
  req_has_signature :: bool
  req_message :: jwe

text \<open>\<open>Code::OK\<close> is 0.\<close>

record sf_status =
  st_code :: int
  st_message :: string

record EncryptedResponse =
  res_status :: sf_status
  res_message :: jwe

section \<open>Outside code\<close>

text \<open>
  \<open>pem_certificate\<close> is \<open>PEM_read_bio_X509\<close> followed by \<open>i2d_X509_bio\<close>: no certificate, one that
  cannot be written, or its DER form; \<open>bio_alloc\<close> says whether the \<open>n\<close>-th BIO could be
  allocated; \<open>bio_read\<close> is a read of at most \<open>n\<close> bytes from a memory BIO, with what is left.
  Key and certificate arguments of the RSA functions are the PEM texts they are loaded from.
\<close>

datatype pem_result = No_certificate | Unwritable | Der bytes

record jose =
  bio_alloc :: "nat \<Rightarrow> bool"
  pem_certificate :: "string \<Rightarrow> pem_result"
  bio_read :: "bytes \<Rightarrow> nat \<Rightarrow> bytes \<times> bytes"
  rsa_encrypt :: "string \<Rightarrow> bytes \<Rightarrow> bytes res"
  rsa_decrypt :: "string \<Rightarrow> bytes \<Rightarrow> bytes res"
  rsa_sign :: "string \<Rightarrow> string \<Rightarrow> bytes res"
  cert_public_key_der :: "string \<Rightarrow> bytes res"
  base32_encode :: "bytes \<Rightarrow> string"
  b64url_encode :: "bytes \<Rightarrow> string"
  b64url_decode :: "string \<Rightarrow> bytes res"
  json_of_jwe_header :: "jwe_header \<Rightarrow> string + string"
  jwe_header_of_json :: "string \<Rightarrow> string + jwe_header"
  json_of_jws_header :: "jws_header \<Rightarrow> string + string"
  json_of_jws :: "jws \<Rightarrow> string + string"

section \<open>The code\<close>

definition kRs256 :: string where "kRs256 = ''RS256''"
definition kRsaOaep :: string where "kRsaOaep = ''RSA-OAEP''"
definition kAes128Gcm :: string where "kAes128Gcm = ''A128GCM''"
definition kContentKeyBytes :: nat where "kContentKeyBytes = 16"
definition kJwsConcatDelimiter :: string where "kJwsConcatDelimiter = ''.''"
definition kBufSize :: nat where "kBufSize = 4096"

text \<open>The loop that empties the BIO; \<open>None\<close> if it never ends.\<close>

partial_function (option) read_bio :: "jose \<Rightarrow> bytes \<Rightarrow> bytes \<Rightarrow> bytes option" where
  "read_bio J bio der_data =
     (let (buffer, bio') = bio_read J bio kBufSize in
      if 0 < length buffer then read_bio J bio' (der_data @ buffer) else Some der_data)"

text \<open>\<open>None\<close> is a call that does not return.\<close>

definition X509CertPemToDer :: "jose \<Rightarrow> string \<Rightarrow> bytes res option" where
  "X509CertPemToDer J pem_cert =
     (if \<not> bio_alloc J 0 then Some (YACL_THROW ''cert_bio is null'')
      else case pem_certificate J pem_cert of
        No_certificate \<Rightarrow> Some (YACL_THROW ''cert is null'')
      | Unwritable \<Rightarrow>
          Some (if \<not> bio_alloc J 1 then YACL_THROW ''der_bio is null''
                else YACL_THROW ''Failed to write DER certificate.'')
      | Der der \<Rightarrow>
          if \<not> bio_alloc J 1 then Some (YACL_THROW ''der_bio is null'')
          else map_option Inr (read_bio J der []))"

definition GeneratePartyId :: "ext \<Rightarrow> jose \<Rightarrow> string \<Rightarrow> string res" where
  "GeneratePartyId X J pem_cert =
     bindE (cert_public_key_der J pem_cert) (\<lambda>public_key_der.
     Inr (base32_encode J (Sha256 X public_key_der)))"

definition enforce_json :: "string + string \<Rightarrow> string res" where
  "enforce_json r =
     (case r of
        Inl st \<Rightarrow> YACL_THROW (fmt ''Parsing pb message to json failed, error: {}'' [st])
      | Inr s \<Rightarrow> Inr s)"

text \<open>
  \<open>cek\<close> and \<open>iv\<close> are the two random values; \<open>der\<close> is what \<open>X509CertPemToDer(cert)\<close> gave. The
  two blocks of the code that differ in the text they encrypt share \<open>seal\<close>.
\<close>

definition seal :: "gcm \<Rightarrow> jose \<Rightarrow> bytes \<Rightarrow> bytes \<Rightarrow> string \<Rightarrow> string \<Rightarrow> (string \<times> string) res" where
  "seal K J cek iv text aad_b64 =
     bindE (gcm128_encrypt K cek iv (str_bytes text) (str_bytes aad_b64)) (\<lambda>(cipher, tag).
     Inr (b64url_encode J cipher, b64url_encode J tag))"

definition sign_request ::
  "ext \<Rightarrow> jose \<Rightarrow> string \<Rightarrow> string \<Rightarrow> bytes res \<Rightarrow> string res" where
  "sign_request X J request_str private_key der =
     bindE der (\<lambda>d.
     let cert_der = base64_encode X d in
     bindE (enforce_json (json_of_jws_header J \<lparr>jws_alg = kRs256, jws_x5c = [cert_der]\<rparr>))
       (\<lambda>jws_header_str.
     let protected = b64url_encode J (str_bytes jws_header_str);
         payload = b64url_encode J (str_bytes request_str);
         sign_input = protected @ kJwsConcatDelimiter @ payload in
     bindE (rsa_sign J private_key sign_input) (\<lambda>sig.
     enforce_json (json_of_jws J \<lparr>jws_protected = protected, jws_payload = payload,
                                  jws_signature = b64url_encode J sig\<rparr>))))"

definition GenEncryptedRequest ::
  "ext \<Rightarrow> gcm \<Rightarrow> jose \<Rightarrow> bytes \<Rightarrow> bytes \<Rightarrow> ('t \<Rightarrow> string + string) \<Rightarrow> 't \<Rightarrow> string \<Rightarrow> bytes res
   \<Rightarrow> string \<Rightarrow> bool \<Rightarrow> EncryptedRequest res" where
  "GenEncryptedRequest X K J cek iv to_json request private_key der peer_cert has_signature =
     bindE (enforce_json (to_json request)) (\<lambda>request_str.
     bindE (enforce_json (json_of_jwe_header J \<lparr>jwe_alg = kRsaOaep, jwe_enc = kAes128Gcm\<rparr>))
       (\<lambda>jwe_header_str.
     bindE (rsa_encrypt J peer_cert cek) (\<lambda>encrypted_key.
     let aad_b64 = b64url_encode J [] in
     bindE (if has_signature then sign_request X J request_str private_key der else Inr request_str)
       (\<lambda>text.
     bindE (seal K J cek iv text aad_b64) (\<lambda>(ciphertext, tag).
     Inr \<lparr>req_has_signature = has_signature,
          req_message =
            \<lparr>jwe_protected = b64url_encode J (str_bytes jwe_header_str),
             jwe_encrypted_key = b64url_encode J encrypted_key,
             jwe_iv = b64url_encode J iv,
             jwe_ciphertext = ciphertext, jwe_tag = tag, jwe_aad = aad_b64\<rparr>\<rparr>)))))"

text \<open>\<open>empty_t\<close> is the default value of the response message.\<close>

definition ParseEncryptedResponse ::
  "gcm \<Rightarrow> jose \<Rightarrow> (string \<Rightarrow> string + 't) \<Rightarrow> 't \<Rightarrow> EncryptedResponse \<Rightarrow> string \<Rightarrow> (sf_status \<times> 't) res" where
  "ParseEncryptedResponse K J of_json empty_t enc_res private_key =
     (let status = res_status enc_res; jwe = res_message enc_res in
      if st_code status \<noteq> 0 then Inr (status, empty_t)
      else
        bindE (b64url_decode J (jwe_protected jwe)) (\<lambda>header.
        bindE (case jwe_header_of_json J (bytes_str header) of
                 Inl st \<Rightarrow> YACL_THROW (fmt ''Parsing json to pb message failed, json: {}, error: {}''
                                        [bytes_str header, st])
               | Inr _ \<Rightarrow> Inr ()) (\<lambda>_.
        bindE (b64url_decode J (jwe_encrypted_key jwe)) (\<lambda>encrypted_key.
        bindE (b64url_decode J (jwe_iv jwe)) (\<lambda>iv.
        bindE (b64url_decode J (jwe_ciphertext jwe)) (\<lambda>cipher.
        bindE (b64url_decode J (jwe_tag jwe)) (\<lambda>tag.
        bindE (b64url_decode J (jwe_aad jwe)) (\<lambda>aad.
        bindE (rsa_decrypt J private_key encrypted_key) (\<lambda>cek.
        bindE (gcm128_decrypt K cek iv cipher aad tag) (\<lambda>plain.
        case of_json (bytes_str plain) of
          Inl st \<Rightarrow> YACL_THROW (fmt ''Parsing json to pb message failed, json: {}, error: {}''
                                 [bytes_str plain, st])
        | Inr response \<Rightarrow> Inr (status, response)))))))))))"

section \<open>Documented behaviour\<close>

text \<open>
  A memory BIO hands out its bytes in order; base64url and the JSON mapping round-trip, and
  base64url of nothing is nothing. \<open>rsa_pair\<close>: the certificate carries the public half of the
  key. \<open>rsa_pair\<close> speaks of plaintexts of the length of a content key.
\<close>

definition jose_doc :: "jose \<Rightarrow> bool" where
  "jose_doc J \<longleftrightarrow>
     (\<forall>b n. bio_read J b n = (take n b, drop n b)) \<and>
     (\<forall>b. b64url_decode J (b64url_encode J b) = Inr b) \<and>
     b64url_encode J [] = [] \<and>
     (\<forall>h s. json_of_jwe_header J h = Inr s \<longrightarrow> jwe_header_of_json J s = Inr h)"

definition rsa_pair :: "jose \<Rightarrow> string \<Rightarrow> string \<Rightarrow> bool" where
  "rsa_pair J cert private_key \<longleftrightarrow>
     (\<forall>m. length m = kContentKeyBytes \<longrightarrow>
        (\<exists>c. rsa_encrypt J cert m = Inr c \<and> rsa_decrypt J private_key c = Inr m))"

section \<open>Reading the certificate\<close>

lemma read_bio_all:
  assumes "jose_doc J"
  shows "read_bio J bio acc = Some (acc @ bio)"
proof (induction "length bio" arbitrary: bio acc rule: less_induct)
  case less
  have r: "bio_read J bio kBufSize = (take kBufSize bio, drop kBufSize bio)"
    using assms by (simp add: jose_doc_def)
  show ?case
  proof (cases "bio = []")
    case True
    then show ?thesis using r by (subst read_bio.simps) simp
  next
    case False
    then have "length (drop kBufSize bio) < length bio" by (simp add: kBufSize_def)
    from less [OF this, of "acc @ take kBufSize bio"] show ?thesis
      using r False by (subst read_bio.simps) (simp add: kBufSize_def)
  qed
qed

section \<open>Opening what was sealed\<close>

lemma str_bytes_str: "bytes_str (str_bytes s) = s"
proof -
  have "char_of (unat (of_char c :: byte)) = c" for c :: char
  proof -
    have "(of_char c :: byte) = word_of_nat (of_char c)" by (simp add: of_nat_of_char)
    then have "unat (of_char c :: byte) = of_char c" by (simp only: unat_of_nat) simp
    then show ?thesis by simp
  qed
  then show ?thesis by (simp add: str_bytes_def bytes_str_def comp_def)
qed

lemma sealed_opens:
  assumes "jose_doc J" "gcm_doc K" "rsa_pair J peer_cert peer_key"
    and "length cek = kContentKeyBytes" "length iv = unat kIvBytes"
    and "to_json m = Inr s" "of_json s = Inr m"
    and "json_of_jwe_header J \<lparr>jwe_alg = kRsaOaep, jwe_enc = kAes128Gcm\<rparr> = Inr h"
  shows "\<exists>req. GenEncryptedRequest X K J cek iv to_json m key der peer_cert False = Inr req \<and>
    ParseEncryptedResponse K J of_json empty_t
      \<lparr>res_status = \<lparr>st_code = 0, st_message = msg\<rparr>, res_message = req_message req\<rparr> peer_key =
    Inr (\<lparr>st_code = 0, st_message = msg\<rparr>, m)"
proof -
  have J: "b64url_decode J (b64url_encode J b) = Inr b" "b64url_encode J [] = []"
    "jwe_header_of_json J h = Inr \<lparr>jwe_alg = kRsaOaep, jwe_enc = kAes128Gcm\<rparr>" for b
    using assms(1,8) by (simp_all add: jose_doc_def)
  have aad: "b64url_decode J [] = Inr []" using J(1) [of "[]"] J(2) by simp
  obtain ek where ek: "rsa_encrypt J peer_cert cek = Inr ek" "rsa_decrypt J peer_key ek = Inr cek"
    using assms(3,4) unfolding rsa_pair_def by blast
  obtain c t where ct: "gcm128_encrypt K cek iv (str_bytes s) [] = Inr (c, t)"
    "gcm128_decrypt K cek iv c [] t = Inr (str_bytes s)"
    using gcm_pairE [of 16 "gcm128_encrypt K" "gcm128_decrypt K" cek iv "str_bytes s" "[]"] assms(2,4,5)
    by (auto simp: gcm_doc_def kContentKeyBytes_def kIvBytes_def)
  have e: "str_bytes [] = []" by (simp add: str_bytes_def)
  show ?thesis
    using assms(6-8) J ek ct aad
    by (simp add: GenEncryptedRequest_def ParseEncryptedResponse_def enforce_json_def seal_def
        Let_def str_bytes_str e)
qed

text \<open>A signed request is produced whenever the libraries do their part.\<close>

lemma GenEncryptedRequest_signed:
  assumes "gcm_doc K" "length cek = kContentKeyBytes" "length iv = unat kIvBytes"
    and "to_json m = Inr s" "der = Inr d" "rsa_encrypt J peer_cert cek = Inr ek"
    and "json_of_jwe_header J \<lparr>jwe_alg = kRsaOaep, jwe_enc = kAes128Gcm\<rparr> = Inr h"
    and "\<And>x. \<exists>h. json_of_jws_header J x = Inr h" "\<And>x. \<exists>sig. rsa_sign J key x = Inr sig"
    and "\<And>x. \<exists>h. json_of_jws J x = Inr h"
  obtains req where "GenEncryptedRequest X K J cek iv to_json m key der peer_cert True = Inr req"
proof -
  obtain hs where hs: "json_of_jws_header J \<lparr>jws_alg = kRs256, jws_x5c = [base64_encode X d]\<rparr> = Inr hs"
    using assms(8) by blast
  define input where "input = b64url_encode J (str_bytes hs) @ kJwsConcatDelimiter @ b64url_encode J (str_bytes s)"
  obtain sig where sig: "rsa_sign J key input = Inr sig" using assms(9) by blast
  obtain jt where jt: "json_of_jws J \<lparr>jws_protected = b64url_encode J (str_bytes hs),
      jws_payload = b64url_encode J (str_bytes s), jws_signature = b64url_encode J sig\<rparr> = Inr jt"
    using assms(10) by blast
  have sign: "sign_request X J s key der = Inr jt"
    using assms(5) hs sig jt by (simp add: sign_request_def enforce_json_def Let_def input_def)
  obtain c t where "gcm128_encrypt K cek iv (str_bytes jt) (str_bytes (b64url_encode J [])) = Inr (c, t)"
    using gcm_pairE [of 16 "gcm128_encrypt K" "gcm128_decrypt K" cek iv "str_bytes jt"
        "str_bytes (b64url_encode J [])"] assms(1-3)
    by (auto simp: gcm_doc_def kContentKeyBytes_def kIvBytes_def)
  then show thesis
    using that assms(4,6,7) sign
    by (simp add: GenEncryptedRequest_def enforce_json_def seal_def Let_def)
qed

section \<open>A sample instance\<close>

definition oaep_header :: jwe_header where
  "oaep_header = \<lparr>jwe_alg = kRsaOaep, jwe_enc = kAes128Gcm\<rparr>"

definition sample_jose :: jose where
  "sample_jose =
     \<lparr>bio_alloc = (\<lambda>_. True), pem_certificate = (\<lambda>s. if s = [] then No_certificate else Der (str_bytes s)),
      bio_read = (\<lambda>b n. (take n b, drop n b)),
      rsa_encrypt = (\<lambda>_ m. Inr (rev m)), rsa_decrypt = (\<lambda>_ c. Inr (rev c)),
      rsa_sign = (\<lambda>_ _. Inr [1]), cert_public_key_der = (\<lambda>s. Inr (str_bytes s)),
      base32_encode = bytes_str, b64url_encode = bytes_str, b64url_decode = (\<lambda>s. Inr (str_bytes s)),
      json_of_jwe_header = (\<lambda>h. if h = oaep_header then Inr ''{}'' else Inl ''header''),
      jwe_header_of_json = (\<lambda>_. Inr oaep_header),
      json_of_jws_header = (\<lambda>_. Inr ''{}''),
      json_of_jws = (\<lambda>j. Inr (jws_protected j @ ''.'' @ jws_payload j @ ''.'' @ jws_signature j))\<rparr>"

lemma sample_jose_doc: "jose_doc sample_jose"
  by (simp add: jose_doc_def sample_jose_def) (simp add: bytes_str_def)

lemma sample_rsa_pair: "rsa_pair sample_jose c k"
  by (simp add: rsa_pair_def sample_jose_def)

section \<open>Properties\<close>

text \<open>
  \<^bold>\<open>C26\<close>: \<open>X509CertPemToDer\<close> returns: its read loop ends for every certificate, whatever its size,
  with the whole DER form, and every failure of OpenSSL becomes an exception.
\<close>

theorem X509CertPemToDer_total:
  assumes "jose_doc J"
  shows "\<exists>r. X509CertPemToDer J pem = Some r \<and>
    (\<forall>der. r = Inr der \<longleftrightarrow> bio_alloc J 0 \<and> bio_alloc J 1 \<and> pem_certificate J pem = Der der)"
  using read_bio_all [OF assms]
  by (auto simp: X509CertPemToDer_def YACL_THROW_def split: pem_result.split)

theorem X509CertPemToDer_total_witness:
  "\<exists>r. X509CertPemToDer sample_jose ''pem'' = Some r \<and>
    (\<forall>der. r = Inr der \<longleftrightarrow> der = str_bytes ''pem'')"
  using X509CertPemToDer_total [OF sample_jose_doc, of "''pem''"] by (auto simp: sample_jose_def)



end
