(* ===== verification/Capsule_Client.thy ===== *)
theory Capsule_Client
  imports Jwe Generators
begin

text \<open>
  The client of the capsule manager (\<open>proxy/data_capsule_proxy/capsule_manager_client.cc\<close>): it
  fetches the manager's certificate, and then exchanges encrypted requests and responses with
  it. The generated protobuf messages are records; the remote service is the functions of
  \<open>cm_env\<close>, one per gRPC method, from the endpoint and the request to the gRPC status and the
  response.
\<close>

section \<open>Messages and environment\<close>

record grpc_status =
  grpc_code :: int
  grpc_message :: string

definition grpc_ok :: "grpc_status \<Rightarrow> bool" where
  "grpc_ok s \<longleftrightarrow> grpc_code s = 0"

text \<open>\<open>rac_other\<close> stands for all fields of the response that no code here reads.\<close>

record GetRaCertResponse =
  rac_status :: sf_status
  rac_cert :: string
  rac_other :: bytes

record Resource =
  rsc_uri :: string
  rsc_columns :: "string list"
  rsc_attrs :: string

record ResourceRequest =
  rr_initiator_party_id :: string
  rr_scope :: string
  rr_op_name :: string
  rr_resources :: "Resource list"
  rr_env :: string
  rr_global_attrs :: string

text \<open>The requests for data keys and for TLS assets have the same fields.\<close>

record ResourceCall =
  rc_report :: "UnifiedAttestationReport option"
  rc_cert :: string
  rc_resource_request :: ResourceRequest

record DataKey =
  dk_data_key_b64 :: string

record TlsAsset =
  tls_cert :: string
  tls_private_key :: string

record ResultKeyBody =
  rk_scope :: string
  rk_resource_uri :: string
  rk_data_key_b64 :: string
  rk_ancestor_uuids :: "string list"

record CreateResultDataKeyRequest =
  crk_report :: "UnifiedAttestationReport option"
  crk_body :: ResultKeyBody

text \<open>
  \<open>cm_nonce\<close>, \<open>cm_cek\<close> and \<open>cm_iv\<close> are the random values of the call; \<open>cm_der\<close> is what
  \<open>X509CertPemToDer\<close> returns for the client's certificate.
\<close>

record cm_env =
  cm_jose :: jose
  cm_gcm :: gcm
  cm_gen :: gen_env
  cm_build :: tee_build
  cm_nonce :: bytes
  cm_cek :: bytes
  cm_iv :: bytes
  cm_der :: "bytes res"
  serialize_resource_request :: "ResourceRequest \<Rightarrow> bytes option"
  serialize_body :: "ResultKeyBody \<Rightarrow> bytes option"
  json_of_resource_call :: "ResourceCall \<Rightarrow> string + string"
  json_of_result_key :: "CreateResultDataKeyRequest \<Rightarrow> string + string"
  data_keys_of_json :: "string \<Rightarrow> string + DataKey list"
  tls_asset_of_json :: "string \<Rightarrow> string + TlsAsset"
  rpc_GetRaCert :: "string \<Rightarrow> string \<Rightarrow> grpc_status \<times> GetRaCertResponse"
  rpc_GetDataKeys :: "string \<Rightarrow> EncryptedRequest \<Rightarrow> grpc_status \<times> EncryptedResponse"
  rpc_GetTlsAsset :: "string \<Rightarrow> EncryptedRequest \<Rightarrow> grpc_status \<times> EncryptedResponse"
  rpc_CreateResultDataKey :: "string \<Rightarrow> EncryptedRequest \<Rightarrow> grpc_status \<times> EncryptedResponse"

text \<open>The stub is identified with the endpoint of its channel.\<close>

record cm_client =
  cl_stub :: string
  capsule_manager_cert :: string

section \<open>The code\<close>

definition kNonceBytes :: nat where "kNonceBytes = 16"
definition kTeePlatSim :: string where "kTeePlatSim = ''sim''"

definition VerifySfResponseStatus :: "sf_status \<Rightarrow> unit res" where
  "VerifySfResponseStatus status =
     YACL_ENFORCE (st_code status = 0)
       (fmt ''Call service failed, error code: {}, message: {}''
          [int_str (st_code status), st_message status])"

definition enforce_grpc :: "string \<Rightarrow> grpc_status \<Rightarrow> unit res" where
  "enforce_grpc msg s = YACL_ENFORCE (grpc_ok s) (fmt msg [int_str (grpc_code s), grpc_message s])"

definition GetRaCert :: "cm_env \<Rightarrow> cm_client \<Rightarrow> (string \<times> cm_client) res" where
  "GetRaCert C cl =
     (let (status, response) =
        rpc_GetRaCert C (cl_stub cl) (b64url_encode (cm_jose C) (cm_nonce C)) in
      bindE (enforce_grpc ''Calling GetRaCert failed, error code: {}, message: {}'' status) (\<lambda>_.
      bindE (VerifySfResponseStatus (rac_status response)) (\<lambda>_.
      Inr (rac_cert response, cl\<lparr>capsule_manager_cert := rac_cert response\<rparr>))))"

text \<open>The constructor.\<close>

definition CapsuleManagerClient :: "cm_env \<Rightarrow> string \<Rightarrow> cm_client res" where
  "CapsuleManagerClient C capsule_manager_endpoint =
     bindE (GetRaCert C \<lparr>cl_stub = capsule_manager_endpoint, capsule_manager_cert = []\<rparr>) (\<lambda>(_, cl).
     Inr cl)"

definition require_cert :: "cm_client \<Rightarrow> unit res" where
  "require_cert cl =
     YACL_ENFORCE (0 < length (capsule_manager_cert cl))
       ''capsule_manager_cert not found. you should call GetRaCert() before other capsule_manager's interface''"

text \<open>
  The report over the certificate and the serialized request, which the methods for data keys
  and for TLS assets put into their request unless the platform is simulated.
\<close>

definition resource_report ::
  "cm_env \<Rightarrow> string \<Rightarrow> string \<Rightarrow> ResourceRequest \<Rightarrow> UnifiedAttestationReport option res" where
  "resource_report C plat cert resource_req =
     (if plat \<noteq> kTeePlatSim
      then case serialize_resource_request C resource_req of
             None \<Rightarrow> YACL_THROW ''Serializing resource_req failed''
           | Some serialized \<Rightarrow>
               (let user_data = str_bytes cert @ str_bytes ''.'' @ serialized in
                bindE (GenRaReport (cm_gen C) (cm_build C) user_data) (\<lambda>report. Inr (Some report)))
      else Inr None)"

definition GetDataKeys ::
  "cm_env \<Rightarrow> cm_client \<Rightarrow> string \<Rightarrow> string \<Rightarrow> string \<Rightarrow> ResourceRequest \<Rightarrow> DataKey list res" where
  "GetDataKeys C cl plat cert private_key resource_req =
     bindE (require_cert cl) (\<lambda>_.
     bindE (resource_report C plat cert resource_req) (\<lambda>report.
     let request = \<lparr>rc_report = report, rc_cert = cert, rc_resource_request = resource_req\<rparr> in
     bindE (GenEncryptedRequest (ge_ext (cm_gen C)) (cm_gcm C) (cm_jose C) (cm_cek C) (cm_iv C)
              (json_of_resource_call C) request private_key (cm_der C) (capsule_manager_cert cl) True)
       (\<lambda>enc_req.
     let (status, enc_res) = rpc_GetDataKeys C (cl_stub cl) enc_req in
     bindE (enforce_grpc ''Calling GetDataKeys failed, error code: {}, message: {}'' status) (\<lambda>_.
     bindE (ParseEncryptedResponse (cm_gcm C) (cm_jose C) (data_keys_of_json C) [] enc_res private_key)
       (\<lambda>(res_status, data_keys).
     bindE (VerifySfResponseStatus res_status) (\<lambda>_.
     Inr data_keys))))))"

definition GetTlsAsset ::
  "cm_env \<Rightarrow> cm_client \<Rightarrow> string \<Rightarrow> string \<Rightarrow> string \<Rightarrow> ResourceRequest \<Rightarrow> TlsAsset res" where
  "GetTlsAsset C cl plat cert private_key resource_req =
     bindE (require_cert cl) (\<lambda>_.
     bindE (resource_report C plat cert resource_req) (\<lambda>report.
     let request = \<lparr>rc_report = report, rc_cert = cert, rc_resource_request = resource_req\<rparr> in
     bindE (GenEncryptedRequest (ge_ext (cm_gen C)) (cm_gcm C) (cm_jose C) (cm_cek C) (cm_iv C)
              (json_of_resource_call C) request private_key (cm_der C) (capsule_manager_cert cl) True)
       (\<lambda>enc_req.
     let (status, enc_res) = rpc_GetTlsAsset C (cl_stub cl) enc_req in
     bindE (enforce_grpc ''Calling GetDataKeys failed, error code: {}, message: {}'' status) (\<lambda>_.
     bindE (ParseEncryptedResponse (cm_gcm C) (cm_jose C) (tls_asset_of_json C)
              \<lparr>tls_cert = [], tls_private_key = []\<rparr> enc_res private_key) (\<lambda>(res_status, tls_asset).
     bindE (VerifySfResponseStatus res_status) (\<lambda>_.
     Inr tls_asset))))))"

text \<open>Here the report covers the body only, and the response is not decrypted.\<close>

definition CreateResultDataKey ::
  "cm_env \<Rightarrow> cm_client \<Rightarrow> string \<Rightarrow> string \<Rightarrow> string \<Rightarrow> ResultKeyBody \<Rightarrow> unit res" where
  "CreateResultDataKey C cl plat cert private_key body =
     bindE (require_cert cl) (\<lambda>_.
     bindE (if plat \<noteq> kTeePlatSim
            then case serialize_body C body of
                   None \<Rightarrow> YACL_THROW ''Serializing CreateResultDataKeyRequest body failed''
                 | Some serialized_body \<Rightarrow>
                     bindE (GenRaReport (cm_gen C) (cm_build C) serialized_body) (\<lambda>r. Inr (Some r))
            else Inr None) (\<lambda>report.
     let request = \<lparr>crk_report = report, crk_body = body\<rparr> in
     bindE (GenEncryptedRequest (ge_ext (cm_gen C)) (cm_gcm C) (cm_jose C) (cm_cek C) (cm_iv C)
              (json_of_result_key C) request private_key (cm_der C) (capsule_manager_cert cl) True)
       (\<lambda>enc_req.
     let (status, enc_res) = rpc_CreateResultDataKey C (cl_stub cl) enc_req in
     bindE (enforce_grpc ''Calling CreateResultDataKey failed, error code: {}, message: {}'' status)
       (\<lambda>_.
     VerifySfResponseStatus (res_status enc_res)))))"

section \<open>A sample manager\<close>

definition sample_keys :: "DataKey list" where
  "sample_keys = [\<lparr>dk_data_key_b64 = bytes_str (zeros 16)\<rparr>]"

definition sample_answer :: "EncryptedRequest res" where
  "sample_answer = GenEncryptedRequest (ge_ext sample_gen_env) sample_gcm sample_jose (zeros 16) (zeros 12)
     (\<lambda>_. Inr ''keys'') sample_keys [] (Inr []) ''cert'' False"

definition sample_cm :: cm_env where
  "sample_cm =
     \<lparr>cm_jose = sample_jose, cm_gcm = sample_gcm, cm_gen = sample_gen_env, cm_build = sgx_build,
      cm_nonce = zeros 16, cm_cek = zeros 16, cm_iv = zeros 12, cm_der = Inr (str_bytes ''cert''),
      serialize_resource_request = (\<lambda>_. Some []), serialize_body = (\<lambda>_. Some []),
      json_of_resource_call = (\<lambda>_. Inr ''call''), json_of_result_key = (\<lambda>_. Inr ''result''),
      data_keys_of_json = (\<lambda>_. Inr sample_keys),
      tls_asset_of_json = (\<lambda>_. Inr \<lparr>tls_cert = ''c'', tls_private_key = ''k''\<rparr>),
      rpc_GetRaCert = (\<lambda>_ _. (\<lparr>grpc_code = 0, grpc_message = []\<rparr>,
        \<lparr>rac_status = \<lparr>st_code = 0, st_message = []\<rparr>, rac_cert = ''manager'', rac_other = []\<rparr>)),
      rpc_GetDataKeys = (\<lambda>_ _. (\<lparr>grpc_code = 0, grpc_message = []\<rparr>,
        \<lparr>res_status = \<lparr>st_code = 0, st_message = []\<rparr>, res_message = req_message (projr sample_answer)\<rparr>)),
      rpc_GetTlsAsset = (\<lambda>_ _. (\<lparr>grpc_code = 14, grpc_message = ''unavailable''\<rparr>,
        \<lparr>res_status = \<lparr>st_code = 0, st_message = []\<rparr>, res_message = req_message (projr sample_answer)\<rparr>)),
      rpc_CreateResultDataKey = (\<lambda>_ _. (\<lparr>grpc_code = 0, grpc_message = []\<rparr>,
        \<lparr>res_status = \<lparr>st_code = 0, st_message = []\<rparr>, res_message = req_message (projr sample_answer)\<rparr>))\<rparr>"

section \<open>Properties\<close>

lemma VerifySfResponseStatus_ok: "VerifySfResponseStatus s = Inr () \<longleftrightarrow> st_code s = 0"
  by (simp add: VerifySfResponseStatus_def exn_simps)

text \<open>
  The certificate that the client will encrypt its requests for is the one the
  endpoint answers with: the constructor succeeds exactly if the call and the service report
  success. Neither the nonce, drawn afresh, nor any other field of the response, such as evidence
  that the certificate belongs to an attested enclave, is looked at.
\<close>

lemma CapsuleManagerClient_iff:
  "CapsuleManagerClient C endpoint = Inr cl \<longleftrightarrow>
    (\<exists>message smessage cert other.
       rpc_GetRaCert C endpoint (b64url_encode (cm_jose C) (cm_nonce C)) =
         (\<lparr>grpc_code = 0, grpc_message = message\<rparr>,
          \<lparr>rac_status = \<lparr>st_code = 0, st_message = smessage\<rparr>, rac_cert = cert, rac_other = other\<rparr>) \<and>
       cl = \<lparr>cl_stub = endpoint, capsule_manager_cert = cert\<rparr>)"
proof -
  obtain s r where sr: "rpc_GetRaCert C endpoint (b64url_encode (cm_jose C) (cm_nonce C)) = (s, r)"
    by fastforce
  obtain code message where s: "s = \<lparr>grpc_code = code, grpc_message = message\<rparr>" by (cases s)
  obtain st cert other where r: "r = \<lparr>rac_status = st, rac_cert = cert, rac_other = other\<rparr>" by (cases r)
  obtain c m where st: "st = \<lparr>st_code = c, st_message = m\<rparr>" by (cases st)
  show ?thesis
    by (auto simp: CapsuleManagerClient_def GetRaCert_def sr s r st enforce_grpc_def grpc_ok_def
        VerifySfResponseStatus_def exn_simps Let_def)
qed

text \<open>What a sealed request needs of the libraries on the client's side.\<close>

definition client_ready :: "cm_env \<Rightarrow> cm_client \<Rightarrow> string \<Rightarrow> bool" where
  "client_ready C cl private_key \<longleftrightarrow>
     gcm_doc (cm_gcm C) \<and> jose_doc (cm_jose C) \<and>
     length (cm_cek C) = kContentKeyBytes \<and> length (cm_iv C) = unat kIvBytes \<and>
     capsule_manager_cert cl \<noteq> [] \<and> (\<exists>d. cm_der C = Inr d) \<and>
     (\<exists>k. rsa_pair (cm_jose C) (capsule_manager_cert cl) k) \<and>
     (\<exists>h. json_of_jwe_header (cm_jose C) \<lparr>jwe_alg = kRsaOaep, jwe_enc = kAes128Gcm\<rparr> = Inr h) \<and>
     (\<forall>x. \<exists>h. json_of_jws_header (cm_jose C) x = Inr h) \<and>
     (\<forall>x. \<exists>sig. rsa_sign (cm_jose C) private_key x = Inr sig) \<and>
     (\<forall>x. \<exists>h. json_of_jws (cm_jose C) x = Inr h) \<and>
     (\<forall>x. \<exists>h. json_of_resource_call C x = Inr h)"

lemma request_sealed:
  assumes ready: "client_ready C cl private_key" and json: "to_json m = Inr js"
  obtains req where "GenEncryptedRequest (ge_ext (cm_gen C)) (cm_gcm C) (cm_jose C) (cm_cek C) (cm_iv C) to_json m
      private_key (cm_der C) (capsule_manager_cert cl) True = Inr req"
proof -
  let ?J = "cm_jose C"
  from ready obtain d k h where r: "cm_der C = Inr d" "rsa_pair ?J (capsule_manager_cert cl) k"
    "json_of_jwe_header ?J \<lparr>jwe_alg = kRsaOaep, jwe_enc = kAes128Gcm\<rparr> = Inr h" "gcm_doc (cm_gcm C)"
    "length (cm_cek C) = kContentKeyBytes" "length (cm_iv C) = unat kIvBytes"
    unfolding client_ready_def by blast
  obtain ek where ek: "rsa_encrypt ?J (capsule_manager_cert cl) (cm_cek C) = Inr ek"
    using r(2,5) unfolding rsa_pair_def by blast
  show thesis
    by (rule GenEncryptedRequest_signed [where to_json = to_json and m = m, OF r(4,5,6) json r(1) ek r(3)])
      (use ready that in \<open>unfold client_ready_def, blast+\<close>)
qed

text \<open>A service that answers with keys sealed for the certificate of the client.\<close>

definition answers_keys :: "cm_env \<Rightarrow> (DataKey list \<Rightarrow> string + string) \<Rightarrow> bytes \<Rightarrow> bytes \<Rightarrow> string \<Rightarrow> string
    \<Rightarrow> DataKey list \<Rightarrow> bool" where
  "answers_keys C to_json cek iv endpoint cert keys \<longleftrightarrow>
     (\<forall>req. \<exists>env. GenEncryptedRequest (ge_ext (cm_gen C)) (cm_gcm C) (cm_jose C) cek iv to_json keys
         [] (Inr []) cert False = Inr env \<and>
       rpc_GetDataKeys C endpoint req =
         (\<lparr>grpc_code = 0, grpc_message = []\<rparr>,
          \<lparr>res_status = \<lparr>st_code = 0, st_message = []\<rparr>, res_message = req_message env\<rparr>))"

lemma data_keys_delivered:
  assumes ready: "client_ready C cl private_key" and pair: "rsa_pair (cm_jose C) cert private_key"
    and answer: "answers_keys C to_json cek iv (cl_stub cl) cert keys"
      "length cek = kContentKeyBytes" "length iv = unat kIvBytes"
    and json: "to_json keys = Inr s" "data_keys_of_json C s = Inr keys"
    and report: "resource_report C plat cert rr = Inr report"
  shows "GetDataKeys C cl plat cert private_key rr = Inr keys"
proof -
  let ?J = "cm_jose C" and ?K = "cm_gcm C" and ?X = "ge_ext (cm_gen C)"
  let ?call = "\<lparr>rc_report = report, rc_cert = cert, rc_resource_request = rr\<rparr>"
  have r: "gcm_doc ?K" "jose_doc ?J" "capsule_manager_cert cl \<noteq> []" using ready by (simp_all add: client_ready_def)
  obtain js h where js: "json_of_resource_call C ?call = Inr js"
    "json_of_jwe_header ?J \<lparr>jwe_alg = kRsaOaep, jwe_enc = kAes128Gcm\<rparr> = Inr h"
    using ready unfolding client_ready_def by blast
  obtain req where req: "GenEncryptedRequest ?X ?K ?J (cm_cek C) (cm_iv C) (json_of_resource_call C) ?call
      private_key (cm_der C) (capsule_manager_cert cl) True = Inr req"
    by (rule request_sealed [where to_json = "json_of_resource_call C" and m = ?call, OF ready js(1)])
  from answer(1) obtain env where env:
    "GenEncryptedRequest ?X ?K ?J cek iv to_json keys [] (Inr []) cert False = Inr env"
    "rpc_GetDataKeys C (cl_stub cl) req =
       (\<lparr>grpc_code = 0, grpc_message = []\<rparr>,
        \<lparr>res_status = \<lparr>st_code = 0, st_message = []\<rparr>, res_message = req_message env\<rparr>)"
    unfolding answers_keys_def by blast
  have "ParseEncryptedResponse ?K ?J (data_keys_of_json C) []
      \<lparr>res_status = \<lparr>st_code = 0, st_message = []\<rparr>, res_message = req_message env\<rparr> private_key =
    Inr (\<lparr>st_code = 0, st_message = []\<rparr>, keys)"
    using sealed_opens [OF r(2,1) pair answer(2,3), of to_json keys s "data_keys_of_json C" h ?X "[]" "Inr []"]
      json js(2) env(1) by auto
  then show ?thesis
    using r(3) report req env(2)
    by (simp add: GetDataKeys_def require_cert_def enforce_grpc_def grpc_ok_def
        VerifySfResponseStatus_def exn_simps Let_def)
qed

lemma sample_client_ready:
  "client_ready sample_cm \<lparr>cl_stub = ''ep'', capsule_manager_cert = ''manager''\<rparr> ''key''"
proof -
  have "json_of_jwe_header sample_jose \<lparr>jwe_alg = kRsaOaep, jwe_enc = kAes128Gcm\<rparr> = Inr ''{}''"
    "json_of_jws_header sample_jose x = Inr ''{}''" "rsa_sign sample_jose k i = Inr [1]"
    "\<exists>h. json_of_jws sample_jose j = Inr h" for x k i j
    by (simp_all add: sample_jose_def oaep_header_def)
  then show ?thesis
    using sample_gcm_doc sample_jose_doc sample_rsa_pair
    by (simp add: client_ready_def sample_cm_def kContentKeyBytes_def kIvBytes_def)
qed

lemma sample_answers: "answers_keys sample_cm (\<lambda>_. Inr ''keys'') (zeros 16) (zeros 12) ep ''cert'' sample_keys"
proof -
  have "\<exists>req. sample_answer = Inr req \<and> ParseEncryptedResponse sample_gcm sample_jose (\<lambda>_. Inr sample_keys) []
      \<lparr>res_status = \<lparr>st_code = 0, st_message = []\<rparr>, res_message = req_message req\<rparr> ''key'' =
    Inr (\<lparr>st_code = 0, st_message = []\<rparr>, sample_keys)"
    unfolding sample_answer_def
    by (rule sealed_opens [OF sample_jose_doc sample_gcm_doc sample_rsa_pair, where s = "''keys''" and h = "''{}''"])
      (simp_all add: kContentKeyBytes_def kIvBytes_def sample_jose_def oaep_header_def)
  then show ?thesis by (auto simp: answers_keys_def sample_cm_def sample_answer_def)
qed

text \<open>
  The exchange of data keys works: if the service answers with keys sealed for the
  certificate of the client, \<open>GetDataKeys\<close> returns exactly these keys, on the simulated platform
  and on every platform whose attestation report could be generated.
\<close>

lemma GetDataKeys_delivers:
  assumes ready: "client_ready C cl private_key" and pair: "rsa_pair (cm_jose C) cert private_key"
    and answer: "answers_keys C to_json cek iv (cl_stub cl) cert keys"
      "length cek = kContentKeyBytes" "length iv = unat kIvBytes"
    and json: "to_json keys = Inr s" "data_keys_of_json C s = Inr keys"
    and report: "resource_report C plat cert rr = Inr report"
  shows "GetDataKeys C cl plat cert private_key rr = Inr keys"
  by (rule data_keys_delivered [where to_json = to_json and s = s, OF ready pair answer json report])

lemma GetDataKeys_delivers_witness:
  "GetDataKeys sample_cm \<lparr>cl_stub = ''ep'', capsule_manager_cert = ''manager''\<rparr> ''sim'' ''cert'' ''key''
     \<lparr>rr_initiator_party_id = [], rr_scope = [], rr_op_name = [], rr_resources = [], rr_env = [],
      rr_global_attrs = []\<rparr> = Inr sample_keys"
proof (rule GetDataKeys_delivers [OF sample_client_ready _ sample_answers, where s = "''keys''" and report = None])
  show "rsa_pair (cm_jose sample_cm) ''cert'' ''key''" by (simp add: sample_cm_def sample_rsa_pair)
qed (simp_all add: kContentKeyBytes_def kIvBytes_def sample_cm_def resource_report_def kTeePlatSim_def)

end
