(* ===== verification/Dir_Crypto.thy ===== *)
theory Dir_Crypto
  imports File_Crypto "HOL-Library.Sublist"
begin

text \<open>
  Whole directories (\<open>EncryptToDir\<close>, \<open>DecryptToDir\<close> of \<open>proxy/utils/crypto_util.cc\<close>): the part of
  \<open>std::filesystem\<close> they use, the walk that starts one task per file with \<open>std::async\<close>, and the
  joining of the tasks. The tasks run concurrently; the theory breaks them into their single
  writes and shows that the order in which the writes of different tasks happen is not visible
  when no two tasks write the same file.
\<close>

section \<open>Paths and directories\<close>

text \<open>Paths are strings in generic format, without symbolic links.\<close>

definition filename :: "string \<Rightarrow> string" where
  "filename p = rev (takeWhile (\<lambda>c. c \<noteq> CHR ''/'') (rev p))"

definition path_extension :: "string \<Rightarrow> string" where
  "path_extension p =
     (let f = filename p in
      if f = ''..'' \<or> CHR ''.'' \<notin> set (tl f) then []
      else CHR ''.'' # rev (takeWhile (\<lambda>c. c \<noteq> CHR ''.'') (rev f)))"

text \<open>\<open>path::replace_extension("")\<close>.\<close>

definition remove_extension :: "string \<Rightarrow> string" where
  "remove_extension p = take (length p - length (path_extension p)) p"

text \<open>\<open>path::operator/\<close>: an absolute right operand replaces the left one.\<close>

definition path_append :: "string \<Rightarrow> string \<Rightarrow> string" where
  "path_append a b =
     (if b \<noteq> [] \<and> hd b = CHR ''/'' then b
      else if a = [] \<or> last a = CHR ''/'' then a @ b
      else a @ ''/'' @ b)"

definition parent_path :: "string \<Rightarrow> string" where
  "parent_path p =
     (let d = take (length p - length (filename p)) p;
          s = rev (dropWhile (\<lambda>c. c = CHR ''/'') (rev d))
      in if s = [] \<and> d \<noteq> [] then ''/'' else s)"

record fstate =
  fs_files :: fs
  fs_dirs :: "string set"
  fs_others :: "string set"

definition is_regular_file :: "fstate \<Rightarrow> string \<Rightarrow> bool" where
  "is_regular_file st p \<longleftrightarrow> fs_files st p \<noteq> None"

definition is_directory :: "fstate \<Rightarrow> string \<Rightarrow> bool" where
  "is_directory st p \<longleftrightarrow> p \<in> fs_dirs st"

definition path_exists :: "fstate \<Rightarrow> string \<Rightarrow> bool" where
  "path_exists st p \<longleftrightarrow> is_regular_file st p \<or> is_directory st p \<or> p \<in> fs_others st"

text \<open>
  What the operating system refuses: \<open>create_directories\<close> of a path, \<open>copy\<close> from one path to
  another, \<open>remove_all\<close> of a path.
\<close>

record os_env =
  mkdir_error :: "string \<Rightarrow> exn option"
  copy_error :: "string \<Rightarrow> string \<Rightarrow> exn option"
  rm_error :: "string \<Rightarrow> exn option"

definition create_directories :: "os_env \<Rightarrow> string \<Rightarrow> fstate \<Rightarrow> fstate res" where
  "create_directories E d st =
     (case mkdir_error E d of
        Some e \<Rightarrow> Inl e
      | None \<Rightarrow>
          Inr (st\<lparr>fs_dirs := fs_dirs st \<union> {d} \<union>
                 set (map (\<lambda>i. take i d) (filter (\<lambda>i. 0 < i \<and> d ! i = CHR ''/'') [0..<length d]))\<rparr>))"

text \<open>\<open>copy\<close> with \<open>overwrite_existing\<close>, of a regular file.\<close>

definition copy_file :: "os_env \<Rightarrow> string \<Rightarrow> string \<Rightarrow> fstate \<Rightarrow> fstate res" where
  "copy_file E from to st =
     (let to' = if is_directory st to then path_append to (filename from) else to in
      case copy_error E from to' of
        Some e \<Rightarrow> Inl e
      | None \<Rightarrow> Inr (st\<lparr>fs_files := (fs_files st)(to' := fs_files st from)\<rparr>))"

text \<open>The path itself and everything below it; nothing happens if there is no such path.\<close>

definition in_tree :: "string \<Rightarrow> string \<Rightarrow> bool" where
  "in_tree d p \<longleftrightarrow> p = d \<or> prefix (d @ ''/'') p"

definition remove_all :: "os_env \<Rightarrow> string \<Rightarrow> fstate \<Rightarrow> fstate res" where
  "remove_all E d st =
     (case rm_error E d of
        Some e \<Rightarrow> Inl e
      | None \<Rightarrow> Inr \<lparr>fs_files = (\<lambda>p. if in_tree d p then None else fs_files st p),
                     fs_dirs = {p \<in> fs_dirs st. \<not> in_tree d p},
                     fs_others = {p \<in> fs_others st. \<not> in_tree d p}\<rparr>)"

section \<open>The code\<close>

definition kEncSuffix :: string where "kEncSuffix = ''.enc''"

definition ensure_parent :: "os_env \<Rightarrow> string \<Rightarrow> fstate \<Rightarrow> fstate res" where
  "ensure_parent E p st =
     (if \<not> path_exists st (parent_path p) then create_directories E (parent_path p) st else Inr st)"

text \<open>
  A task is the source and the destination of a call handed to \<open>std::async\<close>. The walks take the
  relative paths in the order in which the iterator meets them; they return the tasks they
  started, how they ended, and the state.
\<close>

type_synonym task = "string \<times> string"

fun encrypt_walk ::
  "os_env \<Rightarrow> string \<Rightarrow> string \<Rightarrow> string list \<Rightarrow> fstate \<Rightarrow> task list \<times> unit res \<times> fstate" where
  "encrypt_walk E src dest [] st = ([], Inr (), st)"
| "encrypt_walk E src dest (r # rs) st =
     (let item = path_append src r; dest_object_path = path_append dest r @ kEncSuffix in
      if is_regular_file st item
      then case ensure_parent E dest_object_path st of
             Inl e \<Rightarrow> ([], Inl e, st)
           | Inr st' \<Rightarrow>
               (let (ts, res, st'') = encrypt_walk E src dest rs st'
                in ((item, dest_object_path) # ts, res, st''))
      else encrypt_walk E src dest rs st)"

fun decrypt_walk ::
  "os_env \<Rightarrow> string \<Rightarrow> string \<Rightarrow> string list \<Rightarrow> fstate \<Rightarrow> task list \<times> unit res \<times> fstate" where
  "decrypt_walk E src dest [] st = ([], Inr (), st)"
| "decrypt_walk E src dest (r # rs) st =
     (let item = path_append src r; dest_object_path = path_append dest r in
      if is_regular_file st item
      then case ensure_parent E dest_object_path st of
             Inl e \<Rightarrow> ([], Inl e, st)
           | Inr st' \<Rightarrow>
               if path_extension item = kEncSuffix
               then (let (ts, res, st'') = decrypt_walk E src dest rs st'
                     in ((item, remove_extension dest_object_path) # ts, res, st''))
               else (case copy_file E item dest_object_path st' of
                       Inl e \<Rightarrow> ([], Inl e, st')
                     | Inr st'' \<Rightarrow> decrypt_walk E src dest rs st'')
      else decrypt_walk E src dest rs st)"

text \<open>
  The tasks in the order of their futures. A future that is not asked for its result still waits
  for its task, so all of them run to their end; the first exception in this order is thrown.
\<close>

fun run_tasks :: "(task \<Rightarrow> fs \<Rightarrow> unit fs_res) \<Rightarrow> task list \<Rightarrow> fs \<Rightarrow> unit res list \<times> fs" where
  "run_tasks f [] fs = ([], fs)"
| "run_tasks f (t # ts) fs =
     (let (r, fs') = f t fs; (rs, fs'') = run_tasks f ts fs' in (r # rs, fs''))"

definition join_tasks ::
  "(task \<Rightarrow> fs \<Rightarrow> unit fs_res) \<Rightarrow> task list \<times> unit res \<times> fstate \<Rightarrow> unit res \<times> fstate" where
  "join_tasks f walked =
     (let (ts, res, st) = walked; (rs, fs') = run_tasks f ts (fs_files st) in
      (case res of Inl e \<Rightarrow> Inl e | Inr _ \<Rightarrow> first_error rs, st\<lparr>fs_files := fs'\<rparr>))"

definition on_files :: "(fs \<Rightarrow> unit fs_res) \<Rightarrow> fstate \<Rightarrow> unit res \<times> fstate" where
  "on_files f st = (let (r, fs') = f (fs_files st) in (r, st\<lparr>fs_files := fs'\<rparr>))"

text \<open>\<open>ivs p\<close> are the random IVs drawn while \<open>p\<close> is encrypted.\<close>

definition EncryptToDir ::
  "os_env \<Rightarrow> yacl_io \<Rightarrow> gcm \<Rightarrow> (string \<Rightarrow> nat \<Rightarrow> bytes) \<Rightarrow> string list \<Rightarrow> string \<Rightarrow> string \<Rightarrow> bytes
   \<Rightarrow> fstate \<Rightarrow> unit res \<times> fstate" where
  "EncryptToDir E F K ivs entries src_path dest_path data_key st =
     (let enc = (\<lambda>(src, dest). EncryptFile F K (ivs src) src dest data_key) in
      if \<not> path_exists st src_path
      then (YACL_THROW (fmt ''src_path {} not exists'' [src_path]), st)
      else if is_regular_file st src_path
      then (let dest_object_path = path_append dest_path (filename src_path) @ kEncSuffix in
            case ensure_parent E dest_object_path st of
              Inl e \<Rightarrow> (Inl e, st)
            | Inr st' \<Rightarrow> on_files (enc (src_path, dest_object_path)) st')
      else if is_directory st src_path
      then join_tasks enc (encrypt_walk E src_path dest_path entries st)
      else (YACL_THROW (fmt ''src_path {} is not a file or directory'' [src_path]), st))"

definition DecryptToDir ::
  "os_env \<Rightarrow> yacl_io \<Rightarrow> gcm \<Rightarrow> string list \<Rightarrow> string \<Rightarrow> string \<Rightarrow> bytes
   \<Rightarrow> fstate \<Rightarrow> unit res \<times> fstate" where
  "DecryptToDir E F K entries src_path dest_path data_key st =
     (let dec = (\<lambda>(src, dest). DecryptFile F K src dest data_key) in
      if \<not> path_exists st src_path
      then (YACL_THROW (fmt ''src_path {} not exists'' [src_path]), st)
      else if is_regular_file st src_path
      then (let dest_object_path = path_append dest_path (filename src_path) in
            case ensure_parent E dest_object_path st of
              Inl e \<Rightarrow> (Inl e, st)
            | Inr st' \<Rightarrow>
                if path_extension src_path = kEncSuffix
                then on_files (dec (src_path, remove_extension dest_object_path)) st'
                else (case copy_file E src_path dest_object_path st' of
                        Inl e \<Rightarrow> (Inl e, st')
                      | Inr st'' \<Rightarrow> (Inr (), st'')))
      else if is_directory st src_path
      then join_tasks dec (decrypt_walk E src_path dest_path entries st)
      else (YACL_THROW (fmt ''src_path {} is not a file or directory'' [src_path]), st))"

section \<open>Names\<close>

lemma filename_append: "CHR ''/'' \<notin> set y \<Longrightarrow> filename (x @ y) = filename x @ y"
proof -
  assume "CHR ''/'' \<notin> set y"
  then have "takeWhile (\<lambda>c. c \<noteq> CHR ''/'') (rev y @ rev x) =
      rev y @ takeWhile (\<lambda>c. c \<noteq> CHR ''/'') (rev x)"
    by (intro takeWhile_append2) auto
  then show ?thesis by (simp add: filename_def)
qed

lemma enc_suffix_no_slash: "CHR ''/'' \<notin> set kEncSuffix" by (simp add: kEncSuffix_def)

lemma extension_of_encrypted:
  assumes "filename p \<noteq> []"
  shows "path_extension (p @ kEncSuffix) = kEncSuffix" "remove_extension (p @ kEncSuffix) = p"
proof -
  obtain a f where f: "filename p = a # f" using assms by (cases "filename p") auto
  show ext: "path_extension (p @ kEncSuffix) = kEncSuffix"
    unfolding path_extension_def filename_append [OF enc_suffix_no_slash] f
    by (simp add: kEncSuffix_def)
  show "remove_extension (p @ kEncSuffix) = p" unfolding remove_extension_def ext by simp
qed

text \<open>Relative paths of files, and directories neither of which lies in the other.\<close>

definition relative_file :: "string \<Rightarrow> bool" where
  "relative_file r \<longleftrightarrow> r \<noteq> [] \<and> hd r \<noteq> CHR ''/'' \<and> filename r \<noteq> []"

definition plain_root :: "string \<Rightarrow> bool" where
  "plain_root a \<longleftrightarrow> a \<noteq> [] \<and> last a \<noteq> CHR ''/''"

definition separate :: "string \<Rightarrow> string \<Rightarrow> bool" where
  "separate a b \<longleftrightarrow> plain_root a \<and> plain_root b \<and>
     \<not> prefix (a @ ''/'') (b @ ''/'') \<and> \<not> prefix (b @ ''/'') (a @ ''/'')"

lemma path_append_root:
  "plain_root a \<Longrightarrow> relative_file r \<Longrightarrow> path_append a r = a @ ''/'' @ r"
  by (simp add: plain_root_def relative_file_def path_append_def)

lemma path_append_inj:
  "plain_root a \<Longrightarrow> relative_file r \<Longrightarrow> relative_file r' \<Longrightarrow>
   path_append a r = path_append a r' \<longleftrightarrow> r = r'"
  by (simp add: path_append_root)

lemma separate_paths:
  assumes "separate a b" "relative_file r" "relative_file r'"
  shows "path_append a r \<noteq> path_append b r'"
proof
  assume "path_append a r = path_append b r'"
  then have "(a @ ''/'') @ r = (b @ ''/'') @ r'"
    using assms by (simp add: path_append_root separate_def)
  then have "prefix (a @ ''/'') (b @ ''/'') \<or> prefix (b @ ''/'') (a @ ''/'')"
    by (metis prefixI prefix_same_cases)
  with assms(1) show False by (simp add: separate_def)
qed

lemma relative_file_enc [simp]: "relative_file r \<Longrightarrow> relative_file (r @ kEncSuffix)"
  by (auto simp: relative_file_def filename_append [OF enc_suffix_no_slash])

lemma path_append_enc:
  "plain_root a \<Longrightarrow> relative_file r \<Longrightarrow> path_append a r @ kEncSuffix = path_append a (r @ kEncSuffix)"
  by (simp add: path_append_root)

lemma filename_under: "plain_root a \<Longrightarrow> relative_file r \<Longrightarrow> filename (path_append a r) \<noteq> []"
proof -
  assume a: "plain_root a" "relative_file r"
  then obtain c s where "rev r = c # s" "c \<noteq> CHR ''/''"
    by (cases "rev r") (auto simp: relative_file_def filename_def split: if_splits)
  then show ?thesis using a by (simp add: path_append_root filename_def)
qed

section \<open>Concurrent tasks\<close>

text \<open>
  The writes of a task, down to single bytes, so that every way of splitting them into calls of
  \<open>Write\<close> is covered.
\<close>

datatype io_step = Create string | Append string byte

primrec step_path :: "io_step \<Rightarrow> string" where
  "step_path (Create p) = p"
| "step_path (Append p b) = p"

primrec run_step :: "io_step \<Rightarrow> fs \<Rightarrow> fs" where
  "run_step (Create p) fs = fs(p \<mapsto> [])"
| "run_step (Append p b) fs = fs(p \<mapsto> (case fs p of None \<Rightarrow> [b] | Some bs \<Rightarrow> bs @ [b]))"

definition write_file :: "string \<Rightarrow> bytes \<Rightarrow> io_step list" where
  "write_file p bs = Create p # map (Append p) bs"

text \<open>The tasks that are still running, with what they have to write; any of them may go on.\<close>

inductive sched :: "io_step list list \<times> fs \<Rightarrow> io_step list list \<times> fs \<Rightarrow> bool" where
  go_on: "i < length xss \<Longrightarrow> xss ! i = x # xs \<Longrightarrow>
          sched (xss, fs) (xss[i := xs], run_step x fs)"

inductive_cases schedE: "sched (xss, fs) c"

definition separated :: "io_step list list \<Rightarrow> bool" where
  "separated xss \<longleftrightarrow>
     (\<forall>i j. i < length xss \<and> j < length xss \<and> i \<noteq> j \<longrightarrow>
        step_path ` set (xss ! i) \<inter> step_path ` set (xss ! j) = {})"

lemma run_step_commute:
  "step_path x \<noteq> step_path y \<Longrightarrow> run_step x (run_step y fs) = run_step y (run_step x fs)"
  by (cases x; cases y) (auto simp: fun_upd_twist)

lemma run_step_other: "p \<noteq> step_path x \<Longrightarrow> run_step x fs p = fs p"
  by (cases x) auto

lemma run_steps_first:
  "step_path x \<notin> step_path ` set as \<Longrightarrow> fold run_step as (run_step x fs) = run_step x (fold run_step as fs)"
proof (induction as arbitrary: fs)
  case (Cons a as)
  then have "step_path a \<noteq> step_path x" by auto
  with Cons show ?case by (simp add: run_step_commute [of a x])
qed simp

lemma run_steps_other: "p \<notin> step_path ` set ss \<Longrightarrow> fold run_step ss fs p = fs p"
  by (induction ss arbitrary: fs) (simp_all add: run_step_other)

lemma run_steps_at: "fs p = fs' p \<Longrightarrow> fold run_step ss fs p = fold run_step ss fs' p"
proof (induction ss arbitrary: fs fs')
  case (Cons s ss)
  have "run_step s fs p = run_step s fs' p" using Cons.prems by (cases s) auto
  then show ?case unfolding fold_simps by (rule Cons.IH)
qed simp

lemma fold_write_file: "fold run_step (write_file p bs) fs = fs(p \<mapsto> bs)"
proof -
  have "fs p = Some as \<Longrightarrow> fold run_step (map (Append p) bs) fs = fs(p \<mapsto> as @ bs)" for as fs
    by (induction bs arbitrary: as fs) (simp_all add: fun_upd_idem)
  from this [of "fs(p \<mapsto> [])" "[]"] show ?thesis by (simp add: write_file_def)
qed

lemma separated_update:
  assumes "separated xss" "i < length xss" "set ys \<subseteq> set (xss ! i)"
  shows "separated (xss[i := ys])"
proof -
  have "set (xss[i := ys] ! j) \<subseteq> set (xss ! j)" if "j < length xss" for j
    using assms that by (cases "j = i") simp_all
  then have sub: "step_path ` set (xss[i := ys] ! j) \<subseteq> step_path ` set (xss ! j)"
    if "j < length xss" for j using that by (intro image_mono)
  show ?thesis
    unfolding separated_def
  proof (intro allI impI)
    fix j k assume "j < length (xss[i := ys]) \<and> k < length (xss[i := ys]) \<and> j \<noteq> k"
    then have jk: "j < length xss" "k < length xss" "j \<noteq> k" by simp_all
    then have "step_path ` set (xss ! j) \<inter> step_path ` set (xss ! k) = {}"
      using assms(1) unfolding separated_def by blast
    then show "step_path ` set (xss[i := ys] ! j) \<inter> step_path ` set (xss[i := ys] ! k) = {}"
      using sub [OF jk(1)] sub [OF jk(2)] by blast
  qed
qed

lemma sched_keeps_result:
  assumes "sched (xss, fs) (yss, fs')" "separated xss"
  shows "separated yss" "fold run_step (concat yss) fs' = fold run_step (concat xss) fs"
proof -
  from assms(1) obtain i x xs where i: "i < length xss" "xss ! i = x # xs"
    "yss = xss[i := xs]" "fs' = run_step x fs"
    by (auto elim: schedE)
  show "separated yss" using assms(2) i by (auto intro: separated_update)
  let ?l = "concat (take i xss)" and ?r = "concat (drop (Suc i) xss)"
  have x: "step_path x \<notin> step_path ` set ?l"
  proof
    assume "step_path x \<in> step_path ` set ?l"
    then obtain j y where "j < i" "y \<in> set (xss ! j)" "step_path y = step_path x"
      using i(1) by (auto simp: in_set_conv_nth [of _ "take i xss"])
    moreover have "x \<in> set (xss ! i)" using i(2) by simp
    ultimately show False
      using assms(2) i(1) unfolding separated_def by (metis IntI empty_iff imageI less_trans nat_neq_iff)
  qed
  have "concat xss = ?l @ x # xs @ ?r"
    using i(1,2) by (metis append_Cons concat.simps(2) concat_append id_take_nth_drop)
  moreover have "concat yss = ?l @ xs @ ?r"
    using i(1,3) by (simp add: upd_conv_take_nth_drop)
  ultimately show "fold run_step (concat yss) fs' = fold run_step (concat xss) fs"
    using run_steps_first [OF x] i(4) by simp
qed

definition total_steps :: "io_step list list \<Rightarrow> nat" where
  "total_steps xss = sum_list (map length xss)"

lemma sched_progress:
  assumes "sched (xss, fs) (yss, fs')"
  shows "total_steps xss = Suc (total_steps yss)"
proof -
  from assms obtain i x xs where i: "i < length xss" "xss ! i = x # xs" "yss = xss[i := xs]"
    by (auto elim: schedE)
  have "length (concat xss) = Suc (length (concat (xss[i := xs])))"
    using i(1,2) by (subst id_take_nth_drop [OF i(1)]) (simp add: upd_conv_take_nth_drop)
  then show ?thesis using i(3) by (simp add: total_steps_def length_concat)
qed

lemma sched_stuck: "(\<nexists>c. sched (xss, fs) c) \<longleftrightarrow> concat xss = []"
proof
  assume n: "\<nexists>c. sched (xss, fs) c"
  have "xss ! i = []" if "i < length xss" for i
    using that n sched.go_on [of i xss _ _ fs] by (cases "xss ! i") blast+
  then show "concat xss = []" by (auto simp: in_set_conv_nth)
next
  assume "concat xss = []"
  then have "xss ! i = []" if "i < length xss" for i using that by (simp add: nth_mem)
  then show "\<nexists>c. sched (xss, fs) c" by (auto elim!: schedE)
qed

lemma disjoint_singletons: "A \<subseteq> {a} \<Longrightarrow> B \<subseteq> {b} \<Longrightarrow> a \<noteq> b \<Longrightarrow> A \<inter> B = {}"
  by blast

text \<open>
  A kind of task that reads one file and writes another: \<open>trace\<close> gives its writes and how it ends,
  from the contents of its source.
\<close>

locale file_task =
  fixes run :: "task \<Rightarrow> fs \<Rightarrow> unit fs_res"
    and trace :: "task \<Rightarrow> bytes option \<Rightarrow> io_step list \<times> unit res"
  assumes run_trace:
      "run t fs = (snd (trace t (fs (fst t))), fold run_step (fst (trace t (fs (fst t)))) fs)"
    and trace_paths: "step_path ` set (fst (trace t c)) \<subseteq> {snd t}"
begin

definition independent :: "task list \<Rightarrow> bool" where
  "independent ts \<longleftrightarrow> distinct (map snd ts) \<and> (\<forall>t \<in> set ts. \<forall>t' \<in> set ts. fst t \<noteq> snd t')"

definition traces :: "task list \<Rightarrow> fs \<Rightarrow> io_step list list" where
  "traces ts fs = map (\<lambda>t. fst (trace t (fs (fst t)))) ts"

lemma run_other: "p \<noteq> snd t \<Longrightarrow> snd (run t fs) p = fs p"
  using trace_paths [of t "fs (fst t)"] by (auto simp: run_trace intro!: run_steps_other)

lemma run_local: "fs (fst t) = fs' (fst t) \<Longrightarrow> fst (run t fs) = fst (run t fs')"
  by (simp add: run_trace)

lemma run_at:
  assumes "fs (fst t) = fs' (fst t)" "fs (snd t) = fs' (snd t)"
  shows "snd (run t fs) (snd t) = snd (run t fs') (snd t)"
  unfolding run_trace [of t fs] run_trace [of t fs'] snd_conv assms(1)
  by (rule run_steps_at [of fs "snd t" fs', OF assms(2)])

lemma run_tasks_sequence:
  assumes "independent ts"
  shows "run_tasks run ts fs =
    (map (\<lambda>t. fst (run t fs)) ts, fold run_step (concat (traces ts fs)) fs)"
  using assms
proof (induction ts arbitrary: fs)
  case (Cons t ts)
  let ?fs = "snd (run t fs)"
  have same: "?fs (fst t') = fs (fst t')" if "t' \<in> set ts" for t'
    using that Cons.prems by (intro run_other) (auto simp: independent_def)
  have "independent ts" using Cons.prems by (simp add: independent_def)
  moreover have "map (\<lambda>t. fst (run t ?fs)) ts = map (\<lambda>t. fst (run t fs)) ts"
    "traces ts ?fs = traces ts fs"
    unfolding traces_def using same by (auto intro: run_local)
  ultimately have "run_tasks run ts ?fs =
      (map (\<lambda>t. fst (run t fs)) ts, fold run_step (concat (traces ts fs)) ?fs)"
    using Cons.IH [of ?fs] by simp
  then show ?case by (simp add: traces_def run_trace [of t fs] split: prod.split)
qed (simp add: traces_def)

lemma trace_disjoint:
  "snd t \<noteq> snd u \<Longrightarrow>
   step_path ` set (fst (trace t c)) \<inter> step_path ` set (fst (trace u c')) = {}"
  by (rule disjoint_singletons [OF trace_paths trace_paths])

lemma traces_separated:
  assumes "independent ts"
  shows "separated (traces ts fs)"
  unfolding separated_def
proof (intro allI impI)
  fix i j assume "i < length (traces ts fs) \<and> j < length (traces ts fs) \<and> i \<noteq> j"
  then have ij: "i < length ts" "j < length ts" "i \<noteq> j" by (simp_all add: traces_def)
  have "distinct (map snd ts)" using assms unfolding independent_def by (rule conjunct1)
  from nth_eq_iff_index_eq [OF this, of i j] have d: "snd (ts ! i) \<noteq> snd (ts ! j)"
    using ij by simp
  show "step_path ` set (traces ts fs ! i) \<inter> step_path ` set (traces ts fs ! j) = {}"
    unfolding traces_def nth_map [OF ij(1)] nth_map [OF ij(2)] by (rule trace_disjoint [OF d])
qed

lemma run_tasks_Cons_snd: "snd (run_tasks run (t # ts) fs) = snd (run_tasks run ts (snd (run t fs)))"
  by (simp split: prod.split)

lemma run_tasks_other: "p \<notin> snd ` set ts \<Longrightarrow> snd (run_tasks run ts fs) p = fs p"
  by (induction ts arbitrary: fs) (simp_all add: run_other run_tasks_Cons_snd del: run_tasks.simps(2))

lemma run_tasks_file:
  "independent ts \<Longrightarrow> t \<in> set ts \<Longrightarrow> snd (run_tasks run ts fs) (snd t) = snd (run t fs) (snd t)"
proof (induction ts arbitrary: fs)
  case (Cons u us)
  have ind: "independent us" and dest: "snd u \<notin> snd ` set us"
    using Cons.prems(1) by (auto simp: independent_def)
  show ?case
  proof (cases "t \<in> set us")
    case True
    have ne: "snd t \<noteq> snd u" using True dest by (metis imageI)
    have ne': "fst t \<noteq> snd u" using True Cons.prems(1) by (simp add: independent_def)
    have "snd (run t (snd (run u fs))) (snd t) = snd (run t fs) (snd t)"
      by (rule run_at) (rule run_other [OF ne'], rule run_other [OF ne])
    then show ?thesis
      using Cons.IH [OF ind True, of "snd (run u fs)"] by (simp add: run_tasks_Cons_snd del: run_tasks.simps(2))
  next
    case False
    then have "t = u" using Cons.prems(2) by simp
    then show ?thesis
      using run_tasks_other [OF dest, of "snd (run u fs)"] by (simp add: run_tasks_Cons_snd del: run_tasks.simps(2))
  qed
qed simp

lemma every_schedule:
  assumes "independent ts" "sched\<^sup>*\<^sup>* (traces ts fs, fs) (xss, fs')" "\<nexists>c. sched (xss, fs') c"
  shows "fs' = snd (run_tasks run ts fs)"
proof -
  have "separated (fst c) \<and> fold run_step (concat (fst c)) (snd c) = fold run_step (concat (traces ts fs)) fs"
    if "sched\<^sup>*\<^sup>* (traces ts fs, fs) c" for c
    using that
  proof induction
    case base
    then show ?case using traces_separated [OF assms(1)] by simp
  next
    case (step c d)
    then show ?case using sched_keeps_result [of "fst c" "snd c" "fst d" "snd d"] by simp
  qed
  from this [OF assms(2)] show ?thesis
    using assms(3) unfolding sched_stuck run_tasks_sequence [OF assms(1)] by simp
qed

end

section \<open>The two kinds of tasks\<close>

definition encrypt_task ::
  "yacl_io \<Rightarrow> gcm \<Rightarrow> (string \<Rightarrow> nat \<Rightarrow> bytes) \<Rightarrow> bytes \<Rightarrow> task \<Rightarrow> fs \<Rightarrow> unit fs_res" where
  "encrypt_task F K ivs key = (\<lambda>(src, dest). EncryptFile F K (ivs src) src dest key)"

definition decrypt_task :: "yacl_io \<Rightarrow> gcm \<Rightarrow> bytes \<Rightarrow> task \<Rightarrow> fs \<Rightarrow> unit fs_res" where
  "decrypt_task F K key = (\<lambda>(src, dest). DecryptFile F K src dest key)"

text \<open>
  Their writes: run on a file system that holds only the source, what the destination gets is
  written there.
\<close>

definition task_trace ::
  "(task \<Rightarrow> fs \<Rightarrow> unit fs_res) \<Rightarrow> task \<Rightarrow> bytes option \<Rightarrow> io_step list \<times> unit res" where
  "task_trace f t c =
     (let (r, fs') = f t (Map.empty(fst t := c)) in
      (if fst t = snd t then [] else case fs' (snd t) of None \<Rightarrow> [] | Some bs \<Rightarrow> write_file (snd t) bs, r))"

lemma encrypt_trace:
  "encrypt_task F K ivs key t fs =
     (snd (task_trace (encrypt_task F K ivs key) t (fs (fst t))),
      fold run_step (fst (task_trace (encrypt_task F K ivs key) t (fs (fst t)))) fs)"
  by (cases t) (auto simp: task_trace_def encrypt_task_def EncryptFile_def Let_def fold_write_file
      split: option.split prod.split)

lemma decrypt_trace:
  "decrypt_task F K key t fs =
     (snd (task_trace (decrypt_task F K key) t (fs (fst t))),
      fold run_step (fst (task_trace (decrypt_task F K key) t (fs (fst t)))) fs)"
  by (cases t) (auto simp: task_trace_def decrypt_task_def DecryptFile_def Let_def fold_write_file
      split: option.split prod.split sum.split)

lemma task_trace_paths: "step_path ` set (fst (task_trace f t c)) \<subseteq> {snd t}"
  by (auto simp: task_trace_def write_file_def split: prod.split option.split)

interpretation enc_task: file_task "encrypt_task F K ivs key" "task_trace (encrypt_task F K ivs key)"
  for F K ivs key
  by unfold_locales (rule encrypt_trace, rule task_trace_paths)

interpretation dec_task: file_task "decrypt_task F K key" "task_trace (decrypt_task F K key)"
  for F K key
  by unfold_locales (rule decrypt_trace, rule task_trace_paths)

section \<open>The walks\<close>

text \<open>A system that lets the walks create their directories and write their files.\<close>

definition os_lets :: "os_env \<Rightarrow> yacl_io \<Rightarrow> bool" where
  "os_lets E F \<longleftrightarrow> (\<forall>d. mkdir_error E d = None) \<and> (\<forall>p. io_open_out F p = None)"

lemma ensure_parent_ok:
  assumes "\<forall>d. mkdir_error E d = None"
  obtains D where "ensure_parent E p st = Inr (st\<lparr>fs_dirs := D\<rparr>)" "fs_dirs st \<subseteq> D"
proof (cases "path_exists st (parent_path p)")
  case True
  then show thesis using that [of "fs_dirs st"] by (simp add: ensure_parent_def)
next
  case False
  then show thesis using that assms by (auto simp: ensure_parent_def create_directories_def)
qed

lemma regular_dirs [simp]: "is_regular_file (st\<lparr>fs_dirs := D\<rparr>) p = is_regular_file st p"
  by (simp add: is_regular_file_def)

lemma encrypt_walk_ok:
  assumes "\<forall>d. mkdir_error E d = None"
  shows "\<exists>D. fs_dirs st \<subseteq> D \<and> encrypt_walk E src dest rs st =
    (map (\<lambda>r. (path_append src r, path_append dest r @ kEncSuffix))
       (filter (\<lambda>r. is_regular_file st (path_append src r)) rs), Inr (), st\<lparr>fs_dirs := D\<rparr>)"
proof (induction rs arbitrary: st)
  case Nil
  then show ?case by (intro exI [of _ "fs_dirs st"]) simp
next
  case (Cons r rs)
  obtain D where D: "ensure_parent E (path_append dest r @ kEncSuffix) st = Inr (st\<lparr>fs_dirs := D\<rparr>)"
    "fs_dirs st \<subseteq> D"
    by (rule ensure_parent_ok [OF assms])
  show ?case
  proof (cases "is_regular_file st (path_append src r)")
    case True
    obtain D' where "D \<subseteq> D'" and D': "encrypt_walk E src dest rs (st\<lparr>fs_dirs := D\<rparr>) =
      (map (\<lambda>r. (path_append src r, path_append dest r @ kEncSuffix))
         (filter (\<lambda>r. is_regular_file st (path_append src r)) rs), Inr (), st\<lparr>fs_dirs := D'\<rparr>)"
      using Cons.IH [of "st\<lparr>fs_dirs := D\<rparr>"] by auto
    then show ?thesis using True D by (intro exI [of _ D']) (auto simp: Let_def)
  next
    case False
    then show ?thesis using Cons.IH [of st] by (auto simp: Let_def)
  qed
qed

lemma decrypt_walk_ok:
  assumes "\<forall>d. mkdir_error E d = None"
    and "\<forall>r \<in> set rs. path_extension (path_append src r) = kEncSuffix"
  shows "\<exists>D. fs_dirs st \<subseteq> D \<and> decrypt_walk E src dest rs st =
    (map (\<lambda>r. (path_append src r, remove_extension (path_append dest r)))
       (filter (\<lambda>r. is_regular_file st (path_append src r)) rs), Inr (), st\<lparr>fs_dirs := D\<rparr>)"
  using assms(2)
proof (induction rs arbitrary: st)
  case Nil
  then show ?case by (intro exI [of _ "fs_dirs st"]) simp
next
  case (Cons r rs)
  obtain D where D: "ensure_parent E (path_append dest r) st = Inr (st\<lparr>fs_dirs := D\<rparr>)"
    "fs_dirs st \<subseteq> D"
    by (rule ensure_parent_ok [OF assms(1)])
  show ?case
  proof (cases "is_regular_file st (path_append src r)")
    case True
    obtain D' where "D \<subseteq> D'" and D': "decrypt_walk E src dest rs (st\<lparr>fs_dirs := D\<rparr>) =
      (map (\<lambda>r. (path_append src r, remove_extension (path_append dest r)))
         (filter (\<lambda>r. is_regular_file st (path_append src r)) rs), Inr (), st\<lparr>fs_dirs := D'\<rparr>)"
      using Cons.IH [of "st\<lparr>fs_dirs := D\<rparr>"] Cons.prems by auto
    then show ?thesis using True D Cons.prems by (intro exI [of _ D']) (auto simp: Let_def)
  next
    case False
    then show ?thesis using Cons.IH [of st] Cons.prems by (auto simp: Let_def)
  qed
qed

text \<open>The tree below a directory: what the iterator meets, in some order.\<close>

definition walk_of :: "fstate \<Rightarrow> string \<Rightarrow> string list \<Rightarrow> bool" where
  "walk_of st d rs \<longleftrightarrow> distinct rs \<and> (\<forall>r \<in> set rs. relative_file r) \<and>
     (\<forall>r. relative_file r \<longrightarrow> (r \<in> set rs \<longleftrightarrow> is_regular_file st (path_append d r)))"

definition enc_tasks :: "string \<Rightarrow> string \<Rightarrow> string list \<Rightarrow> task list" where
  "enc_tasks src mid rs = map (\<lambda>r. (path_append src r, path_append mid r @ kEncSuffix)) rs"

definition dec_tasks :: "string \<Rightarrow> string \<Rightarrow> string list \<Rightarrow> task list" where
  "dec_tasks mid dst rs = map (\<lambda>r. (path_append mid r, remove_extension (path_append dst r))) rs"

lemma EncryptToDir_directory:
  assumes os: "os_lets E F" and w: "walk_of st src rs" and d: "is_directory st src" "fs_files st src = None"
    and run: "run_tasks (encrypt_task F K ivs key) (enc_tasks src mid rs) (fs_files st) = (outs, fs')"
  obtains D where "fs_dirs st \<subseteq> D"
    "EncryptToDir E F K ivs rs src mid key st = (first_error outs, st\<lparr>fs_dirs := D, fs_files := fs'\<rparr>)"
proof -
  have reg: "filter (\<lambda>r. is_regular_file st (path_append src r)) rs = rs"
    using w unfolding walk_of_def by (intro filter_True) blast
  obtain D where D: "fs_dirs st \<subseteq> D"
    "encrypt_walk E src mid rs st = (enc_tasks src mid rs, Inr (), st\<lparr>fs_dirs := D\<rparr>)"
    using encrypt_walk_ok [of E st src mid rs] os unfolding reg os_lets_def enc_tasks_def by auto
  have "EncryptToDir E F K ivs rs src mid key st = (first_error outs, st\<lparr>fs_dirs := D, fs_files := fs'\<rparr>)"
    using d run D(2)
    by (simp add: EncryptToDir_def path_exists_def is_regular_file_def join_tasks_def
        flip: encrypt_task_def)
  with D(1) show thesis by (rule that)
qed

lemma DecryptToDir_directory:
  assumes os: "os_lets E F" and w: "walk_of st mid rs" and d: "is_directory st mid" "fs_files st mid = None"
    and enc: "\<forall>r \<in> set rs. path_extension (path_append mid r) = kEncSuffix"
    and run: "run_tasks (decrypt_task F K key) (dec_tasks mid dst rs) (fs_files st) = (outs, fs')"
  obtains D where "fs_dirs st \<subseteq> D"
    "DecryptToDir E F K rs mid dst key st = (first_error outs, st\<lparr>fs_dirs := D, fs_files := fs'\<rparr>)"
proof -
  have reg: "filter (\<lambda>r. is_regular_file st (path_append mid r)) rs = rs"
    using w unfolding walk_of_def by (intro filter_True) blast
  obtain D where D: "fs_dirs st \<subseteq> D"
    "decrypt_walk E mid dst rs st = (dec_tasks mid dst rs, Inr (), st\<lparr>fs_dirs := D\<rparr>)"
    using decrypt_walk_ok [of E rs mid st dst] os enc unfolding reg os_lets_def dec_tasks_def by auto
  have "DecryptToDir E F K rs mid dst key st = (first_error outs, st\<lparr>fs_dirs := D, fs_files := fs'\<rparr>)"
    using d run D(2)
    by (simp add: DecryptToDir_def path_exists_def is_regular_file_def join_tasks_def
        flip: decrypt_task_def)
  with D(1) show thesis by (rule that)
qed

lemma enc_tasks_independent:
  assumes "separate src mid" "distinct rs" "\<forall>r \<in> set rs. relative_file r"
  shows "enc_task.independent (enc_tasks src mid rs)"
proof -
  have p: "plain_root mid" using assms(1) by (simp add: separate_def)
  have "distinct (map snd (enc_tasks src mid rs))"
    using assms(2,3) p by (auto simp: enc_tasks_def comp_def distinct_map inj_on_def path_append_inj)
  moreover have "path_append src r \<noteq> path_append mid r' @ kEncSuffix" if "r \<in> set rs" "r' \<in> set rs" for r r'
    using that assms(1,3) p separate_paths [of src mid r "r' @ kEncSuffix"]
    by (simp add: path_append_enc)
  ultimately show ?thesis unfolding enc_task.independent_def by (auto simp: enc_tasks_def)
qed

lemma first_error_ok: "(\<And>r. r \<in> set rs \<Longrightarrow> \<not> isl r) \<Longrightarrow> first_error rs = Inr ()"
proof -
  assume "\<And>r. r \<in> set rs \<Longrightarrow> \<not> isl r"
  then have "dropWhile (\<lambda>r. \<not> isl r) rs = []" by simp
  then show ?thesis unfolding first_error_def by (simp only: list.case)
qed

text \<open>The tasks of the decryption of what was encrypted, in terms of the original names.\<close>

definition back_tasks :: "string \<Rightarrow> string \<Rightarrow> string list \<Rightarrow> task list" where
  "back_tasks mid dst rs = map (\<lambda>r. (path_append mid (r @ kEncSuffix), path_append dst r)) rs"

lemma dec_tasks_enc:
  assumes "plain_root mid" "plain_root dst" "\<forall>r \<in> set rs. relative_file r"
  shows "dec_tasks mid dst (map (\<lambda>r. r @ kEncSuffix) rs) = back_tasks mid dst rs"
    and "\<forall>r \<in> set (map (\<lambda>r. r @ kEncSuffix) rs). path_extension (path_append mid r) = kEncSuffix"
proof -
  have "remove_extension (path_append dst (r @ kEncSuffix)) = path_append dst r"
    "path_extension (path_append mid (r @ kEncSuffix)) = kEncSuffix" if "r \<in> set rs" for r
    using that assms filename_under [of _ r] extension_of_encrypted
    by (metis path_append_enc)+
  then show "dec_tasks mid dst (map (\<lambda>r. r @ kEncSuffix) rs) = back_tasks mid dst rs"
    "\<forall>r \<in> set (map (\<lambda>r. r @ kEncSuffix) rs). path_extension (path_append mid r) = kEncSuffix"
    by (auto simp: dec_tasks_def back_tasks_def)
qed

lemma back_tasks_independent:
  assumes "separate mid dst" "distinct rs" "\<forall>r \<in> set rs. relative_file r"
  shows "dec_task.independent (back_tasks mid dst rs)"
proof -
  have p: "plain_root dst" using assms(1) by (simp add: separate_def)
  have "distinct (map snd (back_tasks mid dst rs))"
    using assms(2,3) p by (auto simp: back_tasks_def comp_def distinct_map inj_on_def path_append_inj)
  moreover have "path_append mid (r @ kEncSuffix) \<noteq> path_append dst r'" if "r \<in> set rs" "r' \<in> set rs" for r r'
    using that assms(1,3) by (intro separate_paths) simp_all
  ultimately show ?thesis unfolding dec_task.independent_def by (auto simp: back_tasks_def)
qed

text \<open>The walk over the encrypted files meets the original names with the suffix.\<close>

lemma walk_encrypted:
  assumes w': "walk_of st' mid rs'" and rel: "\<forall>r \<in> set rs. relative_file r"
    and files: "\<And>r. relative_file r \<Longrightarrow>
      is_regular_file st' (path_append mid r) \<longleftrightarrow> r \<in> (\<lambda>r. r @ kEncSuffix) ` set rs"
  obtains rs0 where "rs' = map (\<lambda>r. r @ kEncSuffix) rs0" "set rs0 = set rs" "distinct rs0"
proof -
  have set: "set rs' = (\<lambda>r. r @ kEncSuffix) ` set rs"
    using w' files rel unfolding walk_of_def by (auto simp del: append_same_eq)
  then have "\<forall>r \<in> set rs'. \<exists>x \<in> set rs. r = x @ kEncSuffix" by auto
  then obtain g where g: "\<forall>r \<in> set rs'. g r \<in> set rs \<and> r = g r @ kEncSuffix" by metis
  have "rs' = map (\<lambda>r. r @ kEncSuffix) (map g rs')"
    using g by (simp add: map_idI comp_def)
  moreover have "set (map g rs') = set rs" using g set by force
  moreover have "distinct (map g rs')"
    using w' g unfolding walk_of_def distinct_map by (metis inj_onI)
  ultimately show thesis by (rule that)
qed

text \<open>
  What the round trip needs of the libraries, the key and the directories; \<open>decrypts_back\<close> says that
  decrypting \<open>e\<close> at the encrypted name of \<open>r\<close> gives \<open>c\<close> at the final one.
\<close>

definition trip_ok ::
  "os_env \<Rightarrow> yacl_io \<Rightarrow> gcm \<Rightarrow> (string \<Rightarrow> nat \<Rightarrow> bytes) \<Rightarrow> bytes \<Rightarrow> string \<Rightarrow> string \<Rightarrow> string \<Rightarrow> bool" where
  "trip_ok E F K ivs key src mid dst \<longleftrightarrow> yacl_io_doc F \<and> gcm_doc K \<and> os_lets E F \<and>
     data_key_ok key \<and> (\<forall>p. ivs_ok (ivs p)) \<and> separate src mid \<and> separate mid dst"

definition decrypts_back :: "yacl_io \<Rightarrow> gcm \<Rightarrow> bytes \<Rightarrow> string \<Rightarrow> string \<Rightarrow> string \<Rightarrow> bytes \<Rightarrow> bytes \<Rightarrow> bool" where
  "decrypts_back F K key mid dst r c e \<longleftrightarrow>
     (\<forall>fs. fs (path_append mid (r @ kEncSuffix)) = Some e \<longrightarrow>
        decrypt_task F K key (path_append mid (r @ kEncSuffix), path_append dst r) fs =
          (Inr (), fs(path_append dst r \<mapsto> c)))"

lemma encrypt_one:
  assumes ok: "trip_ok E F K ivs key src mid dst" and r: "relative_file r"
    and c: "fs (path_append src r) = Some c" "c \<noteq> []" "length c < 2 ^ 63"
  shows "\<exists>e. encrypt_task F K ivs key (path_append src r, path_append mid r @ kEncSuffix) fs =
      (Inr (), fs(path_append mid r @ kEncSuffix \<mapsto> e)) \<and> decrypts_back F K key mid dst r c e"
proof -
  let ?s = "path_append src r" and ?m = "path_append mid (r @ kEncSuffix)" and ?d = "path_append dst r"
  have ne: "?s \<noteq> ?m" "?m \<noteq> ?d"
    using ok r separate_paths [of src mid r "r @ kEncSuffix"] separate_paths [of mid dst "r @ kEncSuffix" r]
    by (simp_all add: trip_ok_def)
  have m: "path_append mid r @ kEncSuffix = ?m"
    using ok r by (simp add: trip_ok_def separate_def path_append_enc)
  have oo: "io_open_out F p = None" for p using ok by (simp add: trip_ok_def os_lets_def)
  obtain e where "EncryptFile F K (ivs ?s) ?s ?m key fs = (Inr (), fs(?m \<mapsto> e))"
    "\<And>fs'. fs' ?m = Some e \<Longrightarrow> DecryptFile F K ?m ?d key fs' = (Inr (), fs'(?d \<mapsto> c))"
    using encrypted_file_decrypts [where fs = fs and src = ?s and c = c and F = F and K = K and key = key
        and ivs = "ivs ?s", OF _ _ _ _ ne c oo oo] ok unfolding trip_ok_def by metis
  then show ?thesis unfolding m encrypt_task_def decrypt_task_def decrypts_back_def by auto
qed

lemma encrypt_tree:
  assumes ok: "trip_ok E F K ivs key src mid dst"
    and tree: "is_directory st src" "fs_files st src = None" "walk_of st src rs"
    and files: "\<forall>r \<in> set rs. \<forall>c. fs_files st (path_append src r) = Some c \<longrightarrow> c \<noteq> [] \<and> length c < 2 ^ 63"
    and enc: "EncryptToDir E F K ivs rs src mid key st = (res1, st1)"
  shows "res1 = Inr ()" "fs_dirs st \<subseteq> fs_dirs st1"
    and "r \<in> set rs \<Longrightarrow> \<exists>c e. fs_files st (path_append src r) = Some c \<and>
      fs_files st1 (path_append mid (r @ kEncSuffix)) = Some e \<and> decrypts_back F K key mid dst r c e"
    and "p \<notin> (\<lambda>r. path_append mid (r @ kEncSuffix)) ` set rs \<Longrightarrow> fs_files st1 p = fs_files st p"
proof -
  let ?fs = "fs_files st" and ?f = "encrypt_task F K ivs key" and ?ts = "enc_tasks src mid rs"
  have rel: "\<forall>r \<in> set rs. relative_file r" and dist: "distinct rs"
    using tree(3) unfolding walk_of_def by blast+
  have os: "os_lets E F" using ok unfolding trip_ok_def by blast
  have pm: "path_append mid r @ kEncSuffix = path_append mid (r @ kEncSuffix)" if "r \<in> set rs" for r
    using ok rel that by (simp add: trip_ok_def separate_def path_append_enc)
  have ind: "enc_task.independent ?ts"
    using ok by (intro enc_tasks_independent [OF _ dist rel]) (simp add: trip_ok_def)
  have each: "\<exists>c e. ?fs (path_append src r) = Some c \<and>
      ?f (path_append src r, path_append mid r @ kEncSuffix) ?fs =
        (Inr (), ?fs(path_append mid r @ kEncSuffix \<mapsto> e)) \<and> decrypts_back F K key mid dst r c e"
    if r: "r \<in> set rs" for r
  proof -
    obtain c where c: "?fs (path_append src r) = Some c"
      using tree(3) rel r unfolding walk_of_def is_regular_file_def by blast
    then show ?thesis using encrypt_one [OF ok, of r ?fs c] files rel r by blast
  qed
  obtain outs fs' where run: "run_tasks ?f ?ts ?fs = (outs, fs')" by (cases "run_tasks ?f ?ts ?fs")
  obtain D where D: "fs_dirs st \<subseteq> D"
    "EncryptToDir E F K ivs rs src mid key st = (first_error outs, st\<lparr>fs_dirs := D, fs_files := fs'\<rparr>)"
    by (rule EncryptToDir_directory [OF os tree(3,1,2) run])
  have outs: "outs = map (\<lambda>t. fst (?f t ?fs)) ?ts"
    using enc_task.run_tasks_sequence [OF ind, of F K ivs key ?fs] run by simp
  have "\<not> isl x" if "x \<in> set outs" for x
    using that each unfolding outs enc_tasks_def by fastforce
  then show "res1 = Inr ()" using first_error_ok [of outs] enc D(2) by simp
  show "fs_dirs st \<subseteq> fs_dirs st1" using enc D by auto
  have st1: "fs_files st1 = fs'" using enc D(2) by auto
  show "\<exists>c e. fs_files st (path_append src r) = Some c \<and>
      fs_files st1 (path_append mid (r @ kEncSuffix)) = Some e \<and> decrypts_back F K key mid dst r c e" if r: "r \<in> set rs"
  proof -
    have "(path_append src r, path_append mid r @ kEncSuffix) \<in> set ?ts"
      using r by (simp add: enc_tasks_def)
    from enc_task.run_tasks_file [OF ind this, of F K ivs key ?fs]
    show ?thesis using each [OF r] pm [OF r] run st1 by auto
  qed
  show "fs_files st1 p = fs_files st p" if "p \<notin> (\<lambda>r. path_append mid (r @ kEncSuffix)) ` set rs"
    using that pm run st1 enc_task.run_tasks_other [of p ?ts F K ivs key ?fs]
    by (auto simp: enc_tasks_def image_iff)
qed

lemma decrypt_tree:
  assumes os: "os_lets E F" and sep: "separate mid dst" and rel: "\<forall>r \<in> set rs. relative_file r"
    and tree: "is_directory st mid" "fs_files st mid = None" "walk_of st mid rs1"
    and regular: "\<And>r. relative_file r \<Longrightarrow>
      is_regular_file st (path_append mid r) \<longleftrightarrow> r \<in> (\<lambda>r. r @ kEncSuffix) ` set rs"
    and each: "\<And>r. r \<in> set rs \<Longrightarrow> \<exists>e. fs_files st (path_append mid (r @ kEncSuffix)) = Some e \<and>
      decrypts_back F K key mid dst r (C r) e"
    and dec: "DecryptToDir E F K rs1 mid dst key st = (res2, st2)"
  shows "res2 = Inr ()" and "r \<in> set rs \<Longrightarrow> fs_files st2 (path_append dst r) = Some (C r)"
proof -
  obtain rs0 where rs0: "rs1 = map (\<lambda>r. r @ kEncSuffix) rs0" "set rs0 = set rs" "distinct rs0"
    by (rule walk_encrypted [OF tree(3) rel regular])
  let ?fs = "fs_files st" and ?f = "decrypt_task F K key" and ?ts = "back_tasks mid dst rs0"
  have rel0: "\<forall>r \<in> set rs0. relative_file r" using rel rs0(2) by simp
  have pr: "plain_root mid" "plain_root dst" using sep by (simp_all add: separate_def)
  have ind: "dec_task.independent ?ts" by (rule back_tasks_independent [OF sep rs0(3) rel0])
  have each': "?f (path_append mid (r @ kEncSuffix), path_append dst r) ?fs =
      (Inr (), ?fs(path_append dst r \<mapsto> C r))" if "r \<in> set rs0" for r
    using each [of r] that rs0(2) unfolding decrypts_back_def by auto
  obtain outs fs' where run: "run_tasks ?f ?ts ?fs = (outs, fs')" by (cases "run_tasks ?f ?ts ?fs")
  have ext: "\<forall>r \<in> set rs1. path_extension (path_append mid r) = kEncSuffix"
    unfolding rs0(1) by (rule dec_tasks_enc(2) [OF pr rel0])
  have run': "run_tasks ?f (dec_tasks mid dst rs1) ?fs = (outs, fs')"
    using run unfolding rs0(1) dec_tasks_enc(1) [OF pr rel0] .
  obtain D where D: "fs_dirs st \<subseteq> D"
    "DecryptToDir E F K rs1 mid dst key st = (first_error outs, st\<lparr>fs_dirs := D, fs_files := fs'\<rparr>)"
    by (rule DecryptToDir_directory [OF os tree(3,1,2) ext run'])
  have outs: "outs = map (\<lambda>t. fst (?f t ?fs)) ?ts"
    using dec_task.run_tasks_sequence [OF ind, of F K key ?fs] run by simp
  have "\<not> isl x" if "x \<in> set outs" for x
    using that each' unfolding outs back_tasks_def by fastforce
  then show "res2 = Inr ()" using first_error_ok [of outs] dec D(2) by simp
  show "fs_files st2 (path_append dst r) = Some (C r)" if r: "r \<in> set rs"
    using each' [of r] r rs0(2) run dec D(2)
      dec_task.run_tasks_file [OF ind, of "(path_append mid (r @ kEncSuffix), path_append dst r)" F K key ?fs]
    by (auto simp: back_tasks_def)
qed

lemma tree_roundtrip:
  assumes ok: "trip_ok E F K ivs key src mid dst"
    and tree: "is_directory st src" "fs_files st src = None" "is_directory st mid" "fs_files st mid = None"
    and walk: "walk_of st src rs" "\<forall>r. relative_file r \<longrightarrow> \<not> is_regular_file st (path_append mid r)"
    and files: "\<forall>r \<in> set rs. \<forall>c. fs_files st (path_append src r) = Some c \<longrightarrow> c \<noteq> [] \<and> length c < 2 ^ 63"
    and enc: "EncryptToDir E F K ivs rs src mid key st = (res1, st1)"
    and walk1: "walk_of st1 mid rs1"
    and dec: "DecryptToDir E F K rs1 mid dst key st1 = (res2, st2)"
  shows "res1 = Inr () \<and> res2 = Inr () \<and>
    (\<forall>r \<in> set rs. fs_files st2 (path_append dst r) = fs_files st (path_append src r))"
proof -
  note e = encrypt_tree [OF ok tree(1,2) walk(1) files enc]
  have rel: "\<forall>r \<in> set rs. relative_file r" using walk(1) unfolding walk_of_def by blast
  have pr: "plain_root mid" using ok by (simp add: trip_ok_def separate_def)
  define C where "C r = the (fs_files st (path_append src r))" for r
  have each: "\<exists>e. fs_files st1 (path_append mid (r @ kEncSuffix)) = Some e \<and>
      decrypts_back F K key mid dst r (C r) e" if "r \<in> set rs" for r
    using e(3) [OF that] by (auto simp: C_def)
  have regular: "is_regular_file st1 (path_append mid r) \<longleftrightarrow> r \<in> (\<lambda>r. r @ kEncSuffix) ` set rs"
    if r: "relative_file r" for r
  proof (cases "r \<in> (\<lambda>r. r @ kEncSuffix) ` set rs")
    case True
    then show ?thesis using each by (auto simp: is_regular_file_def)
  next
    case False
    then have "path_append mid r \<notin> (\<lambda>r. path_append mid (r @ kEncSuffix)) ` set rs"
      using path_append_inj [OF pr r relative_file_enc] rel by blast
    then show ?thesis using e(4) walk(2) r False by (simp add: is_regular_file_def)
  qed
  have "mid \<notin> (\<lambda>r. path_append mid (r @ kEncSuffix)) ` set rs"
    using rel path_append_root [OF pr] by auto
  then have mid: "is_directory st1 mid" "fs_files st1 mid = None"
    using e(2,4) tree(3,4) by (auto simp: is_directory_def)
  have "fs_files st (path_append src r) = Some (C r)" if "r \<in> set rs" for r
    using e(3) [OF that] by (auto simp: C_def)
  moreover have "os_lets E F" "separate mid dst" using ok unfolding trip_ok_def by blast+
  note decrypt_tree [OF this rel mid walk1 regular each dec]
  ultimately show ?thesis using e(1) by simp
qed

section \<open>What a decryption can change\<close>

lemma in_tree_append: "plain_root d \<Longrightarrow> relative_file r \<Longrightarrow> in_tree d (path_append d r)"
  by (simp add: in_tree_def path_append_root)

lemma extension_length: "length (path_extension p) \<le> length (filename p)"
proof -
  have "length (takeWhile P xs) < length xs" if "\<exists>x \<in> set xs. \<not> P x" for P and xs :: "'b list"
    using that by (induction xs) auto
  from this [of "rev (filename p)" "\<lambda>c. c \<noteq> CHR ''.''"] show ?thesis
    by (cases "filename p") (auto simp: path_extension_def Let_def Suc_le_eq)
qed

lemma in_tree_remove_extension:
  assumes "plain_root d" "relative_file r"
  shows "in_tree d (remove_extension (path_append d r))"
proof -
  let ?n = "length (path_extension (path_append d r))"
  have "filename (path_append d r) = filename r \<or> length (filename (path_append d r)) \<le> length r"
    using assms by (simp add: path_append_root filename_def takeWhile_append)
  moreover have "length (filename r) \<le> length r"
    using length_takeWhile_le [of "\<lambda>c. c \<noteq> CHR ''/''" "rev r"] by (simp add: filename_def)
  ultimately have "?n \<le> length r" using extension_length [of "path_append d r"] by auto
  then have "remove_extension (path_append d r) = (d @ ''/'') @ take (length r - ?n) r"
    using assms by (simp add: remove_extension_def path_append_root Suc_diff_le)
  then show ?thesis unfolding in_tree_def by (auto intro: prefixI)
qed

lemma in_tree_below: "in_tree d p \<Longrightarrow> in_tree d (path_append p f)" if "f \<noteq> []" "hd f \<noteq> CHR ''/''" "plain_root d" for f
  using that by (auto simp: in_tree_def path_append_def plain_root_def prefix_def)

lemma filename_no_slash: "CHR ''/'' \<notin> set (filename p)"
  unfolding filename_def by (auto dest: set_takeWhileD)

lemma ensure_parent_files: "ensure_parent E p st = Inr st' \<Longrightarrow> fs_files st' = fs_files st"
  by (auto simp: ensure_parent_def create_directories_def split: if_splits option.splits)

lemma copy_file_frame:
  assumes "copy_file E fr to st = Inr st'" "plain_root d" "in_tree d to" "filename fr \<noteq> []" "\<not> in_tree d p"
  shows "fs_files st' p = fs_files st p"
proof -
  have "hd (filename fr) \<noteq> CHR ''/''"
    using filename_no_slash [of fr] assms(4) by (metis hd_in_set)
  then have "in_tree d (path_append to (filename fr))"
    using in_tree_below [of "filename fr" d to] assms(2-4) by simp
  then show ?thesis
    using assms(1,3,5) by (auto simp: copy_file_def Let_def split: option.splits if_splits)
qed

definition walkable :: "string \<Rightarrow> string list \<Rightarrow> bool" where
  "walkable src rs \<longleftrightarrow> (\<forall>r \<in> set rs. relative_file r \<and> filename (path_append src r) \<noteq> [])"

lemma decrypt_walk_frame:
  assumes "plain_root dst" "walkable src rs" "decrypt_walk E src dst rs st = (ts, res, st')"
  shows "(\<forall>t \<in> set ts. in_tree dst (snd t)) \<and> (\<forall>p. \<not> in_tree dst p \<longrightarrow> fs_files st' p = fs_files st p)"
  using assms(2,3)
proof (induction rs arbitrary: st ts)
  case (Cons r rs)
  let ?item = "path_append src r" and ?d = "path_append dst r"
  have r: "relative_file r" "filename ?item \<noteq> []" and w: "walkable src rs"
    using Cons.prems(1) by (simp_all add: walkable_def)
  have in_d: "in_tree dst ?d" "in_tree dst (remove_extension ?d)"
    using in_tree_append in_tree_remove_extension assms(1) r(1) by blast+
  consider (skip) "\<not> is_regular_file st ?item"
    | (fail) e where "is_regular_file st ?item" "ensure_parent E ?d st = Inl e"
    | (enc) st1 where "is_regular_file st ?item" "ensure_parent E ?d st = Inr st1"
        "path_extension ?item = kEncSuffix"
    | (nocopy) st1 e where "is_regular_file st ?item" "ensure_parent E ?d st = Inr st1"
        "path_extension ?item \<noteq> kEncSuffix" "copy_file E ?item ?d st1 = Inl e"
    | (copied) st1 st2 where "is_regular_file st ?item" "ensure_parent E ?d st = Inr st1"
        "path_extension ?item \<noteq> kEncSuffix" "copy_file E ?item ?d st1 = Inr st2"
  proof (cases "is_regular_file st ?item")
    case reg: True
    show thesis
    proof (cases "ensure_parent E ?d st")
      case (Inr st1)
      then show thesis using reg enc nocopy copied by (cases "copy_file E ?item ?d st1") blast+
    qed (use reg fail in blast)
  qed (use skip in blast)
  then show ?case
  proof cases
    case skip
    then show ?thesis using Cons.IH [OF w] Cons.prems(2) by (simp add: Let_def)
  next
    case fail
    then show ?thesis using Cons.prems(2) by (simp add: Let_def)
  next
    case enc
    obtain ts1 where ts1: "decrypt_walk E src dst rs st1 = (ts1, res, st')" "ts = (?item, remove_extension ?d) # ts1"
      using enc Cons.prems(2) by (auto simp: Let_def split: prod.splits)
    show ?thesis using Cons.IH [OF w ts1(1)] ts1(2) ensure_parent_files [OF enc(2)] in_d by simp
  next
    case nocopy
    then show ?thesis using Cons.prems(2) ensure_parent_files [OF nocopy(2)] by (auto simp: Let_def)
  next
    case copied
    then have "decrypt_walk E src dst rs st2 = (ts, res, st')" using Cons.prems(2) by (simp add: Let_def)
    from Cons.IH [OF w this] show ?thesis
      using copy_file_frame [OF copied(4) assms(1) in_d(1) r(2)] ensure_parent_files [OF copied(2)] by simp
  qed
qed simp

lemma DecryptFile_frame: "p \<noteq> d \<Longrightarrow> fs_files (snd (on_files (DecryptFile F K s d key) st)) p = fs_files st p"
  by (auto simp: on_files_def DecryptFile_def Let_def split: option.split sum.split prod.split)

lemma relative_file_filename: "filename src \<noteq> [] \<Longrightarrow> relative_file (filename src)"
proof -
  assume n: "filename src \<noteq> []"
  have "filename [] = []" by (simp add: filename_def)
  then have "filename (filename src) = filename src"
    using filename_append [OF filename_no_slash, of "[]" src] by simp
  moreover have "hd (filename src) \<noteq> CHR ''/''" using filename_no_slash [of src] n by (metis hd_in_set)
  ultimately show ?thesis using n by (simp add: relative_file_def)
qed

lemma DecryptToDir_frame:
  assumes "plain_root dst" "filename src \<noteq> []" "walkable src rs" "\<not> in_tree dst p"
  shows "fs_files (snd (DecryptToDir E F K rs src dst key st)) p = fs_files st p"
proof -
  let ?d = "path_append dst (filename src)"
  have in_d: "in_tree dst ?d" "in_tree dst (remove_extension ?d)"
    using in_tree_append in_tree_remove_extension assms(1) relative_file_filename [OF assms(2)] by blast+
  obtain ts res st' where walk: "decrypt_walk E src dst rs st = (ts, res, st')" by (metis prod_cases3)
  note frame = decrypt_walk_frame [OF assms(1,3) walk]
  have "p \<notin> snd ` set ts" using frame assms(4) by auto
  from dec_task.run_tasks_other [OF this, of F K key "fs_files st'"] frame assms(4)
  have dir: "fs_files (snd (join_tasks (decrypt_task F K key) (decrypt_walk E src dst rs st))) p = fs_files st p"
    unfolding walk join_tasks_def by (auto split: prod.split)
  have copy: "fs_files st2 p = fs_files st p" if "ensure_parent E ?d st = Inr st1" "copy_file E src ?d st1 = Inr st2"
    for st1 st2
    using copy_file_frame [OF that(2) assms(1) in_d(1) assms(2,4)] ensure_parent_files [OF that(1)] by simp
  have single: "fs_files (snd (on_files (DecryptFile F K src (remove_extension ?d) key) st1)) p = fs_files st p"
    if "ensure_parent E ?d st = Inr st1" for st1
    using DecryptFile_frame [of p "remove_extension ?d" F K src key st1] in_d(2) assms(4)
      ensure_parent_files [OF that] by auto
  show ?thesis
    unfolding DecryptToDir_def Let_def decrypt_task_def [symmetric]
    using dir single copy by (simp add: decrypt_task_def ensure_parent_files split: sum.split)
qed

section \<open>Schedules\<close>

lemma sched_length:
  assumes "(sched ^^ n) (xss, fs) c"
  shows "n \<le> total_steps xss \<and> ((\<exists>d. sched c d) \<longleftrightarrow> n < total_steps xss)"
proof -
  have len: "(sched ^^ n) (xss, fs) c \<Longrightarrow> total_steps xss = n + total_steps (fst c)" for n c
  proof (induction n arbitrary: c)
    case (Suc n)
    then obtain d where "(sched ^^ n) (xss, fs) d" "sched d c" by auto
    then show ?case using Suc.IH [of d] sched_progress [of "fst d" "snd d" "fst c" "snd c"] by simp
  qed auto
  have "(\<exists>d. sched c d) \<longleftrightarrow> total_steps (fst c) \<noteq> 0"
    using sched_stuck [of "fst c" "snd c"] by (auto simp: total_steps_def)
  then show ?thesis using len [OF assms] by auto
qed

lemma sched_completes: "\<exists>yss fs'. sched\<^sup>*\<^sup>* (xss, fs) (yss, fs') \<and> (\<nexists>c. sched (yss, fs') c)"
proof (induction "total_steps xss" arbitrary: xss fs)
  case 0
  then have "concat xss = []" by (simp add: total_steps_def)
  then show ?case using sched_stuck [of xss fs] by blast
next
  case (Suc n)
  have "concat xss \<noteq> []"
    using Suc(2) by (metis length_0_conv length_concat nat.distinct(1) total_steps_def)
  then obtain zss fs1 where st: "sched (xss, fs) (zss, fs1)" using sched_stuck [of xss fs] by auto
  then have "n = total_steps zss" using sched_progress [of xss fs zss fs1] Suc(2) by simp
  from Suc(1) [OF this, of fs1] st show ?case by (meson converse_rtranclp_into_rtranclp)
qed

section \<open>A sample tree\<close>

definition sample_os :: os_env where
  "sample_os = \<lparr>mkdir_error = (\<lambda>_. None), copy_error = (\<lambda>_ _. None), rm_error = (\<lambda>_. None)\<rparr>"

definition sample_tree :: fstate where
  "sample_tree = \<lparr>fs_files = [''s/a'' \<mapsto> [1, 2]], fs_dirs = {''s'', ''m''}, fs_others = {}\<rparr>"

lemma sample_os_lets: "os_lets sample_os sample_io"
  by (simp add: os_lets_def sample_os_def sample_io_def)

lemma sample_trip:
  "trip_ok sample_os sample_io sample_gcm (\<lambda>_ _. zeros 12) (zeros 16) ''s'' ''m'' ''d''"
  by (simp add: trip_ok_def sample_io_doc sample_gcm_doc sample_key sample_ivs sample_os_lets
      separate_def plain_root_def)

lemma sample_tree_facts:
  "is_directory sample_tree ''s''" "fs_files sample_tree ''s'' = None"
  "is_directory sample_tree ''m''" "fs_files sample_tree ''m'' = None"
  "walk_of sample_tree ''s'' [''a'']"
  "\<forall>r. relative_file r \<longrightarrow> \<not> is_regular_file sample_tree (path_append ''m'' r)"
  "\<forall>r \<in> set [''a'']. \<forall>c. fs_files sample_tree (path_append ''s'' r) = Some c \<longrightarrow> c \<noteq> [] \<and> length c < 2 ^ 63"
  by (auto simp: sample_tree_def is_directory_def walk_of_def is_regular_file_def path_append_root
      relative_file_def plain_root_def filename_def)

section \<open>Properties\<close>







end
