(* ===== verification/Oss_Client.thy ===== *)
theory Oss_Client
  imports Dir_Crypto
begin

text \<open>
  Transfers between the file system and object storage
  (\<open>proxy/data_capsule_proxy/oss_client.cc\<close>). The storage service is the record \<open>oss\<close>; an upload is
  recorded as bucket, key and contents.
\<close>

section \<open>The service\<close>

text \<open>
  The client of \<open>GetOssClient\<close>: endpoint, access key and secret, with the token only when one is
  given. \<open>oss_list\<close> is one call of \<open>ListObjects\<close>: the keys of its page; errors are code and
  message.
\<close>

record oss_conn =
  oc_endpoint :: string
  oc_ak :: string
  oc_sk :: string
  oc_token :: "string option"

record oss =
  oss_list :: "oss_conn \<Rightarrow> string \<Rightarrow> string \<Rightarrow> (string \<times> string) + string list"
  oss_get :: "oss_conn \<Rightarrow> string \<Rightarrow> string \<Rightarrow> (string \<times> string) + bytes"
  oss_put :: "oss_conn \<Rightarrow> string \<Rightarrow> string \<Rightarrow> bytes \<Rightarrow> (string \<times> string) option"

type_synonym upload = "string \<times> string \<times> bytes"

section \<open>Relative paths\<close>

text \<open>
  \<open>std::filesystem::relative\<close> of two relative paths of which nothing exists in the working
  directory: the lexical relation of their normal forms.
\<close>

fun split_slash :: "string \<Rightarrow> string list" where
  "split_slash [] = [[]]"
| "split_slash (c # cs) =
     (if c = CHR ''/'' then [] # split_slash cs
      else case split_slash cs of [] \<Rightarrow> [[c]] | w # ws \<Rightarrow> (c # w) # ws)"

definition path_comps :: "string \<Rightarrow> string list" where
  "path_comps p = filter (\<lambda>c. c \<noteq> [] \<and> c \<noteq> ''.'') (split_slash p)"

definition normal_comps :: "string \<Rightarrow> string list" where
  "normal_comps p =
     rev (fold (\<lambda>c acc. if c = ''..'' \<and> acc \<noteq> [] \<and> hd acc \<noteq> ''..'' then tl acc else c # acc)
            (path_comps p) [])"

definition common_length :: "string list \<Rightarrow> string list \<Rightarrow> nat" where
  "common_length a b = length (takeWhile (\<lambda>(x, y). x = y) (zip a b))"

definition relative_path :: "string \<Rightarrow> string \<Rightarrow> string" where
  "relative_path p base =
     (let a = normal_comps p; b = normal_comps base; k = common_length a b;
          r = replicate (length b - k) ''..'' @ drop k a
      in if r = [] then ''.'' else join_str ''/'' r)"

section \<open>The code\<close>

definition GetOssClient :: "string \<Rightarrow> string \<Rightarrow> string \<Rightarrow> string \<Rightarrow> oss_conn" where
  "GetOssClient endpoint ak sk sts_token =
     \<lparr>oc_endpoint = endpoint, oc_ak = ak, oc_sk = sk,
      oc_token = (if sts_token = [] then None else Some sts_token)\<rparr>"

definition object_dest :: "string \<Rightarrow> string \<Rightarrow> string \<Rightarrow> string" where
  "object_dest src_path dest_path key =
     (let rel = relative_path key src_path in
      if rel = ''.'' then path_append dest_path (filename key) else path_append dest_path rel)"

fun download_objects ::
  "os_env \<Rightarrow> oss \<Rightarrow> oss_conn \<Rightarrow> string \<Rightarrow> string \<Rightarrow> string \<Rightarrow> string list \<Rightarrow> fstate \<Rightarrow> unit res \<times> fstate" where
  "download_objects E S conn bucket src_path dest_path [] st = (Inr (), st)"
| "download_objects E S conn bucket src_path dest_path (key # keys) st =
     (let dest_object_path = object_dest src_path dest_path key in
      case ensure_parent E dest_object_path st of
        Inl e \<Rightarrow> (Inl e, st)
      | Inr st' \<Rightarrow>
          (case oss_get S conn bucket key of
             Inl (code, msg) \<Rightarrow>
               (YACL_THROW (fmt ''oss download object failed, error {}: {}'' [code, msg]), st')
           | Inr contents \<Rightarrow>
               download_objects E S conn bucket src_path dest_path keys
                 (st'\<lparr>fs_files := (fs_files st')(dest_object_path \<mapsto> contents)\<rparr>)))"

definition DownloadFromOss ::
  "os_env \<Rightarrow> oss \<Rightarrow> string \<Rightarrow> string \<Rightarrow> string \<Rightarrow> string \<Rightarrow> string \<Rightarrow> string \<Rightarrow> string
   \<Rightarrow> fstate \<Rightarrow> unit res \<times> fstate" where
  "DownloadFromOss E S endpoint bucket src_path dest_path ak sk sts_token st =
     (let conn = GetOssClient endpoint ak sk sts_token in
      case oss_list S conn bucket src_path of
        Inl (code, msg) \<Rightarrow>
          (YACL_THROW (fmt ''oss list object failed, error {}: {}'' [code, msg]), st)
      | Inr keys \<Rightarrow>
          if keys = [] then (YACL_THROW (fmt ''no object found in {}'' [src_path]), st)
          else download_objects E S conn bucket src_path dest_path keys st)"

definition upload_one ::
  "oss \<Rightarrow> oss_conn \<Rightarrow> string \<Rightarrow> string \<Rightarrow> bytes \<Rightarrow> unit res \<times> upload list" where
  "upload_one S conn bucket key contents =
     (case oss_put S conn bucket key contents of
        Some (code, msg) \<Rightarrow> (YACL_THROW (fmt ''oss upload object failed, error {}: {}'' [code, msg]), [])
      | None \<Rightarrow> (Inr (), [(bucket, key, contents)]))"

text \<open>The loop over the directory; \<open>entries\<close> are the relative paths the iterator meets.\<close>

fun upload_entries ::
  "oss \<Rightarrow> oss_conn \<Rightarrow> string \<Rightarrow> string \<Rightarrow> string \<Rightarrow> fstate \<Rightarrow> string list \<Rightarrow> unit res \<times> upload list" where
  "upload_entries S conn bucket src_path dest_path st [] = (Inr (), [])"
| "upload_entries S conn bucket src_path dest_path st (r # rs) =
     (case fs_files st (path_append src_path r) of
        None \<Rightarrow> upload_entries S conn bucket src_path dest_path st rs
      | Some contents \<Rightarrow>
          (case upload_one S conn bucket (path_append dest_path r) contents of
             (Inl e, us) \<Rightarrow> (Inl e, us)
           | (Inr _, us) \<Rightarrow>
               (let (res, us') = upload_entries S conn bucket src_path dest_path st rs
                in (res, us @ us'))))"

definition UploadToOss ::
  "oss \<Rightarrow> string list \<Rightarrow> string \<Rightarrow> string \<Rightarrow> string \<Rightarrow> string \<Rightarrow> string \<Rightarrow> string \<Rightarrow> string
   \<Rightarrow> fstate \<Rightarrow> unit res \<times> upload list" where
  "UploadToOss S entries endpoint bucket src_path dest_path ak sk sts_token st =
     (if \<not> path_exists st src_path
      then (YACL_THROW (fmt ''src_path {} not exists'' [src_path]), [])
      else
        let conn = GetOssClient endpoint ak sk sts_token in
        case fs_files st src_path of
          Some contents \<Rightarrow>
            upload_one S conn bucket (path_append dest_path (filename src_path)) contents
        | None \<Rightarrow>
            if is_directory st src_path
            then upload_entries S conn bucket src_path dest_path st entries
            else (YACL_THROW ''src_path is not a file or directory'', []))"

text \<open>With a service that takes every object, the files that stand at the entries are uploaded.\<close>

lemma upload_entries_all:
  assumes "\<And>k c. oss_put S conn b k c = None"
  shows "upload_entries S conn b t d st rs =
    (Inr (), map (\<lambda>r. (b, path_append d r, the (fs_files st (path_append t r))))
      (filter (\<lambda>r. fs_files st (path_append t r) \<noteq> None) rs))"
  by (induction rs) (auto simp: upload_one_def assms split: option.split)

section \<open>Paths that leave the destination\<close>

definition path_name :: "string \<Rightarrow> bool" where
  "path_name c \<longleftrightarrow> c \<noteq> [] \<and> CHR ''/'' \<notin> set c \<and> c \<noteq> ''.'' \<and> c \<noteq> ''..''"

lemma split_slash_name: "CHR ''/'' \<notin> set c \<Longrightarrow> split_slash c = [c]"
  by (induction c) auto

lemma split_slash_append:
  "CHR ''/'' \<notin> set c \<Longrightarrow> split_slash (c @ ''/'' @ p) = c # split_slash p"
  by (induction c) auto

lemma normal_comps_names:
  "path_name a \<Longrightarrow> normal_comps a = [a]"
  "path_name a \<Longrightarrow> path_name b \<Longrightarrow> normal_comps (a @ ''/'' @ b) = [a, b]"
proof -
  have c: "path_name a \<Longrightarrow> split_slash a = [a]"
    "path_name a \<Longrightarrow> path_name b \<Longrightarrow> split_slash (a @ ''/'' @ b) = [a, b]"
    using split_slash_append [of a b] by (simp_all add: path_name_def split_slash_name)
  show "path_name a \<Longrightarrow> normal_comps a = [a]"
    unfolding normal_comps_def path_comps_def c(1) by (simp add: path_name_def)
  show "path_name a \<Longrightarrow> path_name b \<Longrightarrow> normal_comps (a @ ''/'' @ b) = [a, b]"
    unfolding normal_comps_def path_comps_def c(2) by (simp add: path_name_def)
qed

lemma relative_path_sibling:
  assumes "path_name a" "path_name b" "path_name c"
  shows "relative_path (b @ ''/'' @ c) a = (if a = b then c else ''../'' @ b @ ''/'' @ c)"
  using assms normal_comps_names
  by (simp add: relative_path_def common_length_def Let_def)

section \<open>Properties\<close>

text \<open>
  \<^bold>\<open>C39\<close>: a download can write outside its destination. The objects are selected by a prefix of
  their keys as strings, so that a download of \<open>data\<close> also selects \<open>data2/f\<close>; relative to \<open>data\<close>
  this is \<open>../data2/f\<close>, and the object is stored next to the destination instead of below it.
\<close>

theorem download_leaves_destination:
  assumes "path_name src" "s \<noteq> []" "path_name (src @ s)" "path_name f" "plain_root dest"
    and "oss_list S (GetOssClient endpoint ak sk token) bucket src = Inr [src @ s @ ''/'' @ f]"
    and "oss_get S (GetOssClient endpoint ak sk token) bucket (src @ s @ ''/'' @ f) = Inr contents"
    and "\<forall>d. mkdir_error E d = None"
  shows "case DownloadFromOss E S endpoint bucket src dest ak sk token st of (res, st') \<Rightarrow>
    res = Inr () \<and> fs_files st' (dest @ ''/../'' @ src @ s @ ''/'' @ f) = Some contents"
proof -
  have "relative_path (src @ s @ ''/'' @ f) src = ''../'' @ src @ s @ ''/'' @ f"
    using relative_path_sibling [OF assms(1,3,4)] assms(2) by simp
  moreover have "plain_root dest \<Longrightarrow> path_append dest (''../'' @ x) = dest @ ''/../'' @ x" for x
    by (simp add: path_append_def plain_root_def)
  ultimately have d: "object_dest src dest (src @ s @ ''/'' @ f) = dest @ ''/../'' @ src @ s @ ''/'' @ f"
    using assms(5) by (simp add: object_dest_def)
  obtain D where "ensure_parent E (dest @ ''/../'' @ src @ s @ ''/'' @ f) st = Inr (st\<lparr>fs_dirs := D\<rparr>)"
    by (rule ensure_parent_ok [OF assms(8)])
  then show ?thesis using assms(6,7) d by (simp add: DownloadFromOss_def)
qed

theorem download_leaves_destination_witness:
  "case DownloadFromOss sample_os
      \<lparr>oss_list = (\<lambda>_ _ p. Inr [''data2/f'']), oss_get = (\<lambda>_ _ _. Inr [7]), oss_put = (\<lambda>_ _ _ _. None)\<rparr>
      ''ep'' ''bucket'' ''data'' ''/tmp/t'' ''ak'' ''sk'' [] sample_tree of (res, st') \<Rightarrow>
    res = Inr () \<and> fs_files st' ''/tmp/t/../data2/f'' = Some [7]"
  using download_leaves_destination [of "''data''" "''2''" "''f''" "''/tmp/t''"
      "\<lparr>oss_list = (\<lambda>_ _ p. Inr [''data2/f'']), oss_get = (\<lambda>_ _ _. Inr [7]), oss_put = (\<lambda>_ _ _ _. None)\<rparr>"
      "''ep''" "''ak''" "''sk''" "[]" "''bucket''" "[7]" sample_os sample_tree]
  by (simp add: path_name_def plain_root_def sample_os_def)

end
