(* ===== verification/Proxy_Utils.thy ===== *)
theory Proxy_Utils
  imports File_Crypto
begin

text \<open>
  File access and logging of the proxies (\<open>proxy/utils/io_util.cc\<close>, \<open>log.cc\<close>). What \<open>spdlog\<close> is
  asked to do is a list of calls.
\<close>

section \<open>Files\<close>

definition ReadFile :: "yacl_io \<Rightarrow> string \<Rightarrow> fs \<Rightarrow> string res" where
  "ReadFile F file_path fs =
     (case fs file_path of
        None \<Rightarrow> Inl (io_open_in F file_path)
      | Some contents \<Rightarrow>
          bindE (io_read F contents 0 (length contents)) (\<lambda>content. Inr (bytes_str content)))"

definition WriteFile :: "yacl_io \<Rightarrow> string \<Rightarrow> bytes \<Rightarrow> fs \<Rightarrow> unit fs_res" where
  "WriteFile F file_path content fs =
     (case io_open_out F file_path of
        Some e \<Rightarrow> (Inl e, fs)
      | None \<Rightarrow> (Inr (), fs(file_path \<mapsto> content)))"

section \<open>Logging\<close>

datatype log_level = L_trace | L_debug | L_info | L_warn | L_err | L_critical | L_off

definition kMonitorLog :: string where "kMonitorLog = ''monitor_log''"
definition kAppLog :: string where "kAppLog = ''app_log''"
definition kMaxLogFileSize :: nat where "kMaxLogFileSize = 500 * 1024 * 1024"
definition kMaxLogFileCount :: nat where "kMaxLogFileCount = 10"
definition kFormatPattern :: string where
  "kFormatPattern = ''%Y-%m-%d %H:%M:%S.%e [%l] [%s:%!:%#] %v''"

record LogOptions =
  app_log_path :: string
  monitor_log_path :: string
  lo_log_level :: string
  enable_console_logger :: bool

datatype log_sink = Rotating_file string nat nat | Console

record logger =
  lg_name :: string
  lg_sinks :: "log_sink list"
  lg_flush_on :: log_level
  lg_level :: log_level
  lg_pattern :: string

datatype log_call = Set_default_logger logger | Register_logger logger

definition kLevelMap :: "string \<rightharpoonup> log_level" where
  "kLevelMap = [''trace'' \<mapsto> L_trace, ''debug'' \<mapsto> L_debug, ''info'' \<mapsto> L_info, ''warn'' \<mapsto> L_warn,
                ''err'' \<mapsto> L_err, ''critical'' \<mapsto> L_critical, ''off'' \<mapsto> L_off]"

definition LogLevelFromString :: "string \<Rightarrow> log_level res" where
  "LogLevelFromString level =
     (case kLevelMap level of
        None \<Rightarrow> YACL_THROW (fmt ''None exist log Level [{}]'' [level])
      | Some l \<Rightarrow> Inr l)"

text \<open>\<open>registered\<close> is \<open>spdlog::get\<close>; \<open>sink_error\<close> is what opening the log file throws, if it does.\<close>

definition SetupLogger ::
  "(string \<Rightarrow> bool) \<Rightarrow> (string \<Rightarrow> exn option) \<Rightarrow> string \<Rightarrow> string \<Rightarrow> string \<Rightarrow> bool \<Rightarrow> log_call list res" where
  "SetupLogger registered sink_error log_name log_path log_level enable_console =
     (if registered log_name then Inr []
      else case sink_error log_path of
        Some e \<Rightarrow> Inl e
      | None \<Rightarrow>
          (let log_sinks = Rotating_file log_path kMaxLogFileSize kMaxLogFileCount #
                             (if enable_console then [Console] else []) in
           bindE (LogLevelFromString log_level) (\<lambda>level.
           let logger = \<lparr>lg_name = log_name, lg_sinks = log_sinks, lg_flush_on = level,
                         lg_level = level, lg_pattern = kFormatPattern\<rparr> in
           if log_name = kAppLog then Inr [Set_default_logger logger]
           else if log_name = kMonitorLog then Inr [Register_logger logger]
           else YACL_THROW (fmt ''Unsupported logger type: {}.'' [log_name]))))"

definition LogSetup ::
  "(string \<Rightarrow> bool) \<Rightarrow> (string \<Rightarrow> exn option) \<Rightarrow> LogOptions \<Rightarrow> log_call list res" where
  "LogSetup registered sink_error opts =
     bindE (SetupLogger registered sink_error kAppLog (app_log_path opts) (lo_log_level opts)
              (enable_console_logger opts)) (\<lambda>app.
     bindE (SetupLogger registered sink_error kMonitorLog (monitor_log_path opts) (lo_log_level opts)
              (enable_console_logger opts)) (\<lambda>monitor.
     Inr (app @ monitor)))"

section \<open>Properties\<close>

lemma level_message: "fmt ''None exist log Level [{}]'' [x] = ''None exist log Level ['' @ x @ '']''"
  by (simp add: fmt.simps)

text \<open>
  \<open>LogSetup\<close>, started without loggers and with log files that can be opened, sets up
  both loggers exactly for the seven level names of the map, with this level as threshold and as
  flush level; any other name is refused with the message that quotes it.
\<close>

lemma LogSetup_outcome:
  assumes "\<forall>n. \<not> registered n" "\<forall>p. sink_error p = None"
  shows "case kLevelMap (lo_log_level opts) of
      None \<Rightarrow> LogSetup registered sink_error opts =
        Inl (Exn Yacl_Exception (''None exist log Level ['' @ lo_log_level opts @ '']''))
    | Some l \<Rightarrow> \<exists>app monitor. LogSetup registered sink_error opts =
          Inr [Set_default_logger app, Register_logger monitor] \<and>
        lg_level app = l \<and> lg_flush_on app = l \<and> lg_level monitor = l \<and> lg_flush_on monitor = l \<and>
        hd (lg_sinks app) = Rotating_file (app_log_path opts) kMaxLogFileSize kMaxLogFileCount \<and>
        hd (lg_sinks monitor) = Rotating_file (monitor_log_path opts) kMaxLogFileSize kMaxLogFileCount"
  using assms level_message [of "lo_log_level opts"]
  by (auto simp: LogSetup_def SetupLogger_def LogLevelFromString_def kAppLog_def kMonitorLog_def
      YACL_THROW_def Let_def split: option.split)

end
