(* ===== verification/Data_Proxy.thy ===== *)
theory Data_Proxy
  imports Capsule_Client Oss_Client Proxy_Utils
begin

text \<open>
  The data capsule proxy (\<open>proxy/data_capsule_proxy/data_capsule_proxy.cc\<close>, \<open>main.cc\<close>): it fetches
  encrypted input data and decrypts it into a local directory, and encrypts results for upload.
  A handler takes the file system and returns the outcome of the call with the file system it
  leaves, what it uploaded, and the result keys it registered with the capsule manager.
\<close>

section \<open>Requests and environment\<close>

record CmResourceConfig =
  crc_endpoint :: string
  crc_scope :: string
  crc_op_name :: string
  crc_resource_uri :: string
  crc_columns :: "string list"
  crc_global_attrs :: string

record S3Config =
  s3_endpoint :: string
  s3_bucket :: string
  s3_path :: string
  s3_access_key_id :: string
  s3_access_key_secret :: string
  s3_sts_token :: string

record CmResultConfig =
  crs_endpoint :: string
  crs_scope :: string
  crs_resource_uri :: string
  crs_ancestor_uuids :: "string list"

record GetInputDataRequest =
  gid_dest_path :: string
  gid_data_key_b64 :: "string option"
  gid_cm_resource_config :: "CmResourceConfig option"
  gid_s3_config :: "S3Config option"
  gid_local_fs_path :: "string option"

record PutResultDataRequest =
  prd_source_path :: string
  prd_data_key_b64 :: string
  prd_s3_config :: "S3Config option"
  prd_local_fs_path :: "string option"
  prd_cm_result_config :: CmResultConfig

text \<open>The members of \<open>DataCapsuleProxyImpl\<close>.\<close>

record proxy =
  px_cm_endpoint :: string
  px_plat :: string
  px_cert :: string
  px_private_key :: string

text \<open>
  \<open>pe_walk\<close> is the order in which a directory iterator lists the files below a directory;
  \<open>pe_ivs\<close> are the IVs drawn for a file, \<open>pe_rand_key\<close> is what \<open>RandBytes(kKeyBytes)\<close> returns;
  \<open>pe_base64_error\<close> is the message of the base64 decoder.
\<close>

record px_env =
  pe_os :: os_env
  pe_io :: yacl_io
  pe_gcm :: gcm
  pe_ext :: ext
  pe_cm :: cm_env
  pe_oss :: oss
  pe_walk :: "fstate \<Rightarrow> string \<Rightarrow> string list"
  pe_ivs :: "string \<Rightarrow> nat \<Rightarrow> bytes"
  pe_rand_key :: bytes
  pe_base64_error :: string

text \<open>How a call ends: a response, a failed controller, or a crash of the process.\<close>

datatype rpc = Rpc_ok sf_status | Rpc_failed string | Rpc_crash

record world =
  w_st :: fstate
  w_uploads :: "upload list"
  w_keys :: "ResultKeyBody list"

section \<open>The code\<close>

definition kTempDir :: string where "kTempDir = ''/tmp''"
definition kKeyBytes :: nat where "kKeyBytes = 16"

definition GenTempDir :: "ext \<Rightarrow> string \<Rightarrow> string" where
  "GenTempDir X path = path_append kTempDir (base64_encode X (Sha256 X (str_bytes path)))"

definition GenResourceRequest ::
  "ext \<Rightarrow> jose \<Rightarrow> CmResourceConfig \<Rightarrow> string \<Rightarrow> ResourceRequest res" where
  "GenResourceRequest X J cfg cert =
     bindE (GeneratePartyId X J cert) (\<lambda>party.
     Inr \<lparr>rr_initiator_party_id = party, rr_scope = crc_scope cfg, rr_op_name = crc_op_name cfg,
          rr_resources = [\<lparr>rsc_uri = crc_resource_uri cfg, rsc_columns = crc_columns cfg,
                           rsc_attrs = []\<rparr>],
          rr_env = [], rr_global_attrs = crc_global_attrs cfg\<rparr>)"

definition decode_key :: "px_env \<Rightarrow> string \<Rightarrow> bytes res" where
  "decode_key P b64 = or_throw Std_exception (pe_base64_error P) (base64_decode (pe_ext P) b64)"

definition choose_endpoint :: "proxy \<Rightarrow> string \<Rightarrow> string" where
  "choose_endpoint px endpoint = (if endpoint = [] then px_cm_endpoint px else endpoint)"

text \<open>The first part of \<open>GetInputData\<close>: the data key.\<close>

definition input_data_key :: "px_env \<Rightarrow> proxy \<Rightarrow> GetInputDataRequest \<Rightarrow> bytes res" where
  "input_data_key P px request =
     (case gid_data_key_b64 request of
        Some b64 \<Rightarrow> decode_key P b64
      | None \<Rightarrow>
          (case gid_cm_resource_config request of
             Some cfg \<Rightarrow>
               bindE (GenResourceRequest (pe_ext P) (cm_jose (pe_cm P)) cfg (px_cert px))
                 (\<lambda>resource_request.
               bindE (CapsuleManagerClient (pe_cm P) (choose_endpoint px (crc_endpoint cfg)))
                 (\<lambda>client.
               bindE (GetDataKeys (pe_cm P) client (px_plat px) (px_cert px) (px_private_key px)
                        resource_request) (\<lambda>data_keys.
               bindE (YACL_ENFORCE (data_keys \<noteq> []) ''Data keys empty'') (\<lambda>_.
               decode_key P (dk_data_key_b64 (hd data_keys))))))
           | None \<Rightarrow> YACL_THROW ''Data key config not found in request''))"

text \<open>The \<open>try\<close> block.\<close>

definition get_input_data ::
  "px_env \<Rightarrow> proxy \<Rightarrow> GetInputDataRequest \<Rightarrow> fstate \<Rightarrow> unit res \<times> fstate" where
  "get_input_data P px request st =
     (let dest_path = gid_dest_path request in
      case input_data_key P px request of
        Inl e \<Rightarrow> (Inl e, st)
      | Inr data_key \<Rightarrow>
         (case gid_s3_config request of
            Some s3 \<Rightarrow>
              (let tmp = GenTempDir (pe_ext P) dest_path in
               case remove_all (pe_os P) tmp st of
                 Inl e \<Rightarrow> (Inl e, st)
               | Inr st1 \<Rightarrow>
                  (case DownloadFromOss (pe_os P) (pe_oss P) (s3_endpoint s3) (s3_bucket s3)
                          (s3_path s3) tmp (s3_access_key_id s3) (s3_access_key_secret s3)
                          (s3_sts_token s3) st1 of
                     (Inl e, st2) \<Rightarrow> (Inl e, st2)
                   | (Inr _, st2) \<Rightarrow>
                      (case DecryptToDir (pe_os P) (pe_io P) (pe_gcm P) (pe_walk P st2 tmp) tmp
                              dest_path data_key st2 of
                         (Inl e, st3) \<Rightarrow> (Inl e, st3)
                       | (Inr _, st3) \<Rightarrow>
                          (case remove_all (pe_os P) tmp st3 of
                             Inl e \<Rightarrow> (Inl e, st3)
                           | Inr st4 \<Rightarrow> (Inr (), st4)))))
          | None \<Rightarrow>
             (case gid_local_fs_path request of
                Some p \<Rightarrow> DecryptToDir (pe_os P) (pe_io P) (pe_gcm P) (pe_walk P st p) p dest_path
                            data_key st
              | None \<Rightarrow> (YACL_THROW ''Source config not found'', st))))"

text \<open>The handler: success becomes a status, a caught exception fails the controller.\<close>

definition respond :: "unit res \<Rightarrow> rpc" where
  "respond r =
     (case r of
        Inr _ \<Rightarrow> Rpc_ok \<lparr>st_code = 0, st_message = ''success''\<rparr>
      | Inl (Exn _ what) \<Rightarrow> Rpc_failed what
      | Inl Null_deref \<Rightarrow> Rpc_crash)"

definition GetInputData ::
  "px_env \<Rightarrow> proxy \<Rightarrow> GetInputDataRequest \<Rightarrow> world \<Rightarrow> rpc \<times> world" where
  "GetInputData P px request w =
     (let (r, st) = get_input_data P px request (w_st w) in (respond r, w\<lparr>w_st := st\<rparr>))"

text \<open>The parts of \<open>PutResultData\<close>: the key, encryption and upload, the registration of the key.\<close>

definition result_data_key :: "px_env \<Rightarrow> PutResultDataRequest \<Rightarrow> bytes res" where
  "result_data_key P request =
     (if prd_data_key_b64 request = [] then Inr (pe_rand_key P)
      else decode_key P (prd_data_key_b64 request))"

definition store_result ::
  "px_env \<Rightarrow> PutResultDataRequest \<Rightarrow> bytes \<Rightarrow> fstate \<Rightarrow> unit res \<times> fstate \<times> upload list" where
  "store_result P request data_key st =
     (let src_path = prd_source_path request in
      case prd_s3_config request of
        Some s3 \<Rightarrow>
          (let tmp = GenTempDir (pe_ext P) src_path in
           case EncryptToDir (pe_os P) (pe_io P) (pe_gcm P) (pe_ivs P) (pe_walk P st src_path)
                  src_path tmp data_key st of
             (Inl e, st1) \<Rightarrow> (Inl e, st1, [])
           | (Inr _, st1) \<Rightarrow>
              (case UploadToOss (pe_oss P) (pe_walk P st1 tmp) (s3_endpoint s3) (s3_bucket s3) tmp
                      (s3_path s3) (s3_access_key_id s3) (s3_access_key_secret s3) (s3_sts_token s3) st1 of
                 (Inl e, us) \<Rightarrow> (Inl e, st1, us)
               | (Inr _, us) \<Rightarrow>
                  (case remove_all (pe_os P) tmp st1 of
                     Inl e \<Rightarrow> (Inl e, st1, us)
                   | Inr st2 \<Rightarrow> (Inr (), st2, us))))
      | None \<Rightarrow>
          (case prd_local_fs_path request of
             Some p \<Rightarrow>
               (let (r, st1) = EncryptToDir (pe_os P) (pe_io P) (pe_gcm P) (pe_ivs P)
                      (pe_walk P st src_path) src_path p data_key st in (r, st1, []))
           | None \<Rightarrow> (YACL_THROW ''Dest config not found'', st, [])))"

definition register_key ::
  "px_env \<Rightarrow> proxy \<Rightarrow> CmResultConfig \<Rightarrow> bytes \<Rightarrow> ResultKeyBody list res" where
  "register_key P px cfg data_key =
     (if crs_resource_uri cfg = [] then Inr []
      else
        bindE (CapsuleManagerClient (pe_cm P) (choose_endpoint px (crs_endpoint cfg))) (\<lambda>client.
        bindE (YACL_ENFORCE (crs_scope cfg \<noteq> []) ''scope can not be empty'') (\<lambda>_.
        bindE (YACL_ENFORCE (crs_resource_uri cfg \<noteq> []) ''resource_uri can not be empty'') (\<lambda>_.
        bindE (YACL_ENFORCE (0 < length (crs_ancestor_uuids cfg)) ''ancestor_uuids can not be empty'')
          (\<lambda>_.
        let body = \<lparr>rk_scope = crs_scope cfg, rk_resource_uri = crs_resource_uri cfg,
                    rk_data_key_b64 = base64_encode (pe_ext P) data_key,
                    rk_ancestor_uuids = crs_ancestor_uuids cfg\<rparr> in
        bindE (CreateResultDataKey (pe_cm P) client (px_plat px) (px_cert px) (px_private_key px) body)
          (\<lambda>_. Inr [body]))))))"

definition PutResultData ::
  "px_env \<Rightarrow> proxy \<Rightarrow> PutResultDataRequest \<Rightarrow> world \<Rightarrow> rpc \<times> world" where
  "PutResultData P px request w =
     (case result_data_key P request of
        Inl e \<Rightarrow> (respond (Inl e), w)
      | Inr data_key \<Rightarrow>
         (case store_result P request data_key (w_st w) of
            (Inl e, st, us) \<Rightarrow> (respond (Inl e), w\<lparr>w_st := st, w_uploads := w_uploads w @ us\<rparr>)
          | (Inr _, st, us) \<Rightarrow>
             (case register_key P px (prd_cm_result_config request) data_key of
                Inl e \<Rightarrow> (respond (Inl e), w\<lparr>w_st := st, w_uploads := w_uploads w @ us\<rparr>)
              | Inr ks \<Rightarrow> (respond (Inr ()),
                  w\<lparr>w_st := st, w_uploads := w_uploads w @ us, w_keys := w_keys w @ ks\<rparr>))))"

section \<open>A sample proxy\<close>

definition sample_px :: px_env where
  "sample_px =
     \<lparr>pe_os = sample_os, pe_io = sample_io, pe_gcm = sample_gcm,
      pe_ext = ref_ext\<lparr>base64_encode := (\<lambda>b. if length b = 32 then ''T'' else bytes_str b)\<rparr>,
      pe_cm = sample_cm,
      pe_oss = \<lparr>oss_list = (\<lambda>_ _ _. Inr []), oss_get = (\<lambda>_ _ _. Inl (''404'', ''no such key'')),
                oss_put = (\<lambda>_ _ _ _. None)\<rparr>,
      pe_walk = (\<lambda>_ d. if d = ''s'' then [''a''] else if d = ''m'' then [''a.enc'']
                       else [''a.enc'', ''old.enc'']),
      pe_ivs = (\<lambda>_ _. zeros 12), pe_rand_key = zeros 16, pe_base64_error = ''invalid''\<rparr>"

definition sample_self :: proxy where
  "sample_self = \<lparr>px_cm_endpoint = ''ep'', px_plat = ''sim'', px_cert = ''cert'', px_private_key = ''key''\<rparr>"

definition no_result_config :: CmResultConfig where
  "no_result_config = \<lparr>crs_endpoint = [], crs_scope = [], crs_resource_uri = [], crs_ancestor_uuids = []\<rparr>"

definition sample_world :: world where
  "sample_world = \<lparr>w_st = sample_tree, w_uploads = [], w_keys = []\<rparr>"

text \<open>A tree as an interrupted call leaves it: a file in the temporary directory of \<open>s\<close>.\<close>

definition left_over_world :: world where
  "left_over_world =
     \<lparr>w_st = \<lparr>fs_files = [''s/a'' \<mapsto> [1, 2], ''/tmp/T/old.enc'' \<mapsto> [9]], fs_dirs = {''s'', ''/tmp/T''},
               fs_others = {}\<rparr>, w_uploads = [], w_keys = []\<rparr>"

definition sample_put :: PutResultDataRequest where
  "sample_put = \<lparr>prd_source_path = ''s'', prd_data_key_b64 = [],
     prd_s3_config = Some \<lparr>s3_endpoint = ''oss'', s3_bucket = ''b'', s3_path = ''out'', s3_access_key_id = [],
       s3_access_key_secret = [], s3_sts_token = []\<rparr>,
     prd_local_fs_path = None, prd_cm_result_config = no_result_config\<rparr>"

lemma sample_tmp: "GenTempDir (pe_ext sample_px) ''s'' = ''/tmp/T''"
  by (simp add: GenTempDir_def sample_px_def kTempDir_def path_append_def ref_ext_def)

lemma walk_after_encryption:
  assumes "trip_ok E F K ivs key ''s'' m dst" "is_directory st ''s''" "fs_files st ''s'' = None"
    "walk_of st ''s'' [''a'']" "fs_files st ''s/a'' = Some [1, 2]"
    "EncryptToDir E F K ivs [''a''] ''s'' m key st = (res, st1)" "plain_root m"
  shows "res = Inr ()" "fs_dirs st \<subseteq> fs_dirs st1" "fs_files st1 (m @ ''/a.enc'') \<noteq> None"
    "p \<noteq> m @ ''/a.enc'' \<Longrightarrow> fs_files st1 p = fs_files st p"
proof -
  have files: "\<forall>r \<in> set [''a'']. \<forall>c. fs_files st (path_append ''s'' r) = Some c \<longrightarrow> c \<noteq> [] \<and> length c < 2 ^ 63"
    using assms(5) by (simp add: path_append_def)
  note e = encrypt_tree [OF assms(1-4) files assms(6)]
  have m: "path_append m (''a'' @ kEncSuffix) = m @ ''/a.enc''"
    using assms(7) by (simp add: path_append_def plain_root_def kEncSuffix_def)
  show "res = Inr ()" "fs_dirs st \<subseteq> fs_dirs st1" by (rule e)+
  show "fs_files st1 (m @ ''/a.enc'') \<noteq> None" using e(3) [of "''a''"] unfolding m by auto
  show "p \<noteq> m @ ''/a.enc'' \<Longrightarrow> fs_files st1 p = fs_files st p" using e(4) [of p] m by simp
qed

section \<open>Properties\<close>

definition rpc_success :: rpc where
  "rpc_success = Rpc_ok \<lparr>st_code = 0, st_message = ''success''\<rparr>"

lemma respond_ok [simp]: "respond (Inr x) = rpc_success"
  by (simp add: respond_def rpc_success_def)

text \<open>
  A result that one proxy stores in a directory is what a proxy that is given the same
  data key gets as input: both calls answer with success, and every file of the result is in the
  destination directory with its contents.
\<close>

lemma proxy_roundtrip:
  assumes ok: "trip_ok (pe_os P) (pe_io P) (pe_gcm P) (pe_ivs P) key src mid dst"
    and key: "b64 \<noteq> []" "base64_decode (pe_ext P) b64 = Some key"
    and tree: "is_directory (w_st w) src" "fs_files (w_st w) src = None"
      "is_directory (w_st w) mid" "fs_files (w_st w) mid = None"
      "walk_of (w_st w) src (pe_walk P (w_st w) src)"
      "\<forall>r. relative_file r \<longrightarrow> \<not> is_regular_file (w_st w) (path_append mid r)"
    and files: "\<forall>r \<in> set (pe_walk P (w_st w) src). \<forall>c.
      fs_files (w_st w) (path_append src r) = Some c \<longrightarrow> c \<noteq> [] \<and> length c < 2 ^ 63"
    and put: "PutResultData P px
      \<lparr>prd_source_path = src, prd_data_key_b64 = b64, prd_s3_config = None, prd_local_fs_path = Some mid,
       prd_cm_result_config = cfg\<rparr> w = (rpc1, w1)" "crs_resource_uri cfg = []"
    and walk: "walk_of (w_st w1) mid (pe_walk P (w_st w1) mid)"
    and get: "GetInputData P px'
      \<lparr>gid_dest_path = dst, gid_data_key_b64 = Some b64, gid_cm_resource_config = cm, gid_s3_config = None,
       gid_local_fs_path = Some mid\<rparr> w1 = (rpc2, w2)"
  shows "rpc1 = rpc_success \<and> rpc2 = rpc_success \<and>
    (\<forall>r \<in> set (pe_walk P (w_st w) src).
       fs_files (w_st w2) (path_append dst r) = fs_files (w_st w) (path_append src r))"
proof -
  obtain res1 st1 where enc: "EncryptToDir (pe_os P) (pe_io P) (pe_gcm P) (pe_ivs P)
      (pe_walk P (w_st w) src) src mid key (w_st w) = (res1, st1)" by fastforce
  have res1: "res1 = Inr ()" by (rule encrypt_tree(1) [OF ok tree(1,2,5) files enc])
  have w1: "rpc1 = rpc_success" "w_st w1 = st1"
    using put key enc res1
    by (auto simp: PutResultData_def result_data_key_def decode_key_def store_result_def register_key_def)
  obtain res2 st2 where dec: "DecryptToDir (pe_os P) (pe_io P) (pe_gcm P) (pe_walk P st1 mid) mid dst key
      st1 = (res2, st2)" by fastforce
  note t = tree_roundtrip [OF ok tree(1-6) files enc walk [unfolded w1(2)] dec]
  have "rpc2 = respond res2" "w_st w2 = st2"
    using get dec key w1(2)
    by (auto simp: GetInputData_def get_input_data_def input_data_key_def decode_key_def)
  then show ?thesis using t w1(1) by auto
qed

lemma proxy_roundtrip_witness:
  "case PutResultData sample_px sample_self
      \<lparr>prd_source_path = ''s'', prd_data_key_b64 = bytes_str (zeros 16), prd_s3_config = None,
       prd_local_fs_path = Some ''m'', prd_cm_result_config = no_result_config\<rparr> sample_world of (rpc1, w1) \<Rightarrow>
    case GetInputData sample_px sample_self
      \<lparr>gid_dest_path = ''d'', gid_data_key_b64 = Some (bytes_str (zeros 16)), gid_cm_resource_config = None,
       gid_s3_config = None, gid_local_fs_path = Some ''m''\<rparr> w1 of (rpc2, w2) \<Rightarrow>
    rpc1 = rpc_success \<and> rpc2 = rpc_success \<and> fs_files (w_st w2) ''d/a'' = Some [1, 2]"
proof -
  let ?P = sample_px and ?b64 = "bytes_str (zeros 16)"
  let ?put = "\<lparr>prd_source_path = ''s'', prd_data_key_b64 = ?b64, prd_s3_config = None,
       prd_local_fs_path = Some ''m'', prd_cm_result_config = no_result_config\<rparr>"
  obtain rpc1 w1 where put: "PutResultData ?P sample_self ?put sample_world = (rpc1, w1)" by fastforce
  obtain rpc2 w2 where get: "GetInputData ?P sample_self
      \<lparr>gid_dest_path = ''d'', gid_data_key_b64 = Some ?b64, gid_cm_resource_config = None,
       gid_s3_config = None, gid_local_fs_path = Some ''m''\<rparr> w1 = (rpc2, w2)" by fastforce
  have P: "pe_os ?P = sample_os" "pe_io ?P = sample_io" "pe_gcm ?P = sample_gcm"
    "pe_ivs ?P = (\<lambda>_ _. zeros 12)" "pe_walk ?P st ''s'' = [''a'']" "pe_walk ?P st ''m'' = [''a.enc'']"
    "base64_decode (pe_ext ?P) ?b64 = Some (zeros 16)" "?b64 \<noteq> []" for st
    by (simp_all add: sample_px_def ref_ext_def) (simp add: bytes_str_def zeros_def)
  obtain res st1 where enc: "EncryptToDir sample_os sample_io sample_gcm (\<lambda>_ _. zeros 12) [''a''] ''s''
      ''m'' (zeros 16) sample_tree = (res, st1)" by fastforce
  have a: "fs_files sample_tree ''s/a'' = Some [1, 2]" and m: "plain_root ''m''"
    by (simp_all add: sample_tree_def plain_root_def)
  note e = walk_after_encryption [OF sample_trip sample_tree_facts(1,2,5) a enc m]
  have w1: "w_st w1 = st1"
    using put enc e(1) P by (auto simp: PutResultData_def result_data_key_def decode_key_def store_result_def
        register_key_def no_result_config_def sample_world_def)
  have "fs_files st1 (''m/'' @ r) \<noteq> None \<longleftrightarrow> r = ''a.enc''" for r
    using e(3) e(4) [of "''m/'' @ r"] by (cases "r = ''a.enc''") (simp_all add: sample_tree_def)
  then have walk: "walk_of (w_st w1) ''m'' (pe_walk ?P (w_st w1) ''m'')"
    by (auto simp: P w1 walk_of_def is_regular_file_def path_append_root relative_file_def plain_root_def
        filename_def)
  have w: "w_st sample_world = sample_tree" by (simp add: sample_world_def)
  show ?thesis
    using proxy_roundtrip [of ?P "zeros 16" "''s''" "''m''" "''d''" ?b64 sample_world, unfolded w P,
        OF sample_trip _ _ sample_tree_facts(1-7) put _ _ get] P(7,8) walk put get
    by (simp add: no_result_config_def P path_append_def a)
qed

text \<open>
  \<open>PutResultData\<close> uploads what is left over from an earlier call. The temporary directory
  of a source path is always the same, and it is not emptied before the encryption: a file that
  stands there and that the encryption does not replace, such as one that a failed call
  encrypted under a key that is gone, is uploaded with the result.
\<close>

lemma PutResultData_uploads_leftovers:
  assumes tmp: "tmp = GenTempDir (pe_ext P) (prd_source_path request)"
    and s3: "prd_s3_config request = Some s3" "crs_resource_uri (prd_cm_result_config request) = []"
    and key: "result_data_key P request = Inr key"
    and enc: "EncryptToDir (pe_os P) (pe_io P) (pe_gcm P) (pe_ivs P)
        (pe_walk P (w_st w) (prd_source_path request)) (prd_source_path request) tmp key (w_st w) = (Inr (), st1)"
    and old: "fs_files st1 (path_append tmp r) = Some old" "relative_file r"
    and dir: "is_directory st1 tmp" "fs_files st1 tmp = None" "walk_of st1 tmp (pe_walk P st1 tmp)"
    and put: "\<And>conn b k c. oss_put (pe_oss P) conn b k c = None" and rm: "rm_error (pe_os P) tmp = None"
  shows "case PutResultData P px request w of (rpc, w') \<Rightarrow>
    rpc = rpc_success \<and> (s3_bucket s3, path_append (s3_path s3) r, old) \<in> set (w_uploads w')"
proof -
  have "r \<in> set (pe_walk P st1 tmp)"
    using dir(3) old unfolding walk_of_def is_regular_file_def by blast
  then have "\<exists>st us. store_result P request key (w_st w) = (Inr (), st, us) \<and>
      (s3_bucket s3, path_append (s3_path s3) r, old) \<in> set us"
    using enc dir(1,2) s3(1) old(1) rm unfolding tmp
    by (force simp: store_result_def UploadToOss_def upload_entries_all [OF put] remove_all_def path_exists_def Let_def)
  then obtain st us where "store_result P request key (w_st w) = (Inr (), st, us)"
    "(s3_bucket s3, path_append (s3_path s3) r, old) \<in> set us" by blast
  then show ?thesis using key s3(2) by (simp add: PutResultData_def register_key_def)
qed

lemma PutResultData_uploads_leftovers_witness:
  "case PutResultData sample_px sample_self sample_put left_over_world of (rpc, w') \<Rightarrow>
    rpc = rpc_success \<and> (''b'', ''out/old.enc'', [9]) \<in> set (w_uploads w')"
proof -
  let ?P = sample_px and ?st = "w_st left_over_world"
  have P: "pe_os ?P = sample_os" "pe_io ?P = sample_io" "pe_gcm ?P = sample_gcm"
    "pe_ivs ?P = (\<lambda>_ _. zeros 12)" "pe_walk ?P st ''s'' = [''a'']"
    "pe_walk ?P st ''/tmp/T'' = [''a.enc'', ''old.enc'']" "prd_source_path sample_put = ''s''" for st
    by (simp_all add: sample_px_def sample_put_def)
  obtain res st1 where enc: "EncryptToDir sample_os sample_io sample_gcm (\<lambda>_ _. zeros 12) [''a''] ''s''
      ''/tmp/T'' (zeros 16) ?st = (res, st1)" by fastforce
  have trip: "trip_ok sample_os sample_io sample_gcm (\<lambda>_ _. zeros 12) (zeros 16) ''s'' ''/tmp/T'' ''d''"
    by (simp add: trip_ok_def sample_io_doc sample_gcm_doc sample_key sample_ivs sample_os_lets
      separate_def plain_root_def)
  have t: "is_directory ?st ''s''" "fs_files ?st ''s'' = None" "walk_of ?st ''s'' [''a'']"
    "fs_files ?st ''s/a'' = Some [1, 2]"
    by (auto simp: left_over_world_def is_directory_def walk_of_def is_regular_file_def path_append_root
      relative_file_def plain_root_def filename_def)
  have root: "plain_root ''/tmp/T''" by (simp add: plain_root_def)
  note e = walk_after_encryption [OF trip t enc root]
  have old: "fs_files st1 (path_append ''/tmp/T'' ''old.enc'') = Some [9]"
    using e(4) [of "''/tmp/T/old.enc''"] by (simp add: path_append_def left_over_world_def)
  have "fs_files st1 (''/tmp/T/'' @ r) \<noteq> None \<longleftrightarrow> r = ''a.enc'' \<or> r = ''old.enc''" for r
    using e(3) e(4) [of "''/tmp/T/'' @ r"]
    by (cases "r = ''a.enc''") (simp_all add: left_over_world_def)
  then have walk: "walk_of st1 ''/tmp/T'' [''a.enc'', ''old.enc'']"
    by (auto simp: walk_of_def is_regular_file_def path_append_root relative_file_def plain_root_def filename_def)
  have dir: "is_directory st1 ''/tmp/T''" "fs_files st1 ''/tmp/T'' = None" "relative_file ''old.enc''"
    using e(2) e(4) [of "''/tmp/T''"] by (auto simp: is_directory_def left_over_world_def relative_file_def filename_def)
  show ?thesis
    using PutResultData_uploads_leftovers [of "''/tmp/T''" ?P sample_put _ "zeros 16" left_over_world st1
        "''old.enc''" "[9]" sample_self] enc e(1) old walk dir sample_tmp P
    by (simp add: sample_put_def no_result_config_def result_data_key_def path_append_def)
      (simp add: sample_px_def sample_os_def)
qed

text \<open>
  A result can become unreadable for everybody. If the request names neither a data key
  nor a resource to register one for, the result is encrypted under a random key, the call
  answers with success, and the key is neither in the answer, which is always the same, nor
  registered.
\<close>

lemma PutResultData_discards_key:
  assumes "prd_data_key_b64 request = []" "crs_resource_uri (prd_cm_result_config request) = []"
    and "store_result P request (pe_rand_key P) (w_st w) = (Inr (), st, us)"
  shows "PutResultData P px request w =
    (rpc_success, w\<lparr>w_st := st, w_uploads := w_uploads w @ us\<rparr>)"
  using assms by (simp add: PutResultData_def result_data_key_def register_key_def)

lemma GenTempDir_absolute:
  "base64_encode X (Sha256 X (str_bytes p)) = ''/'' @ s \<Longrightarrow> GenTempDir X p = ''/'' @ s"
  by (simp add: GenTempDir_def path_append_def)


definition slash_px :: px_env where
  "slash_px = sample_px\<lparr>pe_ext := ref_ext\<lparr>base64_encode := (\<lambda>_. ''/srv'')\<rparr>,
     pe_oss := \<lparr>oss_list = (\<lambda>_ _ _. Inl (''403'', ''denied'')), oss_get = (\<lambda>_ _ _. Inl (''403'', ''denied'')),
               oss_put = (\<lambda>_ _ _ _. None)\<rparr>\<rparr>"


end
