(* ===== verification/Proxy_Main.thy ===== *)
theory Proxy_Main
  imports Data_Proxy
begin

text \<open>
  The remote attestation proxy (\<open>proxy/ra_proxy\<close>) and the start-up of both proxies (their
  \<open>main.cc\<close>), with the resource request that is read from a YAML file. The servers of brpc are
  represented by the return codes of their set-up calls.
\<close>

section \<open>The remote attestation proxy\<close>

record RaCertResponse =
  rar_status :: sf_status
  rar_attestation_report :: "UnifiedAttestationReport option"
  rar_cert :: string

text \<open>The members of \<open>RaProxyImpl\<close>.\<close>

record ra_proxy =
  rp_plat :: string
  rp_cert :: string

datatype ra_rpc = Ra_ok RaCertResponse | Ra_failed string | Ra_crash

definition RaProxy_GetRaCert :: "gen_env \<Rightarrow> tee_build \<Rightarrow> ra_proxy \<Rightarrow> string \<Rightarrow> ra_rpc" where
  "RaProxy_GetRaCert E B rp nonce =
     (let report =
        (if rp_plat rp \<noteq> kTeePlatSim
         then bindE (GenRaReport E B (str_bytes (rp_cert rp @ ''.'' @ nonce))) (\<lambda>report. Inr (Some report))
         else Inr None)
      in case report of
           Inl (Exn _ what) \<Rightarrow> Ra_failed what
         | Inl Null_deref \<Rightarrow> Ra_crash
         | Inr r \<Rightarrow> Ra_ok \<lparr>rar_status = \<lparr>st_code = 0, st_message = ''success''\<rparr>,
                          rar_attestation_report = r, rar_cert = rp_cert rp\<rparr>)"

section \<open>Resource requests from YAML\<close>

text \<open>
  The YAML library: loading a file, the value at a key, a value as text, as sequence. Reading a
  value as text throws if there is none.
\<close>

record 'n yaml =
  y_load :: "string \<Rightarrow> 'n res"
  y_get :: "'n \<Rightarrow> string \<Rightarrow> 'n"
  y_string :: "'n \<Rightarrow> string res"
  y_is_sequence :: "'n \<Rightarrow> bool"
  y_items :: "'n \<Rightarrow> 'n list"

fun mapE :: "('a \<Rightarrow> 'b res) \<Rightarrow> 'a list \<Rightarrow> 'b list res" where
  "mapE f [] = Inr []"
| "mapE f (x # xs) = bindE (f x) (\<lambda>y. bindE (mapE f xs) (\<lambda>ys. Inr (y # ys)))"

definition yaml_resource :: "'n yaml \<Rightarrow> 'n \<Rightarrow> Resource res" where
  "yaml_resource Y conf =
     bindE (y_string Y (y_get Y conf ''resource_uri'')) (\<lambda>uri.
     bindE (mapE (y_string Y) (y_items Y (y_get Y conf ''columns''))) (\<lambda>columns.
     bindE (y_string Y (y_get Y conf ''attrs'')) (\<lambda>attrs.
     Inr \<lparr>rsc_uri = uri, rsc_columns = columns, rsc_attrs = attrs\<rparr>)))"

definition yaml_GenResourceRequest ::
  "ext \<Rightarrow> jose \<Rightarrow> 'n yaml \<Rightarrow> 'n \<Rightarrow> string \<Rightarrow> ResourceRequest res" where
  "yaml_GenResourceRequest X J Y config cert =
     bindE (GeneratePartyId X J cert) (\<lambda>party.
     bindE (y_string Y (y_get Y config ''scope'')) (\<lambda>scope.
     bindE (y_string Y (y_get Y config ''op_name'')) (\<lambda>op_name.
     bindE (YACL_ENFORCE (y_is_sequence Y (y_get Y config ''resource'')) ''resource must be a sequence'')
       (\<lambda>_.
     bindE (mapE (yaml_resource Y) (y_items Y (y_get Y config ''resource''))) (\<lambda>resources.
     bindE (y_string Y (y_get Y config ''env'')) (\<lambda>env.
     bindE (y_string Y (y_get Y config ''global_attrs'')) (\<lambda>global_attrs.
     Inr \<lparr>rr_initiator_party_id = party, rr_scope = scope, rr_op_name = op_name,
          rr_resources = resources, rr_env = env, rr_global_attrs = global_attrs\<rparr>)))))))"

section \<open>Start-up\<close>

record flags =
  f_plat :: string
  f_port :: u32
  f_idle_timeout_s :: u32
  f_cert_path :: string
  f_private_key_path :: string
  f_cm_endpoint :: string
  f_cm_init_config :: string
  f_log :: LogOptions

text \<open>
  \<open>su_registered\<close> and \<open>su_sink_error\<close> belong to the loggers; \<open>su_add_service\<close> and \<open>su_start\<close> are
  the return codes of the server, which is started on a port with an idle timeout.
\<close>

record 'n startup =
  su_io :: yacl_io
  su_ext :: ext
  su_cm :: cm_env
  su_yaml :: "'n yaml"
  su_registered :: "string \<Rightarrow> bool"
  su_sink_error :: "string \<Rightarrow> exn option"
  su_add_service :: int
  su_start :: "u32 \<Rightarrow> u32 \<Rightarrow> int"

text \<open>The TLS files that are fetched when \<open>cm_init_config\<close> is set.\<close>

definition init_tls :: "'n startup \<Rightarrow> flags \<Rightarrow> string \<Rightarrow> string \<Rightarrow> fs \<Rightarrow> unit fs_res" where
  "init_tls S flags cert private_key fs =
     (let Y = su_yaml S in
      case bindE (y_load Y (f_cm_init_config flags)) (\<lambda>config.
           bindE (CapsuleManagerClient (su_cm S) (f_cm_endpoint flags)) (\<lambda>client.
           bindE (yaml_GenResourceRequest (su_ext S) (cm_jose (su_cm S)) Y config cert) (\<lambda>request.
           bindE (GetTlsAsset (su_cm S) client (f_plat flags) cert private_key request) (\<lambda>tls.
           bindE (y_string Y (y_get Y config ''tls_cert_path'')) (\<lambda>cert_path.
           Inr (config, tls, cert_path)))))) of
        Inl e \<Rightarrow> (Inl e, fs)
      | Inr (config, tls, cert_path) \<Rightarrow>
          (case WriteFile (su_io S) cert_path (str_bytes (tls_cert tls)) fs of
             (Inl e, fs1) \<Rightarrow> (Inl e, fs1)
           | (Inr _, fs1) \<Rightarrow>
               (case y_string Y (y_get Y config ''tls_key_path'') of
                  Inl e \<Rightarrow> (Inl e, fs1)
                | Inr key_path \<Rightarrow>
                    WriteFile (su_io S) key_path (str_bytes (tls_private_key tls)) fs1)))"

text \<open>
  The exit code, \<open>None\<close> for a crash, with the files and the proxy that was served, if any.
\<close>

definition exit_code :: "'a res \<Rightarrow> int option" where
  "exit_code r = (case r of Inr _ \<Rightarrow> Some 0 | Inl (Exn _ _) \<Rightarrow> Some (- 1) | Inl Null_deref \<Rightarrow> None)"

definition data_capsule_main :: "'n startup \<Rightarrow> flags \<Rightarrow> fs \<Rightarrow> int option \<times> fs \<times> proxy option" where
  "data_capsule_main S flags fs =
     (case bindE (LogSetup (su_registered S) (su_sink_error S) (f_log flags)) (\<lambda>_.
           bindE (ReadFile (su_io S) (f_cert_path flags) fs) (\<lambda>cert.
           bindE (ReadFile (su_io S) (f_private_key_path flags) fs) (\<lambda>private_key.
           Inr (cert, private_key)))) of
        Inl e \<Rightarrow> (exit_code (Inl e :: unit res), fs, None)
      | Inr (cert, private_key) \<Rightarrow>
          (case (if f_cm_init_config flags \<noteq> [] then init_tls S flags cert private_key fs
                 else (Inr (), fs)) of
             (Inl e, fs1) \<Rightarrow> (exit_code (Inl e :: unit res), fs1, None)
           | (Inr _, fs1) \<Rightarrow>
               if su_add_service S \<noteq> 0 then (Some (- 1), fs1, None)
               else if su_start S (f_port flags) (f_idle_timeout_s flags) \<noteq> 0 then (Some (- 1), fs1, None)
               else (Some 0, fs1, Some \<lparr>px_cm_endpoint = f_cm_endpoint flags, px_plat = f_plat flags,
                                       px_cert = cert, px_private_key = private_key\<rparr>)))"

definition ra_main :: "'n startup \<Rightarrow> flags \<Rightarrow> fs \<Rightarrow> int option \<times> ra_proxy option" where
  "ra_main S flags fs =
     (case bindE (LogSetup (su_registered S) (su_sink_error S) (f_log flags)) (\<lambda>_.
           ReadFile (su_io S) (f_cert_path flags) fs) of
        Inl e \<Rightarrow> (exit_code (Inl e :: unit res), None)
      | Inr cert \<Rightarrow>
          if su_add_service S \<noteq> 0 then (Some (- 1), None)
          else if su_start S (f_port flags) (f_idle_timeout_s flags) \<noteq> 0 then (Some (- 1), None)
          else (Some 0, Some \<lparr>rp_plat = f_plat flags, rp_cert = cert\<rparr>))"

section \<open>Properties\<close>

lemma mapE_ok: "mapE f xs = Inr ys \<Longrightarrow> x \<in> set xs \<Longrightarrow> \<exists>y. f x = Inr y"
  by (induction xs arbitrary: ys) (auto simp: exn_simps)

text \<open>
  The configuration values \<open>attrs\<close>, \<open>env\<close> and \<open>global_attrs\<close> are not optional: if one of
  them is missing, for any of the resources, no resource request is generated, although the
  sample configuration marks them as optional.
\<close>

lemma yaml_optional_values_required:
  assumes "(\<exists>conf \<in> set (y_items Y (y_get Y config ''resource'')). \<exists>e. y_string Y (y_get Y conf ''attrs'') = Inl e) \<or>
    (\<exists>e. y_string Y (y_get Y config ''env'') = Inl e) \<or>
    (\<exists>e. y_string Y (y_get Y config ''global_attrs'') = Inl e)"
  shows "\<exists>e. yaml_GenResourceRequest X J Y config cert = Inl e"
proof (cases "yaml_GenResourceRequest X J Y config cert")
  case (Inr rr)
  then obtain env global resources where ok: "y_string Y (y_get Y config ''env'') = Inr env"
    "y_string Y (y_get Y config ''global_attrs'') = Inr global"
    "mapE (yaml_resource Y) (y_items Y (y_get Y config ''resource'')) = Inr resources"
    by (auto simp: yaml_GenResourceRequest_def exn_simps)
  have "\<exists>a. y_string Y (y_get Y conf ''attrs'') = Inr a"
    if "conf \<in> set (y_items Y (y_get Y config ''resource''))" for conf
    using mapE_ok [OF ok(3) that] by (auto simp: yaml_resource_def exn_simps)
  then show ?thesis using assms ok(1,2) by fastforce
qed simp

text \<open>A configuration as a function from keys to texts; every node is its own only resource.\<close>

definition sample_yaml :: "(string \<rightharpoonup> string) yaml" where
  "sample_yaml =
     \<lparr>y_load = (\<lambda>_. Inr Map.empty), y_get = (\<lambda>m k. if k = ''resource'' then m else Map.empty([] := m k)),
      y_string = (\<lambda>m. or_throw Std_exception ''bad conversion'' (m [])), y_is_sequence = (\<lambda>_. True),
      y_items = (\<lambda>m. if m = Map.empty then [] else [m])\<rparr>"

text \<open>
  The data capsule proxy serves only with its certificate and key: \<open>main\<close> starts
  serving exactly if the exit code is zero, and then with the bytes of the two files and the
  flags it was given; without \<open>cm_init_config\<close> it changes no file.
\<close>

lemma data_capsule_main_serves:
  assumes "yacl_io_doc (su_io S)" "data_capsule_main S flags fs = (xcode, fs', served)"
  shows "(served \<noteq> None \<longleftrightarrow> xcode = Some 0) \<and>
    (\<forall>px. served = Some px \<longrightarrow>
       fs (f_cert_path flags) = Some (str_bytes (px_cert px)) \<and>
       fs (f_private_key_path flags) = Some (str_bytes (px_private_key px)) \<and>
       px_plat px = f_plat flags \<and> px_cm_endpoint px = f_cm_endpoint flags) \<and>
    (f_cm_init_config flags = [] \<longrightarrow> fs' = fs)"
proof -
  have read: "ReadFile (su_io S) p fs = Inr s \<Longrightarrow> fs p = Some (str_bytes s)" for p s
    using yacl_io_read [OF assms(1)]
    by (auto simp: ReadFile_def subbytes_def split: option.splits)
  show ?thesis
    using assms(2) read
    by (auto simp: data_capsule_main_def exit_code_def exn_simps split: sum.splits prod.splits if_splits exn.splits)
qed

definition sample_startup :: "(string \<rightharpoonup> string) startup" where
  "sample_startup = \<lparr>su_io = sample_io, su_ext = ref_ext, su_cm = sample_cm, su_yaml = sample_yaml,
     su_registered = (\<lambda>_. False), su_sink_error = (\<lambda>_. None), su_add_service = 0, su_start = (\<lambda>_ _. 0)\<rparr>"

definition sample_flags :: flags where
  "sample_flags = \<lparr>f_plat = ''sim'', f_port = 8010, f_idle_timeout_s = - 1, f_cert_path = ''c'', f_private_key_path = ''k'', f_cm_endpoint = ''ep'',
     f_cm_init_config = [], f_log = \<lparr>app_log_path = ''a'', monitor_log_path = ''m'', lo_log_level = ''info'',
       enable_console_logger = False\<rparr>\<rparr>"

lemma data_capsule_main_serves_witness:
  "\<exists>px. data_capsule_main sample_startup sample_flags [''c'' \<mapsto> str_bytes ''C'', ''k'' \<mapsto> str_bytes ''K''] =
      (Some 0, [''c'' \<mapsto> str_bytes ''C'', ''k'' \<mapsto> str_bytes ''K''], Some px) \<and>
    str_bytes (px_cert px) = str_bytes ''C'' \<and> str_bytes (px_private_key px) = str_bytes ''K''"
proof -
  let ?fs = "[''c'' \<mapsto> str_bytes ''C'', ''k'' \<mapsto> str_bytes ''K'']"
  obtain xcode fs' served where m: "data_capsule_main sample_startup sample_flags ?fs = (xcode, fs', served)"
    by (metis prod_cases3)
  have "yacl_io_doc (su_io sample_startup)" by (simp add: sample_startup_def sample_io_doc)
  note t = data_capsule_main_serves [OF this m]
  have "xcode = Some 0"
    using m by (simp add: data_capsule_main_def sample_startup_def sample_flags_def LogSetup_def SetupLogger_def
        LogLevelFromString_def kLevelMap_def kAppLog_def kMonitorLog_def ReadFile_def sample_io_def subbytes_def)
  then show ?thesis using t m by (auto simp: sample_flags_def)
qed

end
