(* ===== verification/Proxy_Server.thy ===== *)
theory Proxy_Server
  imports Data_Proxy
begin

text \<open>
  The data capsule proxy as a server: what a single call can change, and the sequences of calls a
  proxy serves, as a step relation with its invariants.
\<close>

section \<open>What the calls can change\<close>

lemma encrypt_walk_frame:
  assumes "plain_root dst" "\<forall>r \<in> set rs. relative_file r" "encrypt_walk E src dst rs st = (ts, res, st')"
  shows "(\<forall>t \<in> set ts. in_tree dst (snd t)) \<and> fs_files st' = fs_files st"
  using assms(2,3)
proof (induction rs arbitrary: st ts)
  case (Cons r rs)
  have "in_tree dst (path_append dst r @ kEncSuffix)"
    using in_tree_append [OF assms(1) relative_file_enc, of r] path_append_enc [OF assms(1), of r] Cons.prems(1) by simp
  then show ?case
    using Cons.prems Cons.IH
    by (fastforce simp: Let_def ensure_parent_files split: if_splits sum.splits prod.splits)
qed simp

lemma EncryptFile_frame: "p \<noteq> d \<Longrightarrow> fs_files (snd (on_files (EncryptFile F K ivs s d key) st)) p = fs_files st p"
  by (auto simp: on_files_def EncryptFile_def Let_def split: option.split sum.split prod.split)

lemma EncryptToDir_frame:
  assumes "plain_root dst" "filename src \<noteq> []" "\<forall>r \<in> set rs. relative_file r" "\<not> in_tree dst p"
  shows "fs_files (snd (EncryptToDir E F K ivs rs src dst key st)) p = fs_files st p"
proof -
  let ?d = "path_append dst (filename src) @ kEncSuffix"
  have rel: "relative_file (filename src)" by (rule relative_file_filename [OF assms(2)])
  have in_d: "in_tree dst ?d"
    using in_tree_append [OF assms(1) relative_file_enc [OF rel]] path_append_enc [OF assms(1) rel] by simp
  obtain ts res st' where walk: "encrypt_walk E src dst rs st = (ts, res, st')" by (metis prod_cases3)
  note frame = encrypt_walk_frame [OF assms(1,3) walk]
  have "p \<notin> snd ` set ts" using frame assms(4) by auto
  from enc_task.run_tasks_other [OF this, of F K ivs key "fs_files st'"] frame
  have dir: "fs_files (snd (join_tasks (encrypt_task F K ivs key) (encrypt_walk E src dst rs st))) p = fs_files st p"
    unfolding walk join_tasks_def by (auto split: prod.split)
  have single: "fs_files (snd (on_files (EncryptFile F K (ivs src) src ?d key) st1)) p = fs_files st p"
    if "ensure_parent E ?d st = Inr st1" for st1
    using EncryptFile_frame [of p ?d F K "ivs src" src key st1] in_d assms(4) ensure_parent_files [OF that] by auto
  show ?thesis
    unfolding EncryptToDir_def Let_def encrypt_task_def [symmetric]
    using dir single by (simp add: encrypt_task_def split: sum.split)
qed

lemma remove_all_frame: "remove_all E d st = Inr st' \<Longrightarrow> \<not> in_tree d p \<Longrightarrow> fs_files st' p = fs_files st p"
  by (auto simp: remove_all_def split: option.splits)

text \<open>The directory below which \<open>PutResultData\<close> writes, if it writes at all.\<close>

definition put_target :: "px_env \<Rightarrow> PutResultDataRequest \<Rightarrow> string option" where
  "put_target P request =
     (case prd_s3_config request of
        Some _ \<Rightarrow> Some (GenTempDir (pe_ext P) (prd_source_path request))
      | None \<Rightarrow> prd_local_fs_path request)"

text \<open>Iterators return relative paths of files.\<close>

definition names_files :: "(fstate \<Rightarrow> string \<Rightarrow> string list) \<Rightarrow> bool" where
  "names_files W \<longleftrightarrow> (\<forall>st d. \<forall>r \<in> set (W st d). relative_file r)"

lemma store_result_frame:
  assumes target: "\<And>d. put_target P request = Some d \<Longrightarrow> plain_root d \<and> \<not> in_tree d p"
    and src: "filename (prd_source_path request) \<noteq> []" and walk: "names_files (pe_walk P)"
    and store: "store_result P request key st = (res, st', us)"
  shows "fs_files st' p = fs_files st p"
proof (cases "put_target P request")
  case None
  then show ?thesis using store by (auto simp: put_target_def store_result_def split: option.splits)
next
  case (Some d)
  let ?src = "prd_source_path request"
  obtain r st1 where enc: "EncryptToDir (pe_os P) (pe_io P) (pe_gcm P) (pe_ivs P) (pe_walk P st ?src) ?src d key st = (r, st1)"
    by fastforce
  have st1: "fs_files st1 p = fs_files st p"
    using EncryptToDir_frame [of d ?src "pe_walk P st ?src" p "pe_os P" "pe_io P" "pe_gcm P" "pe_ivs P" key st]
      target [OF Some] src walk enc by (simp add: names_files_def)
  have "st' = st1 \<or> remove_all (pe_os P) d st1 = Inr st'"
    using store enc Some
    by (auto simp: put_target_def store_result_def Let_def split: option.splits sum.splits prod.splits)
  then show ?thesis using st1 remove_all_frame target [OF Some] by metis
qed

section \<open>Sequences of calls\<close>

datatype request = Get GetInputDataRequest | Put PutResultDataRequest

primrec handle :: "px_env \<Rightarrow> proxy \<Rightarrow> request \<Rightarrow> world \<Rightarrow> rpc \<times> world" where
  "handle P px (Get r) w = GetInputData P px r w"
| "handle P px (Put r) w = PutResultData P px r w"

type_synonym call = "px_env \<times> request \<times> rpc"

text \<open>
  The calls a proxy has served. The environment, with random values, answers of the services and
  directory order, may be another one for every call.
\<close>

inductive served :: "proxy \<Rightarrow> world \<Rightarrow> call list \<Rightarrow> world \<Rightarrow> bool" for px w where
  start: "served px w [] w"
| serve: "served px w cs w1 \<Longrightarrow> handle P px r w1 = (rpc, w2) \<Longrightarrow> served px w (cs @ [(P, r, rpc)]) w2"

inductive_cases served_emptyE: "served px w [] w'"

text \<open>Requests whose paths are plain directories.\<close>

fun request_ok :: "call \<Rightarrow> bool" where
  "request_ok (P, Get r, _) \<longleftrightarrow> names_files (pe_walk P) \<and> plain_root (gid_dest_path r) \<and>
     (\<forall>src. gid_local_fs_path r = Some src \<longrightarrow> plain_root src)"
| "request_ok (P, Put r, _) \<longleftrightarrow> names_files (pe_walk P) \<and> plain_root (prd_source_path r) \<and>
     (\<forall>d. put_target P r = Some d \<longrightarrow> plain_root d)"

text \<open>
  Where a call may write: downloads from object storage, as objects choose their place, anywhere.
\<close>

fun may_change :: "call \<Rightarrow> string \<Rightarrow> bool" where
  "may_change (P, Get r, _) p \<longleftrightarrow> gid_s3_config r \<noteq> None \<or> in_tree (gid_dest_path r) p"
| "may_change (P, Put r, _) p \<longleftrightarrow> (\<exists>d. put_target P r = Some d \<and> in_tree d p)"

text \<open>A successful call that names a resource registers a key.\<close>

fun registers :: "call \<Rightarrow> bool" where
  "registers (P, Put r, rpc) \<longleftrightarrow> rpc = rpc_success \<and> crs_resource_uri (prd_cm_result_config r) \<noteq> []"
| "registers (P, Get r, rpc) \<longleftrightarrow> False"

definition key_wf :: "ResultKeyBody \<Rightarrow> bool" where
  "key_wf k \<longleftrightarrow> rk_scope k \<noteq> [] \<and> rk_resource_uri k \<noteq> [] \<and> rk_ancestor_uuids k \<noteq> []"

lemma plain_root_filename: "plain_root d \<Longrightarrow> filename d \<noteq> []"
  by (cases d rule: rev_cases) (auto simp: plain_root_def filename_def)

lemma get_files:
  assumes ok: "request_ok (P, Get r, rpc)" "\<not> may_change (P, Get r, rpc) p" and call: "GetInputData P px r w = (rpc, w')"
  shows "fs_files (w_st w') p = fs_files (w_st w) p"
proof (cases "gid_local_fs_path r")
  case None
  then show ?thesis
    using assms by (auto simp: GetInputData_def get_input_data_def Let_def split: sum.splits)
next
  case (Some src)
  have "walkable src (pe_walk P (w_st w) src)"
    using ok Some filename_under [of src] by (auto simp: walkable_def names_files_def)
  from DecryptToDir_frame [OF _ plain_root_filename this, of "gid_dest_path r" p "pe_os P" "pe_io P" "pe_gcm P" _ "w_st w"]
  show ?thesis
    using assms Some
    by (auto simp: GetInputData_def get_input_data_def Let_def split: sum.splits prod.splits) (metis snd_conv)
qed

lemma put_files:
  assumes "request_ok (P, Put r, rpc)" "\<not> may_change (P, Put r, rpc) p" and "PutResultData P px r w = (rpc, w')"
  shows "fs_files (w_st w') p = fs_files (w_st w) p"
proof (cases "result_data_key P r")
  case (Inr key)
  obtain res st' us where store: "store_result P r key (w_st w) = (res, st', us)" by (metis prod_cases3)
  have "fs_files st' p = fs_files (w_st w) p"
    by (rule store_result_frame [OF _ _ _ store]) (use assms(1,2) plain_root_filename in auto)
  moreover have "w_st w' = st'"
    using assms(3) Inr store by (auto simp: PutResultData_def split: sum.splits)
  ultimately show ?thesis by simp
qed (use assms in \<open>auto simp: PutResultData_def\<close>)

lemma respond_success: "respond r = rpc_success \<longleftrightarrow> (\<exists>x. r = Inr x)"
  by (auto simp: respond_def rpc_success_def split: sum.split exn.split)

lemma handle_logs:
  assumes "handle P px r w = (rpc, w')"
  shows "prefix (w_uploads w) (w_uploads w')"
    and "\<exists>ks. w_keys w' = w_keys w @ ks \<and> (\<forall>k \<in> set ks. key_wf k) \<and>
      length ks = (if registers (P, r, rpc) then 1 else 0)"
proof -
  have "prefix (w_uploads w) (w_uploads w') \<and> (\<exists>ks. w_keys w' = w_keys w @ ks \<and> (\<forall>k \<in> set ks. key_wf k) \<and>
      length ks = (if registers (P, r, rpc) then 1 else 0))"
  proof (cases r)
    case (Put q)
    then show ?thesis using assms
      by (auto simp: PutResultData_def register_key_def exn_simps key_wf_def respond_success Let_def
          split: sum.splits prod.splits if_splits)
  qed (use assms in \<open>auto simp: GetInputData_def split: prod.splits\<close>)
  then show "prefix (w_uploads w) (w_uploads w')"
    "\<exists>ks. w_keys w' = w_keys w @ ks \<and> (\<forall>k \<in> set ks. key_wf k) \<and> length ks = (if registers (P, r, rpc) then 1 else 0)"
    by blast+
qed

text \<open>
  \<^bold>\<open>C13\<close>: whatever calls a proxy serves, in whatever order and with whatever results, uploads and
  registered keys are only added; every registered key names a scope, a resource and its
  ancestors, and there is exactly one new key per successful \<open>PutResultData\<close> with a resource; and a
  file outside the target directories of the calls is unchanged, if no call downloads from object
  storage.
\<close>

theorem served_invariant:
  assumes "served px w calls w'" "\<forall>c \<in> set calls. request_ok c" "\<forall>k \<in> set (w_keys w). key_wf k"
  shows "prefix (w_uploads w) (w_uploads w') \<and> prefix (w_keys w) (w_keys w') \<and>
    (\<forall>k \<in> set (w_keys w'). key_wf k) \<and>
    length (w_keys w') = length (w_keys w) + length (filter registers calls) \<and>
    (\<forall>p. (\<forall>c \<in> set calls. \<not> may_change c p) \<longrightarrow> fs_files (w_st w') p = fs_files (w_st w) p)"
  using assms(1,2)
proof (induction rule: served.induct)
  case start
  then show ?case using assms(3) by simp
next
  case (serve cs w1 P r rpc w2)
  obtain ks where ks: "w_keys w2 = w_keys w1 @ ks" "\<forall>k \<in> set ks. key_wf k"
    "length ks = (if registers (P, r, rpc) then 1 else 0)"
    using handle_logs(2) [OF serve(2)] by blast
  have "fs_files (w_st w2) p = fs_files (w_st w1) p" if "\<not> may_change (P, r, rpc) p" for p
    using that serve(2,4) get_files put_files by (cases r) auto
  then show ?case using serve(3,4) ks handle_logs(1) [OF serve(2)] by (auto simp: prefix_order.order_trans)
qed

theorem served_invariant_witness:
  "case PutResultData sample_px sample_self sample_put left_over_world of (rpc, w') \<Rightarrow>
     fs_files (w_st w') ''s/a'' = Some [1, 2] \<and> w_keys w' = []"
proof -
  obtain rpc w' where call: "PutResultData sample_px sample_self sample_put left_over_world = (rpc, w')" by fastforce
  have s: "served sample_self left_over_world ([] @ [(sample_px, Put sample_put, rpc)]) w'"
    by (rule served.serve [OF served.start]) (simp add: call)
  have ok: "names_files (pe_walk sample_px)" "put_target sample_px sample_put = Some ''/tmp/T''" "plain_root ''s''"
    "plain_root ''/tmp/T''" "prd_source_path sample_put = ''s''" "\<not> in_tree ''/tmp/T'' ''s/a''"
    using sample_tmp
    by (simp_all add: names_files_def put_target_def sample_put_def plain_root_def in_tree_def)
      (simp_all add: sample_px_def relative_file_def filename_def)
  have w: "w_keys left_over_world = []" "fs_files (w_st left_over_world) ''s/a'' = Some [1, 2]"
    by (simp_all add: left_over_world_def)
  have no: "crs_resource_uri (prd_cm_result_config sample_put) = []" by (simp add: sample_put_def no_result_config_def)
  show ?thesis using served_invariant [OF s] ok w no call by simp
qed

end
