(* ===== verification/Result_Transfer.thy ===== *)
theory Result_Transfer
  imports Data_Proxy "HOL-Library.List_Lexorder" "HOL-Library.Char_ord"
begin

text \<open>
  The way of a result from one proxy to another through object storage: \<open>PutResultData\<close> encrypts
  the result into a temporary directory, uploads it and registers the key with the capsule
  manager; \<open>GetInputData\<close> of another proxy fetches the key and the objects and decrypts them. The
  theory composes the directory encryption, the storage client, the capsule manager client and
  the handlers.
\<close>

section \<open>Directories that come into being\<close>

lemma strip_slashes:
  assumes "plain_root a"
  shows "\<exists>y. rev (dropWhile (\<lambda>c. c = CHR ''/'') (rev (a @ ''/'' @ x))) = a @ y \<and> (y = [] \<or> hd y = CHR ''/'')"
proof (cases "\<forall>c \<in> set x. c = CHR ''/''")
  case True
  then have "dropWhile (\<lambda>c. c = CHR ''/'') (rev x @ CHR ''/'' # rev a) = dropWhile (\<lambda>c. c = CHR ''/'') (rev a)"
    by (subst dropWhile_append2) auto
  also have "\<dots> = rev a"
    using assms by (cases a rule: rev_cases) (auto simp: plain_root_def)
  finally show ?thesis by simp
next
  case False
  then have "dropWhile (\<lambda>c. c = CHR ''/'') (rev x @ CHR ''/'' # rev a) =
      dropWhile (\<lambda>c. c = CHR ''/'') (rev x) @ CHR ''/'' # rev a"
    by (auto intro: dropWhile_append1)
  then show ?thesis by simp
qed

lemma parent_below:
  assumes "plain_root a" "relative_file r"
  obtains y where "parent_path (path_append a r) = a @ y" "y = [] \<or> hd y = CHR ''/''"
proof -
  let ?p = "a @ ''/'' @ r"
  have "filename ?p = filename r \<or> length (filename ?p) \<le> length r"
    using assms by (simp add: filename_def takeWhile_append)
  moreover have "length (filename r) \<le> length r"
    using length_takeWhile_le [of "\<lambda>c. c \<noteq> CHR ''/''" "rev r"] by (simp add: filename_def)
  ultimately have "length (filename ?p) \<le> length r" by auto
  then have d: "take (length ?p - length (filename ?p)) ?p = a @ ''/'' @ take (length r - length (filename ?p)) r"
    by (simp add: Suc_diff_le)
  obtain y where y: "rev (dropWhile (\<lambda>c. c = CHR ''/'') (rev (a @ ''/'' @ take (length r - length (filename ?p)) r))) = a @ y"
    "y = [] \<or> hd y = CHR ''/''"
    using strip_slashes [OF assms(1)] by blast
  have "a @ y \<noteq> []" using assms(1) by (simp add: plain_root_def)
  then have "parent_path ?p = a @ y" unfolding parent_path_def Let_def d y(1) by simp
  then show thesis using that y(2) assms by (simp add: path_append_root)
qed

lemma ensure_parent_root:
  assumes "\<forall>d. mkdir_error E d = None" "plain_root a" "relative_file r"
    and "\<forall>p. in_tree a p \<longrightarrow> \<not> path_exists st p" "ensure_parent E (path_append a r) st = Inr st'"
  shows "a \<in> fs_dirs st'"
proof -
  obtain y where y: "parent_path (path_append a r) = a @ y" "y = [] \<or> hd y = CHR ''/''"
    by (rule parent_below [OF assms(2,3)])
  then have "in_tree a (a @ y)" by (cases y) (auto simp: in_tree_def)
  then have st': "st' = st\<lparr>fs_dirs := fs_dirs st \<union> {a @ y} \<union>
      set (map (\<lambda>i. take i (a @ y)) (filter (\<lambda>i. 0 < i \<and> (a @ y) ! i = CHR ''/'') [0..<length (a @ y)]))\<rparr>"
    using assms(1,4,5) y(1) by (simp add: ensure_parent_def create_directories_def)
  show ?thesis
  proof (cases y)
    case Nil
    then show ?thesis using st' by simp
  next
    case (Cons c z)
    then have "length a \<in> set (filter (\<lambda>i. 0 < i \<and> (a @ y) ! i = CHR ''/'') [0..<length (a @ y)])"
      using y(2) assms(2) by (simp add: plain_root_def)
    then have "a \<in> set (map (\<lambda>i. take i (a @ y)) (filter (\<lambda>i. 0 < i \<and> (a @ y) ! i = CHR ''/'') [0..<length (a @ y)]))"
      by (metis (no_types, lifting) append_eq_conv_conj imageI set_map)
    then show ?thesis using st' by simp
  qed
qed

lemma encrypt_walk_root:
  assumes os: "\<forall>d. mkdir_error E d = None" and mid: "plain_root mid" "\<forall>p. in_tree mid p \<longrightarrow> \<not> path_exists st p"
    and rs: "\<forall>r \<in> set rs. relative_file r" "\<exists>r \<in> set rs. is_regular_file st (path_append src r)"
  shows "mid \<in> fs_dirs (snd (snd (encrypt_walk E src mid rs st)))"
  using rs
proof (induction rs)
  case (Cons r rs)
  let ?d = "path_append mid r @ kEncSuffix"
  show ?case
  proof (cases "is_regular_file st (path_append src r)")
    case True
    obtain st' where st': "ensure_parent E ?d st = Inr st'"
      by (rule ensure_parent_ok [OF os, of ?d st]) 
    have d: "?d = path_append mid (r @ kEncSuffix)" using Cons.prems(1) mid(1) by (simp add: path_append_enc)
    have "mid \<in> fs_dirs st'"
      using ensure_parent_root [OF os mid(1) _ mid(2) st' [unfolded d]] Cons.prems(1) by simp
    then have "mid \<in> fs_dirs (snd (snd (encrypt_walk E src mid rs st')))"
      using encrypt_walk_ok [OF os, of st' src mid rs] by auto
    then show ?thesis using True st' by (auto simp: Let_def split: prod.split)
  next
    case False
    then show ?thesis using Cons by (simp add: Let_def)
  qed
qed simp

lemma EncryptToDir_root:
  assumes "\<forall>d. mkdir_error E d = None" "plain_root mid" "\<forall>p. in_tree mid p \<longrightarrow> \<not> path_exists st p"
    and "walk_of st src rs" "rs \<noteq> []" "is_directory st src" "fs_files st src = None"
  shows "mid \<in> fs_dirs (snd (EncryptToDir E F K ivs rs src mid key st))"
proof -
  have "\<forall>r \<in> set rs. relative_file r" "\<exists>r \<in> set rs. is_regular_file st (path_append src r)"
    using assms(4,5) unfolding walk_of_def by (blast, metis list.set_intros(1) neq_Nil_conv)
  from encrypt_walk_root [OF assms(1-3) this] assms(6,7) show ?thesis
    by (auto simp: EncryptToDir_def path_exists_def is_regular_file_def join_tasks_def Let_def split: prod.splits)
qed

text \<open>What an encrypted file decrypts to does not depend on where it stands.\<close>

lemma decrypts_back_moves:
  assumes "os_lets E F" "decrypts_back F K key mid dst r c e" "separate mid' dst'" "relative_file r"
  shows "decrypts_back F K key mid' dst' r c e"
proof -
  let ?m = "path_append mid (r @ kEncSuffix)" and ?d = "path_append dst r"
  have "DecryptFile F K ?m ?d key [?m \<mapsto> e] = (Inr (), [?m \<mapsto> e, ?d \<mapsto> c])"
    using assms(2) by (simp add: decrypts_back_def decrypt_task_def)
  then obtain lens where "parse_file_header F e = Inr lens" "decrypt_blocks F K key e header_len lens = (c, Inr ())"
    using assms(1) by (auto simp: DecryptFile_def os_lets_def Let_def split: if_splits sum.splits prod.splits)
      (metis fun_upd_same option.inject)
  moreover have "path_append mid' (r @ kEncSuffix) \<noteq> path_append dst' r"
    using separate_paths [OF assms(3), of "r @ kEncSuffix" r] assms(4) by simp
  ultimately show ?thesis
    using assms(1) by (simp add: decrypts_back_def decrypt_task_def DecryptFile_def os_lets_def)
qed

section \<open>Keys of objects\<close>

text \<open>Paths made of names, without dots, doubled or outer slashes.\<close>

definition clean_path :: "string \<Rightarrow> bool" where
  "clean_path p \<longleftrightarrow> (\<forall>c \<in> set (split_slash p). path_name c)"

lemma split_slash_Cons: "\<exists>w ws. split_slash p = w # ws"
  by (induction p) (auto split: list.split)

lemma split_slash_slash: "split_slash (p @ CHR ''/'' # q) = split_slash p @ split_slash q"
proof (induction p)
  case (Cons c p)
  obtain w ws where "split_slash p = w # ws" using split_slash_Cons by blast
  then show ?case using Cons by simp
qed simp

lemma join_split: "join_str ''/'' (split_slash p) = p"
proof (induction p)
  case (Cons c p)
  obtain w ws where w: "split_slash p = w # ws" using split_slash_Cons by blast
  then show ?case using Cons by (cases ws) auto
qed simp

lemma clean_normal: "clean_path p \<Longrightarrow> normal_comps p = split_slash p"
proof -
  assume clean: "clean_path p"
  have "fold (\<lambda>c acc. if c = ''..'' \<and> acc \<noteq> [] \<and> hd acc \<noteq> ''..'' then tl acc else c # acc) cs acc = rev cs @ acc"
    if "\<forall>c \<in> set cs. path_name c" for cs acc
    using that by (induction cs arbitrary: acc) (auto simp: path_name_def)
  moreover have "path_comps p = split_slash p"
    using clean by (auto simp: path_comps_def clean_path_def path_name_def intro!: filter_True)
  ultimately show ?thesis using clean by (simp add: normal_comps_def clean_path_def)
qed

lemma common_length_append: "common_length (xs @ ys) xs = length xs"
proof -
  have "zip (xs @ ys) xs = zip xs xs" by (simp add: zip_append1)
  moreover have "takeWhile (\<lambda>(x, y). x = y) (zip xs xs) = zip xs xs"
    by (auto simp: takeWhile_eq_all_conv zip_same)
  ultimately show ?thesis unfolding common_length_def by (metis length_zip min.idem)
qed

lemma relative_path_below:
  assumes "clean_path p" "clean_path r"
  shows "relative_path (p @ ''/'' @ r) p = r"
proof -
  have "clean_path (p @ ''/'' @ r)" using assms by (auto simp: clean_path_def split_slash_slash)
  then have "normal_comps (p @ ''/'' @ r) = split_slash p @ split_slash r" "normal_comps p = split_slash p"
    using assms(1) by (simp_all add: clean_normal split_slash_slash)
  moreover have "split_slash r \<noteq> []" using split_slash_Cons [of r] by auto
  ultimately show ?thesis by (simp add: relative_path_def common_length_append join_split Let_def)
qed

lemma clean_enc: "clean_path r \<Longrightarrow> clean_path (r @ kEncSuffix)"
proof -
  have "\<exists>ws w. split_slash r = ws @ [w] \<and> split_slash (r @ x) = ws @ [w @ x]" if "CHR ''/'' \<notin> set x" for x
  proof (induction r)
    case Nil
    then show ?case using split_slash_name [OF that] by simp
  next
    case (Cons c r)
    then obtain ws w where "split_slash r = ws @ [w]" "split_slash (r @ x) = ws @ [w @ x]" by blast
    then show ?case by (cases ws) (auto intro: exI [of _ "[] # ws"])
  qed
  from this [OF enc_suffix_no_slash] obtain ws w where
    "split_slash r = ws @ [w]" "split_slash (r @ kEncSuffix) = ws @ [w @ kEncSuffix]" by blast
  then show "clean_path r \<Longrightarrow> clean_path (r @ kEncSuffix)"
    by (auto simp: clean_path_def path_name_def kEncSuffix_def)
qed

lemma clean_relative: "clean_path r \<Longrightarrow> r \<noteq> ''.'' \<and> relative_file r \<and> plain_root r"
proof -
  assume clean: "clean_path r"
  have "[] \<notin> set (split_slash r)" "''.'' \<notin> set (split_slash r)"
    using clean by (auto simp: clean_path_def path_name_def)
  moreover from this have ne: "r \<noteq> []" by auto
  moreover have "[] \<in> set (split_slash r)" if "hd r = CHR ''/''"
    using that ne by (cases r) auto
  moreover have "[] \<in> set (split_slash r)" if "last r = CHR ''/''"
    using that ne split_slash_slash [of "butlast r" "[]"] by (metis append_butlast_last_id split_slash.simps(1)
        list.set_intros(1) Un_iff set_append)
  ultimately have r: "r \<noteq> []" "hd r \<noteq> CHR ''/''" "last r \<noteq> CHR ''/''" "r \<noteq> ''.''" by auto
  then have "filename r \<noteq> []" by (cases r rule: rev_cases) (auto simp: filename_def)
  then show ?thesis using r by (simp add: relative_file_def plain_root_def)
qed

lemma object_dest_below:
  assumes "clean_path p" "clean_path r"
  shows "object_dest p dest (path_append p r) = path_append dest r"
  using assms clean_relative [of r] clean_relative [of p] relative_path_below [OF assms]
  by (simp add: object_dest_def path_append_root)

section \<open>Downloads\<close>

definition put_all :: "('k \<Rightarrow> string) \<Rightarrow> ('k \<Rightarrow> bytes) \<Rightarrow> 'k list \<Rightarrow> fs \<Rightarrow> fs" where
  "put_all f C ks fs = fold (\<lambda>k m. m(f k \<mapsto> C k)) ks fs"

lemma put_all_at:
  assumes "inj_on f (set ks)" "k \<in> set ks"
  shows "put_all f C ks fs (f k) = Some (C k)"
  using assms
proof (induction ks rule: rev_induct)
  case (snoc x ks)
  then show ?case by (cases "k = x") (auto simp: put_all_def inj_on_def)
qed simp

lemma put_all_other: "p \<notin> f ` set ks \<Longrightarrow> put_all f C ks fs p = fs p"
  by (induction ks arbitrary: fs) (auto simp: put_all_def)

lemma download_ok:
  assumes "\<forall>d. mkdir_error E d = None" "\<forall>k \<in> set keys. oss_get S conn b k = Inr (C k)"
  shows "\<exists>D. fs_dirs st \<subseteq> D \<and> download_objects E S conn b src dest keys st =
    (Inr (), st\<lparr>fs_dirs := D, fs_files := put_all (object_dest src dest) C keys (fs_files st)\<rparr>)"
  using assms(2)
proof (induction keys arbitrary: st)
  case Nil
  then show ?case by (intro exI [of _ "fs_dirs st"]) (simp add: put_all_def)
next
  case (Cons k keys)
  let ?d = "object_dest src dest k"
  define fs1 where "fs1 = (fs_files st)(?d \<mapsto> C k)"
  have step: "put_all (object_dest src dest) C (k # keys) (fs_files st) = put_all (object_dest src dest) C keys fs1"
    by (simp add: put_all_def fs1_def)
  obtain D where D: "ensure_parent E ?d st = Inr (st\<lparr>fs_dirs := D\<rparr>)" "fs_dirs st \<subseteq> D"
    by (rule ensure_parent_ok [OF assms(1)])
  obtain D' where "D \<subseteq> D'" "download_objects E S conn b src dest keys (st\<lparr>fs_dirs := D, fs_files := fs1\<rparr>) =
    (Inr (), st\<lparr>fs_dirs := D', fs_files := put_all (object_dest src dest) C keys fs1\<rparr>)"
    using Cons.IH [of "st\<lparr>fs_dirs := D, fs_files := fs1\<rparr>"] Cons.prems by auto
  then show ?case
    unfolding step using D Cons.prems by (intro exI [of _ D']) (auto simp: Let_def fs1_def)
qed

lemma download_root:
  assumes "\<forall>d. mkdir_error E d = None" "\<forall>k \<in> set keys. oss_get S conn b k = Inr (C k)" "keys \<noteq> []"
    and "plain_root dest" "\<forall>p. in_tree dest p \<longrightarrow> \<not> path_exists st p"
    and "object_dest src dest (hd keys) = path_append dest r" "relative_file r"
  shows "dest \<in> fs_dirs (snd (download_objects E S conn b src dest keys st))"
proof -
  obtain k ks where keys: "keys = k # ks" using assms(3) by (cases keys) auto
  let ?d = "object_dest src dest k"
  obtain D where D: "ensure_parent E ?d st = Inr (st\<lparr>fs_dirs := D\<rparr>)"
    by (rule ensure_parent_ok [OF assms(1)])
  have "dest \<in> D"
    using ensure_parent_root [OF assms(1,4,7,5), of "st\<lparr>fs_dirs := D\<rparr>"] D assms(6) by (simp add: keys)
  moreover have "\<forall>k \<in> set ks. oss_get S conn b k = Inr (C k)" using assms(2) by (simp add: keys)
  from download_ok [OF assms(1) this, of "st\<lparr>fs_dirs := D, fs_files := (fs_files st)(?d \<mapsto> C k)\<rparr>" src dest]
  obtain D' where "D \<subseteq> D'" "fs_dirs (snd (download_objects E S conn b src dest ks
      (st\<lparr>fs_dirs := D, fs_files := (fs_files st)(?d \<mapsto> C k)\<rparr>))) = D'" by auto
  ultimately show ?thesis using D assms(2) by (auto simp: keys Let_def)
qed

section \<open>The two halves of the way\<close>

text \<open>
  The directory iterator meets every file of the tree once. The store returns what was uploaded:
  the listing has the keys of the upload and no others, and every object its contents.
\<close>

definition lists_trees :: "(fstate \<Rightarrow> string \<Rightarrow> string list) \<Rightarrow> bool" where
  "lists_trees W \<longleftrightarrow> (\<forall>st d. finite (dom (fs_files st)) \<longrightarrow> plain_root d \<longrightarrow> walk_of st d (W st d))"

definition holds_upload :: "oss \<Rightarrow> oss_conn \<Rightarrow> string \<Rightarrow> string \<Rightarrow> upload list \<Rightarrow> bool" where
  "holds_upload S conn bucket pre us \<longleftrightarrow>
     (\<exists>keys. oss_list S conn bucket pre = Inr keys \<and> set keys = (\<lambda>(b, k, c). k) ` set us) \<and>
     (\<forall>(b, k, c) \<in> set us. oss_get S conn bucket k = Inr c)"

definition fresh_dir :: "fstate \<Rightarrow> string \<Rightarrow> bool" where
  "fresh_dir st d \<longleftrightarrow> (\<forall>p. in_tree d p \<longrightarrow> \<not> path_exists st p)"

lemma fresh_removed: "remove_all E d st = Inr st' \<Longrightarrow> fresh_dir st' d"
  by (auto simp: fresh_dir_def remove_all_def path_exists_def is_regular_file_def is_directory_def split: option.splits)

lemma remove_all_ok:
  assumes "rm_error E d = None"
  obtains st' where "remove_all E d st = Inr st'" "\<And>p. fs_files st' p = (if in_tree d p then None else fs_files st p)"
    "dom (fs_files st') \<subseteq> dom (fs_files st)"
  using assms by (intro that [of "projr (remove_all E d st)"]) (auto simp: remove_all_def dom_def split: if_splits)

lemma separate_in_tree:
  assumes "separate a b" "relative_file r"
  shows "\<not> in_tree a (path_append b r)"
proof
  assume "in_tree a (path_append b r)"
  then have "prefix (a @ ''/'') (b @ ''/'' @ r) \<or> prefix (b @ ''/'') (a @ ''/'')"
    using assms by (auto simp: in_tree_def path_append_root separate_def)
  then have "prefix (a @ ''/'') (b @ ''/'') \<or> prefix (b @ ''/'') (a @ ''/'')"
    by (metis append_assoc prefixI prefix_same_cases)
  then show False using assms(1) by (simp add: separate_def)
qed

text \<open>Encryption into a directory that does not exist yet.\<close>

lemma encrypt_fresh:
  assumes ok: "trip_ok E F K ivs key src tmp dst"
    and tree: "is_directory st src" "fs_files st src = None" "finite (dom (fs_files st))" "walk_of st src rs" "rs \<noteq> []"
    and fresh: "fresh_dir st tmp"
    and files: "\<forall>r \<in> set rs. \<forall>c. fs_files st (path_append src r) = Some c \<longrightarrow> c \<noteq> [] \<and> length c < 2 ^ 63"
    and enc: "EncryptToDir E F K ivs rs src tmp key st = (res, st1)"
  shows "res = Inr ()" "is_directory st1 tmp" "fs_files st1 tmp = None" "finite (dom (fs_files st1))"
    and "relative_file r \<Longrightarrow> fs_files st1 (path_append tmp r) \<noteq> None \<longleftrightarrow> r \<in> (\<lambda>r. r @ kEncSuffix) ` set rs"
    and "\<not> in_tree tmp p \<Longrightarrow> fs_files st1 p = fs_files st p"
proof -
  let ?out = "(\<lambda>r. path_append tmp (r @ kEncSuffix)) ` set rs"
  note e = encrypt_tree [OF ok tree(1,2,4) files enc]
  have pr: "plain_root tmp" using ok by (simp add: trip_ok_def separate_def)
  have rel: "\<forall>r \<in> set rs. relative_file r" using tree(4) by (simp add: walk_of_def)
  have os: "\<forall>d. mkdir_error E d = None" using ok by (simp add: trip_ok_def os_lets_def)
  have none: "fs_files st p = None" if "in_tree tmp p" for p
    using fresh that by (auto simp: fresh_dir_def path_exists_def is_regular_file_def)
  show "res = Inr ()" by (rule e(1))
  show "is_directory st1 tmp"
    using EncryptToDir_root [OF os pr _ tree(4,5,1,2), of F K ivs key] fresh enc
    by (simp add: fresh_dir_def is_directory_def)
  have "tmp \<notin> ?out" using rel path_append_root [OF pr] by auto
  then show "fs_files st1 tmp = None" using e(4) none [of tmp] by (simp add: in_tree_def)
  have "dom (fs_files st1) \<subseteq> dom (fs_files st) \<union> ?out"
    using e(4) by (auto simp: domIff)
  then show "finite (dom (fs_files st1))" using tree(3) by (meson finite_Un finite_imageI finite_set finite_subset)
  show "fs_files st1 (path_append tmp r) \<noteq> None \<longleftrightarrow> r \<in> (\<lambda>r. r @ kEncSuffix) ` set rs" if r: "relative_file r"
  proof (cases "r \<in> (\<lambda>r. r @ kEncSuffix) ` set rs")
    case True
    then show ?thesis using e(3) by auto
  next
    case False
    then have "path_append tmp r \<notin> ?out" using path_append_inj [OF pr r relative_file_enc] rel by blast
    then show ?thesis using e(4) none [OF in_tree_append [OF pr r]] False by simp
  qed
  show "\<not> in_tree tmp p \<Longrightarrow> fs_files st1 p = fs_files st p"
    using e(4) [of p] in_tree_append [OF pr relative_file_enc] rel by blast
qed

lemma store_result_uploads:
  assumes ok: "trip_ok (pe_os P) (pe_io P) (pe_gcm P) (pe_ivs P) key src tmp dst"
    and req: "prd_source_path request = src" "prd_s3_config request = Some s3" "tmp = GenTempDir (pe_ext P) src"
    and tree: "is_directory st src" "fs_files st src = None" "finite (dom (fs_files st))" "pe_walk P st src \<noteq> []"
    and walks: "lists_trees (pe_walk P)" and fresh: "fresh_dir st tmp"
    and files: "\<forall>r \<in> set (pe_walk P st src). \<forall>c. fs_files st (path_append src r) = Some c \<longrightarrow> c \<noteq> [] \<and> length c < 2 ^ 63"
    and put: "\<And>conn b k c. oss_put (pe_oss P) conn b k c = None" and rm: "rm_error (pe_os P) tmp = None"
  obtains st' X rs1 where
      "store_result P request key st = (Inr (), st', map (\<lambda>r. (s3_bucket s3, path_append (s3_path s3) r, X r)) rs1)"
    and "set rs1 = (\<lambda>r. r @ kEncSuffix) ` set (pe_walk P st src)"
    and "\<forall>r \<in> set (pe_walk P st src). \<exists>c. fs_files st (path_append src r) = Some c \<and>
      decrypts_back (pe_io P) (pe_gcm P) key tmp dst r c (X (r @ kEncSuffix))"
    and "fs_files st' = (\<lambda>p. if in_tree tmp p then None else fs_files st p)"
proof -
  let ?rs = "pe_walk P st src"
  have pr: "plain_root src" "plain_root tmp" using ok by (simp_all add: trip_ok_def separate_def)
  have walk: "walk_of st src ?rs" using walks tree(3) pr(1) by (simp add: lists_trees_def)
  then have rel: "\<forall>r \<in> set ?rs. relative_file r" by (simp add: walk_of_def)
  obtain res st1 where enc: "EncryptToDir (pe_os P) (pe_io P) (pe_gcm P) (pe_ivs P) ?rs src tmp key st = (res, st1)"
    by fastforce
  note f = encrypt_fresh [OF ok tree(1-3) walk tree(4) fresh files enc]
  note e = encrypt_tree(3) [OF ok tree(1,2) walk files enc]
  let ?rs1 = "pe_walk P st1 tmp"
  have walk1: "walk_of st1 tmp ?rs1" using walks f(4) pr(2) by (simp add: lists_trees_def)
  have rs1: "set ?rs1 = (\<lambda>r. r @ kEncSuffix) ` set ?rs"
    using walk1 rel f(5) unfolding walk_of_def is_regular_file_def by (auto simp del: append_same_eq)
  define X where "X r = the (fs_files st1 (path_append tmp r))" for r
  have all: "filter (\<lambda>r. fs_files st1 (path_append tmp r) \<noteq> None) ?rs1 = ?rs1"
    using walk1 unfolding walk_of_def is_regular_file_def by (intro filter_True) blast
  have upl: "upload_entries (pe_oss P) conn (s3_bucket s3) tmp (s3_path s3) st1 ?rs1 =
      (Inr (), map (\<lambda>r. (s3_bucket s3, path_append (s3_path s3) r, X r)) ?rs1)" for conn
    unfolding upload_entries_all [OF put] all X_def ..
  obtain st2 where "remove_all (pe_os P) tmp st1 = Inr st2"
    "\<And>p. fs_files st2 p = (if in_tree tmp p then None else fs_files st1 p)"
    using remove_all_ok [where E = "pe_os P" and d = tmp and st = st1] rm by metis
  moreover from this(1) have "store_result P request key st =
      (Inr (), st2, map (\<lambda>r. (s3_bucket s3, path_append (s3_path s3) r, X r)) ?rs1)"
    using req(1,2) enc f(1-3) upl
    by (simp add: store_result_def UploadToOss_def path_exists_def Let_def flip: req(3))
  moreover have "\<exists>c. fs_files st (path_append src r) = Some c \<and>
      decrypts_back (pe_io P) (pe_gcm P) key tmp dst r c (X (r @ kEncSuffix))" if r: "r \<in> set ?rs" for r
    using e [OF r] by (auto simp: X_def)
  ultimately show thesis using f(6) rs1 by (intro that) (auto simp: fun_eq_iff)
qed

text \<open>The download of an uploaded tree into a directory that does not exist yet.\<close>

lemma download_fresh:
  assumes os: "\<forall>d. mkdir_error E d = None" and tmp: "plain_root tmp" "fresh_dir st tmp" and fin: "finite (dom (fs_files st))"
    and p: "clean_path p" and rs: "\<forall>r \<in> set rs. clean_path r" "rs \<noteq> []"
    and list: "oss_list S (GetOssClient ep ak sk tok) b p = Inr keys" "set keys = path_append p ` set rs"
    and get: "\<forall>r \<in> set rs. oss_get S (GetOssClient ep ak sk tok) b (path_append p r) = Inr (X r)"
  obtains st1 where "DownloadFromOss E S ep b p tmp ak sk tok st = (Inr (), st1)" "is_directory st1 tmp"
    "fs_files st1 tmp = None" "finite (dom (fs_files st1))"
    "\<And>r. relative_file r \<Longrightarrow> is_regular_file st1 (path_append tmp r) \<longleftrightarrow> r \<in> set rs"
    "\<And>r. r \<in> set rs \<Longrightarrow> fs_files st1 (path_append tmp r) = Some (X r)"
    "\<And>q. \<not> in_tree tmp q \<Longrightarrow> fs_files st1 q = fs_files st q"
proof -
  let ?conn = "GetOssClient ep ak sk tok" and ?dest = "object_dest p tmp"
  have rel: "relative_file r" if "r \<in> set rs" for r using clean_relative rs(1) that by blast
  have dest: "?dest (path_append p r) = path_append tmp r" if "r \<in> set rs" for r
    using object_dest_below [OF p] rs(1) that by blast
  have pinj: "inj_on (path_append p) (set rs)"
    using path_append_inj clean_relative [OF p] rel by (auto simp: inj_on_def)
  define C where "C k = X (the_inv_into (set rs) (path_append p) k)" for k
  have C: "C (path_append p r) = X r" if "r \<in> set rs" for r
    unfolding C_def using the_inv_into_f_f [OF pinj that] by simp
  have ok: "\<forall>k \<in> set keys. oss_get S ?conn b k = Inr (C k)" using get C by (simp add: list(2))
  have ne: "keys \<noteq> []" using list(2) rs(2) by auto
  let ?fs = "put_all ?dest C keys (fs_files st)"
  obtain D where D: "download_objects E S ?conn b p tmp keys st = (Inr (), st\<lparr>fs_dirs := D, fs_files := ?fs\<rparr>)"
    using download_ok [OF os ok] by blast
  have out: "?dest ` set keys = path_append tmp ` set rs" using dest by (auto simp: list(2) image_image)
  have inj: "inj_on ?dest (set keys)"
    using path_append_inj [OF tmp(1)] rel dest by (auto simp: list(2) inj_on_def)
  have at: "?fs (path_append tmp r) = Some (X r)" if "r \<in> set rs" for r
    using put_all_at [OF inj, of "path_append p r" C "fs_files st"] that dest C by (simp add: list(2))
  have other: "?fs q = fs_files st q" if "q \<notin> path_append tmp ` set rs" for q
    using put_all_other [of q ?dest keys] that unfolding out by blast
  have none: "fs_files st q = None" if "in_tree tmp q" for q
    using tmp(2) that by (auto simp: fresh_dir_def path_exists_def is_regular_file_def)
  obtain r where "hd keys = path_append p r" "r \<in> set rs" using ne list(2) by (metis hd_in_set imageE)
  then have "tmp \<in> D"
    using download_root [OF os ok ne tmp(1) tmp(2) [unfolded fresh_dir_def], of p r] D dest rel by simp
  moreover have "tmp \<notin> path_append tmp ` set rs" using rel path_append_root [OF tmp(1)] by auto
  then have "?fs tmp = None" using other none [of tmp] by (simp add: in_tree_def)
  moreover have "finite (dom ?fs)"
    by (rule finite_subset [of _ "dom (fs_files st) \<union> path_append tmp ` set rs"]) (use other fin in \<open>auto simp: domIff\<close>)
  moreover have "?fs (path_append tmp r) \<noteq> None \<longleftrightarrow> r \<in> set rs" if r: "relative_file r" for r
  proof (cases "r \<in> set rs")
    case False
    then have "path_append tmp r \<notin> path_append tmp ` set rs" using path_append_inj [OF tmp(1) r] rel by blast
    then show ?thesis using other none [OF in_tree_append [OF tmp(1) r]] False by simp
  qed (use at in simp)
  moreover have "?fs q = fs_files st q" if "\<not> in_tree tmp q" for q
    using other [of q] in_tree_append [OF tmp(1) rel] that by blast
  moreover have "DownloadFromOss E S ep b p tmp ak sk tok st = (Inr (), st\<lparr>fs_dirs := D, fs_files := ?fs\<rparr>)"
    using list(1) ne D by (simp add: DownloadFromOss_def)
  ultimately show thesis
    using at by (intro that [of "st\<lparr>fs_dirs := D, fs_files := ?fs\<rparr>"]) (auto simp: is_directory_def is_regular_file_def)
qed

lemma get_input_data_decrypts:
  assumes os: "os_lets (pe_os P) (pe_io P)" and sep: "separate tmp dst" and walks: "lists_trees (pe_walk P)"
    and req: "gid_dest_path request = dst" "gid_s3_config request = Some s3" "tmp = GenTempDir (pe_ext P) dst"
    and key: "input_data_key P px request = Inr key"
    and p: "clean_path (s3_path s3)" and rs: "\<forall>r \<in> set rs. clean_path r" "rs \<noteq> []"
    and S: "holds_upload (pe_oss P) (GetOssClient (s3_endpoint s3) (s3_access_key_id s3) (s3_access_key_secret s3)
        (s3_sts_token s3)) (s3_bucket s3) (s3_path s3) (map (\<lambda>r. (b, path_append (s3_path s3) r, X r)) rs1)"
    and up: "set rs1 = (\<lambda>r. r @ kEncSuffix) ` set rs"
      "\<And>r. r \<in> set rs \<Longrightarrow> decrypts_back (pe_io P) (pe_gcm P) key tmp dst r (C r) (X (r @ kEncSuffix))"
    and fin: "finite (dom (fs_files st))" and rm: "rm_error (pe_os P) tmp = None"
  obtains st' where "get_input_data P px request st = (Inr (), st')"
    "\<forall>r \<in> set rs. fs_files st' (path_append dst r) = Some (C r)"
    "\<forall>q. in_tree tmp q \<longrightarrow> fs_files st' q = None"
proof -
  let ?conn = "GetOssClient (s3_endpoint s3) (s3_access_key_id s3) (s3_access_key_secret s3) (s3_sts_token s3)"
  have tmp: "plain_root tmp" using sep by (simp add: separate_def)
  have mk: "\<forall>d. mkdir_error (pe_os P) d = None" using os by (simp add: os_lets_def)
  obtain keys where keys: "oss_list (pe_oss P) ?conn (s3_bucket s3) (s3_path s3) = Inr keys"
    "set keys = path_append (s3_path s3) ` set rs1"
    using S by (auto simp: holds_upload_def image_image)
  have get: "\<forall>r \<in> set rs1. oss_get (pe_oss P) ?conn (s3_bucket s3) (path_append (s3_path s3) r) = Inr (X r)"
    using S by (auto simp: holds_upload_def)
  have clean: "\<forall>r \<in> set rs1. clean_path r" "rs1 \<noteq> []" using rs up(1) clean_enc by auto
  obtain st1 where st1: "remove_all (pe_os P) tmp st = Inr st1" "finite (dom (fs_files st1))"
    using remove_all_ok [where E = "pe_os P" and d = tmp and st = st] rm finite_subset [OF _ fin] by metis
  obtain st2 where st2: "DownloadFromOss (pe_os P) (pe_oss P) (s3_endpoint s3) (s3_bucket s3) (s3_path s3) tmp
      (s3_access_key_id s3) (s3_access_key_secret s3) (s3_sts_token s3) st1 = (Inr (), st2)" "is_directory st2 tmp"
    "fs_files st2 tmp = None" "finite (dom (fs_files st2))"
    "\<And>r. relative_file r \<Longrightarrow> is_regular_file st2 (path_append tmp r) \<longleftrightarrow> r \<in> set rs1"
    "\<And>r. r \<in> set rs1 \<Longrightarrow> fs_files st2 (path_append tmp r) = Some (X r)"
    using download_fresh [OF mk tmp fresh_removed [OF st1(1)] st1(2) p clean keys get] by metis
  let ?rs2 = "pe_walk P st2 tmp"
  have walk: "walk_of st2 tmp ?rs2" using walks st2(4) tmp by (simp add: lists_trees_def)
  obtain res st3 where dec: "DecryptToDir (pe_os P) (pe_io P) (pe_gcm P) ?rs2 tmp dst key st2 = (res, st3)" by fastforce
  have rel: "\<forall>r \<in> set rs. relative_file r" using rs(1) clean_relative by blast
  have each: "\<exists>x. fs_files st2 (path_append tmp (r @ kEncSuffix)) = Some x \<and>
      decrypts_back (pe_io P) (pe_gcm P) key tmp dst r (C r) x" if "r \<in> set rs" for r
    using st2(6) [of "r @ kEncSuffix"] up that by auto
  have "res = Inr ()" "\<And>r. r \<in> set rs \<Longrightarrow> fs_files st3 (path_append dst r) = Some (C r)"
    using decrypt_tree [where C = C, OF os sep rel st2(2,3) walk _ each dec] st2(5) up(1) by auto
  moreover obtain st4 where "remove_all (pe_os P) tmp st3 = Inr st4"
    "\<And>q. fs_files st4 q = (if in_tree tmp q then None else fs_files st3 q)"
    using remove_all_ok [where E = "pe_os P" and d = tmp and st = st3] rm by metis
  ultimately show thesis
    using that [of st4] req(1,2) key st1(1) st2(1) dec separate_in_tree [OF sep] rel
    by (simp add: get_input_data_def Let_def flip: req(3))
qed

section \<open>The whole way\<close>

text \<open>
  A proxy that can work on a directory \<open>d\<close>: its libraries and its operating system do what they
  document, and \<open>d\<close> and its temporary directory do not lie in one another.
\<close>

definition works_on :: "px_env \<Rightarrow> string \<Rightarrow> bool" where
  "works_on P d \<longleftrightarrow>
     yacl_io_doc (pe_io P) \<and> gcm_doc (pe_gcm P) \<and> os_lets (pe_os P) (pe_io P) \<and> lists_trees (pe_walk P) \<and>
     (\<forall>p. ivs_ok (pe_ivs P p)) \<and> length (pe_rand_key P) = kKeyBytes \<and>
     (\<forall>k. length k = kKeyBytes \<longrightarrow> base64_decode (pe_ext P) (base64_encode (pe_ext P) k) = Some k) \<and>
     separate d (GenTempDir (pe_ext P) d) \<and> rm_error (pe_os P) (GenTempDir (pe_ext P) d) = None"

definition same_libraries :: "px_env \<Rightarrow> px_env \<Rightarrow> bool" where
  "same_libraries P P' \<longleftrightarrow> pe_io P = pe_io P' \<and> pe_gcm P = pe_gcm P' \<and> pe_ext P = pe_ext P'"

text \<open>A tree that can be encrypted: files with contents, under plain names.\<close>

definition result_tree :: "px_env \<Rightarrow> fstate \<Rightarrow> string \<Rightarrow> bool" where
  "result_tree P st d \<longleftrightarrow>
     is_directory st d \<and> fs_files st d = None \<and> finite (dom (fs_files st)) \<and> pe_walk P st d \<noteq> [] \<and>
     (\<forall>r \<in> set (pe_walk P st d). clean_path r \<and>
        (\<forall>c. fs_files st (path_append d r) = Some c \<longrightarrow> c \<noteq> [] \<and> length c < 2 ^ 63))"

text \<open>The capsule manager hands out a data key for a resource.\<close>

definition manager_returns :: "px_env \<Rightarrow> proxy \<Rightarrow> CmResourceConfig \<Rightarrow> string \<Rightarrow> bool" where
  "manager_returns P px cfg key_b64 \<longleftrightarrow>
     (\<exists>rr client keys.
        GenResourceRequest (pe_ext P) (cm_jose (pe_cm P)) cfg (px_cert px) = Inr rr \<and>
        CapsuleManagerClient (pe_cm P) (choose_endpoint px (crc_endpoint cfg)) = Inr client \<and>
        GetDataKeys (pe_cm P) client (px_plat px) (px_cert px) (px_private_key px) rr =
          Inr (\<lparr>dk_data_key_b64 = key_b64\<rparr> # keys))"

lemma separate_sym: "separate a b \<Longrightarrow> separate b a"
  by (simp add: separate_def)

lemma register_key_body:
  "register_key P px cfg key = Inr ks \<Longrightarrow> crs_resource_uri cfg \<noteq> [] \<Longrightarrow>
   \<exists>body. ks = [body] \<and> rk_data_key_b64 body = base64_encode (pe_ext P) key"
  by (auto simp: register_key_def exn_simps Let_def)

lemma works_trip:
  assumes "works_on P d" "data_key_ok key"
  shows "trip_ok (pe_os P) (pe_io P) (pe_gcm P) (pe_ivs P) key d (GenTempDir (pe_ext P) d) d"
  using assms separate_sym by (simp add: works_on_def trip_ok_def)


text \<open>
  An instance: an iterator that lists the files in order, a store that answers from the list of
  uploads.
\<close>

definition tree_walk :: "fstate \<Rightarrow> string \<Rightarrow> string list" where
  "tree_walk st d = sorted_list_of_set {r. relative_file r \<and> is_regular_file st (path_append d r)}"

lemma lists_tree_walk: "lists_trees tree_walk"
proof -
  have "walk_of st d (tree_walk st d)" if fin: "finite (dom (fs_files st))" and d: "plain_root d" for st d
  proof -
    have "finite {r. relative_file r \<and> is_regular_file st (path_append d r)}"
      by (rule inj_on_finite [OF _ _ fin, where f = "path_append d"])
        (auto simp: inj_on_def path_append_inj [OF d] is_regular_file_def)
    then show ?thesis by (simp add: walk_of_def tree_walk_def)
  qed
  then show ?thesis by (simp add: lists_trees_def)
qed

definition store_of :: "upload list \<Rightarrow> oss" where
  "store_of us =
     \<lparr>oss_list = (\<lambda>_ b pre. Inr (map (\<lambda>(b, k, c). k) (filter (\<lambda>(b', k, c). b' = b \<and> prefix pre k) us))),
      oss_get = (\<lambda>_ b k. case find (\<lambda>(b', k', c). b' = b \<and> k' = k) us of
                  Some (_, _, c) \<Rightarrow> Inr c | None \<Rightarrow> Inl (''NoSuchKey'', [])),
      oss_put = (\<lambda>_ _ _ _. None)\<rparr>"

lemma store_of_holds:
  assumes "inj_on (path_append p) (set rs)" "\<forall>r \<in> set rs. prefix p (path_append p r)"
  shows "holds_upload (store_of (map (\<lambda>r. (b, path_append p r, X r)) rs)) conn b p
    (map (\<lambda>r. (b, path_append p r, X r)) rs)"
proof -
  let ?us = "map (\<lambda>r. (b, path_append p r, X r)) rs"
  have "filter (\<lambda>(b', k, c). b' = b \<and> prefix p k) ?us = ?us" using assms(2) by (intro filter_True) auto
  moreover have "find (\<lambda>(b', k', c). b' = b \<and> k' = path_append p r) ?us = Some (b, path_append p r, X r)"
    if "r \<in> set rs" for r
    using assms(1) that by (induction rs) (auto simp: inj_on_def)
  ultimately show ?thesis by (auto simp: holds_upload_def store_of_def image_image)
qed

definition trip_px :: px_env where
  "trip_px = sample_px\<lparr>pe_walk := tree_walk\<rparr>"

definition trip_world :: world where
  "trip_world = \<lparr>w_st = \<lparr>fs_files = [''s/a'' \<mapsto> [1, 2]], fs_dirs = {''s''}, fs_others = {}\<rparr>, w_uploads = [], w_keys = []\<rparr>"

definition trip_s3 :: S3Config where
  "trip_s3 = \<lparr>s3_endpoint = ''oss'', s3_bucket = ''b'', s3_path = ''out'', s3_access_key_id = [],
     s3_access_key_secret = [], s3_sts_token = []\<rparr>"

definition trip_put :: PutResultDataRequest where
  "trip_put = \<lparr>prd_source_path = ''s'', prd_data_key_b64 = [], prd_s3_config = Some trip_s3, prd_local_fs_path = None,
     prd_cm_result_config = \<lparr>crs_endpoint = [], crs_scope = ''scope'', crs_resource_uri = ''uri'', crs_ancestor_uuids = [''id'']\<rparr>\<rparr>"

definition trip_get :: GetInputDataRequest where
  "trip_get = \<lparr>gid_dest_path = ''d'', gid_data_key_b64 = None,
     gid_cm_resource_config = Some \<lparr>crc_endpoint = [], crc_scope = ''scope'', crc_op_name = ''op'', crc_resource_uri = ''uri'',
       crc_columns = [], crc_global_attrs = []\<rparr>,
     gid_s3_config = Some trip_s3, gid_local_fs_path = None\<rparr>"

lemma trip_px_simps [simp]:
  "pe_os trip_px = sample_os" "pe_io trip_px = sample_io" "pe_gcm trip_px = sample_gcm" "pe_walk trip_px = tree_walk"
  "pe_ivs trip_px = (\<lambda>_ _. zeros 12)" "pe_rand_key trip_px = zeros 16" "pe_cm trip_px = sample_cm"
  "pe_ext trip_px = pe_ext sample_px" "oss_put (pe_oss trip_px) conn b k c = None"
  by (simp_all add: trip_px_def sample_px_def)

lemma sample_manager_client:
  "CapsuleManagerClient sample_cm ep = Inr \<lparr>cl_stub = ep, capsule_manager_cert = ''manager''\<rparr>"
  by (simp add: CapsuleManagerClient_def GetRaCert_def sample_cm_def enforce_grpc_def grpc_ok_def VerifySfResponseStatus_def)

lemma sample_create_key:
  "CreateResultDataKey sample_cm \<lparr>cl_stub = ep, capsule_manager_cert = ''manager''\<rparr> ''sim'' ''cert'' ''key'' body = Inr ()"
proof -
  let ?cl = "\<lparr>cl_stub = ep, capsule_manager_cert = ''manager''\<rparr>"
  let ?m = "\<lparr>crk_report = None, crk_body = body\<rparr>"
  have ready: "client_ready sample_cm ?cl ''key''" using sample_client_ready by (simp add: client_ready_def)
  have json: "json_of_result_key sample_cm ?m = Inr ''result''" by (simp add: sample_cm_def)
  obtain req where "GenEncryptedRequest (ge_ext (cm_gen sample_cm)) (cm_gcm sample_cm) (cm_jose sample_cm) (cm_cek sample_cm)
      (cm_iv sample_cm) (json_of_result_key sample_cm) ?m ''key'' (cm_der sample_cm) ''manager'' True = Inr req"
    by (rule request_sealed [where to_json = "json_of_result_key sample_cm" and m = ?m, OF ready json]) simp
  moreover have "rpc_CreateResultDataKey sample_cm ep x = (\<lparr>grpc_code = 0, grpc_message = []\<rparr>,
      \<lparr>res_status = \<lparr>st_code = 0, st_message = []\<rparr>, res_message = req_message (projr sample_answer)\<rparr>)" for x
    by (simp add: sample_cm_def)
  ultimately show ?thesis
    by (simp add: CreateResultDataKey_def require_cert_def kTeePlatSim_def enforce_grpc_def grpc_ok_def
        VerifySfResponseStatus_def Let_def)
qed

lemma trip_tmp: "GenTempDir (pe_ext sample_px) d = ''/tmp/T''"
  by (simp add: GenTempDir_def sample_px_def kTempDir_def path_append_def ref_ext_def)

lemma trip_works: "works_on trip_px ''s''" "works_on trip_px ''d''"
  by (simp_all add: works_on_def trip_tmp sample_io_doc sample_gcm_doc sample_os_lets lists_tree_walk sample_ivs
      kKeyBytes_def separate_def plain_root_def)
    (simp_all add: sample_os_def sample_px_def ref_ext_def)

lemma trip_walk: "tree_walk (w_st trip_world) ''s'' = [''a'']"
proof -
  have "{r. relative_file r \<and> is_regular_file (w_st trip_world) (path_append ''s'' r)} = {''a''}"
    by (auto simp: trip_world_def is_regular_file_def path_append_root plain_root_def relative_file_def filename_def)
  then show ?thesis by (simp add: tree_walk_def)
qed

lemma trip_tree: "result_tree trip_px (w_st trip_world) ''s''" "fresh_dir (w_st trip_world) ''/tmp/T''"
proof -
  have "path_name ''a''" by (simp add: path_name_def)
  then have "clean_path ''a''" by (simp add: clean_path_def)
  then show "result_tree trip_px (w_st trip_world) ''s''"
    using trip_walk by (simp add: result_tree_def path_append_def) (simp add: trip_world_def is_directory_def)
  show "fresh_dir (w_st trip_world) ''/tmp/T''"
    by (auto simp: fresh_dir_def trip_world_def path_exists_def is_regular_file_def is_directory_def in_tree_def)
qed

lemma trip_manager: "manager_returns (trip_px\<lparr>pe_oss := S\<rparr>) sample_self (the (gid_cm_resource_config trip_get)) (bytes_str (zeros 16))"
proof -
  let ?cl = "\<lparr>cl_stub = ''ep'', capsule_manager_cert = ''manager''\<rparr>"
  have "GetDataKeys sample_cm ?cl ''sim'' ''cert'' ''key'' rr = Inr sample_keys" for rr
  proof (rule data_keys_delivered [OF sample_client_ready _ sample_answers, where s = "''keys''" and report = None])
    show "rsa_pair (cm_jose sample_cm) ''cert'' ''key''" by (simp add: sample_cm_def sample_rsa_pair)
  qed (simp_all add: kContentKeyBytes_def kIvBytes_def sample_cm_def resource_report_def kTeePlatSim_def)
  moreover have "\<exists>rr. GenResourceRequest (pe_ext sample_px) (cm_jose sample_cm) cfg ''cert'' = Inr rr" for cfg
    by (simp add: GenResourceRequest_def GeneratePartyId_def sample_cm_def sample_jose_def)
  ultimately show ?thesis
    by (simp add: manager_returns_def trip_get_def sample_self_def choose_endpoint_def sample_manager_client sample_keys_def)
qed

text \<open>The uploads of the sample call.\<close>

lemma trip_registers:
  "\<exists>body. register_key trip_px sample_self (prd_cm_result_config trip_put) (zeros 16) = Inr [body] \<and>
     rk_data_key_b64 body = bytes_str (zeros 16)"
  by (simp add: register_key_def trip_put_def sample_manager_client sample_create_key sample_self_def choose_endpoint_def
      Let_def) (simp add: sample_px_def)


section \<open>What is uploaded\<close>

lemma upload_entries_sound:
  "(b, k, c) \<in> set (snd (upload_entries S conn bucket t d st rs)) \<Longrightarrow>
   b = bucket \<and> (\<exists>r \<in> set rs. k = path_append d r \<and> fs_files st (path_append t r) = Some c)"
proof (induction rs)
  case (Cons r rs)
  then show ?case
    by (cases "oss_put S conn bucket (path_append d r) (the (fs_files st (path_append t r)))")
      (auto simp: upload_one_def YACL_THROW_def split: option.splits prod.splits)
qed simp

lemma encrypted_contents:
  assumes os: "os_lets E F" and walk: "walk_of st src rs" and sep: "separate src tmp"
    and dir: "is_directory st src" "fs_files st src = None"
    and enc: "EncryptToDir E F K ivs rs src tmp key st = (res, st1)" and p: "fs_files st1 p \<noteq> fs_files st p"
  shows "\<exists>r \<in> set rs. p = path_append tmp (r @ kEncSuffix) \<and>
    fs_files st1 p = snd (EncryptFile F K (ivs (path_append src r)) (path_append src r) p key (fs_files st)) p"
proof -
  let ?ts = "enc_tasks src tmp rs"
  have rel: "distinct rs" "\<forall>r \<in> set rs. relative_file r" using walk by (simp_all add: walk_of_def)
  have pr: "plain_root tmp" using sep by (simp add: separate_def)
  obtain outs fs' where run: "run_tasks (encrypt_task F K ivs key) ?ts (fs_files st) = (outs, fs')" by fastforce
  then have st1: "fs_files st1 = fs'"
    by (rule EncryptToDir_directory [OF os walk dir]) (use enc in auto)
  have "p \<in> snd ` set ?ts"
    using p st1 run enc_task.run_tasks_other [of p ?ts F K ivs key "fs_files st"] by auto
  then obtain r where r: "r \<in> set rs" "p = path_append tmp r @ kEncSuffix" "(path_append src r, p) \<in> set ?ts"
    by (auto simp: enc_tasks_def)
  then show ?thesis
    using enc_task.run_tasks_file [OF enc_tasks_independent [OF sep rel] r(3), of F K ivs key "fs_files st"] run st1
      rel(2) path_append_enc [OF pr]
    by (auto simp: encrypt_task_def)
qed

lemma store_result_ciphertext:
  assumes os: "os_lets (pe_os P) (pe_io P)" "lists_trees (pe_walk P)" and sep: "separate src tmp"
    and req: "prd_source_path request = src" "prd_s3_config request = Some s3" "tmp = GenTempDir (pe_ext P) src"
    and st: "is_directory st src" "fs_files st src = None" "finite (dom (fs_files st))" "fresh_dir st tmp"
    and store: "store_result P request key st = (res, st', us)" and u: "(b, k, c) \<in> set us"
  shows "b = s3_bucket s3 \<and> (\<exists>r \<in> set (pe_walk P st src). k = path_append (s3_path s3) (r @ kEncSuffix) \<and>
    snd (EncryptFile (pe_io P) (pe_gcm P) (pe_ivs P (path_append src r)) (path_append src r)
      (path_append tmp (r @ kEncSuffix)) key (fs_files st)) (path_append tmp (r @ kEncSuffix)) = Some c)"
proof -
  let ?rs = "pe_walk P st src"
  have pr: "plain_root src" "plain_root tmp" using sep by (simp_all add: separate_def)
  have walk: "walk_of st src ?rs" using os(2) st(3) pr(1) by (simp add: lists_trees_def)
  obtain res1 st1 where enc: "EncryptToDir (pe_os P) (pe_io P) (pe_gcm P) (pe_ivs P) ?rs src tmp key st = (res1, st1)"
    by fastforce
  note contents = encrypted_contents [OF os(1) walk sep st(1,2) enc]
  let ?rs1 = "pe_walk P st1 tmp"
  have rel: "\<forall>r \<in> set ?rs. relative_file r" using walk by (simp add: walk_of_def)
  have "dom (fs_files st1) \<subseteq> dom (fs_files st) \<union> (\<lambda>r. path_append tmp (r @ kEncSuffix)) ` set ?rs"
    using contents by (auto simp: domIff) (metis imageI option.distinct(1))
  then have "finite (dom (fs_files st1))" using st(3) by (meson finite_Un finite_imageI finite_set finite_subset)
  then have rel1: "\<forall>r \<in> set ?rs1. relative_file r" using os(2) pr(2) by (simp add: lists_trees_def walk_of_def)
  have none: "fs_files st p = None" if "in_tree tmp p" for p
    using st(4) that by (auto simp: fresh_dir_def path_exists_def is_regular_file_def)
  have tmp: "fs_files st1 tmp = None"
    using contents [of tmp] none [of tmp] path_append_root [OF pr(2)] rel by (cases "fs_files st1 tmp") (auto simp: in_tree_def)
  have "(b, k, c) \<in> set (snd (upload_entries (pe_oss P) (GetOssClient (s3_endpoint s3) (s3_access_key_id s3)
      (s3_access_key_secret s3) (s3_sts_token s3)) (s3_bucket s3) tmp (s3_path s3) st1 ?rs1))"
    using store u enc tmp req
    by (auto simp: store_result_def UploadToOss_def YACL_THROW_def Let_def split: sum.splits prod.splits if_splits)
  from upload_entries_sound [OF this] obtain r where r: "b = s3_bucket s3" "r \<in> set ?rs1" "k = path_append (s3_path s3) r"
    "fs_files st1 (path_append tmp r) = Some c" by blast
  with rel1 contents [of "path_append tmp r"] none [OF in_tree_append [OF pr(2)], of r] path_append_inj [OF pr(2)] relative_file_enc rel
  show ?thesis by (metis option.distinct(1))
qed

text \<open>An object that is the output of \<open>EncryptFile\<close> for a file of the result, where the request wants it.\<close>

definition encrypted_object :: "px_env \<Rightarrow> PutResultDataRequest \<Rightarrow> S3Config \<Rightarrow> fstate \<Rightarrow> upload \<Rightarrow> bool" where
  "encrypted_object P request s3 st u \<longleftrightarrow>
     (let src = prd_source_path request; tmp = GenTempDir (pe_ext P) src; (b, k, c) = u in
      b = s3_bucket s3 \<and>
      (\<exists>key. result_data_key P request = Inr key \<and>
        (\<exists>r \<in> set (pe_walk P st src). k = path_append (s3_path s3) (r @ kEncSuffix) \<and>
          snd (EncryptFile (pe_io P) (pe_gcm P) (pe_ivs P (path_append src r)) (path_append src r)
            (path_append tmp (r @ kEncSuffix)) key (fs_files st)) (path_append tmp (r @ kEncSuffix)) = Some c)))"



end
