(* ===== verification/Eval_Params.thy ===== *)
theory Eval_Params
  imports TF_Prelude
begin

text \<open>
  The parameters of a data management component
  (\<open>dm_component/componentize/component/eval_param_reader.py\<close>): the reader that checks the parameters
  of a task against the definition of the component and hands them out as plain values.
\<close>

section \<open>Messages\<close>

text \<open>
  The messages of the component specification, with the fields that are read or written, without
  the descriptions. Floating-point numbers are an arbitrary type \<open>'f\<close>; \<open>floats\<close> has the comparisons
  \<open><\<close>, \<open>==\<close> and \<open>math.isclose\<close>, the value a message keeps of a number (its fields have single
  precision) and the text of a number.
\<close>

datatype AttrType = ATTR_TYPE_UNSPECIFIED | AT_FLOAT | AT_INT | AT_STRING | AT_BOOL
  | AT_FLOATS | AT_INTS | AT_STRINGS | AT_BOOLS | AT_OTHER nat

record 'f floats =
  flt_less :: "'f \<Rightarrow> 'f \<Rightarrow> bool"
  flt_eq :: "'f \<Rightarrow> 'f \<Rightarrow> bool"
  isclose :: "'f \<Rightarrow> 'f \<Rightarrow> bool"
  flt_stored :: "'f \<Rightarrow> 'f"
  flt_repr :: "'f \<Rightarrow> string"

record 'f attribute =
  at_f :: 'f
  at_i64 :: int
  at_s :: string
  at_b :: bool
  at_fs :: "'f list"
  at_i64s :: "int list"
  at_ss :: "string list"
  at_bs :: "bool list"
  at_is_na :: bool

record 'f atomic =
  am_allowed_values :: "'f attribute"
  am_lower_bound_enabled :: bool
  am_lower_bound :: "'f attribute"
  am_lower_bound_inclusive :: bool
  am_upper_bound_enabled :: bool
  am_upper_bound :: "'f attribute"
  am_upper_bound_inclusive :: bool
  am_is_optional :: bool
  am_default_value :: "'f attribute"
  am_list_min_length_inclusive :: int
  am_list_max_length_inclusive :: int

record 'f attribute_def =
  ad_prefixes :: "string list"
  ad_name :: string
  ad_type :: AttrType
  ad_atomic :: "'f atomic"

record 'f table_attr_def =
  ta_name :: string
  ta_col_min_cnt_inclusive :: int
  ta_col_max_cnt_inclusive :: int
  ta_attrs :: "'f attribute_def list"

record 'f io_def =
  io_name :: string
  io_types :: "string list"
  io_attrs :: "'f table_attr_def list"

record 'f component_def =
  cd_domain :: string
  cd_name :: string
  cd_version :: string
  cd_attrs :: "'f attribute_def list"
  cd_inputs :: "'f io_def list"
  cd_outputs :: "'f io_def list"

record dist_data =
  dd_type :: string
  dd_uris :: "string list"

record 'f node_eval_param =
  ne_domain :: string
  ne_name :: string
  ne_version :: string
  ne_attr_paths :: "string list"
  ne_attrs :: "'f attribute list"
  ne_inputs :: "dist_data list"
  ne_output_uris :: "string list"

section \<open>The code\<close>

text \<open>
  The dictionary of attributes holds messages first and plain values later; reading a field of a
  plain value raises \<open>AttributeError\<close>.
\<close>

datatype 'f py_value = Py_float 'f | Py_int int | Py_str string | Py_bool bool
  | Py_floats "'f list" | Py_ints "int list" | Py_strs "string list" | Py_bools "bool list"

datatype 'f entry = Message "'f attribute" | Plain "'f py_value"

datatype py_error = EvalParamError string | CompDeclError string | AttributeError | TypeError | ValueError string
  | AssertionError string | KeyError string | IndexError | RuntimeError string | SystemExit int | Raised string

type_synonym 'a py = "py_error + 'a"

definition py_bind :: "'a py \<Rightarrow> ('a \<Rightarrow> 'b py) \<Rightarrow> 'b py" where
  "py_bind m f = (case m of Inl e \<Rightarrow> Inl e | Inr x \<Rightarrow> f x)"

definition raise_unless :: "bool \<Rightarrow> string \<Rightarrow> unit py" where
  "raise_unless c msg = (if c then Inr () else Inl (EvalParamError msg))"

definition field :: "('f attribute \<Rightarrow> 'a) \<Rightarrow> 'f entry \<Rightarrow> 'a py" where
  "field f v = (case v of Message a \<Rightarrow> Inr (f a) | Plain _ \<Rightarrow> Inl AttributeError)"

definition check_allowed_values :: "'f floats \<Rightarrow> 'f entry \<Rightarrow> 'f attribute_def \<Rightarrow> bool py" where
  "check_allowed_values F value d =
     (let allowed = am_allowed_values (ad_atomic d) in
      if ad_type d = AT_FLOAT
      then if at_fs allowed = [] then Inr True
           else py_bind (field at_f value) (\<lambda>f. Inr (list_ex (\<lambda>i. isclose F i f) (at_fs allowed)))
      else if ad_type d = AT_INT
      then if at_i64s allowed = [] then Inr True
           else py_bind (field at_i64 value) (\<lambda>i. Inr (i \<in> set (at_i64s allowed)))
      else if ad_type d = AT_STRING
      then if at_ss allowed = [] then Inr True
           else py_bind (field at_s value) (\<lambda>s. Inr (s \<in> set (at_ss allowed)))
      else Inr True)"

definition check_lower_bound :: "'f floats \<Rightarrow> 'f entry \<Rightarrow> 'f attribute_def \<Rightarrow> bool py" where
  "check_lower_bound F value d =
     (let m = ad_atomic d; bound = am_lower_bound m in
      if \<not> am_lower_bound_enabled m then Inr True
      else if ad_type d = AT_FLOAT
      then py_bind (field at_f value) (\<lambda>f.
             Inr (flt_less F (at_f bound) f \<or> am_lower_bound_inclusive m \<and> isclose F f (at_f bound)))
      else if ad_type d = AT_INT
      then py_bind (field at_i64 value) (\<lambda>i.
             Inr (at_i64 bound < i \<or> am_lower_bound_inclusive m \<and> i = at_i64 bound))
      else Inr True)"

definition check_upper_bound :: "'f floats \<Rightarrow> 'f entry \<Rightarrow> 'f attribute_def \<Rightarrow> bool py" where
  "check_upper_bound F value d =
     (let m = ad_atomic d; bound = am_upper_bound m in
      if \<not> am_upper_bound_enabled m then Inr True
      else if ad_type d = AT_FLOAT
      then py_bind (field at_f value) (\<lambda>f.
             Inr (flt_less F f (at_f bound) \<or> am_upper_bound_inclusive m \<and> isclose F f (at_f bound)))
      else if ad_type d = AT_INT
      then py_bind (field at_i64 value) (\<lambda>i.
             Inr (i < at_i64 bound \<or> am_upper_bound_inclusive m \<and> i = at_i64 bound))
      else Inr True)"

definition check_table_attr_col_cnt :: "'f entry \<Rightarrow> 'f table_attr_def \<Rightarrow> bool py" where
  "check_table_attr_col_cnt value d =
     py_bind (field at_ss value) (\<lambda>ss.
     let cnt = int (length ss) in
     Inr (\<not> (ta_col_min_cnt_inclusive d \<noteq> 0 \<and> cnt < ta_col_min_cnt_inclusive d) \<and>
          \<not> (ta_col_max_cnt_inclusive d \<noteq> 0 \<and> ta_col_max_cnt_inclusive d < cnt)))"

definition get_value :: "'f entry \<Rightarrow> AttrType \<Rightarrow> 'f py_value py" where
  "get_value value at =
     (case at of
        ATTR_TYPE_UNSPECIFIED \<Rightarrow> Inl (EvalParamError ''Type of Attribute is undefined.'')
      | AT_FLOAT \<Rightarrow> py_bind (field at_f value) (\<lambda>x. Inr (Py_float x))
      | AT_INT \<Rightarrow> py_bind (field at_i64 value) (\<lambda>x. Inr (Py_int x))
      | AT_STRING \<Rightarrow> py_bind (field at_s value) (\<lambda>x. Inr (Py_str x))
      | AT_BOOL \<Rightarrow> py_bind (field at_b value) (\<lambda>x. Inr (Py_bool x))
      | AT_FLOATS \<Rightarrow> py_bind (field at_fs value) (\<lambda>x. Inr (Py_floats x))
      | AT_INTS \<Rightarrow> py_bind (field at_i64s value) (\<lambda>x. Inr (Py_ints x))
      | AT_STRINGS \<Rightarrow> py_bind (field at_ss value) (\<lambda>x. Inr (Py_strs x))
      | AT_BOOLS \<Rightarrow> py_bind (field at_bs value) (\<lambda>x. Inr (Py_bools x))
      | AT_OTHER n \<Rightarrow> Inl (EvalParamError (''unsupported type: '' @ to_string n @ ''.'')))"

type_synonym 'f attrs = "string \<rightharpoonup> 'f entry"

text \<open>The four loops of \<open>_preprocess\<close>.\<close>

fun read_instance_attrs :: "(string \<times> 'f attribute) list \<Rightarrow> 'f attrs \<Rightarrow> 'f attrs py" where
  "read_instance_attrs [] m = Inr m"
| "read_instance_attrs ((path, attr) # rest) m =
     py_bind (raise_unless (m path = None) (''attr '' @ path @ '' is duplicate in node def.'')) (\<lambda>_.
     read_instance_attrs rest (if \<not> at_is_na attr then m(path \<mapsto> Message attr) else m))"

definition supported :: "AttrType list" where
  "supported = [AT_FLOAT, AT_FLOATS, AT_INT, AT_INTS, AT_STRING, AT_STRINGS, AT_BOOL, AT_BOOLS]"

definition full_name :: "'f attribute_def \<Rightarrow> string" where
  "full_name d = join_str ''/'' (ad_prefixes d @ [ad_name d])"

fun read_def_attrs :: "'f floats \<Rightarrow> 'f attribute_def list \<Rightarrow> 'f attrs \<Rightarrow> 'f attrs py" where
  "read_def_attrs F [] m = Inr m"
| "read_def_attrs F (d # ds) m =
     (let name = full_name d in
      py_bind (raise_unless (ad_type d \<in> set supported) ''only support ATOMIC at this moment.'') (\<lambda>_.
      py_bind (case m name of
                  Some v \<Rightarrow> Inr v
                | None \<Rightarrow>
                    py_bind (raise_unless (am_is_optional (ad_atomic d))
                      (''attr '' @ name @ '' is not optional and not set.'')) (\<lambda>_.
                    Inr (Message (am_default_value (ad_atomic d))))) (\<lambda>v.
      py_bind (check_allowed_values F v d) (\<lambda>ok.
      py_bind (raise_unless ok (''attr '' @ name @ '': check_allowed_values failed.'')) (\<lambda>_.
      py_bind (check_lower_bound F v d) (\<lambda>ok.
      py_bind (raise_unless ok (''attr '' @ name @ '': check_lower_bound failed.'')) (\<lambda>_.
      py_bind (check_upper_bound F v d) (\<lambda>ok.
      py_bind (raise_unless ok (''attr '' @ name @ '': check_upper_bound failed.'')) (\<lambda>_.
      py_bind (get_value v (ad_type d)) (\<lambda>x.
      read_def_attrs F ds (m(name \<mapsto> Plain x))))))))))))"

definition input_attr_name :: "string \<Rightarrow> string \<Rightarrow> string" where
  "input_attr_name input attr = join_str ''/'' [''input'', input, attr]"

definition empty_attribute :: "'f \<Rightarrow> 'f attribute" where
  "empty_attribute zero = \<lparr>at_f = zero, at_i64 = 0, at_s = [], at_b = False, at_fs = [], at_i64s = [],
     at_ss = [], at_bs = [], at_is_na = False\<rparr>"

fun read_table_attrs :: "'f \<Rightarrow> string \<Rightarrow> 'f table_attr_def list \<Rightarrow> 'f attrs \<Rightarrow> 'f attrs py" where
  "read_table_attrs zero input [] m = Inr m"
| "read_table_attrs zero input (t # ts) m =
     (let name = input_attr_name input (ta_name t);
          v = (case m name of Some v \<Rightarrow> v | None \<Rightarrow> Message (empty_attribute zero)) in
      py_bind (raise_unless (ta_attrs t = []) ''extra attribute is unsupported at this moment.'') (\<lambda>_.
      py_bind (check_table_attr_col_cnt v t) (\<lambda>ok.
      py_bind (raise_unless ok (''input attr '' @ name @ '' check_table_attr_col_cnt fails.'')) (\<lambda>_.
      py_bind (get_value v AT_STRINGS) (\<lambda>x.
      read_table_attrs zero input ts (m(name \<mapsto> Plain x)))))))"

definition quoted :: "string \<Rightarrow> string" where
  "quoted s = CHR 0x27 # s @ [CHR 0x27]"

fun read_inputs ::
  "'f \<Rightarrow> (dist_data \<times> 'f io_def) list \<Rightarrow> (string \<rightharpoonup> dist_data) \<Rightarrow> 'f attrs
   \<Rightarrow> ((string \<rightharpoonup> dist_data) \<times> 'f attrs) py" where
  "read_inputs zero [] inputs m = Inr (inputs, m)"
| "read_inputs zero ((x, d) # rest) inputs m =
     py_bind (raise_unless (inputs (io_name d) = None) (''input '' @ io_name d @ '' is duplicate.'')) (\<lambda>_.
     py_bind (raise_unless (\<not> (io_types d \<noteq> [] \<and> dd_type x \<notin> set (io_types d)))
       (''type of input '' @ io_name d @ '' is wrong, got '' @ dd_type x @ '', expect ['' @
        join_str '', '' (map quoted (io_types d)) @ '']''))
       (\<lambda>_.
     py_bind (read_table_attrs zero (io_name d) (io_attrs d) m) (\<lambda>m.
     read_inputs zero rest (inputs(io_name d \<mapsto> x)) m)))"

fun read_outputs :: "(string \<times> 'f io_def) list \<Rightarrow> (string \<rightharpoonup> string) \<Rightarrow> (string \<rightharpoonup> string) py" where
  "read_outputs [] outputs = Inr outputs"
| "read_outputs ((uri, d) # rest) outputs =
     py_bind (raise_unless (outputs (io_name d) = None) (''output '' @ io_name d @ '' is duplicate.'')) (\<lambda>_.
     read_outputs rest (outputs(io_name d \<mapsto> uri)))"

record 'f reader =
  rd_attrs :: "'f attrs"
  rd_inputs :: "string \<rightharpoonup> dist_data"
  rd_outputs :: "string \<rightharpoonup> string"

definition differs :: "string \<Rightarrow> string \<Rightarrow> string \<Rightarrow> string \<Rightarrow> string" where
  "differs what space a b = what @ '' inst:'' @ quoted a @ '' def:'' @ quoted b @ space @ ''does not match.''"

definition EvalParamReader ::
  "'f floats \<Rightarrow> 'f \<Rightarrow> 'f node_eval_param \<Rightarrow> 'f component_def \<Rightarrow> 'f reader py" where
  "EvalParamReader F zero inst def =
     py_bind (raise_unless (ne_domain inst = cd_domain def) (differs ''domain'' ''  '' (ne_domain inst) (cd_domain def))) (\<lambda>_.
     py_bind (raise_unless (ne_name inst = cd_name def) (differs ''name'' '' '' (ne_name inst) (cd_name def))) (\<lambda>_.
     py_bind (raise_unless (ne_version inst = cd_version def) (differs ''version'' '' '' (ne_version inst) (cd_version def)))
       (\<lambda>_.
     py_bind (read_instance_attrs (zip (ne_attr_paths inst) (ne_attrs inst)) Map.empty) (\<lambda>m.
     py_bind (read_def_attrs F (cd_attrs def) m) (\<lambda>m.
     py_bind (raise_unless (length (ne_inputs inst) = length (cd_inputs def)) ''number of input does not match.'') (\<lambda>_.
     py_bind (read_inputs zero (zip (ne_inputs inst) (cd_inputs def)) Map.empty m) (\<lambda>(inputs, m).
     py_bind (raise_unless (length (ne_output_uris inst) = length (cd_outputs def)) ''number of output does not match.'')
       (\<lambda>_.
     py_bind (read_outputs (zip (ne_output_uris inst) (cd_outputs def)) Map.empty) (\<lambda>outputs.
     Inr \<lparr>rd_attrs = m, rd_inputs = inputs, rd_outputs = outputs\<rparr>)))))))))"

text \<open>The four readers.\<close>

definition lookup_or :: "string \<Rightarrow> (string \<rightharpoonup> 'a) \<Rightarrow> string \<Rightarrow> 'a py" where
  "lookup_or what m name =
     (case m name of None \<Rightarrow> Inl (EvalParamError (what @ '' '' @ name @ '' does not exist.'')) | Some x \<Rightarrow> Inr x)"

definition get_attr :: "'f reader \<Rightarrow> string \<Rightarrow> 'f entry py" where
  "get_attr r name = lookup_or ''attr'' (rd_attrs r) name"

definition get_input :: "'f reader \<Rightarrow> string \<Rightarrow> dist_data py" where
  "get_input r name = lookup_or ''input'' (rd_inputs r) name"

definition get_input_attrs :: "'f reader \<Rightarrow> string \<Rightarrow> string \<Rightarrow> 'f entry py" where
  "get_input_attrs r input_name attr_name = lookup_or ''input attr'' (rd_attrs r) (input_attr_name input_name attr_name)"

definition get_output_uri :: "'f reader \<Rightarrow> string \<Rightarrow> string py" where
  "get_output_uri r name = lookup_or ''output'' (rd_outputs r) name"

section \<open>What a reader guarantees\<close>

lemma py_bind_Inr [simp]: "py_bind m f = Inr y \<longleftrightarrow> (\<exists>x. m = Inr x \<and> f x = Inr y)"
  by (cases m) (simp_all add: py_bind_def)

lemma raise_unless_Inr [simp]: "raise_unless c msg = Inr x \<longleftrightarrow> c"
  by (simp add: raise_unless_def)

lemma field_Inr [simp]: "field f v = Inr x \<longleftrightarrow> (\<exists>a. v = Message a \<and> x = f a)"
  by (cases v) (auto simp: field_def)

fun has_type :: "'f py_value \<Rightarrow> AttrType \<Rightarrow> bool" where
  "has_type (Py_float _) t \<longleftrightarrow> t = AT_FLOAT"
| "has_type (Py_int _) t \<longleftrightarrow> t = AT_INT"
| "has_type (Py_str _) t \<longleftrightarrow> t = AT_STRING"
| "has_type (Py_bool _) t \<longleftrightarrow> t = AT_BOOL"
| "has_type (Py_floats _) t \<longleftrightarrow> t = AT_FLOATS"
| "has_type (Py_ints _) t \<longleftrightarrow> t = AT_INTS"
| "has_type (Py_strs _) t \<longleftrightarrow> t = AT_STRINGS"
| "has_type (Py_bools _) t \<longleftrightarrow> t = AT_BOOLS"

text \<open>What the definition of an attribute asks of a value.\<close>

fun conforms :: "'f floats \<Rightarrow> 'f attribute_def \<Rightarrow> 'f py_value \<Rightarrow> bool" where
  "conforms F d (Py_float x) \<longleftrightarrow>
     (let m = ad_atomic d; fs = at_fs (am_allowed_values m) in
      (fs = [] \<or> (\<exists>i \<in> set fs. isclose F i x)) \<and>
      (am_lower_bound_enabled m \<longrightarrow> flt_less F (at_f (am_lower_bound m)) x \<or>
         am_lower_bound_inclusive m \<and> isclose F x (at_f (am_lower_bound m))) \<and>
      (am_upper_bound_enabled m \<longrightarrow> flt_less F x (at_f (am_upper_bound m)) \<or>
         am_upper_bound_inclusive m \<and> isclose F x (at_f (am_upper_bound m))))"
| "conforms F d (Py_int x) \<longleftrightarrow>
     (let m = ad_atomic d; is = at_i64s (am_allowed_values m) in
      (is = [] \<or> x \<in> set is) \<and>
      (am_lower_bound_enabled m \<longrightarrow> (if am_lower_bound_inclusive m then at_i64 (am_lower_bound m) \<le> x
         else at_i64 (am_lower_bound m) < x)) \<and>
      (am_upper_bound_enabled m \<longrightarrow> (if am_upper_bound_inclusive m then x \<le> at_i64 (am_upper_bound m)
         else x < at_i64 (am_upper_bound m))))"
| "conforms F d (Py_str x) \<longleftrightarrow> (let ss = at_ss (am_allowed_values (ad_atomic d)) in ss = [] \<or> x \<in> set ss)"
| "conforms F d v \<longleftrightarrow> True"

lemma get_value_type: "get_value v t = Inr x \<Longrightarrow> has_type x t \<and> (\<exists>a. v = Message a)"
  by (auto simp: get_value_def split: AttrType.splits)

lemma checked_conforms:
  assumes "check_allowed_values F v d = Inr True" "check_lower_bound F v d = Inr True"
    "check_upper_bound F v d = Inr True" "get_value v (ad_type d) = Inr x"
  shows "conforms F d x"
  using assms
  by (cases "ad_type d")
    (auto simp: check_allowed_values_def check_lower_bound_def check_upper_bound_def get_value_def Let_def
      list_ex_iff split: if_splits)

text \<open>The message an attribute is read from: the one given, or the default of an optional one.\<close>

definition given_or_default :: "'f attrs \<Rightarrow> 'f attribute_def \<Rightarrow> 'f attribute \<Rightarrow> bool" where
  "given_or_default m d a \<longleftrightarrow> m (full_name d) = Some (Message a) \<or>
     m (full_name d) = None \<and> am_is_optional (ad_atomic d) \<and> a = am_default_value (ad_atomic d)"

lemma read_def_attrs_sound:
  assumes "read_def_attrs F ds m = Inr m'"
  shows "distinct (map full_name ds)" "name \<notin> full_name ` set ds \<Longrightarrow> m' name = m name"
    and "d \<in> set ds \<Longrightarrow> \<exists>a x. given_or_default m d a \<and> get_value (Message a) (ad_type d) = Inr x \<and>
      conforms F d x \<and> m' (full_name d) = Some (Plain x)"
proof -
  have "distinct (map full_name ds) \<and> (\<forall>name. name \<notin> full_name ` set ds \<longrightarrow> m' name = m name) \<and>
    (\<forall>d \<in> set ds. \<exists>a x. given_or_default m d a \<and> get_value (Message a) (ad_type d) = Inr x \<and>
      conforms F d x \<and> m' (full_name d) = Some (Plain x))"
    using assms
  proof (induction ds arbitrary: m)
    case (Cons e ds)
    obtain v x where v: "(case m (full_name e) of Some v \<Rightarrow> Inr v | None \<Rightarrow>
          py_bind (raise_unless (am_is_optional (ad_atomic e)) (''attr '' @ full_name e @ '' is not optional and not set.''))
            (\<lambda>_. Inr (Message (am_default_value (ad_atomic e))))) = (Inr v :: 'a entry py)"
        "check_allowed_values F v e = Inr True" "check_lower_bound F v e = Inr True" "check_upper_bound F v e = Inr True"
        "get_value v (ad_type e) = Inr x" "read_def_attrs F ds (m(full_name e \<mapsto> Plain x)) = Inr m'"
      using Cons.prems by (auto simp: Let_def)
    obtain a where a: "v = Message a" using get_value_type [OF v(5)] by blast
    have e: "given_or_default m e a" "conforms F e x"
      using v(1) a checked_conforms [OF v(2-5)] by (auto simp: given_or_default_def split: option.splits)
    note IH = Cons.IH [OF v(6)]
    have new: "full_name e \<notin> full_name ` set ds"
    proof
      assume "full_name e \<in> full_name ` set ds"
      then obtain d where d: "d \<in> set ds" "full_name d = full_name e" by auto
      then show False using IH by (force simp: given_or_default_def)
    qed
    moreover have "\<exists>a x. given_or_default m d a \<and> get_value (Message a) (ad_type d) = Inr x \<and>
      conforms F d x \<and> m' (full_name d) = Some (Plain x)" if d: "d \<in> set ds" for d
    proof -
      have "full_name d \<noteq> full_name e" using new d by (metis imageI)
      then show ?thesis using IH d by (auto simp: given_or_default_def)
    qed
    ultimately show ?case using IH e v(5) a by auto
  qed simp
  then show "distinct (map full_name ds)" "name \<notin> full_name ` set ds \<Longrightarrow> m' name = m name"
    "d \<in> set ds \<Longrightarrow> \<exists>a x. given_or_default m d a \<and> get_value (Message a) (ad_type d) = Inr x \<and>
      conforms F d x \<and> m' (full_name d) = Some (Plain x)"
    by blast+
qed

definition column_count_ok :: "'f table_attr_def \<Rightarrow> string list \<Rightarrow> bool" where
  "column_count_ok t cols \<longleftrightarrow>
     (ta_col_min_cnt_inclusive t \<noteq> 0 \<longrightarrow> ta_col_min_cnt_inclusive t \<le> int (length cols)) \<and>
     (ta_col_max_cnt_inclusive t \<noteq> 0 \<longrightarrow> int (length cols) \<le> ta_col_max_cnt_inclusive t)"

lemma read_table_attrs_sound:
  assumes "read_table_attrs zero input ts m = Inr m'"
  shows "(\<forall>name x. m name = Some (Plain x) \<longrightarrow> m' name = Some (Plain x)) \<and>
    (\<forall>t \<in> set ts. \<exists>cols. m' (input_attr_name input (ta_name t)) = Some (Plain (Py_strs cols)) \<and> column_count_ok t cols)"
  using assms
proof (induction ts arbitrary: m)
  case (Cons t ts)
  let ?n = "input_attr_name input (ta_name t)"
  obtain a where a: "(case m ?n of Some v \<Rightarrow> v | None \<Rightarrow> Message (empty_attribute zero)) = Message a"
    "column_count_ok t (at_ss a)" "read_table_attrs zero input ts (m(?n \<mapsto> Plain (Py_strs (at_ss a)))) = Inr m'"
    using Cons.prems
    by (auto simp: Let_def check_table_attr_col_cnt_def get_value_def column_count_ok_def)
  note IH = Cons.IH [OF a(3)]
  have keep: "m' name = Some (Plain x)" if "m name = Some (Plain x)" for name x
  proof -
    have "name \<noteq> ?n" using that a(1) by (auto split: option.splits)
    then show ?thesis using IH that by simp
  qed
  then show ?case using IH a(2) by auto
qed simp

lemma read_inputs_sound:
  assumes "read_inputs zero xs inputs m = Inr (inputs', m')"
  shows "(\<forall>name x. m name = Some (Plain x) \<longrightarrow> m' name = Some (Plain x)) \<and>
    (\<forall>name x. inputs name = Some x \<longrightarrow> inputs' name = Some x) \<and>
    (\<forall>(x, d) \<in> set xs. inputs' (io_name d) = Some x \<and> (io_types d = [] \<or> dd_type x \<in> set (io_types d)) \<and>
       (\<forall>t \<in> set (io_attrs d). \<exists>cols. m' (input_attr_name (io_name d) (ta_name t)) = Some (Plain (Py_strs cols)) \<and>
          column_count_ok t cols))"
  using assms
proof (induction xs arbitrary: inputs m)
  case (Cons xd xs)
  obtain x d where xd: "xd = (x, d)" by fastforce
  obtain m1 where m1: "inputs (io_name d) = None" "io_types d = [] \<or> dd_type x \<in> set (io_types d)"
    "read_table_attrs zero (io_name d) (io_attrs d) m = Inr m1"
    "read_inputs zero xs (inputs(io_name d \<mapsto> x)) m1 = Inr (inputs', m')"
    using Cons.prems by (auto simp: xd)
  note t = read_table_attrs_sound [OF m1(3)] and IH = Cons.IH [OF m1(4)]
  have "inputs' (io_name d) = Some x" using IH by simp
  moreover have "inputs' name = Some y" if "inputs name = Some y" for name y
    using IH that m1(1) by (metis fun_upd_apply option.distinct(1))
  ultimately show ?case using t IH m1(2) unfolding xd by fastforce
qed simp

lemma read_outputs_sound:
  assumes "read_outputs xs outputs = Inr outputs'"
  shows "(\<forall>name x. outputs name = Some x \<longrightarrow> outputs' name = Some x) \<and>
    (\<forall>(uri, d) \<in> set xs. outputs' (io_name d) = Some uri)"
  using assms
proof (induction xs arbitrary: outputs)
  case (Cons ud xs)
  obtain u d where ud: "ud = (u, d)" by fastforce
  have o: "outputs (io_name d) = None" "read_outputs xs (outputs(io_name d \<mapsto> u)) = Inr outputs'"
    using Cons.prems by (auto simp: ud)
  note IH = Cons.IH [OF o(2)]
  have "outputs' (io_name d) = Some u" using IH by simp
  moreover have "outputs' name = Some y" if "outputs name = Some y" for name y
    using IH that o(1) by (metis fun_upd_apply option.distinct(1))
  ultimately show ?case using IH by (auto simp: ud)
qed simp

text \<open>What the node sets for an attribute: the message at its path that is not marked as missing.\<close>

definition node_sets :: "'f node_eval_param \<Rightarrow> string \<Rightarrow> 'f attribute \<Rightarrow> bool" where
  "node_sets inst path a \<longleftrightarrow> (path, a) \<in> set (zip (ne_attr_paths inst) (ne_attrs inst)) \<and> \<not> at_is_na a"

lemma read_instance_attrs_sound:
  assumes "read_instance_attrs xs m = Inr m'"
  shows "m' path = Some v \<longleftrightarrow> m path = Some v \<or> (\<exists>a. v = Message a \<and> (path, a) \<in> set xs \<and> \<not> at_is_na a)"
  using assms
proof (induction xs arbitrary: m)
  case (Cons pa xs)
  obtain p a where pa: "pa = (p, a)" by fastforce
  have m: "m p = None" "read_instance_attrs xs (if \<not> at_is_na a then m(p \<mapsto> Message a) else m) = Inr m'"
    using Cons.prems by (auto simp: pa)
  show ?case using Cons.IH [OF m(2)] m(1) by (auto simp: pa)
qed simp


definition int_floats :: "int floats" where
  "int_floats = \<lparr>flt_less = (<), flt_eq = (=), isclose = (=), flt_stored = id, flt_repr = (\<lambda>x. to_string (nat x))\<rparr>"

definition no_attribute :: "int attribute" where
  "no_attribute = empty_attribute 0"

definition sample_count :: "int attribute_def" where
  "sample_count = \<lparr>ad_prefixes = [''train''], ad_name = ''rounds'', ad_type = AT_INT,
     ad_atomic = \<lparr>am_allowed_values = no_attribute, am_lower_bound_enabled = True,
       am_lower_bound = no_attribute, am_lower_bound_inclusive = False, am_upper_bound_enabled = True,
       am_upper_bound = no_attribute\<lparr>at_i64 := 10\<rparr>, am_upper_bound_inclusive = True, am_is_optional = True,
       am_default_value = no_attribute\<lparr>at_i64 := 5\<rparr>, am_list_min_length_inclusive = 0,
       am_list_max_length_inclusive = 0\<rparr>\<rparr>"

definition sample_component :: "int component_def" where
  "sample_component = \<lparr>cd_domain = ''ml'', cd_name = ''train'', cd_version = ''1'', cd_attrs = [sample_count],
     cd_inputs = [\<lparr>io_name = ''x'', io_types = [''table''], io_attrs =
       [\<lparr>ta_name = ''keys'', ta_col_min_cnt_inclusive = 1, ta_col_max_cnt_inclusive = 2, ta_attrs = []\<rparr>]\<rparr>],
     cd_outputs = [\<lparr>io_name = ''model'', io_types = [], io_attrs = []\<rparr>]\<rparr>"

definition sample_node :: "int node_eval_param" where
  "sample_node = \<lparr>ne_domain = ''ml'', ne_name = ''train'', ne_version = ''1'', ne_attr_paths = [''input/x/keys''],
     ne_attrs = [no_attribute\<lparr>at_ss := [''id'']\<rparr>], ne_inputs = [\<lparr>dd_type = ''table'', dd_uris = [''u'']\<rparr>],
     ne_output_uris = [''out'']\<rparr>"


end
