(* ===== verification/Comp_Decl.thy ===== *)
theory Comp_Decl
  imports Eval_Params
begin

text \<open>
  The declaration of data management components (\<open>dm_component/componentize/component/component.py\<close>,
  \<open>data_utils.py\<close>, \<open>compdef.py\<close>): the methods that declare attributes, inputs and outputs with their
  checks, the definition made of the declarations, the five components of the program, and what
  every component that can be declared guarantees to the parameter reader.
\<close>

section \<open>Declarations\<close>

text \<open>
  A default is a single value or a list, whatever \<open>is_list\<close> says: the types of Python's parameters
  are not checked. \<open>v_iter\<close> are the elements of a single value that can be iterated over, as the
  characters of a string can.
\<close>

datatype 'a default_arg = One 'a | Many "'a list"

record 'a python_type =
  v_eq :: "'a \<Rightarrow> 'a \<Rightarrow> bool"
  v_str :: "'a \<Rightarrow> string"
  v_repr :: "'a \<Rightarrow> string"
  v_iter :: "'a \<Rightarrow> 'a list option"

definition python_float :: "'f floats \<Rightarrow> 'f python_type" where
  "python_float F = \<lparr>v_eq = flt_eq F, v_str = flt_repr F, v_repr = flt_repr F, v_iter = (\<lambda>_. None)\<rparr>"

definition python_int :: "int python_type" where
  "python_int = \<lparr>v_eq = (=), v_str = int_str, v_repr = int_str, v_iter = (\<lambda>_. None)\<rparr>"

definition python_str :: "string python_type" where
  "python_str = \<lparr>v_eq = (=), v_str = id, v_repr = quoted, v_iter = (\<lambda>s. Some (map (\<lambda>c. [c]) s))\<rparr>"

definition bool_str :: "bool \<Rightarrow> string" where
  "bool_str b = (if b then ''True'' else ''False'')"

definition python_bool :: "bool python_type" where
  "python_bool = \<lparr>v_eq = (=), v_str = bool_str, v_repr = bool_str, v_iter = (\<lambda>_. None)\<rparr>"

definition list_repr :: "'a python_type \<Rightarrow> 'a list \<Rightarrow> string" where
  "list_repr V xs = ''['' @ join_str '', '' (map (v_repr V) xs) @ '']''"

definition default_str :: "'a python_type \<Rightarrow> 'a default_arg \<Rightarrow> string" where
  "default_str V d = (case d of One v \<Rightarrow> v_str V v | Many vs \<Rightarrow> list_repr V vs)"

definition elements :: "'a python_type \<Rightarrow> 'a default_arg \<Rightarrow> 'a list py" where
  "elements V d =
     (case d of Many vs \<Rightarrow> Inr vs
      | One v \<Rightarrow> (case v_iter V v of Some vs \<Rightarrow> Inr vs | None \<Rightarrow> Inl TypeError))"

definition decl_unless :: "bool \<Rightarrow> string \<Rightarrow> unit py" where
  "decl_unless c msg = (if c then Inr () else Inl (CompDeclError msg))"

fun each :: "('a \<Rightarrow> unit py) \<Rightarrow> 'a list \<Rightarrow> unit py" where
  "each f [] = Inr ()"
| "each f (x # xs) = py_bind (f x) (\<lambda>_. each f xs)"

text \<open>The parameters of the four methods, from what all of them have to what only numbers have.\<close>

record 'a attr_args =
  aa_name :: string
  aa_is_list :: bool
  aa_is_optional :: bool
  aa_default_value :: "'a default_arg option"
  aa_list_min_length_inclusive :: "int option"
  aa_list_max_length_inclusive :: "int option"

record 'a choice_args = "'a attr_args" +
  aa_allowed_values :: "'a list option"

record 'a number_args = "'a choice_args" +
  aa_lower_bound :: "'a option"
  aa_upper_bound :: "'a option"
  aa_lower_bound_inclusive :: bool
  aa_upper_bound_inclusive :: bool

record 'f component =
  cp_name :: string
  cp_domain :: string
  cp_version :: string
  cp_definition :: "'f component_def option"
  cp_comp_attr_decls :: "'f attribute_def list"
  cp_input_io_decls :: "'f io_def list"
  cp_output_io_decls :: "'f io_def list"
  cp_argnames :: "string set"

definition Component :: "string \<Rightarrow> string \<Rightarrow> string \<Rightarrow> 'f component" where
  "Component name domain version =
     \<lparr>cp_name = name, cp_domain = domain, cp_version = version, cp_definition = None, cp_comp_attr_decls = [],
      cp_input_io_decls = [], cp_output_io_decls = [], cp_argnames = {}\<rparr>"

definition check_reserved_words :: "string \<Rightarrow> unit py" where
  "check_reserved_words word = decl_unless (word \<notin> set [''input'', ''output'']) (word @ '' is a reserved word.'')"

subsection \<open>The sanity checks\<close>

definition check_optional :: "('a, 'z) attr_args_scheme \<Rightarrow> unit py" where
  "check_optional a =
     decl_unless (\<not> (aa_is_optional a \<and> aa_default_value a = None))
       (''attr '' @ aa_name a @ '': default_value must be provided if optional.'')"

definition check_default_allowed :: "'a python_type \<Rightarrow> ('a, 'z) choice_args_scheme \<Rightarrow> unit py" where
  "check_default_allowed V a =
     (case (aa_allowed_values a, aa_default_value a) of
        (Some allowed, Some d) \<Rightarrow>
          (let text = (\<lambda>v. ''default_value '' @ v @ '' is not in allowed_values '' @ list_repr V allowed) in
           if aa_is_list a
           then py_bind (elements V d) (each (\<lambda>v. decl_unless (list_ex (v_eq V v) allowed) (text (v_str V v))))
           else decl_unless (case d of One v \<Rightarrow> list_ex (v_eq V v) allowed | Many _ \<Rightarrow> False)
                  (text (default_str V d)))
      | _ \<Rightarrow> Inr ())"

definition check_list_lengths :: "('a, 'z) attr_args_scheme \<Rightarrow> unit py" where
  "check_list_lengths a =
     (case (aa_list_min_length_inclusive a, aa_list_max_length_inclusive a) of
        (Some l, Some u) \<Rightarrow> decl_unless (\<not> u < l)
          (''list_min_length_inclusive '' @ int_str l @ '' should not be greater than list_max_length_inclusive ''
           @ int_str u @ ''.'')
      | _ \<Rightarrow> Inr ())"

definition check_default_bound ::
  "'a python_type \<Rightarrow> bool \<Rightarrow> 'a default_arg option \<Rightarrow> ('a \<Rightarrow> bool) \<Rightarrow> (string \<Rightarrow> string) \<Rightarrow> unit py" where
  "check_default_bound V is_list dv ok text =
     (case dv of None \<Rightarrow> Inr ()
      | Some d \<Rightarrow>
          if is_list then py_bind (elements V d) (each (\<lambda>v. decl_unless (ok v) (text (v_str V v))))
          else (case d of One v \<Rightarrow> decl_unless (ok v) (text (v_str V v)) | Many _ \<Rightarrow> Inl TypeError))"

definition bound_text :: "string \<Rightarrow> string \<Rightarrow> string \<Rightarrow> bool \<Rightarrow> string \<Rightarrow> string" where
  "bound_text start which bound inclusive v =
     start @ ''default_value '' @ v @ '' fails bound check: '' @ which @ '' '' @ bound @ '', '' @ which @ ''_inclusive ''
     @ bool_str inclusive"

text \<open>
  The checks that \<open>float_attr\<close> and \<open>int_attr\<close> both make; they differ in the comparison for an inclusive
  bound and in the start of two messages.
\<close>

definition check_number ::
  "'a python_type \<Rightarrow> ('a \<Rightarrow> 'a \<Rightarrow> bool) \<Rightarrow> ('a \<Rightarrow> 'a \<Rightarrow> bool) \<Rightarrow> string \<Rightarrow> 'a number_args \<Rightarrow> unit py" where
  "check_number V lt same start a =
     py_bind (check_reserved_words (aa_name a)) (\<lambda>_.
     py_bind (check_optional a) (\<lambda>_.
     py_bind (decl_unless (\<not> (aa_allowed_values a \<noteq> None \<and> (aa_lower_bound a \<noteq> None \<or> aa_upper_bound a \<noteq> None)))
       ''allowed_values and bounds could not be set at the same time.'') (\<lambda>_.
     py_bind (check_default_allowed V a) (\<lambda>_.
     py_bind (case (aa_lower_bound a, aa_upper_bound a) of
         (Some l, Some u) \<Rightarrow> decl_unless (\<not> lt u l)
           (''lower_bound '' @ v_str V l @ '' is greater than upper_bound '' @ v_str V u)
       | _ \<Rightarrow> Inr ()) (\<lambda>_.
     py_bind (case aa_lower_bound a of None \<Rightarrow> Inr ()
       | Some l \<Rightarrow> check_default_bound V (aa_is_list a) (aa_default_value a)
           (\<lambda>v. lt l v \<or> aa_lower_bound_inclusive a \<and> same v l)
           (bound_text start ''lower_bound'' (v_str V l) (aa_lower_bound_inclusive a))) (\<lambda>_.
     py_bind (case aa_upper_bound a of None \<Rightarrow> Inr ()
       | Some u \<Rightarrow> check_default_bound V (aa_is_list a) (aa_default_value a)
           (\<lambda>v. lt v u \<or> aa_upper_bound_inclusive a \<and> same v u)
           (bound_text start ''upper_bound'' (v_str V u) (aa_upper_bound_inclusive a))) (\<lambda>_.
     check_list_lengths a)))))))"

subsection \<open>The messages\<close>

definition pb_int64 :: "int \<Rightarrow> int py" where
  "pb_int64 i = (if - (2 ^ 63) \<le> i \<and> i < 2 ^ 63 then Inr i else Inl (ValueError (''Value out of range: '' @ int_str i)))"

fun pb_int64s :: "int list \<Rightarrow> int list py" where
  "pb_int64s [] = Inr []"
| "pb_int64s (i # is) = py_bind (pb_int64 i) (\<lambda>i. py_bind (pb_int64s is) (\<lambda>is. Inr (i # is)))"

definition new_atomic :: "'f \<Rightarrow> bool \<Rightarrow> 'f atomic" where
  "new_atomic zero is_optional =
     \<lparr>am_allowed_values = empty_attribute zero, am_lower_bound_enabled = False,
      am_lower_bound = empty_attribute zero, am_lower_bound_inclusive = False, am_upper_bound_enabled = False,
      am_upper_bound = empty_attribute zero, am_upper_bound_inclusive = False, am_is_optional = is_optional,
      am_default_value = empty_attribute zero, am_list_min_length_inclusive = 0, am_list_max_length_inclusive = 0\<rparr>"

text \<open>\<open>put\<close> assigns a single field of an attribute, \<open>put_all\<close> extends a repeated one.\<close>

definition assign_default ::
  "'a python_type \<Rightarrow> ('a \<Rightarrow> 'f attribute \<Rightarrow> 'f attribute py) \<Rightarrow> ('a list \<Rightarrow> 'f attribute \<Rightarrow> 'f attribute py)
   \<Rightarrow> ('a, 'z) attr_args_scheme \<Rightarrow> 'f atomic \<Rightarrow> 'f atomic py" where
  "assign_default V put put_all a m =
     (case aa_default_value a of None \<Rightarrow> Inr m
      | Some d \<Rightarrow>
          py_bind (if aa_is_list a then py_bind (elements V d) (\<lambda>vs. put_all vs (am_default_value m))
                   else (case d of One v \<Rightarrow> put v (am_default_value m) | Many _ \<Rightarrow> Inl TypeError)) (\<lambda>x.
          Inr (m\<lparr>am_default_value := x\<rparr>)))"

definition assign_allowed ::
  "('a list \<Rightarrow> 'f attribute \<Rightarrow> 'f attribute py) \<Rightarrow> ('a, 'z) choice_args_scheme \<Rightarrow> 'f atomic \<Rightarrow> 'f atomic py" where
  "assign_allowed put_all a m =
     (case aa_allowed_values a of None \<Rightarrow> Inr m
      | Some vs \<Rightarrow> py_bind (put_all vs (am_allowed_values m)) (\<lambda>x. Inr (m\<lparr>am_allowed_values := x\<rparr>)))"

definition assign_list_lengths :: "('a, 'z) attr_args_scheme \<Rightarrow> 'f atomic \<Rightarrow> 'f atomic py" where
  "assign_list_lengths a m =
     (if aa_is_list a
      then py_bind (pb_int64 (case aa_list_min_length_inclusive a of Some n \<Rightarrow> n | None \<Rightarrow> 0)) (\<lambda>l.
           py_bind (pb_int64 (case aa_list_max_length_inclusive a of Some n \<Rightarrow> n | None \<Rightarrow> - 1)) (\<lambda>u.
           Inr (m\<lparr>am_list_min_length_inclusive := l, am_list_max_length_inclusive := u\<rparr>)))
      else Inr m)"

text \<open>
  The message has no fields \<open>has_lower_bound\<close> and \<open>has_upper_bound\<close>; those that enable the bounds are
  called \<open>lower_bound_enabled\<close> and \<open>upper_bound_enabled\<close>, as the reader has them and as they stand in the
  definitions of \<open>docs/architecture/apps\<close>. Assigning a field that a message does not have raises
  \<open>AttributeError\<close>, and the assignments behind it are not reached.
\<close>

definition assign_bounds :: "'a number_args \<Rightarrow> 'f atomic \<Rightarrow> 'f atomic py" where
  "assign_bounds a m =
     (if aa_lower_bound a \<noteq> None then Inl AttributeError
      else if aa_upper_bound a \<noteq> None then Inl AttributeError
      else Inr m)"

definition append_attr :: "string \<Rightarrow> AttrType \<Rightarrow> 'f atomic \<Rightarrow> 'f component \<Rightarrow> 'f component" where
  "append_attr name t m c =
     c\<lparr>cp_comp_attr_decls := cp_comp_attr_decls c @ [\<lparr>ad_prefixes = [], ad_name = name, ad_type = t, ad_atomic = m\<rparr>]\<rparr>"

subsection \<open>The methods\<close>

definition float_attr :: "'f floats \<Rightarrow> 'f \<Rightarrow> 'f number_args \<Rightarrow> 'f component \<Rightarrow> 'f component py" where
  "float_attr F zero a c =
     py_bind (check_number (python_float F) (flt_less F) (isclose F) [] a) (\<lambda>_.
     py_bind (assign_default (python_float F) (\<lambda>v x. Inr (x\<lparr>at_f := flt_stored F v\<rparr>))
       (\<lambda>vs x. Inr (x\<lparr>at_fs := map (flt_stored F) vs\<rparr>)) a (new_atomic zero (aa_is_optional a))) (\<lambda>m.
     py_bind (assign_allowed (\<lambda>vs x. Inr (x\<lparr>at_fs := map (flt_stored F) vs\<rparr>)) a m) (\<lambda>m.
     py_bind (assign_bounds a m) (\<lambda>m.
     py_bind (assign_list_lengths a m) (\<lambda>m.
     Inr (append_attr (aa_name a) (if aa_is_list a then AT_FLOATS else AT_FLOAT) m c))))))"

definition int_attr :: "'f \<Rightarrow> int number_args \<Rightarrow> 'f component \<Rightarrow> 'f component py" where
  "int_attr zero a c =
     py_bind (check_number python_int (<) (=) (''attr '' @ aa_name a @ '' '') a) (\<lambda>_.
     py_bind (assign_default python_int (\<lambda>v x. py_bind (pb_int64 v) (\<lambda>v. Inr (x\<lparr>at_i64 := v\<rparr>)))
       (\<lambda>vs x. py_bind (pb_int64s vs) (\<lambda>vs. Inr (x\<lparr>at_i64s := vs\<rparr>))) a (new_atomic zero (aa_is_optional a))) (\<lambda>m.
     py_bind (assign_allowed (\<lambda>vs x. py_bind (pb_int64s vs) (\<lambda>vs. Inr (x\<lparr>at_i64s := vs\<rparr>))) a m) (\<lambda>m.
     py_bind (assign_bounds a m) (\<lambda>m.
     py_bind (assign_list_lengths a m) (\<lambda>m.
     Inr (append_attr (aa_name a) (if aa_is_list a then AT_INTS else AT_INT) m c))))))"

definition str_attr :: "'f \<Rightarrow> string choice_args \<Rightarrow> 'f component \<Rightarrow> 'f component py" where
  "str_attr zero a c =
     py_bind (check_reserved_words (aa_name a)) (\<lambda>_.
     py_bind (check_optional a) (\<lambda>_.
     py_bind (check_default_allowed python_str a) (\<lambda>_.
     py_bind (check_list_lengths a) (\<lambda>_.
     py_bind (assign_default python_str (\<lambda>v x. Inr (x\<lparr>at_s := v\<rparr>)) (\<lambda>vs x. Inr (x\<lparr>at_ss := vs\<rparr>)) a
       (new_atomic zero (aa_is_optional a))) (\<lambda>m.
     py_bind (assign_allowed (\<lambda>vs x. Inr (x\<lparr>at_ss := vs\<rparr>)) a m) (\<lambda>m.
     py_bind (assign_list_lengths a m) (\<lambda>m.
     Inr (append_attr (aa_name a) (if aa_is_list a then AT_STRINGS else AT_STRING) m c))))))))"

definition bool_attr :: "'f \<Rightarrow> bool attr_args \<Rightarrow> 'f component \<Rightarrow> 'f component py" where
  "bool_attr zero a c =
     py_bind (check_reserved_words (aa_name a)) (\<lambda>_.
     py_bind (check_optional a) (\<lambda>_.
     py_bind (check_list_lengths a) (\<lambda>_.
     py_bind (assign_default python_bool (\<lambda>v x. Inr (x\<lparr>at_b := v\<rparr>)) (\<lambda>vs x. Inr (x\<lparr>at_bs := vs\<rparr>)) a
       (new_atomic zero (aa_is_optional a))) (\<lambda>m.
     py_bind (assign_list_lengths a m) (\<lambda>m.
     Inr (append_attr (aa_name a) (if aa_is_list a then AT_BOOLS else AT_BOOL) m c))))))"

datatype IoType = INPUT | OUTPUT

record TableColParam =
  tc_name :: string
  tc_col_min_cnt_inclusive :: "int option"
  tc_col_max_cnt_inclusive :: "int option"

definition DistDataType :: "string list" where
  "DistDataType = [''sf.table.vertical_table'', ''sf.table.individual'', ''sf.model.ss_sgd'', ''sf.model.sgb'',
     ''sf.rule.woe_binning'', ''sf.model.ss_xgb'', ''sf.report'']"

definition check_io_def :: "'f io_def \<Rightarrow> unit py" where
  "check_io_def d =
     each (\<lambda>t. if t \<in> set DistDataType then Inr ()
               else Inl (ValueError (''IoDef '' @ io_name d @ '': '' @ t @ '' is not a supported DistData types'')))
       (io_types d)"

fun table_attr_defs :: "TableColParam list \<Rightarrow> 'f table_attr_def list py" where
  "table_attr_defs [] = Inr []"
| "table_attr_defs (p # ps) =
     py_bind (pb_int64 (case tc_col_min_cnt_inclusive p of Some n \<Rightarrow> n | None \<Rightarrow> 0)) (\<lambda>l.
     py_bind (pb_int64 (case tc_col_max_cnt_inclusive p of Some n \<Rightarrow> n | None \<Rightarrow> 0)) (\<lambda>u.
     py_bind (table_attr_defs ps) (\<lambda>ds.
     Inr (\<lparr>ta_name = tc_name p, ta_col_min_cnt_inclusive = l, ta_col_max_cnt_inclusive = u, ta_attrs = []\<rparr> # ds))))"

definition io :: "IoType \<Rightarrow> string \<Rightarrow> string list \<Rightarrow> TableColParam list option \<Rightarrow> 'f component \<Rightarrow> 'f component py" where
  "io io_type name types col_params c =
     py_bind (check_reserved_words name) (\<lambda>_.
     py_bind (table_attr_defs (case col_params of Some ps \<Rightarrow> ps | None \<Rightarrow> [])) (\<lambda>cols.
     let d = \<lparr>io_name = name, io_types = types, io_attrs = cols\<rparr> in
     py_bind (check_io_def d) (\<lambda>_.
     Inr (if io_type = INPUT then c\<lparr>cp_input_io_decls := cp_input_io_decls c @ [d]\<rparr>
          else c\<lparr>cp_output_io_decls := cp_output_io_decls c @ [d]\<rparr>))))"

text \<open>
  \<open>definition\<close>: the names are collected in \<open>__argnames\<close>, which keeps the names of a call that raises. The
  definition is made once.
\<close>

fun claim_names :: "string \<Rightarrow> (string \<times> string list) list \<Rightarrow> string set \<Rightarrow> unit py \<times> string set" where
  "claim_names what [] names = (Inr (), names)"
| "claim_names what ((name, others) # ds) names =
     (if name \<in> names then (Inl (CompDeclError (what @ '' '' @ name @ '' is duplicate.'')), names)
      else claim_names what ds (set others \<union> insert name names))"

definition input_names :: "'f io_def \<Rightarrow> string \<times> string list" where
  "input_names d = (io_name d, map (\<lambda>t. join_str ''_'' [io_name d, ta_name t]) (io_attrs d))"

definition get_definition :: "'f component \<Rightarrow> 'f component_def py \<times> 'f component" where
  "get_definition c =
     (case cp_definition c of Some d \<Rightarrow> (Inr d, c)
      | None \<Rightarrow>
     (case claim_names ''attr'' (map (\<lambda>a. (ad_name a, [])) (cp_comp_attr_decls c)) (cp_argnames c) of
        (Inl e, names) \<Rightarrow> (Inl e, c\<lparr>cp_argnames := names\<rparr>)
      | (Inr _, names) \<Rightarrow>
     (case claim_names ''input'' (map input_names (cp_input_io_decls c)) names of
        (Inl e, names) \<Rightarrow> (Inl e, c\<lparr>cp_argnames := names\<rparr>)
      | (Inr _, names) \<Rightarrow>
     (case claim_names ''output'' (map (\<lambda>d. (io_name d, [])) (cp_output_io_decls c)) names of
        (Inl e, names) \<Rightarrow> (Inl e, c\<lparr>cp_argnames := names\<rparr>)
      | (Inr _, names) \<Rightarrow>
          (let d = \<lparr>cd_domain = cp_domain c, cd_name = cp_name c, cd_version = cp_version c,
                    cd_attrs = cp_comp_attr_decls c, cd_inputs = cp_input_io_decls c,
                    cd_outputs = cp_output_io_decls c\<rparr>
           in (Inr d, c\<lparr>cp_argnames := names, cp_definition := Some d\<rparr>))))))"

section \<open>The components\<close>

definition string_arg :: "string \<Rightarrow> bool \<Rightarrow> string choice_args" where
  "string_arg name is_list =
     \<lparr>aa_name = name, aa_is_list = is_list, aa_is_optional = False, aa_default_value = Some (One []),
      aa_list_min_length_inclusive = None, aa_list_max_length_inclusive = None, aa_allowed_values = None\<rparr>"

definition kDomain :: string where "kDomain = ''data_management''"
definition kIndividualTable :: string where "kIndividualTable = ''sf.table.individual''"

definition data_upload_comp :: "'f \<Rightarrow> 'f component py" where
  "data_upload_comp zero =
     py_bind (str_attr zero (string_arg ''uploader/domain_id'' False) (Component ''upload'' kDomain ''0.0.1'')) (\<lambda>c.
     py_bind (io INPUT ''uploader_input'' [kIndividualTable] None c) (\<lambda>c.
     io OUTPUT ''receive_output'' [kIndividualTable] None c))"

definition data_auth_comp :: "'f \<Rightarrow> 'f component py" where
  "data_auth_comp zero =
     py_bind (str_attr zero (string_arg ''owner/domain_id'' False) (Component ''authorize'' kDomain ''0.0.1'')) (\<lambda>c.
     py_bind (str_attr zero (string_arg ''authorization_info/domain_ids'' True) c) (\<lambda>c.
     py_bind (str_attr zero (string_arg ''authorization_info/root_certs'' True) c) (\<lambda>c.
     py_bind (str_attr zero (string_arg ''authorization_info/project_id'' False) c) (\<lambda>c.
     py_bind (str_attr zero (string_arg ''authorization_info/columns'' True) c) (\<lambda>c.
     io INPUT ''authorize_input'' [kIndividualTable] None c)))))"

definition data_export_comp :: "'f \<Rightarrow> 'f component py" where
  "data_export_comp zero =
     py_bind (str_attr zero (string_arg ''receiver/domain_id'' False) (Component ''download'' kDomain ''0.0.1'')) (\<lambda>c.
     py_bind (str_attr zero (string_arg ''receiver/vote_result'' False) c) (\<lambda>c.
     py_bind (io INPUT ''sender_input'' [kIndividualTable] None c) (\<lambda>c.
     io OUTPUT ''receiver_output'' [kIndividualTable] None c)))"

definition data_delete_comp :: "'f \<Rightarrow> 'f component py" where
  "data_delete_comp zero =
     py_bind (str_attr zero (string_arg ''deleter/domain_id'' False) (Component ''delete'' kDomain ''0.0.1'')) (\<lambda>c.
     io INPUT ''delete_input'' [kIndividualTable] None c)"

definition data_unauth_comp :: "'f \<Rightarrow> 'f component py" where
  "data_unauth_comp zero =
     py_bind (str_attr zero (string_arg ''owner/domain_id'' False) (Component ''unauthorize'' kDomain ''0.0.1'')) (\<lambda>c.
     io INPUT ''unauthorize_input'' [kIndividualTable] None c)"

section \<open>What a declared component guarantees\<close>

text \<open>A component as a program makes it: with declarations and requests for the definition, in any order.\<close>

inductive declared :: "'f floats \<Rightarrow> 'f \<Rightarrow> 'f component \<Rightarrow> bool" for F zero where
  new: "declared F zero (Component name domain version)"
| float: "declared F zero c \<Longrightarrow> float_attr F zero a c = Inr c' \<Longrightarrow> declared F zero c'"
| int: "declared F zero c \<Longrightarrow> int_attr zero b c = Inr c' \<Longrightarrow> declared F zero c'"
| str: "declared F zero c \<Longrightarrow> str_attr zero s c = Inr c' \<Longrightarrow> declared F zero c'"
| bool: "declared F zero c \<Longrightarrow> bool_attr zero t c = Inr c' \<Longrightarrow> declared F zero c'"
| io: "declared F zero c \<Longrightarrow> io k name types cols c = Inr c' \<Longrightarrow> declared F zero c'"
| defined: "declared F zero c \<Longrightarrow> get_definition c = (r, c') \<Longrightarrow> declared F zero c'"

text \<open>Equal numbers are close to each other, also after they went through a message.\<close>

definition floats_doc :: "'f floats \<Rightarrow> bool" where
  "floats_doc F \<longleftrightarrow> (\<forall>x y. flt_eq F x y \<longrightarrow> isclose F (flt_stored F y) (flt_stored F x))"

definition accepts :: "'f floats \<Rightarrow> 'f attribute_def \<Rightarrow> 'f attribute \<Rightarrow> bool" where
  "accepts F d a \<longleftrightarrow> (\<exists>x. get_value (Message a) (ad_type d) = Inr x \<and> conforms F d x)"

definition attr_ok :: "'f floats \<Rightarrow> 'f attribute_def \<Rightarrow> bool" where
  "attr_ok F d \<longleftrightarrow> ad_prefixes d = [] \<and> ad_type d \<in> set supported \<and>
     \<not> am_lower_bound_enabled (ad_atomic d) \<and> \<not> am_upper_bound_enabled (ad_atomic d) \<and>
     (am_is_optional (ad_atomic d) \<longrightarrow> accepts F d (am_default_value (ad_atomic d)))"

definition io_ok :: "'f io_def \<Rightarrow> bool" where
  "io_ok d \<longleftrightarrow> set (io_types d) \<subseteq> set DistDataType \<and> (\<forall>t \<in> set (io_attrs d). ta_attrs t = [])"

definition definition_ok :: "'f floats \<Rightarrow> 'f component_def \<Rightarrow> bool" where
  "definition_ok F d \<longleftrightarrow> (\<forall>a \<in> set (cd_attrs d). attr_ok F a) \<and> (\<forall>i \<in> set (cd_inputs d @ cd_outputs d). io_ok i) \<and>
     distinct (map ad_name (cd_attrs d) @ map io_name (cd_inputs d) @ map io_name (cd_outputs d))"

definition component_ok :: "'f floats \<Rightarrow> 'f component \<Rightarrow> bool" where
  "component_ok F c \<longleftrightarrow> (\<forall>a \<in> set (cp_comp_attr_decls c). attr_ok F a) \<and>
     (\<forall>i \<in> set (cp_input_io_decls c @ cp_output_io_decls c). io_ok i) \<and>
     (\<forall>d. cp_definition c = Some d \<longrightarrow> definition_ok F d \<and> cd_name d = cp_name c \<and>
        cd_domain d = cp_domain c \<and> cd_version d = cp_version c)"

lemma decl_unless_Inr [simp]: "decl_unless b msg = Inr u \<longleftrightarrow> b"
  by (simp add: decl_unless_def)

lemma each_Inr [simp]: "each f xs = Inr u \<longleftrightarrow> (\<forall>x \<in> set xs. f x = Inr ())"
  by (induction xs) auto

lemma pb_int64_Inr [simp]: "pb_int64 i = Inr j \<longleftrightarrow> j = i \<and> - (2 ^ 63) \<le> i \<and> i < 2 ^ 63"
  by (auto simp: pb_int64_def)

lemma pb_int64s_Inr: "pb_int64s is = Inr js \<Longrightarrow> js = is"
  by (induction "is" arbitrary: js) auto

lemma append_attr_ok:
  assumes "component_ok F c" "attr_ok F \<lparr>ad_prefixes = [], ad_name = name, ad_type = t, ad_atomic = m\<rparr>"
  shows "component_ok F (append_attr name t m c)"
  using assms by (simp add: component_ok_def append_attr_def)

text \<open>What the assignments make of the message.\<close>

lemma assign_default_Inr:
  "assign_default V put put_all a m = Inr m' \<longleftrightarrow>
     (case aa_default_value a of None \<Rightarrow> m' = m
      | Some d \<Rightarrow> \<exists>x. m' = m\<lparr>am_default_value := x\<rparr> \<and>
          (if aa_is_list a then \<exists>vs. elements V d = Inr vs \<and> put_all vs (am_default_value m) = Inr x
           else \<exists>v. d = One v \<and> put v (am_default_value m) = Inr x))"
  by (auto simp: assign_default_def split: option.split default_arg.split)

lemma assign_allowed_Inr:
  "assign_allowed put_all a m = Inr m' \<longleftrightarrow>
     (case aa_allowed_values a of None \<Rightarrow> m' = m
      | Some vs \<Rightarrow> \<exists>x. m' = m\<lparr>am_allowed_values := x\<rparr> \<and> put_all vs (am_allowed_values m) = Inr x)"
  by (auto simp: assign_allowed_def split: option.split)

lemma assign_list_lengths_Inr:
  "assign_list_lengths a m = Inr m' \<Longrightarrow> \<exists>l u. m' = m\<lparr>am_list_min_length_inclusive := l, am_list_max_length_inclusive := u\<rparr>"
  by (cases m) (auto simp: assign_list_lengths_def split: if_splits)

lemma assign_bounds_Inr [simp]:
  "assign_bounds a m = Inr m' \<longleftrightarrow> m' = m \<and> aa_lower_bound a = None \<and> aa_upper_bound a = None"
  by (auto simp: assign_bounds_def)

text \<open>A default of a single value is among the allowed ones.\<close>

lemma check_default_allowed_One:
  "check_default_allowed V a = Inr u \<Longrightarrow> aa_default_value a = Some (One v) \<Longrightarrow> \<not> aa_is_list a \<Longrightarrow>
   aa_allowed_values a = Some vs \<Longrightarrow> \<exists>w \<in> set vs. v_eq V v w"
  by (auto simp: check_default_allowed_def Let_def list_ex_iff)

lemmas attr_defs = attr_ok_def accepts_def get_value_def supported_def new_atomic_def

lemma float_attr_ok:
  assumes F: "floats_doc F" and c: "component_ok F c" and decl: "float_attr F zero a c = Inr c'"
  shows "component_ok F c'"
proof -
  let ?t = "if aa_is_list a then AT_FLOATS else AT_FLOAT"
  obtain m1 m2 m where m: "check_default_allowed (python_float F) a = Inr ()" "check_optional a = Inr ()"
    "assign_default (python_float F) (\<lambda>v x. Inr (x\<lparr>at_f := flt_stored F v\<rparr>))
       (\<lambda>vs x. Inr (x\<lparr>at_fs := map (flt_stored F) vs\<rparr>)) a (new_atomic zero (aa_is_optional a)) = Inr m1"
    "assign_allowed (\<lambda>vs x. Inr (x\<lparr>at_fs := map (flt_stored F) vs\<rparr>)) a m1 = Inr m2"
    "assign_list_lengths a m2 = Inr m" "c' = append_attr (aa_name a) ?t m c"
    using decl by (auto simp: float_attr_def check_number_def)
  have "attr_ok F \<lparr>ad_prefixes = [], ad_name = aa_name a, ad_type = ?t, ad_atomic = m\<rparr>"
    using m(2-4) assign_list_lengths_Inr [OF m(5)] check_default_allowed_One [OF m(1)] F
    by (fastforce simp: attr_defs floats_doc_def assign_default_Inr assign_allowed_Inr check_optional_def python_float_def
        empty_attribute_def split: option.splits if_splits)
  then show ?thesis using append_attr_ok [OF c] m(6) by simp
qed

lemma int_attr_ok:
  assumes c: "component_ok F c" and decl: "int_attr zero a c = Inr c'"
  shows "component_ok F c'"
proof -
  let ?t = "if aa_is_list a then AT_INTS else AT_INT"
  obtain m1 m2 m where m: "check_default_allowed python_int a = Inr ()" "check_optional a = Inr ()"
    "assign_default python_int (\<lambda>v x. py_bind (pb_int64 v) (\<lambda>v. Inr (x\<lparr>at_i64 := v\<rparr>)))
       (\<lambda>vs x. py_bind (pb_int64s vs) (\<lambda>vs. Inr (x\<lparr>at_i64s := vs\<rparr>))) a (new_atomic zero (aa_is_optional a)) = Inr m1"
    "assign_allowed (\<lambda>vs x. py_bind (pb_int64s vs) (\<lambda>vs. Inr (x\<lparr>at_i64s := vs\<rparr>))) a m1 = Inr m2"
    "assign_list_lengths a m2 = Inr m" "c' = append_attr (aa_name a) ?t m c"
    using decl by (auto simp: int_attr_def check_number_def)
  have "attr_ok F \<lparr>ad_prefixes = [], ad_name = aa_name a, ad_type = ?t, ad_atomic = m\<rparr>"
    using m(2-4) assign_list_lengths_Inr [OF m(5)] check_default_allowed_One [OF m(1)]
    by (fastforce simp: attr_defs assign_default_Inr assign_allowed_Inr check_optional_def python_int_def
        empty_attribute_def dest!: pb_int64s_Inr split: option.splits if_splits)
  then show ?thesis using append_attr_ok [OF c] m(6) by simp
qed

lemma str_attr_ok:
  assumes c: "component_ok F c" and decl: "str_attr zero a c = Inr c'"
  shows "component_ok F c'"
proof -
  let ?t = "if aa_is_list a then AT_STRINGS else AT_STRING"
  obtain m1 m2 m where m: "check_default_allowed python_str a = Inr ()" "check_optional a = Inr ()"
    "assign_default python_str (\<lambda>v x. Inr (x\<lparr>at_s := v\<rparr>)) (\<lambda>vs x. Inr (x\<lparr>at_ss := vs\<rparr>)) a
       (new_atomic zero (aa_is_optional a)) = Inr m1"
    "assign_allowed (\<lambda>vs x. Inr (x\<lparr>at_ss := vs\<rparr>)) a m1 = Inr m2"
    "assign_list_lengths a m2 = Inr m" "c' = append_attr (aa_name a) ?t m c"
    using decl by (auto simp: str_attr_def)
  have "attr_ok F \<lparr>ad_prefixes = [], ad_name = aa_name a, ad_type = ?t, ad_atomic = m\<rparr>"
    using m(2-4) assign_list_lengths_Inr [OF m(5)] check_default_allowed_One [OF m(1)]
    by (fastforce simp: attr_defs assign_default_Inr assign_allowed_Inr check_optional_def python_str_def
        empty_attribute_def split: option.splits if_splits)
  then show ?thesis using append_attr_ok [OF c] m(6) by simp
qed

lemma bool_attr_ok:
  assumes c: "component_ok F c" and decl: "bool_attr zero a c = Inr c'"
  shows "component_ok F c'"
proof -
  let ?t = "if aa_is_list a then AT_BOOLS else AT_BOOL"
  obtain m1 m where m: "assign_default python_bool (\<lambda>v x. Inr (x\<lparr>at_b := v\<rparr>)) (\<lambda>vs x. Inr (x\<lparr>at_bs := vs\<rparr>)) a
       (new_atomic zero (aa_is_optional a)) = Inr m1"
    "assign_list_lengths a m1 = Inr m" "c' = append_attr (aa_name a) ?t m c"
    using decl by (auto simp: bool_attr_def)
  have "attr_ok F \<lparr>ad_prefixes = [], ad_name = aa_name a, ad_type = ?t, ad_atomic = m\<rparr>"
    using m(1) assign_list_lengths_Inr [OF m(2)]
    by (auto simp: attr_defs assign_default_Inr split: option.splits if_splits)
  then show ?thesis using append_attr_ok [OF c] m(3) by simp
qed

lemma table_attr_defs_Inr: "table_attr_defs ps = Inr ds \<Longrightarrow> \<forall>t \<in> set ds. ta_attrs t = []"
  by (induction ps arbitrary: ds) auto

lemma io_keeps_ok:
  assumes "component_ok F c" "io k name types cols c = Inr c'"
  shows "component_ok F c'"
proof -
  obtain ts where ts: "table_attr_defs (case cols of Some ps \<Rightarrow> ps | None \<Rightarrow> []) = (Inr ts :: 'a table_attr_def list py)"
    "\<forall>t \<in> set types. t \<in> set DistDataType"
    "c' = (if k = INPUT
       then c\<lparr>cp_input_io_decls := cp_input_io_decls c @ [\<lparr>io_name = name, io_types = types, io_attrs = ts\<rparr>]\<rparr>
       else c\<lparr>cp_output_io_decls := cp_output_io_decls c @ [\<lparr>io_name = name, io_types = types, io_attrs = ts\<rparr>]\<rparr>)"
    using assms(2) by (auto simp: io_def Let_def check_io_def_def split: if_splits)
  then have "io_ok \<lparr>io_name = name, io_types = types, io_attrs = ts\<rparr>"
    using table_attr_defs_Inr [OF ts(1)] by (auto simp: io_ok_def)
  with ts(3) assms(1) show ?thesis by (cases k) (simp_all add: component_ok_def ball_Un)
qed

lemma claim_names_Inr:
  "claim_names what ds names = (Inr u, names') \<Longrightarrow>
   distinct (map fst ds) \<and> set (map fst ds) \<inter> names = {} \<and> set (map fst ds) \<union> names \<subseteq> names'"
proof (induction what ds names rule: claim_names.induct)
  case (2 what name others ds names)
  then have new: "name \<notin> names" and rest: "claim_names what ds (set others \<union> insert name names) = (Inr u, names')"
    by (simp_all split: if_splits)
  show ?case using 2(1) [OF new rest] new by simp blast
qed simp

lemma claims_distinct:
  assumes "claim_names w1 xs n0 = (Inr (), n1)" "claim_names w2 ys n1 = (Inr (), n2)" "claim_names w3 zs n2 = (Inr (), n3)"
  shows "distinct (map fst xs @ map fst ys @ map fst zs)"
  using assms [THEN claim_names_Inr] unfolding distinct_append set_append by blast

lemma get_definition_Inr:
  assumes "component_ok F c" "get_definition c = (Inr d, c')"
  shows "definition_ok F d \<and> cd_name d = cp_name c \<and> cd_domain d = cp_domain c \<and> cd_version d = cp_version c"
proof (cases "cp_definition c")
  case None
  let ?attrs = "map (\<lambda>a. (ad_name a, [])) (cp_comp_attr_decls c)" and ?ins = "map input_names (cp_input_io_decls c)"
    and ?outs = "map (\<lambda>d. (io_name d, [])) (cp_output_io_decls c)"
  obtain r1 n1 where c1: "claim_names ''attr'' ?attrs (cp_argnames c) = (r1, n1)" by (metis surj_pair)
  obtain r2 n2 where c2: "claim_names ''input'' ?ins n1 = (r2, n2)" by (metis surj_pair)
  obtain r3 n3 where c3: "claim_names ''output'' ?outs n2 = (r3, n3)" by (metis surj_pair)
  have r: "r1 = Inr ()" "r2 = Inr ()" "r3 = Inr ()"
    using assms(2) None c1 c2 c3 by (cases r1; cases r2; cases r3; simp add: get_definition_def)+
  have n: "claim_names ''attr'' ?attrs (cp_argnames c) = (Inr (), n1)" "claim_names ''input'' ?ins n1 = (Inr (), n2)"
    "claim_names ''output'' ?outs n2 = (Inr (), n3)"
    "d = \<lparr>cd_domain = cp_domain c, cd_name = cp_name c, cd_version = cp_version c,
       cd_attrs = cp_comp_attr_decls c, cd_inputs = cp_input_io_decls c, cd_outputs = cp_output_io_decls c\<rparr>"
    using c1 c2 c3 r assms(2) None by (simp_all add: get_definition_def Let_def)
  have attrs: "map fst ?attrs = map ad_name (cd_attrs d)" and ins: "map fst ?ins = map io_name (cd_inputs d)"
    and outs: "map fst ?outs = map io_name (cd_outputs d)"
    using n(4) by (simp_all add: o_def input_names_def)
  have "distinct (map ad_name (cd_attrs d) @ map io_name (cd_inputs d) @ map io_name (cd_outputs d))"
    using claims_distinct [OF n(1-3)] unfolding attrs ins outs .
  then show ?thesis using assms(1) n(4) by (simp add: definition_ok_def component_ok_def)
next
  case (Some d')
  then have "d = d'" using assms(2) by (simp add: get_definition_def)
  then show ?thesis using assms(1) Some by (simp add: component_ok_def)
qed

lemma get_definition_state:
  assumes "get_definition c = (r, c')"
  shows "cp_name c' = cp_name c" "cp_domain c' = cp_domain c" "cp_version c' = cp_version c"
    "cp_comp_attr_decls c' = cp_comp_attr_decls c" "cp_input_io_decls c' = cp_input_io_decls c"
    "cp_output_io_decls c' = cp_output_io_decls c"
    "cp_definition c' = cp_definition c \<or> (\<exists>d. r = Inr d \<and> cp_definition c' = Some d)"
proof -
  obtain r1 n1 where c1: "claim_names ''attr'' (map (\<lambda>a. (ad_name a, [])) (cp_comp_attr_decls c)) (cp_argnames c) = (r1, n1)"
    by (metis surj_pair)
  obtain r2 n2 where c2: "claim_names ''input'' (map input_names (cp_input_io_decls c)) n1 = (r2, n2)" by (metis surj_pair)
  obtain r3 n3 where c3: "claim_names ''output'' (map (\<lambda>d. (io_name d, [])) (cp_output_io_decls c)) n2 = (r3, n3)"
    by (metis surj_pair)
  note def = assms [unfolded get_definition_def c1 Let_def, symmetric]
  show "cp_name c' = cp_name c" "cp_domain c' = cp_domain c" "cp_version c' = cp_version c"
    "cp_comp_attr_decls c' = cp_comp_attr_decls c" "cp_input_io_decls c' = cp_input_io_decls c"
    "cp_output_io_decls c' = cp_output_io_decls c"
    "cp_definition c' = cp_definition c \<or> (\<exists>d. r = Inr d \<and> cp_definition c' = Some d)"
    using def c2 c3 by (cases "cp_definition c"; cases r1; cases r2; cases r3; simp)+
qed

lemma get_definition_ok:
  assumes c: "component_ok F c" and g: "get_definition c = (r, c')"
  shows "component_ok F c'"
proof -
  note state = get_definition_state [OF g]
  show ?thesis
  proof (cases "cp_definition c' = cp_definition c")
    case True
    with c state(1-6) show ?thesis by (simp add: component_ok_def)
  next
    case False
    then obtain d where d: "r = Inr d" "cp_definition c' = Some d" using state(7) by blast
    from get_definition_Inr [OF c g [unfolded d(1)]] c state(1-6) d(2) show ?thesis by (simp add: component_ok_def)
  qed
qed

lemma declared_ok:
  assumes "floats_doc F" "declared F zero c"
  shows "component_ok F c"
  using assms(2)
proof (induction rule: declared.induct)
  case (new name domain version)
  then show ?case by (simp add: component_ok_def Component_def)
qed (blast intro: float_attr_ok [OF assms(1)] int_attr_ok str_attr_ok bool_attr_ok io_keeps_ok get_definition_ok)+

section \<open>Declarations and reader together\<close>

lemma conforms_checked:
  assumes "get_value (Message a) (ad_type d) = Inr x" "conforms F d x"
  shows "check_allowed_values F (Message a) d = Inr True" "check_lower_bound F (Message a) d = Inr True"
    "check_upper_bound F (Message a) d = Inr True"
proof -
  have "check_allowed_values F (Message a) d = Inr True \<and> check_lower_bound F (Message a) d = Inr True \<and>
    check_upper_bound F (Message a) d = Inr True"
    using assms
    by (cases "ad_type d")
      (auto simp: check_allowed_values_def check_lower_bound_def check_upper_bound_def get_value_def Let_def
        list_ex_iff field_def py_bind_def split: if_splits)
  then show "check_allowed_values F (Message a) d = Inr True" "check_lower_bound F (Message a) d = Inr True"
    "check_upper_bound F (Message a) d = Inr True" by simp_all
qed

text \<open>The loop over the declared attributes succeeds when all names differ and all values conform.\<close>

lemma read_def_attrs_complete:
  assumes "distinct (map full_name ds)" "\<forall>d \<in> set ds. ad_type d \<in> set supported"
    "\<forall>d \<in> set ds. \<exists>a. given_or_default m d a \<and> accepts F d a"
  shows "\<exists>m'. read_def_attrs F ds m = Inr m'"
  using assms
proof (induction ds arbitrary: m)
  case (Cons d ds)
  then obtain a x where a: "given_or_default m d a" "get_value (Message a) (ad_type d) = Inr x" "conforms F d x"
    by (auto simp: accepts_def)
  have v: "(case m (full_name d) of Some v \<Rightarrow> Inr v | None \<Rightarrow>
      py_bind (raise_unless (am_is_optional (ad_atomic d)) (''attr '' @ full_name d @ '' is not optional and not set.''))
        (\<lambda>_. Inr (Message (am_default_value (ad_atomic d))))) = (Inr (Message a) :: 'a entry py)"
    using a(1) by (auto simp: given_or_default_def)
  have "given_or_default (m(full_name d \<mapsto> Plain x)) e b = given_or_default m e b" if "e \<in> set ds" for e b
  proof -
    have "full_name e \<noteq> full_name d" using that Cons.prems(1) by (metis distinct.simps(2) image_eqI list.simps(9) set_map)
    then show ?thesis by (simp add: given_or_default_def)
  qed
  then have "\<forall>e \<in> set ds. \<exists>b. given_or_default (m(full_name d \<mapsto> Plain x)) e b \<and> accepts F e b"
    using Cons.prems(3) by simp
  then have "\<exists>m'. read_def_attrs F ds (m(full_name d \<mapsto> Plain x)) = Inr m'"
    by (rule Cons.IH [rotated 2]) (use Cons.prems(1,2) in simp_all)
  then show ?case
    unfolding read_def_attrs.simps Let_def v
    using Cons.prems(2) a(2) conforms_checked [OF a(2,3)] by (simp add: py_bind_def raise_unless_def)
qed simp

text \<open>No path is set twice.\<close>

fun set_once :: "(string \<times> 'f attribute) list \<Rightarrow> bool" where
  "set_once [] \<longleftrightarrow> True"
| "set_once ((p, a) # rest) \<longleftrightarrow> (at_is_na a \<or> p \<notin> fst ` set rest) \<and> set_once rest"

lemma read_instance_attrs_iff:
  "(\<exists>m'. read_instance_attrs xs m = Inr m') \<longleftrightarrow> set_once xs \<and> (\<forall>p \<in> fst ` set xs. m p = None)"
proof (induction xs arbitrary: m)
  case (Cons pa xs)
  obtain p a where pa: "pa = (p, a)" by fastforce
  show ?case by (auto simp: pa Cons.IH)
qed simp

lemma read_inputs_complete:
  assumes "distinct (map (io_name \<circ> snd) xs)" "\<forall>(x, d) \<in> set xs. inputs (io_name d) = None \<and> io_attrs d = [] \<and>
    (io_types d = [] \<or> dd_type x \<in> set (io_types d))"
  shows "\<exists>inputs'. read_inputs zero xs inputs m = Inr (inputs', m)"
  using assms
proof (induction xs arbitrary: inputs)
  case (Cons xd xs)
  obtain x d where xd: "xd = (x, d)" by fastforce
  have "\<exists>inputs'. read_inputs zero xs (inputs(io_name d \<mapsto> x)) m = Inr (inputs', m)"
    using Cons.prems by (intro Cons.IH) (auto simp: xd image_iff split_beta)
  then show ?case using Cons.prems(2) by (auto simp: xd)
qed simp

lemma read_outputs_complete:
  assumes "distinct (map (io_name \<circ> snd) xs)" "\<forall>(u, d) \<in> set xs. outputs (io_name d) = None"
  shows "\<exists>outputs'. read_outputs xs outputs = Inr outputs'"
  using assms
proof (induction xs arbitrary: outputs)
  case (Cons xd xs)
  obtain x d where xd: "xd = (x, d)" by fastforce
  have "\<exists>outputs'. read_outputs xs (outputs(io_name d \<mapsto> x)) = Inr outputs'"
    using Cons.prems by (intro Cons.IH) (auto simp: xd image_iff split_beta)
  then show ?case using Cons.prems(2) by (auto simp: xd)
qed simp

lemma EvalParamReader_iff:
  "(\<exists>r. EvalParamReader F zero inst def = Inr r) \<longleftrightarrow>
    ne_domain inst = cd_domain def \<and> ne_name inst = cd_name def \<and> ne_version inst = cd_version def \<and>
    length (ne_inputs inst) = length (cd_inputs def) \<and> length (ne_output_uris inst) = length (cd_outputs def) \<and>
    (\<exists>m0 m1 r. read_instance_attrs (zip (ne_attr_paths inst) (ne_attrs inst)) Map.empty = Inr m0 \<and>
       read_def_attrs F (cd_attrs def) m0 = Inr m1 \<and>
       read_inputs zero (zip (ne_inputs inst) (cd_inputs def)) Map.empty m1 = Inr r) \<and>
    (\<exists>outputs. read_outputs (zip (ne_output_uris inst) (cd_outputs def)) Map.empty = Inr outputs)"
  by (auto simp: EvalParamReader_def split_beta)

text \<open>The three stages for a definition that was made of declarations.\<close>

lemma attrs_stage:
  assumes ok: "definition_ok F def" and m0: "read_instance_attrs (zip (ne_attr_paths inst) (ne_attrs inst)) Map.empty = Inr m0"
  shows "(\<exists>m1. read_def_attrs F (cd_attrs def) m0 = Inr m1) \<longleftrightarrow>
    (\<forall>d \<in> set (cd_attrs def). (\<forall>a. node_sets inst (ad_name d) a \<longrightarrow> accepts F d a) \<and>
       (am_is_optional (ad_atomic d) \<or> (\<exists>a. node_sets inst (ad_name d) a)))"
proof -
  have name: "full_name d = ad_name d" if "d \<in> set (cd_attrs def)" for d
    using ok that by (simp add: definition_ok_def attr_ok_def full_name_def)
  have sets: "m0 p = Some v \<longleftrightarrow> (\<exists>a. v = Message a \<and> node_sets inst p a)" for p v
    using read_instance_attrs_sound [OF m0, of p v] by (auto simp: node_sets_def)
  then have unset: "m0 p = None \<longleftrightarrow> (\<nexists>a. node_sets inst p a)" for p by (metis not_Some_eq)
  have given: "given_or_default m0 d a \<longleftrightarrow> node_sets inst (ad_name d) a \<or> (\<nexists>a. node_sets inst (ad_name d) a) \<and>
      am_is_optional (ad_atomic d) \<and> a = am_default_value (ad_atomic d)" if "d \<in> set (cd_attrs def)" for d a
    using sets unset name [OF that] by (simp add: given_or_default_def)
  have unique: "a = b" if "node_sets inst p a" "node_sets inst p b" for p a b using sets [of p] that by (metis entry.inject(1) option.inject)
  have "map full_name (cd_attrs def) = map ad_name (cd_attrs def)" using name by simp
  then have dist: "distinct (map full_name (cd_attrs def))" using ok by (simp only: definition_ok_def distinct_append)
  have decl: "ad_type d \<in> set supported" "am_is_optional (ad_atomic d) \<Longrightarrow> accepts F d (am_default_value (ad_atomic d))"
    if "d \<in> set (cd_attrs def)" for d
    using ok that by (simp_all add: definition_ok_def attr_ok_def)
  have "\<exists>a. given_or_default m0 d a \<and> accepts F d a" if "d \<in> set (cd_attrs def)" "read_def_attrs F (cd_attrs def) m0 = Inr m1" for d m1
    using read_def_attrs_sound(3) [OF that(2,1)] by (auto simp: accepts_def)
  then have "(\<exists>m1. read_def_attrs F (cd_attrs def) m0 = Inr m1) \<longleftrightarrow> (\<forall>d \<in> set (cd_attrs def). \<exists>a. given_or_default m0 d a \<and> accepts F d a)"
    using read_def_attrs_complete [OF dist] decl(1) by blast
  also have "\<dots> \<longleftrightarrow> (\<forall>d \<in> set (cd_attrs def). (\<forall>a. node_sets inst (ad_name d) a \<longrightarrow> accepts F d a) \<and>
       (am_is_optional (ad_atomic d) \<or> (\<exists>a. node_sets inst (ad_name d) a)))"
  proof (rule ball_cong [OF refl])
    fix d assume d: "d \<in> set (cd_attrs def)"
    show "(\<exists>a. given_or_default m0 d a \<and> accepts F d a) \<longleftrightarrow> (\<forall>a. node_sets inst (ad_name d) a \<longrightarrow> accepts F d a) \<and>
       (am_is_optional (ad_atomic d) \<or> (\<exists>a. node_sets inst (ad_name d) a))"
    proof (cases "\<exists>a. node_sets inst (ad_name d) a")
      case True
      then obtain b where b: "node_sets inst (ad_name d) b" by blast
      then have "node_sets inst (ad_name d) a \<longleftrightarrow> a = b" for a using unique by blast
      then show ?thesis using given [OF d] by simp
    next
      case False
      then show ?thesis using given [OF d] decl(2) [OF d] by auto
    qed
  qed
  finally show ?thesis .
qed

lemma inputs_stage:
  assumes ok: "definition_ok F def" and cols: "\<forall>i \<in> set (cd_inputs def). io_attrs i = []"
    and len: "length (ne_inputs inst) = length (cd_inputs def)"
  shows "(\<exists>r. read_inputs zero (zip (ne_inputs inst) (cd_inputs def)) Map.empty m = Inr r) \<longleftrightarrow>
    list_all2 (\<lambda>x i. io_types i = [] \<or> dd_type x \<in> set (io_types i)) (ne_inputs inst) (cd_inputs def)"
proof -
  have "map (io_name \<circ> snd) (zip (ne_inputs inst) (cd_inputs def)) = map io_name (cd_inputs def)"
    using len by (metis map_map map_snd_zip)
  then have dist: "distinct (map (io_name \<circ> snd) (zip (ne_inputs inst) (cd_inputs def)))"
    using ok by (simp only: definition_ok_def distinct_append)
  show ?thesis
  proof
    assume "\<exists>r. read_inputs zero (zip (ne_inputs inst) (cd_inputs def)) Map.empty m = Inr r"
    then obtain i m' where "read_inputs zero (zip (ne_inputs inst) (cd_inputs def)) Map.empty m = Inr (i, m')" by auto
    from read_inputs_sound [OF this] len
    show "list_all2 (\<lambda>x i. io_types i = [] \<or> dd_type x \<in> set (io_types i)) (ne_inputs inst) (cd_inputs def)"
      by (auto simp: list_all2_iff)
  next
    assume "list_all2 (\<lambda>x i. io_types i = [] \<or> dd_type x \<in> set (io_types i)) (ne_inputs inst) (cd_inputs def)"
    then have "\<forall>(x, d) \<in> set (zip (ne_inputs inst) (cd_inputs def)). Map.empty (io_name d) = None \<and> io_attrs d = [] \<and>
        (io_types d = [] \<or> dd_type x \<in> set (io_types d))"
      using cols by (fastforce simp: list_all2_iff dest: set_zip_rightD)
    from read_inputs_complete [OF dist this]
    show "\<exists>r. read_inputs zero (zip (ne_inputs inst) (cd_inputs def)) Map.empty m = Inr r" by blast
  qed
qed

lemma outputs_stage:
  assumes ok: "definition_ok F def" and len: "length (ne_output_uris inst) = length (cd_outputs def)"
  shows "\<exists>outputs. read_outputs (zip (ne_output_uris inst) (cd_outputs def)) Map.empty = Inr outputs"
proof -
  have "map (io_name \<circ> snd) (zip (ne_output_uris inst) (cd_outputs def)) = map io_name (cd_outputs def)"
    using len by (metis map_map map_snd_zip)
  then have "distinct (map (io_name \<circ> snd) (zip (ne_output_uris inst) (cd_outputs def)))"
    using ok by (simp only: definition_ok_def distinct_append)
  then show ?thesis by (rule read_outputs_complete) auto
qed


text \<open>The definitions of the five components.\<close>

definition comp_definition :: "'f component py \<Rightarrow> 'f component_def py" where
  "comp_definition cp = py_bind cp (\<lambda>c. fst (get_definition c))"

definition string_attr_def :: "'f \<Rightarrow> string \<Rightarrow> bool \<Rightarrow> 'f attribute_def" where
  "string_attr_def zero name is_list =
     \<lparr>ad_prefixes = [], ad_name = name, ad_type = if is_list then AT_STRINGS else AT_STRING,
      ad_atomic = (new_atomic zero False)\<lparr>am_list_max_length_inclusive := if is_list then - 1 else 0\<rparr>\<rparr>"

definition table_io :: "string \<Rightarrow> 'f io_def" where
  "table_io name = \<lparr>io_name = name, io_types = [kIndividualTable], io_attrs = []\<rparr>"

lemma str_attr_string_arg:
  "name \<notin> set [''input'', ''output''] \<Longrightarrow> str_attr zero (string_arg name is_list) c =
     Inr (c\<lparr>cp_comp_attr_decls := cp_comp_attr_decls c @ [string_attr_def zero name is_list]\<rparr>)"
  by (simp add: str_attr_def string_arg_def check_reserved_words_def decl_unless_def check_optional_def
      check_default_allowed_def check_list_lengths_def assign_default_def assign_allowed_def assign_list_lengths_def
      elements_def python_str_def pb_int64_def py_bind_def append_attr_def string_attr_def_def new_atomic_def
      empty_attribute_def)

lemma io_table:
  "name \<notin> set [''input'', ''output''] \<Longrightarrow> io k name [kIndividualTable] None c =
     Inr (if k = INPUT then c\<lparr>cp_input_io_decls := cp_input_io_decls c @ [table_io name]\<rparr>
          else c\<lparr>cp_output_io_decls := cp_output_io_decls c @ [table_io name]\<rparr>)"
  by (simp add: io_def check_reserved_words_def decl_unless_def check_io_def_def table_io_def py_bind_def Let_def
      DistDataType_def kIndividualTable_def)

lemmas comp_defs = comp_definition_def str_attr_string_arg io_table py_bind_def Component_def get_definition_def
  input_names_def string_attr_def_def table_io_def Let_def

lemma upload_definition:
  "comp_definition (data_upload_comp zero) = Inr
     \<lparr>cd_domain = kDomain, cd_name = ''upload'', cd_version = ''0.0.1'',
      cd_attrs = [string_attr_def zero ''uploader/domain_id'' False],
      cd_inputs = [table_io ''uploader_input''], cd_outputs = [table_io ''receive_output'']\<rparr>"
  by (simp add: data_upload_comp_def comp_defs)

lemma auth_definition:
  "comp_definition (data_auth_comp zero) = Inr
     \<lparr>cd_domain = kDomain, cd_name = ''authorize'', cd_version = ''0.0.1'',
      cd_attrs = [string_attr_def zero ''owner/domain_id'' False,
        string_attr_def zero ''authorization_info/domain_ids'' True,
        string_attr_def zero ''authorization_info/root_certs'' True,
        string_attr_def zero ''authorization_info/project_id'' False,
        string_attr_def zero ''authorization_info/columns'' True],
      cd_inputs = [table_io ''authorize_input''], cd_outputs = []\<rparr>"
  by (simp add: data_auth_comp_def comp_defs)

lemma export_definition:
  "comp_definition (data_export_comp zero) = Inr
     \<lparr>cd_domain = kDomain, cd_name = ''download'', cd_version = ''0.0.1'',
      cd_attrs = [string_attr_def zero ''receiver/domain_id'' False, string_attr_def zero ''receiver/vote_result'' False],
      cd_inputs = [table_io ''sender_input''], cd_outputs = [table_io ''receiver_output'']\<rparr>"
  by (simp add: data_export_comp_def comp_defs)

lemma delete_definition:
  "comp_definition (data_delete_comp zero) = Inr
     \<lparr>cd_domain = kDomain, cd_name = ''delete'', cd_version = ''0.0.1'',
      cd_attrs = [string_attr_def zero ''deleter/domain_id'' False],
      cd_inputs = [table_io ''delete_input''], cd_outputs = []\<rparr>"
  by (simp add: data_delete_comp_def comp_defs)

lemma unauth_definition:
  "comp_definition (data_unauth_comp zero) = Inr
     \<lparr>cd_domain = kDomain, cd_name = ''unauthorize'', cd_version = ''0.0.1'',
      cd_attrs = [string_attr_def zero ''owner/domain_id'' False],
      cd_inputs = [table_io ''unauthorize_input''], cd_outputs = []\<rparr>"
  by (simp add: data_unauth_comp_def comp_defs)

definition delete_node :: "int node_eval_param" where
  "delete_node = \<lparr>ne_domain = ''data_management'', ne_name = ''delete'', ne_version = ''0.0.1'',
     ne_attr_paths = [''deleter/domain_id''], ne_attrs = [no_attribute\<lparr>at_s := ''alice''\<rparr>],
     ne_inputs = [\<lparr>dd_type = ''sf.table.individual'', dd_uris = [''dm://input?id=t'']\<rparr>], ne_output_uris = []\<rparr>"


text \<open>
  No attribute with a bound can be declared: \<open>float_attr\<close> and \<open>int_attr\<close> raise for all parameters that
  have one, with the sanity check that fails first or else at the assignment.
\<close>

lemma bounded_attr_raises:
  assumes "aa_lower_bound a \<noteq> None \<or> aa_upper_bound a \<noteq> None"
  shows "float_attr F zero a c \<noteq> Inr c'"
  using assms by (auto simp: float_attr_def)

lemma bounded_int_attr_raises:
  assumes "aa_lower_bound a \<noteq> None \<or> aa_upper_bound a \<noteq> None"
  shows "int_attr zero a c \<noteq> Inr c'"
  using assms by (auto simp: int_attr_def)

end
