(* ===== verification/Dm_Server.thy ===== *)
theory Dm_Server
  imports Dir_Crypto
begin

text \<open>
  The file server of the data management component (\<open>dm_component/componentize/server\<close>): its client
  for the data mesh, the handlers for upload, download, metadata and shutdown, and the dispatch
  of a request; what an upload guarantees to a later download, how the server ends, and which
  files its requests reach.
\<close>

section \<open>Messages and outside code\<close>

text \<open>Errors of the server are boxed; what can be seen of them is their text.\<close>

type_synonym 'a boxed = "string + 'a"

record data_column =
  dc_name :: string
  dc_type :: string
  dc_comment :: string

record partition_info =
  pt_type :: string
  pt_fields :: "data_column list"

record DomainData =
  do_domaindata_id :: string
  do_name :: string
  do_type :: string
  do_relative_uri :: string
  do_datasource_id :: string
  do_attributes :: "(string \<times> string) list"
  do_partition :: "partition_info option"
  do_columns :: "data_column list"
  do_vendor :: string
  do_file_format :: int
  do_author :: string

record DataSourceInfo =
  in_localfs :: "string option"

record DomainDataSource =
  so_info :: "DataSourceInfo option"

record CreateDomainDataRequest =
  cr_domaindata_id :: string
  cr_name :: string
  cr_type :: string
  cr_relative_uri :: string
  cr_datasource_id :: string
  cr_attributes :: "(string \<times> string) list"
  cr_partition :: "partition_info option"
  cr_columns :: "data_column list"
  cr_vendor :: string
  cr_file_format :: int

record mesh_status =
  ms_code :: int
  ms_message :: string

record 'd mesh_response =
  mr_status :: "mesh_status option"
  mr_data :: "'d option"

text \<open>
  The data mesh, a service that keeps a catalogue of files and of the directories (data sources)
  they are in, as seen through the HTTP client and the JSON conversion of the three messages: the
  URL and the request give an error or a response, and change the state of the service.
\<close>

record 'm mesh =
  post_query_data :: "string \<Rightarrow> string \<Rightarrow> 'm \<Rightarrow> DomainData mesh_response boxed \<times> 'm"
  post_query_source :: "string \<Rightarrow> string \<Rightarrow> 'm \<Rightarrow> DomainDataSource mesh_response boxed \<times> 'm"
  post_create :: "string \<Rightarrow> CreateDomainDataRequest \<Rightarrow> 'm \<Rightarrow> string mesh_response boxed \<times> 'm"

record url =
  u_scheme :: string
  u_path :: string
  u_query :: "string option"

record DmOutputUriQueryParams =
  op_datasource_id :: string
  op_id :: string
  op_uri :: string

text \<open>
  The crates \<open>url\<close>, \<open>serde_qs\<close>, \<open>serde_json\<close> and \<open>multipart_async\<close>, and what the operating system refuses.
  A field of a multipart request delivers its data in chunks; every chunk can be an error. A write
  or copy that fails leaves what was written so far.
\<close>

type_synonym chunks = "bytes boxed list"

record 'm dm_env =
  de_endpoint :: string
  de_mesh :: "'m mesh"
  url_parse :: "string \<Rightarrow> url boxed"
  qs_input :: "string \<Rightarrow> string boxed"
  qs_output :: "string \<Rightarrow> DmOutputUriQueryParams boxed"
  json_uri :: "bytes \<Rightarrow> string boxed"
  json_domain_data :: "string \<Rightarrow> DomainData boxed"
  domain_data_json :: "DomainData \<Rightarrow> bytes boxed"
  data_to_string :: "chunks \<Rightarrow> string boxed"
  de_mkdir_error :: "fstate \<Rightarrow> string \<Rightarrow> string option"
  de_open_error :: "fstate \<Rightarrow> string \<Rightarrow> string option"
  de_read_error :: "fstate \<Rightarrow> string \<Rightarrow> string option"
  de_write_error :: "fstate \<Rightarrow> string \<Rightarrow> bytes \<Rightarrow> (string \<times> bytes) option"
  de_copy_error :: "fstate \<Rightarrow> string \<Rightarrow> string \<Rightarrow> (string \<times> bytes option) option"
  de_stat_error :: "fstate \<Rightarrow> string \<Rightarrow> string option"

record field_headers =
  fh_name :: string
  fh_filename :: "string option"

type_synonym multipart = "(field_headers \<times> chunks) boxed list"

record Request =
  rq_method :: string
  rq_path :: string
  rq_multipart :: "multipart option"
  rq_bytes :: "bytes boxed"

text \<open>A response whose body is \<open>None\<close> breaks off while it is sent.\<close>

record Response =
  rs_status :: nat
  rs_body :: "bytes option"

record 'm server =
  sv_fs :: fstate
  sv_mesh :: 'm
  sv_shutdown_tx :: bool
  sv_shutting_down :: bool

section \<open>The data mesh client\<close>

text \<open>\<open>ok_or\<close>, and the operator \<open>?\<close> in a function that works on a state.\<close>

definition ok_or :: "string \<Rightarrow> 'a option \<Rightarrow> 'a boxed" where
  "ok_or e x = (case x of None \<Rightarrow> Inl e | Some v \<Rightarrow> Inr v)"

definition try_or :: "'e + 'a \<Rightarrow> 's \<Rightarrow> ('a \<Rightarrow> ('e + 'b) \<times> 's) \<Rightarrow> ('e + 'b) \<times> 's" where
  "try_or r s f = (case r of Inl e \<Rightarrow> (Inl e, s) | Inr x \<Rightarrow> f x)"

definition and_try :: "('e + 'a) \<times> 's \<Rightarrow> ('a \<Rightarrow> 's \<Rightarrow> ('e + 'b) \<times> 's) \<Rightarrow> ('e + 'b) \<times> 's" where
  "and_try rs f = (case rs of (r, s) \<Rightarrow> try_or r s (\<lambda>x. f x s))"

definition post_data :: "(string \<Rightarrow> 't \<Rightarrow> 'm \<Rightarrow> 'u boxed \<times> 'm) \<Rightarrow> string \<Rightarrow> string \<Rightarrow> 't \<Rightarrow> 'm \<Rightarrow> 'u boxed \<times> 'm" where
  "post_data post endpoint path body m = post (''https://'' @ endpoint @ ''/'' @ path) body m"

definition check_status :: "mesh_status option \<Rightarrow> unit boxed" where
  "check_status st =
     (case st of None \<Rightarrow> Inl ''status is empty''
      | Some s \<Rightarrow>
          if ms_code s \<noteq> 0 then Inl (''status code: '' @ int_str (ms_code s) @ '', err msg: '' @ ms_message s)
          else Inr ())"

definition mesh_get_domain_data :: "'m dm_env \<Rightarrow> string \<Rightarrow> 'm \<Rightarrow> DomainData boxed \<times> 'm" where
  "mesh_get_domain_data E domaindata_id m =
     and_try (post_data (post_query_data (de_mesh E)) (de_endpoint E) ''api/v1/datamesh/domaindata/query'' domaindata_id m)
       (\<lambda>response m.
     try_or (check_status (mr_status response)) m (\<lambda>_.
     (ok_or ''datasource data is empty'' (mr_data response), m)))"

definition mesh_get_domain_datasource :: "'m dm_env \<Rightarrow> string \<Rightarrow> 'm \<Rightarrow> DomainDataSource boxed \<times> 'm" where
  "mesh_get_domain_datasource E datasource_id m =
     and_try (post_data (post_query_source (de_mesh E)) (de_endpoint E) ''api/v1/datamesh/domaindatasource/query''
       datasource_id m) (\<lambda>response m.
     try_or (check_status (mr_status response)) m (\<lambda>_.
     (ok_or ''datasource data is empty'' (mr_data response), m)))"

definition create_request :: "string \<Rightarrow> string \<Rightarrow> string \<Rightarrow> DomainData \<Rightarrow> CreateDomainDataRequest" where
  "create_request domaindata_id relative_uri datasource_id d =
     \<lparr>cr_domaindata_id = domaindata_id, cr_name = do_name d, cr_type = do_type d, cr_relative_uri = relative_uri,
      cr_datasource_id = datasource_id, cr_attributes = do_attributes d, cr_partition = do_partition d,
      cr_columns = do_columns d, cr_vendor = do_vendor d, cr_file_format = do_file_format d\<rparr>"

definition mesh_create_domain_data ::
  "'m dm_env \<Rightarrow> string \<Rightarrow> string \<Rightarrow> string \<Rightarrow> DomainData \<Rightarrow> 'm \<Rightarrow> string boxed \<times> 'm" where
  "mesh_create_domain_data E domaindata_id relative_uri datasource_id d m =
     and_try (post_data (post_create (de_mesh E)) (de_endpoint E) ''api/v1/datamesh/domaindata/create''
       (create_request domaindata_id relative_uri datasource_id d) m) (\<lambda>response m.
     try_or (check_status (mr_status response)) m (\<lambda>_.
     (ok_or ''data is none'' (mr_data response), m)))"

text \<open>The handlers call the client on the mesh of the server's state.\<close>

definition on_mesh :: "('m \<Rightarrow> 'a boxed \<times> 'm) \<Rightarrow> 'm server \<Rightarrow> 'a boxed \<times> 'm server" where
  "on_mesh call s = (case call (sv_mesh s) of (r, m) \<Rightarrow> (r, s\<lparr>sv_mesh := m\<rparr>))"

section \<open>Files\<close>

text \<open>\<open>Path::parent\<close>, for paths without dot components.\<close>

definition rust_parent :: "string \<Rightarrow> string option" where
  "rust_parent p =
     (let t = rev (dropWhile (\<lambda>c. c = CHR ''/'') (rev p)) in if t = [] then None else Some (parent_path t))"

definition create_dir_all :: "'m dm_env \<Rightarrow> string \<Rightarrow> fstate \<Rightarrow> unit boxed \<times> fstate" where
  "create_dir_all E d st =
     (if d = [] then (Inr (), st)
      else case de_mkdir_error E st d of
        Some e \<Rightarrow> (Inl e, st)
      | None \<Rightarrow>
          (Inr (), st\<lparr>fs_dirs := fs_dirs st \<union> {d} \<union>
             set (map (\<lambda>i. take i d) (filter (\<lambda>i. 0 < i \<and> d ! i = CHR ''/'') [0..<length d]))\<rparr>))"

text \<open>Both ways of opening the file leave an empty file: one truncates it, the other creates it.\<close>

definition open_for_upload :: "'m dm_env \<Rightarrow> string \<Rightarrow> fstate \<Rightarrow> unit boxed \<times> fstate" where
  "open_for_upload E path st =
     (case de_open_error E st path of
        Some e \<Rightarrow> (Inl e, st)
      | None \<Rightarrow> (Inr (), st\<lparr>fs_files := (fs_files st)(path \<mapsto> [])\<rparr>))"

definition append_file :: "string \<Rightarrow> bytes \<Rightarrow> fstate \<Rightarrow> fstate" where
  "append_file path bs st =
     st\<lparr>fs_files := (fs_files st)(path := map_option (\<lambda>old. old @ bs) (fs_files st path))\<rparr>"

fun write_chunks :: "'m dm_env \<Rightarrow> string \<Rightarrow> chunks \<Rightarrow> fstate \<Rightarrow> unit boxed \<times> fstate" where
  "write_chunks E path [] st = (Inr (), st)"
| "write_chunks E path (Inl e # cs) st = (Inl e, st)"
| "write_chunks E path (Inr bs # cs) st =
     (case de_write_error E st path bs of
        Some (e, written) \<Rightarrow> (Inl e, append_file path written st)
      | None \<Rightarrow> write_chunks E path cs (append_file path bs st))"

text \<open>\<open>fs::copy\<close>. A file that is copied to itself is truncated before it is read.\<close>

definition fs_copy :: "'m dm_env \<Rightarrow> string \<Rightarrow> string \<Rightarrow> fstate \<Rightarrow> unit boxed \<times> fstate" where
  "fs_copy E from to st =
     (case de_copy_error E st from to of
        Some (e, written) \<Rightarrow>
          (Inl e, case written of None \<Rightarrow> st | Some bs \<Rightarrow> st\<lparr>fs_files := (fs_files st)(to \<mapsto> bs)\<rparr>)
      | None \<Rightarrow>
          (Inr (), st\<lparr>fs_files := (fs_files st)(to := if from = to then Some [] else fs_files st from)\<rparr>))"

definition metadata :: "'m dm_env \<Rightarrow> string \<Rightarrow> fstate \<Rightarrow> unit boxed" where
  "metadata E path st = (case de_stat_error E st path of Some e \<Rightarrow> Inl e | None \<Rightarrow> Inr ())"

definition on_fs :: "(fstate \<Rightarrow> 'a boxed \<times> fstate) \<Rightarrow> 'm server \<Rightarrow> 'a boxed \<times> 'm server" where
  "on_fs f s = (case f (sv_fs s) of (r, st) \<Rightarrow> (r, s\<lparr>sv_fs := st\<rparr>))"

section \<open>The handlers\<close>

definition TEMP_DIR :: string where "TEMP_DIR = ''temp''"

definition not_found :: Response where
  "not_found = \<lparr>rs_status = 404, rs_body = Some (str_bytes ''Not Found'')\<rparr>"

definition ok_response :: "bytes option \<Rightarrow> Response" where
  "ok_response body = \<lparr>rs_status = 200, rs_body = body\<rparr>"

definition bad_request :: "string \<Rightarrow> Response" where
  "bad_request e = \<lparr>rs_status = 400, rs_body = Some (str_bytes e)\<rparr>"

definition shutdown :: "'m server \<Rightarrow> Response boxed \<times> 'm server" where
  "shutdown s =
     (if sv_shutdown_tx s
      then (Inr (ok_response (Some (str_bytes ''start to shut down''))),
            s\<lparr>sv_shutdown_tx := False, sv_shutting_down := True\<rparr>)
      else (Inl ''shutdown failed.'', s))"

record upload_form =
  uf_store_path :: "string option"
  uf_file_temp_path :: "string option"
  uf_domain_data :: "DomainData option"

definition receive_file :: "'m dm_env \<Rightarrow> field_headers \<Rightarrow> chunks \<Rightarrow> 'm server \<Rightarrow> string boxed \<times> 'm server" where
  "receive_file E h cs s =
     and_try (on_fs (create_dir_all E TEMP_DIR) s) (\<lambda>_ s.
     try_or (ok_or ''lack filename'' (fh_filename h)) s (\<lambda>name.
     let path = path_append TEMP_DIR name in
     and_try (on_fs (open_for_upload E path) s) (\<lambda>_ s.
     and_try (on_fs (write_chunks E path cs) s) (\<lambda>_ s.
     (Inr path, s)))))"

fun receive_fields :: "'m dm_env \<Rightarrow> multipart \<Rightarrow> upload_form \<Rightarrow> 'm server \<Rightarrow> upload_form boxed \<times> 'm server" where
  "receive_fields E [] form s = (Inr form, s)"
| "receive_fields E (Inl e # parts) form s = (Inl e, s)"
| "receive_fields E (Inr (h, cs) # parts) form s =
     (if fh_name h = ''store_path'' then
        try_or (data_to_string E cs) s (\<lambda>ret. receive_fields E parts (form\<lparr>uf_store_path := Some ret\<rparr>) s)
      else if fh_name h = ''file'' then
        and_try (receive_file E h cs s) (\<lambda>path s. receive_fields E parts (form\<lparr>uf_file_temp_path := Some path\<rparr>) s)
      else if fh_name h = ''domain_data'' then
        try_or (data_to_string E cs) s (\<lambda>ret.
        try_or (json_domain_data E ret) s (\<lambda>d.
        receive_fields E parts (form\<lparr>uf_domain_data := Some d\<rparr>) s))
      else receive_fields E parts form s)"

definition localfs_path :: "DomainDataSource \<Rightarrow> string boxed" where
  "localfs_path source =
     (case ok_or ''lack datasource info'' (so_info source) of
        Inl e \<Rightarrow> Inl e
      | Inr info \<Rightarrow> ok_or ''lack localfs config'' (in_localfs info))"

definition register_upload ::
  "'m dm_env \<Rightarrow> DmOutputUriQueryParams \<Rightarrow> string \<Rightarrow> DomainData \<Rightarrow> 'm server \<Rightarrow> unit boxed \<times> 'm server" where
  "register_upload E params file_temp_path d s =
     and_try (on_mesh (mesh_get_domain_datasource E (op_datasource_id params)) s) (\<lambda>source s.
     try_or (localfs_path source) s (\<lambda>dir.
     let dest_path = path_append dir (op_uri params) in
     try_or (ok_or ''not in dir'' (rust_parent dest_path)) s (\<lambda>parent.
     and_try (if \<not> path_exists (sv_fs s) parent then on_fs (create_dir_all E parent) s else (Inr (), s)) (\<lambda>_ s.
     try_or (metadata E file_temp_path (sv_fs s)) s (\<lambda>_.
     and_try (on_fs (fs_copy E file_temp_path dest_path) s) (\<lambda>_ s.
     try_or (metadata E dest_path (sv_fs s)) s (\<lambda>_.
     and_try (on_mesh (mesh_create_domain_data E (op_id params) (op_uri params) (op_datasource_id params) d) s)
       (\<lambda>_ s. (Inr (), s)))))))))"

definition handle_upload :: "'m dm_env \<Rightarrow> multipart \<Rightarrow> 'm server \<Rightarrow> unit boxed \<times> 'm server" where
  "handle_upload E parts s =
     and_try (receive_fields E parts \<lparr>uf_store_path = None, uf_file_temp_path = None, uf_domain_data = None\<rparr> s)
       (\<lambda>form s.
     try_or (ok_or ''lack store_path'' (uf_store_path form)) s (\<lambda>store_path.
     try_or (ok_or ''lack upload'' (uf_file_temp_path form)) s (\<lambda>file_temp_path.
     try_or (ok_or ''locak domain data'' (uf_domain_data form)) s (\<lambda>d.
     try_or (url_parse E store_path) s (\<lambda>url.
     if u_scheme url = ''dm''
     then try_or (ok_or ''lack query'' (u_query url)) s (\<lambda>qs.
          try_or (qs_output E qs) s (\<lambda>params.
          register_upload E params file_temp_path d s))
     else (Inl ''Unsupport scheme'', s))))))"

text \<open>\<open>File::open\<close> for reading succeeds for a directory too; reading it then fails.\<close>

definition open_stream :: "'m dm_env \<Rightarrow> string \<Rightarrow> fstate \<Rightarrow> Response" where
  "open_stream E path st =
     (if path_exists st path \<and> de_read_error E st path = None then ok_response (fs_files st path) else not_found)"

definition handle_download :: "'m dm_env \<Rightarrow> bytes boxed \<Rightarrow> 'm server \<Rightarrow> Response boxed \<times> 'm server" where
  "handle_download E req s =
     try_or req s (\<lambda>body.
     try_or (json_uri E body) s (\<lambda>uri.
     try_or (url_parse E uri) s (\<lambda>url.
     if u_scheme url = ''dm''
     then try_or (ok_or ''lack query'' (u_query url)) s (\<lambda>qs.
          try_or (qs_input E qs) s (\<lambda>i.
          and_try (on_mesh (mesh_get_domain_data E i) s) (\<lambda>d s.
          and_try (on_mesh (mesh_get_domain_datasource E (do_datasource_id d)) s) (\<lambda>source s.
          try_or (localfs_path source) s (\<lambda>dir.
          (Inr (open_stream E (path_append dir (do_relative_uri d)) (sv_fs s)), s))))))
     else if u_scheme url = ''file'' then (Inr (open_stream E (u_path url) (sv_fs s)), s)
     else (Inl ''Unsupport scheme'', s))))"

definition handle_get_domain_data :: "'m dm_env \<Rightarrow> bytes boxed \<Rightarrow> 'm server \<Rightarrow> Response boxed \<times> 'm server" where
  "handle_get_domain_data E req s =
     try_or req s (\<lambda>body.
     try_or (json_uri E body) s (\<lambda>uri.
     try_or (url_parse E uri) s (\<lambda>url.
     if u_scheme url = ''dm''
     then try_or (ok_or ''lack query'' (u_query url)) s (\<lambda>qs.
          try_or (qs_input E qs) s (\<lambda>i.
          and_try (on_mesh (mesh_get_domain_data E i) s) (\<lambda>d s.
          try_or (domain_data_json E d) s (\<lambda>js.
          (Inr (ok_response (Some js)), s)))))
     else (Inl ''Unsupport scheme'', s))))"

definition respond_with :: "Response boxed \<times> 'm server \<Rightarrow> Response \<times> 'm server" where
  "respond_with rs = (case rs of (Inr r, s) \<Rightarrow> (r, s) | (Inl e, s) \<Rightarrow> (bad_request e, s))"

definition serve_req :: "'m dm_env \<Rightarrow> Request \<Rightarrow> 'm server \<Rightarrow> Response \<times> 'm server" where
  "serve_req E req s =
     (if rq_method req = ''POST'' \<and> rq_path req = ''/upload'' then
        (case rq_multipart req of
           Some parts \<Rightarrow> respond_with (and_try (handle_upload E parts s) (\<lambda>_ s.
             (Inr (ok_response (Some (str_bytes ''successful request!''))), s)))
         | None \<Rightarrow> (ok_response (Some (str_bytes ''expecting multipart/form-data'')), s))
      else if rq_method req = ''POST'' \<and> rq_path req = ''/download'' then respond_with (handle_download E (rq_bytes req) s)
      else if rq_method req = ''POST'' \<and> rq_path req = ''/get_domain_data''
      then respond_with (handle_get_domain_data E (rq_bytes req) s)
      else if rq_method req = ''POST'' \<and> rq_path req = ''/shutdown'' then respond_with (shutdown s)
      else (not_found, s))"

section \<open>Start\<close>

text \<open>
  What the program asks of its surroundings when it starts: variables, files as text, and the TLS
  library's opinion of certificates and keys. A panic is the error.
\<close>

record start_env =
  se_var :: "string \<Rightarrow> string boxed"
  se_read_to_string :: "fstate \<Rightarrow> string \<Rightarrow> string boxed"
  se_certificate_error :: "string \<Rightarrow> string option"
  se_identity_error :: "string \<Rightarrow> string option"
  se_build_error :: "string \<Rightarrow> string \<Rightarrow> string option"
  se_create_dir_error :: "fstate \<Rightarrow> string \<Rightarrow> string option"

definition or_else :: "'e + 'a \<Rightarrow> ('a \<Rightarrow> 'e + 'b) \<Rightarrow> 'e + 'b" where
  "or_else r f = (case r of Inl e \<Rightarrow> Inl e | Inr x \<Rightarrow> f x)"

definition unless_error :: "'e option \<Rightarrow> 'a \<Rightarrow> 'e + 'a" where
  "unless_error e x = (case e of Some e \<Rightarrow> Inl e | None \<Rightarrow> Inr x)"

definition DataMeshClient_new :: "start_env \<Rightarrow> fstate \<Rightarrow> unit boxed" where
  "DataMeshClient_new X st =
     or_else (se_var X ''TRUSTED_CA_FILE'') (\<lambda>ca_file.
     or_else (se_read_to_string X st ca_file) (\<lambda>ca.
     or_else (unless_error (se_certificate_error X ca) ()) (\<lambda>_.
     or_else (se_var X ''CLIENT_CERT_FILE'') (\<lambda>cert_file.
     or_else (se_read_to_string X st cert_file) (\<lambda>cert.
     or_else (se_var X ''CLIENT_PRIVATE_KEY_FILE'') (\<lambda>key_file.
     or_else (se_read_to_string X st key_file) (\<lambda>key.
     or_else (unless_error (se_identity_error X (cert @ key)) ()) (\<lambda>_.
     unless_error (se_build_error X ca (cert @ key)) ()))))))))"

definition dmserver_main :: "start_env \<Rightarrow> fstate \<Rightarrow> 'm \<Rightarrow> 'm server boxed" where
  "dmserver_main X st m =
     or_else (if \<not> path_exists st TEMP_DIR
              then unless_error (se_create_dir_error X st TEMP_DIR) (st\<lparr>fs_dirs := fs_dirs st \<union> {TEMP_DIR}\<rparr>)
              else Inr st) (\<lambda>st.
     or_else (DataMeshClient_new X st) (\<lambda>_.
     Inr \<lparr>sv_fs = st, sv_mesh = m, sv_shutdown_tx = True, sv_shutting_down = False\<rparr>))"

section \<open>What the handlers do\<close>

named_theorems boxed_simps \<open>successful runs of fallible code with a state\<close>

lemma try_or_Inr [boxed_simps]: "try_or r s f = (Inr y, s') \<longleftrightarrow> (\<exists>x. r = Inr x \<and> f x = (Inr y, s'))"
  by (cases r) (simp_all add: try_or_def)

lemma and_try_Inr [boxed_simps]: "and_try rs f = (Inr y, s') \<longleftrightarrow> (\<exists>x s1. rs = (Inr x, s1) \<and> f x s1 = (Inr y, s'))"
  by (cases rs) (simp add: and_try_def try_or_Inr)

lemma on_fs_eq [boxed_simps]: "on_fs f s = (r, s') \<longleftrightarrow> (\<exists>st. f (sv_fs s) = (r, st) \<and> s' = s\<lparr>sv_fs := st\<rparr>)"
  by (auto simp: on_fs_def split: prod.split)

lemma on_mesh_eq [boxed_simps]: "on_mesh f s = (r, s') \<longleftrightarrow> (\<exists>m. f (sv_mesh s) = (r, m) \<and> s' = s\<lparr>sv_mesh := m\<rparr>)"
  by (auto simp: on_mesh_def split: prod.split)

lemma ok_or_Inr [boxed_simps]: "ok_or e x = Inr v \<longleftrightarrow> x = Some v"
  by (simp add: ok_or_def split: option.split)

lemma create_dir_all_files: "create_dir_all E d st = (r, st') \<Longrightarrow> fs_files st' = fs_files st"
  by (auto simp: create_dir_all_def split: if_splits option.splits)

lemma write_chunks_Inr:
  assumes "write_chunks E path cs st = (Inr u, st')" "fs_files st path = Some old"
  shows "cs = map Inr (map projr cs) \<and> fs_files st' = (fs_files st)(path \<mapsto> old @ concat (map projr cs))"
  using assms
proof (induction E path cs st arbitrary: old rule: write_chunks.induct)
  case (3 E path bs cs st)
  then have "de_write_error E st path bs = None" "write_chunks E path cs (append_file path bs st) = (Inr u, st')"
    by (auto split: option.splits)
  with "3.IH" [OF this(1) this(2), of "old @ bs"] "3.prems"(2) show ?case by (auto simp: append_file_def fun_eq_iff)
qed auto

lemma receive_file_Inr:
  assumes "receive_file E h cs s = (Inr path, s')"
  shows "\<exists>name. fh_filename h = Some name \<and> path = path_append TEMP_DIR name \<and> cs = map Inr (map projr cs) \<and>
    fs_files (sv_fs s') = (fs_files (sv_fs s))(path \<mapsto> concat (map projr cs)) \<and> sv_mesh s' = sv_mesh s"
proof -
  obtain name st1 st2 st3 where st: "fh_filename h = Some name" "path = path_append TEMP_DIR name"
    "create_dir_all E TEMP_DIR (sv_fs s) = (Inr (), st1)" "open_for_upload E path st1 = (Inr (), st2)"
    "write_chunks E path cs st2 = (Inr (), st3)" "s' = s\<lparr>sv_fs := st3\<rparr>"
    using assms by (auto simp: receive_file_def boxed_simps Let_def)
  have "fs_files st2 = (fs_files st1)(path \<mapsto> [])" using st(4) by (auto simp: open_for_upload_def split: option.splits)
  then show ?thesis using write_chunks_Inr [OF st(5), of "[]"] create_dir_all_files [OF st(3)] st(1,2,6) by simp
qed

text \<open>The last part of a request with a given name.\<close>

fun last_part :: "string \<Rightarrow> multipart \<Rightarrow> (field_headers \<times> chunks) option" where
  "last_part n [] = None"
| "last_part n (Inl e # ps) = last_part n ps"
| "last_part n (Inr (h, cs) # ps) =
     (case last_part n ps of Some x \<Rightarrow> Some x | None \<Rightarrow> if fh_name h = n then Some (h, cs) else None)"

lemma receive_fields_no_file:
  "receive_fields E ps form s = (r, s') \<Longrightarrow> last_part ''file'' ps = None \<Longrightarrow>
   s' = s \<and> (\<forall>form'. r = Inr form' \<longrightarrow> uf_file_temp_path form' = uf_file_temp_path form)"
  by (induction E ps form s arbitrary: r s' rule: receive_fields.induct)
    (auto simp: try_or_def split: if_splits sum.splits option.splits)

lemma receive_fields_mesh: "receive_fields E ps form s = (Inr form', s') \<Longrightarrow> sv_mesh s' = sv_mesh s"
  by (induction E ps form s arbitrary: form' s' rule: receive_fields.induct)
    (auto simp: boxed_simps dest!: receive_file_Inr split: if_splits)

lemma receive_fields_file:
  assumes "receive_fields E ps form s = (Inr form', s')" "last_part ''file'' ps = Some (h, cs)"
  shows "\<exists>name. fh_filename h = Some name \<and> uf_file_temp_path form' = Some (path_append TEMP_DIR name) \<and>
    cs = map Inr (map projr cs) \<and> fs_files (sv_fs s') (path_append TEMP_DIR name) = Some (concat (map projr cs))"
  using assms
proof (induction E ps form s arbitrary: s' rule: receive_fields.induct)
  case (3 E h1 cs1 ps form s)
  show ?case
  proof (cases "last_part ''file'' ps")
    case None
    then have f: "fh_name h1 = ''file''" "h1 = h" "cs1 = cs" using "3.prems"(2) by (auto split: if_splits)
    then obtain path s1 where r: "receive_file E h cs s = (Inr path, s1)"
      "receive_fields E ps (form\<lparr>uf_file_temp_path := Some path\<rparr>) s1 = (Inr form', s')"
      using "3.prems"(1) by (auto simp: boxed_simps)
    from receive_fields_no_file [OF r(2) None] receive_file_Inr [OF r(1)] show ?thesis by auto
  next
    case (Some x)
    then have x: "last_part ''file'' ps = Some (h, cs)" using "3.prems"(2) by simp
    show ?thesis using "3.prems"(1) "3.IH" x by (auto simp: boxed_simps split: if_splits)
  qed
qed simp_all

lemma receive_fields_store_path:
  assumes "receive_fields E ps form s = (Inr form', s')" "last_part ''store_path'' ps = Some (h, cs)"
  shows "\<exists>sp. data_to_string E cs = Inr sp \<and> uf_store_path form' = Some sp"
proof -
  have keep: "receive_fields E ps form s = (Inr form', s') \<Longrightarrow> last_part ''store_path'' ps = None \<Longrightarrow>
      uf_store_path form' = uf_store_path form" for E :: "'a dm_env" and ps form s s'
    by (induction E ps form s arbitrary: s' rule: receive_fields.induct)
      (auto simp: boxed_simps split: if_splits option.splits)
  show ?thesis
    using assms
  proof (induction E ps form s arbitrary: s' rule: receive_fields.induct)
    case (3 E h1 cs1 ps form s)
    then show ?case
      by (cases "last_part ''store_path'' ps") (auto simp: boxed_simps split: if_splits dest: keep)
  qed simp_all
qed

section \<open>From an upload to a download\<close>

text \<open>
  The documented behaviour of the catalogue: queries change nothing; what was created is found
  under its identifier; creating an entry leaves the data sources alone.
\<close>

definition answers :: "'d mesh_response boxed \<Rightarrow> 'd \<Rightarrow> bool" where
  "answers r x \<longleftrightarrow> (\<exists>resp st. r = Inr resp \<and> mr_status resp = Some st \<and> ms_code st = 0 \<and> mr_data resp = Some x)"

definition mesh_url :: "string \<Rightarrow> string \<Rightarrow> string" where
  "mesh_url endpoint path = ''https://'' @ endpoint @ ''/'' @ path"

definition entry_of :: "CreateDomainDataRequest \<Rightarrow> DomainData \<Rightarrow> bool" where
  "entry_of req d \<longleftrightarrow> do_domaindata_id d = cr_domaindata_id req \<and> do_name d = cr_name req \<and> do_type d = cr_type req \<and>
     do_relative_uri d = cr_relative_uri req \<and> do_datasource_id d = cr_datasource_id req \<and>
     do_attributes d = cr_attributes req \<and> do_partition d = cr_partition req \<and> do_columns d = cr_columns req \<and>
     do_vendor d = cr_vendor req \<and> do_file_format d = cr_file_format req"

definition mesh_doc :: "string \<Rightarrow> 'm mesh \<Rightarrow> bool" where
  "mesh_doc ep M \<longleftrightarrow>
     (\<forall>i m. snd (post_query_data M (mesh_url ep ''api/v1/datamesh/domaindata/query'') i m) = m) \<and>
     (\<forall>i m. snd (post_query_source M (mesh_url ep ''api/v1/datamesh/domaindatasource/query'') i m) = m) \<and>
     (\<forall>req m r m' x. post_create M (mesh_url ep ''api/v1/datamesh/domaindata/create'') req m = (r, m') \<longrightarrow> answers r x \<longrightarrow>
        (\<exists>d. answers (fst (post_query_data M (mesh_url ep ''api/v1/datamesh/domaindata/query'') (cr_domaindata_id req) m')) d \<and>
           entry_of req d) \<and>
        (\<forall>i. fst (post_query_source M (mesh_url ep ''api/v1/datamesh/domaindatasource/query'') i m') =
           fst (post_query_source M (mesh_url ep ''api/v1/datamesh/domaindatasource/query'') i m)))"

lemma check_status_Inr [boxed_simps]: "check_status st = Inr u \<longleftrightarrow> (\<exists>s. st = Some s \<and> ms_code s = 0)"
  by (auto simp: check_status_def split: option.split)

lemmas mesh_call_defs = post_data_def mesh_url_def answers_def

lemma mesh_get_domain_data_Inr:
  "mesh_get_domain_data E i m = (Inr d, m') \<longleftrightarrow>
     (\<exists>r. post_query_data (de_mesh E) (mesh_url (de_endpoint E) ''api/v1/datamesh/domaindata/query'') i m = (r, m') \<and> answers r d)"
  by (auto simp: mesh_get_domain_data_def boxed_simps mesh_call_defs)

lemma mesh_get_domain_datasource_Inr:
  "mesh_get_domain_datasource E i m = (Inr d, m') \<longleftrightarrow>
     (\<exists>r. post_query_source (de_mesh E) (mesh_url (de_endpoint E) ''api/v1/datamesh/domaindatasource/query'') i m = (r, m') \<and>
        answers r d)"
  by (auto simp: mesh_get_domain_datasource_def boxed_simps mesh_call_defs)

lemma mesh_create_domain_data_Inr:
  "mesh_create_domain_data E i rel src d m = (Inr x, m') \<longleftrightarrow>
     (\<exists>r. post_create (de_mesh E) (mesh_url (de_endpoint E) ''api/v1/datamesh/domaindata/create'') (create_request i rel src d) m
        = (r, m') \<and> answers r x)"
  by (auto simp: mesh_create_domain_data_def boxed_simps mesh_call_defs)

text \<open>What was registered is found: the entry, and the directory of its data source.\<close>

lemma registered_is_found:
  assumes doc: "mesh_doc (de_endpoint E) (de_mesh E)"
    and create: "mesh_create_domain_data E i rel src d m = (Inr x, m')"
  shows "\<exists>d'. mesh_get_domain_data E i m' = (Inr d', m') \<and> entry_of (create_request i rel src d) d'"
    and "mesh_get_domain_datasource E k m = (Inr so, m) \<Longrightarrow> mesh_get_domain_datasource E k m' = (Inr so, m')"
proof -
  obtain r where r: "post_create (de_mesh E) (mesh_url (de_endpoint E) ''api/v1/datamesh/domaindata/create'')
      (create_request i rel src d) m = (r, m')" "answers r x"
    using create by (auto simp: mesh_create_domain_data_Inr)
  then obtain d' where d': "answers (fst (post_query_data (de_mesh E)
        (mesh_url (de_endpoint E) ''api/v1/datamesh/domaindata/query'') i m')) d'" "entry_of (create_request i rel src d) d'"
    using doc unfolding mesh_doc_def by (metis (no_types, lifting) create_request_def CreateDomainDataRequest.select_convs(1))
  have "mesh_get_domain_data E i m' = (Inr d', m')"
    using doc d'(1) unfolding mesh_get_domain_data_Inr mesh_doc_def by (metis prod.collapse)
  then show "\<exists>d'. mesh_get_domain_data E i m' = (Inr d', m') \<and> entry_of (create_request i rel src d) d'"
    using d'(2) by blast
  show "mesh_get_domain_datasource E k m' = (Inr so, m')" if "mesh_get_domain_datasource E k m = (Inr so, m)"
    using doc that r unfolding mesh_get_domain_datasource_Inr mesh_doc_def by (metis fst_conv prod.collapse)
qed

lemma register_upload_Inr:
  assumes doc: "mesh_doc (de_endpoint E) (de_mesh E)" and reg: "register_upload E params p d s = (Inr u, s')"
  shows "\<exists>so dir x. mesh_get_domain_datasource E (op_datasource_id params) (sv_mesh s) = (Inr so, sv_mesh s) \<and>
    localfs_path so = Inr dir \<and>
    mesh_create_domain_data E (op_id params) (op_uri params) (op_datasource_id params) d (sv_mesh s) = (Inr x, sv_mesh s') \<and>
    fs_files (sv_fs s') = (fs_files (sv_fs s))(path_append dir (op_uri params) :=
      if p = path_append dir (op_uri params) then Some [] else fs_files (sv_fs s) p)"
proof -
  obtain so m1 dir parent s2 st m2 x where st:
    "mesh_get_domain_datasource E (op_datasource_id params) (sv_mesh s) = (Inr so, m1)" "localfs_path so = Inr dir"
    "(if \<not> path_exists (sv_fs s) parent then on_fs (create_dir_all E parent) (s\<lparr>sv_mesh := m1\<rparr>)
      else (Inr (), s\<lparr>sv_mesh := m1\<rparr>)) = (Inr (), s2)"
    "fs_copy E p (path_append dir (op_uri params)) (sv_fs s2) = (Inr (), st)"
    "mesh_create_domain_data E (op_id params) (op_uri params) (op_datasource_id params) d (sv_mesh s2) = (Inr x, m2)"
    "s' = s2\<lparr>sv_fs := st, sv_mesh := m2\<rparr>"
    using reg by (auto simp: register_upload_def boxed_simps Let_def)
  have m1: "m1 = sv_mesh s"
    using doc st(1) unfolding mesh_get_domain_datasource_Inr mesh_doc_def by (metis snd_conv)
  have s2: "fs_files (sv_fs s2) = fs_files (sv_fs s)" "sv_mesh s2 = m1"
    using st(3) create_dir_all_files by (auto simp: boxed_simps split: if_splits)
  have "fs_files st = (fs_files (sv_fs s2))(path_append dir (op_uri params) :=
      if p = path_append dir (op_uri params) then Some [] else fs_files (sv_fs s2) p)"
    using st(4) by (auto simp: fs_copy_def split: option.splits)
  then show ?thesis using st(1,2,5,6) s2 m1 by auto
qed

text \<open>Where the parts of an upload want the file to be stored, and which entry a request asks for.\<close>

definition upload_target :: "'m dm_env \<Rightarrow> multipart \<Rightarrow> DmOutputUriQueryParams \<Rightarrow> bool" where
  "upload_target E parts params \<longleftrightarrow>
     (\<exists>h cs sp u q. last_part ''store_path'' parts = Some (h, cs) \<and> data_to_string E cs = Inr sp \<and>
        url_parse E sp = Inr u \<and> u_query u = Some q \<and> qs_output E q = Inr params)"

definition asks_for :: "'m dm_env \<Rightarrow> string \<Rightarrow> Request \<Rightarrow> string \<Rightarrow> bool" where
  "asks_for E path req i \<longleftrightarrow> rq_method req = ''POST'' \<and> rq_path req = path \<and>
     (\<exists>body uri u q. rq_bytes req = Inr body \<and> json_uri E body = Inr uri \<and> url_parse E uri = Inr u \<and>
        u_scheme u = ''dm'' \<and> u_query u = Some q \<and> qs_input E q = Inr i)"

lemma serve_upload_200:
  assumes "rq_method up = ''POST''" "rq_path up = ''/upload''" "rq_multipart up = Some parts"
    "serve_req E up s = (resp, s1)" "rs_status resp = 200"
  shows "handle_upload E parts s = (Inr (), s1)"
  using assms
  by (auto simp: serve_req_def respond_with_def bad_request_def and_try_def try_or_def split: prod.splits sum.splits)

lemma handle_upload_Inr:
  assumes "handle_upload E parts s = (Inr (), s1)" "last_part ''file'' parts = Some (h, cs)" "upload_target E parts params"
  shows "\<exists>name s0 d. fh_filename h = Some name \<and> cs = map Inr (map projr cs) \<and>
    fs_files (sv_fs s0) (path_append TEMP_DIR name) = Some (concat (map projr cs)) \<and> sv_mesh s0 = sv_mesh s \<and>
    register_upload E params (path_append TEMP_DIR name) d s0 = (Inr (), s1)"
proof -
  obtain form s0 sp p d u q ps where st: "receive_fields E parts \<lparr>uf_store_path = None, uf_file_temp_path = None, uf_domain_data = None\<rparr> s
      = (Inr form, s0)" "uf_store_path form = Some sp" "uf_file_temp_path form = Some p" "url_parse E sp = Inr u"
    "u_query u = Some q" "qs_output E q = Inr ps" "register_upload E ps p d s0 = (Inr (), s1)"
    using assms(1) by (auto simp: handle_upload_def boxed_simps split: if_splits)
  have "ps = params"
    using assms(3) st(2,4-6) receive_fields_store_path [OF st(1)] by (fastforce simp: upload_target_def)
  then show ?thesis
    using receive_fields_file [OF st(1) assms(2)] receive_fields_mesh [OF st(1)] st(3,7) by auto
qed

lemma download_serves:
  assumes "asks_for E ''/download'' req i" "mesh_get_domain_data E i (sv_mesh s) = (Inr d, sv_mesh s)"
    "mesh_get_domain_datasource E (do_datasource_id d) (sv_mesh s) = (Inr so, sv_mesh s)" "localfs_path so = Inr dir"
  shows "serve_req E req s = (open_stream E (path_append dir (do_relative_uri d)) (sv_fs s), s)"
proof -
  have same: "s\<lparr>sv_mesh := sv_mesh s\<rparr> = s" by simp
  show ?thesis
    using assms
    by (auto simp: asks_for_def serve_req_def handle_download_def respond_with_def try_or_def and_try_def ok_or_def
        on_mesh_def same)
qed

lemma get_domain_data_serves:
  assumes "asks_for E ''/get_domain_data'' req i" "mesh_get_domain_data E i (sv_mesh s) = (Inr d, sv_mesh s)"
    "domain_data_json E d = Inr js"
  shows "serve_req E req s = (ok_response (Some js), s)"
  using assms
  by (auto simp: asks_for_def serve_req_def handle_get_domain_data_def respond_with_def try_or_def and_try_def ok_or_def
      on_mesh_def)

text \<open>
  \<^bold>\<open>C15\<close>: what was uploaded can be downloaded. After an upload that the server answered with 200,
  whatever other parts and earlier files the request had, a download of the identifier in its
  store path returns exactly the bytes of its last file part, put together from their chunks, if
  the catalogue keeps its promises and the file is readable. The temporary file and the
  destination have to be different files.
\<close>

theorem upload_then_download:
  assumes doc: "mesh_doc (de_endpoint E) (de_mesh E)"
    and up: "rq_method up = ''POST''" "rq_path up = ''/upload''" "rq_multipart up = Some parts"
      "serve_req E up s = (resp, s1)" "rs_status resp = 200"
    and parts: "last_part ''file'' parts = Some (h, cs)" "fh_filename h = Some name" "upload_target E parts params"
    and source: "mesh_get_domain_datasource E (op_datasource_id params) (sv_mesh s) = (Inr so, m)" "localfs_path so = Inr dir"
      "path_append dir (op_uri params) \<noteq> path_append TEMP_DIR name"
    and down: "asks_for E ''/download'' dn (op_id params)"
      "de_read_error E (sv_fs s1) (path_append dir (op_uri params)) = None"
  shows "serve_req E dn s1 = (ok_response (Some (concat (map projr cs))), s1) \<and> cs = map Inr (map projr cs)"
proof -
  obtain s0 d where s0: "cs = map Inr (map projr cs)" "sv_mesh s0 = sv_mesh s"
    "fs_files (sv_fs s0) (path_append TEMP_DIR name) = Some (concat (map projr cs))"
    "register_upload E params (path_append TEMP_DIR name) d s0 = (Inr (), s1)"
    using handle_upload_Inr [OF serve_upload_200 [OF up] parts(1,3)] parts(2) by auto
  obtain x where reg: "mesh_get_domain_datasource E (op_datasource_id params) (sv_mesh s0) = (Inr so, sv_mesh s0)"
    "mesh_create_domain_data E (op_id params) (op_uri params) (op_datasource_id params) d (sv_mesh s0) = (Inr x, sv_mesh s1)"
    "fs_files (sv_fs s1) (path_append dir (op_uri params)) = Some (concat (map projr cs))"
    using register_upload_Inr [OF doc s0(4)] source s0(2,3) by auto
  obtain d' where d': "mesh_get_domain_data E (op_id params) (sv_mesh s1) = (Inr d', sv_mesh s1)"
    "do_relative_uri d' = op_uri params" "do_datasource_id d' = op_datasource_id params"
    using registered_is_found(1) [OF doc reg(2)] by (auto simp: entry_of_def create_request_def)
  have "serve_req E dn s1 = (open_stream E (path_append dir (op_uri params)) (sv_fs s1), s1)"
    using download_serves [OF down(1) d'(1) _ source(2)] registered_is_found(2) [OF doc reg(2,1)] d'(2,3) by simp
  then show ?thesis using reg(3) down(2) s0(1) by (simp add: open_stream_def path_exists_def is_regular_file_def)
qed

text \<open>A catalogue and libraries that behave as documented.\<close>

definition sample_status :: "mesh_status option" where
  "sample_status = Some \<lparr>ms_code = 0, ms_message = []\<rparr>"

definition sample_entry :: "CreateDomainDataRequest \<Rightarrow> DomainData" where
  "sample_entry req = \<lparr>do_domaindata_id = cr_domaindata_id req, do_name = cr_name req, do_type = cr_type req,
     do_relative_uri = cr_relative_uri req, do_datasource_id = cr_datasource_id req, do_attributes = cr_attributes req,
     do_partition = cr_partition req, do_columns = cr_columns req, do_vendor = cr_vendor req,
     do_file_format = cr_file_format req, do_author = []\<rparr>"

definition sample_mesh :: "(string \<rightharpoonup> DomainData) mesh" where
  "sample_mesh = \<lparr>post_query_data = (\<lambda>u i m. (Inr \<lparr>mr_status = sample_status, mr_data = m i\<rparr>, m)),
     post_query_source = (\<lambda>u i m. (Inr \<lparr>mr_status = sample_status,
       mr_data = Some \<lparr>so_info = Some \<lparr>in_localfs = Some ''/data''\<rparr>\<rparr>\<rparr>, m)),
     post_create = (\<lambda>u req m. (Inr \<lparr>mr_status = sample_status, mr_data = Some (cr_domaindata_id req)\<rparr>,
       m(cr_domaindata_id req \<mapsto> sample_entry req)))\<rparr>"

definition sample_data :: DomainData where
  "sample_data = \<lparr>do_domaindata_id = ''t'', do_name = ''t'', do_type = ''table'', do_relative_uri = ''t.csv'',
     do_datasource_id = ''ds'', do_attributes = [], do_partition = None, do_columns = [], do_vendor = [],
     do_file_format = 0, do_author = []\<rparr>"

definition sample_url :: "string \<Rightarrow> url boxed" where
  "sample_url s = (if take 3 s = ''dm:'' then Inr \<lparr>u_scheme = ''dm'', u_path = [], u_query = Some (drop 3 s)\<rparr>
     else if take 5 s = ''file:'' then Inr \<lparr>u_scheme = ''file'', u_path = drop 5 s, u_query = None\<rparr>
     else Inl ''relative URL without a base'')"

definition sample_dm :: "(string \<rightharpoonup> DomainData) dm_env" where
  "sample_dm = \<lparr>de_endpoint = ''datamesh:8070'', de_mesh = sample_mesh, url_parse = sample_url, qs_input = Inr,
     qs_output = (\<lambda>q. Inr \<lparr>op_datasource_id = ''ds'', op_id = q, op_uri = q @ ''.enc''\<rparr>),
     json_uri = (\<lambda>b. Inr (bytes_str b)), json_domain_data = (\<lambda>_. Inr sample_data),
     domain_data_json = (\<lambda>d. Inr (str_bytes (do_name d))),
     data_to_string = (\<lambda>cs. Inr (bytes_str (concat (map projr cs)))),
     de_mkdir_error = (\<lambda>_ _. None), de_open_error = (\<lambda>_ _. None), de_read_error = (\<lambda>_ _. None),
     de_write_error = (\<lambda>_ _ _. None), de_copy_error = (\<lambda>_ _ _. None), de_stat_error = (\<lambda>_ _. None)\<rparr>"

definition sample_server :: "(string \<rightharpoonup> DomainData) server" where
  "sample_server = \<lparr>sv_fs = \<lparr>fs_files = Map.empty, fs_dirs = {''/data''}, fs_others = {}\<rparr>, sv_mesh = Map.empty,
     sv_shutdown_tx = True, sv_shutting_down = False\<rparr>"

definition post_request :: "string \<Rightarrow> multipart option \<Rightarrow> string \<Rightarrow> Request" where
  "post_request path parts body = \<lparr>rq_method = ''POST'', rq_path = path, rq_multipart = parts, rq_bytes = Inr (str_bytes body)\<rparr>"

definition sample_parts :: multipart where
  "sample_parts = [Inr (\<lparr>fh_name = ''file'', fh_filename = Some ''x''\<rparr>, [Inr [1], Inr [2, 3]]),
     Inr (\<lparr>fh_name = ''store_path'', fh_filename = None\<rparr>, [Inr (str_bytes ''dm:t'')]),
     Inr (\<lparr>fh_name = ''domain_data'', fh_filename = None\<rparr>, [Inr (str_bytes ''json'')])]"

lemma sample_mesh_doc: "mesh_doc ep sample_mesh"
  by (auto simp: mesh_doc_def sample_mesh_def answers_def sample_status_def entry_of_def sample_entry_def)

theorem upload_then_download_witness:
  "case serve_req sample_dm (post_request ''/upload'' (Some sample_parts) []) sample_server of
     (resp, s1) \<Rightarrow> rs_status resp = 200 \<and>
       serve_req sample_dm (post_request ''/download'' None ''dm:t'') s1 = (ok_response (Some [1, 2, 3]), s1)"
proof -
  let ?up = "post_request ''/upload'' (Some sample_parts) []" and ?params = "\<lparr>op_datasource_id = ''ds'', op_id = ''t'', op_uri = ''t.enc''\<rparr>"
  obtain resp s1 where up: "serve_req sample_dm ?up sample_server = (resp, s1)" by fastforce
  have "rs_status (fst (serve_req sample_dm ?up sample_server)) = 200" by code_simp
  then have ok: "rs_status resp = 200" using up by simp
  have target: "upload_target sample_dm sample_parts ?params"
    by (simp add: upload_target_def sample_parts_def sample_dm_def sample_url_def)
  have asks: "asks_for sample_dm ''/download'' (post_request ''/download'' None ''dm:t'') ''t''"
    by (simp add: asks_for_def post_request_def sample_dm_def sample_url_def)
  let ?h = "\<lparr>fh_name = ''file'', fh_filename = Some ''x''\<rparr>" and ?cs = "[Inr [1], Inr [2, 3]] :: chunks"
    and ?so = "\<lparr>so_info = Some \<lparr>in_localfs = Some ''/data''\<rparr>\<rparr>"
  have parts: "last_part ''file'' sample_parts = Some (?h, ?cs)" by (simp add: sample_parts_def)
  have source: "mesh_get_domain_datasource sample_dm (op_datasource_id ?params) (sv_mesh sample_server) = (Inr ?so, sv_mesh sample_server)"
    by (simp add: mesh_get_domain_datasource_Inr sample_dm_def sample_mesh_def answers_def sample_status_def)
  have dir: "localfs_path ?so = Inr ''/data''" by (simp add: localfs_path_def ok_or_def)
  have "path_append ''/data'' (op_uri ?params) \<noteq> path_append TEMP_DIR ''x''" by (simp add: path_append_def TEMP_DIR_def)
  moreover have "mesh_doc (de_endpoint sample_dm) (de_mesh sample_dm)" by (simp add: sample_mesh_doc sample_dm_def)
  ultimately have "rq_method ?up = ''POST'' \<Longrightarrow> rq_path ?up = ''/upload'' \<Longrightarrow> rq_multipart ?up = Some sample_parts \<Longrightarrow>
      de_read_error sample_dm (sv_fs s1) (path_append ''/data'' (op_uri ?params)) = None \<Longrightarrow>
      serve_req sample_dm (post_request ''/download'' None ''dm:t'') s1 = (ok_response (Some (concat (map projr ?cs))), s1)"
    using upload_then_download [OF _ _ _ _ up ok parts _ target source dir] asks by simp
  then show ?thesis using up ok by (simp add: post_request_def sample_dm_def)
qed

section \<open>The life of the server\<close>

text \<open>The requests a server has answered; the environment may be another one for every request.\<close>

type_synonym 'm exchange = "'m dm_env \<times> Request \<times> Response"

inductive answered :: "'m server \<Rightarrow> 'm exchange list \<Rightarrow> 'm server \<Rightarrow> bool" for s where
  start: "answered s [] s"
| answer: "answered s tr s1 \<Longrightarrow> serve_req E req s1 = (resp, s2) \<Longrightarrow> answered s (tr @ [(E, req, resp)]) s2"

inductive_cases answered_emptyE: "answered s [] s'"

fun asks_shutdown :: "'m exchange \<Rightarrow> bool" where
  "asks_shutdown (E, req, resp) \<longleftrightarrow> rq_method req = ''POST'' \<and> rq_path req = ''/shutdown''"

fun is_upload :: "'m exchange \<Rightarrow> bool" where
  "is_upload (E, req, resp) \<longleftrightarrow> rq_method req = ''POST'' \<and> rq_path req = ''/upload'' \<and> rq_multipart req \<noteq> None"

text \<open>Handlers keep what none of their steps touches; \<open>obs\<close> is an observation of the state.\<close>

definition keeps :: "('s \<Rightarrow> 'o) \<Rightarrow> 's \<Rightarrow> ('e + 'a) \<times> 's \<Rightarrow> bool" where
  "keeps obs s rs \<longleftrightarrow> obs (snd rs) = obs s"

lemma keeps_Pair [intro]: "obs s' = obs s \<Longrightarrow> keeps obs s (r, s')"
  by (simp add: keeps_def)

lemma keeps_try_or [intro]: "obs s1 = obs s \<Longrightarrow> (\<And>x. keeps obs s (f x)) \<Longrightarrow> keeps obs s (try_or r s1 f)"
  by (cases r) (simp_all add: keeps_def try_or_def)

lemma keeps_and_try [intro]:
  "keeps obs s rs \<Longrightarrow> (\<And>x s1. obs s1 = obs s \<Longrightarrow> keeps obs s (f x s1)) \<Longrightarrow> keeps obs s (and_try rs f)"
  by (cases rs; cases "fst rs") (simp_all add: keeps_def and_try_def try_or_def)

definition switches :: "'m server \<Rightarrow> bool \<times> bool" where
  "switches s = (sv_shutdown_tx s, sv_shutting_down s)"

lemma keeps_on [intro]:
  "switches s1 = switches s \<Longrightarrow> keeps switches s (on_fs g s1)" "switches s1 = switches s \<Longrightarrow> keeps switches s (on_mesh k s1)"
  "sv_fs s1 = sv_fs s \<Longrightarrow> keeps sv_fs s (on_mesh k s1)"
  by (simp_all add: keeps_def on_fs_def on_mesh_def switches_def split: prod.split)

lemma receive_file_switches [intro]: "switches s1 = switches s \<Longrightarrow> keeps switches s (receive_file E h cs s1)"
  unfolding receive_file_def Let_def by (intro keeps_and_try keeps_try_or keeps_on keeps_Pair)

lemma receive_fields_switches [intro]: "switches s1 = switches s \<Longrightarrow> keeps switches s (receive_fields E ps form s1)"
proof (induction E ps form s1 rule: receive_fields.induct)
  case (3 E h cs ps form s1)
  show ?case
    unfolding receive_fields.simps using 3
    by (auto intro!: keeps_try_or keeps_and_try receive_file_switches)
qed auto

lemma register_upload_switches [intro]: "switches s1 = switches s \<Longrightarrow> keeps switches s (register_upload E params p d s1)"
  unfolding register_upload_def Let_def
  by (intro keeps_and_try keeps_try_or keeps_on keeps_Pair) (auto split: if_splits)

lemma handle_upload_switches: "keeps switches s (handle_upload E parts s)"
  unfolding handle_upload_def by (auto intro!: keeps_and_try keeps_try_or receive_fields_switches register_upload_switches)

lemma handle_download_keeps: "keeps switches s (handle_download E req s)" "keeps sv_fs s (handle_download E req s)"
  unfolding handle_download_def by (auto intro!: keeps_and_try keeps_try_or keeps_on)

lemma handle_get_domain_data_keeps:
  "keeps switches s (handle_get_domain_data E req s)" "keeps sv_fs s (handle_get_domain_data E req s)"
  unfolding handle_get_domain_data_def by (auto intro!: keeps_and_try keeps_try_or keeps_on)

lemma respond_with_snd: "snd (respond_with rs) = snd rs"
  by (cases rs; cases "fst rs") (simp_all add: respond_with_def)

lemma serve_req_step:
  assumes "serve_req E req s = (resp, s')"
  shows "asks_shutdown (E, req, resp) \<Longrightarrow> sv_fs s' = sv_fs s \<and>
      (if sv_shutdown_tx s then rs_status resp = 200 \<and> switches s' = (False, True) else rs_status resp = 400 \<and> s' = s)"
    and "\<not> asks_shutdown (E, req, resp) \<Longrightarrow> switches s' = switches s"
    and "\<not> is_upload (E, req, resp) \<Longrightarrow> sv_fs s' = sv_fs s"
proof -
  have s': "s' = snd (serve_req E req s)" using assms by simp
  show "asks_shutdown (E, req, resp) \<Longrightarrow> sv_fs s' = sv_fs s \<and>
      (if sv_shutdown_tx s then rs_status resp = 200 \<and> switches s' = (False, True) else rs_status resp = 400 \<and> s' = s)"
    using assms by (auto simp: serve_req_def shutdown_def respond_with_def ok_response_def bad_request_def switches_def)
  have up: "switches (snd (and_try (handle_upload E parts s) (\<lambda>_ s. (Inr r, s)))) = switches s" for parts and r :: Response
    using keeps_and_try [OF handle_upload_switches [of s E parts], of "\<lambda>_ s. (Inr r, s)"] by (simp add: keeps_def)
  show "\<not> asks_shutdown (E, req, resp) \<Longrightarrow> switches s' = switches s"
    unfolding s' serve_req_def
    using up handle_download_keeps(1) [of s E "rq_bytes req"] handle_get_domain_data_keeps(1) [of s E "rq_bytes req"]
    by (auto simp: respond_with_snd keeps_def split: option.split)
  show "\<not> is_upload (E, req, resp) \<Longrightarrow> sv_fs s' = sv_fs s"
    unfolding s' serve_req_def
    using handle_download_keeps(2) [of s E "rq_bytes req"] handle_get_domain_data_keeps(2) [of s E "rq_bytes req"]
    by (auto simp: respond_with_snd keeps_def shutdown_def split: option.split)
qed

text \<open>The answers to the requests to shut down, in their order.\<close>

definition shutdown_answers :: "'m exchange list \<Rightarrow> nat list" where
  "shutdown_answers tr = map (\<lambda>(E, req, resp). rs_status resp) (filter asks_shutdown tr)"

text \<open>For every server that has not been asked to shut down yet.\<close>

lemma answered_life:
  assumes "answered s tr s'" "sv_shutdown_tx s" "\<not> sv_shutting_down s"
  shows "(sv_shutting_down s' \<longleftrightarrow> list_ex asks_shutdown tr) \<and>
    shutdown_answers tr = (if list_ex asks_shutdown tr then 200 # replicate (length (filter asks_shutdown tr) - 1) 400 else []) \<and>
    (list_ex is_upload tr \<or> sv_fs s' = sv_fs s)"
proof -
  have "switches s' = (\<not> list_ex asks_shutdown tr, list_ex asks_shutdown tr) \<and>
    shutdown_answers tr = (if list_ex asks_shutdown tr then 200 # replicate (length (filter asks_shutdown tr) - 1) 400 else []) \<and>
    (list_ex is_upload tr \<or> sv_fs s' = sv_fs s)"
    using assms(1)
  proof (induction rule: answered.induct)
    case start
    then show ?case using assms(2,3) by (simp add: switches_def shutdown_answers_def)
  next
    case (answer tr s1 E req resp s2)
    note step = serve_req_step [OF answer(2)]
    show ?case
    proof (cases "asks_shutdown (E, req, resp)")
      case True
      then have not_up: "\<not> is_upload (E, req, resp)" by auto
      have some: "list_ex asks_shutdown tr \<Longrightarrow> filter asks_shutdown tr \<noteq> []" by (auto simp: list_ex_iff filter_empty_conv)
      have none: "\<not> list_ex asks_shutdown tr \<Longrightarrow> filter asks_shutdown tr = []" by (auto simp: list_ex_iff filter_empty_conv)
      show ?thesis
      proof (cases "list_ex asks_shutdown tr")
        case old: True
        obtain n where n: "length (filter asks_shutdown tr) = Suc n" using some [OF old] by (cases "filter asks_shutdown tr") auto
        have "rs_status resp = 400 \<and> s2 = s1" using step(1) [OF True] answer(3) old by (simp add: switches_def)
        then show ?thesis using True not_up answer(3) old n by (simp add: shutdown_answers_def replicate_append_same)
      next
        case False
        then show ?thesis using step(1) [OF True] True not_up answer(3) none [OF False] by (simp add: switches_def shutdown_answers_def)
      qed
    next
      case False
      have "list_ex is_upload (tr @ [(E, req, resp)]) \<or> sv_fs s2 = sv_fs s"
        using step(3) answer(3) by (cases "is_upload (E, req, resp)") (auto simp del: is_upload.simps)
      with False show ?thesis using step(2) answer(3) by (simp add: shutdown_answers_def del: asks_shutdown.simps)
    qed
  qed
  then show ?thesis by (simp add: switches_def)
qed

lemma dmserver_main_Inr:
  assumes "dmserver_main X st m = Inr s"
  shows "sv_shutdown_tx s \<and> \<not> sv_shutting_down s \<and> sv_mesh s = m \<and> fs_files (sv_fs s) = fs_files st"
  using assms by (auto simp: dmserver_main_def or_else_def unless_error_def split: if_splits sum.splits option.splits)

text \<open>
  \<^bold>\<open>C14\<close>: the life of a server that \<open>main\<close> has started, for every sequence of requests. It is shutting down exactly if a
  request asked for it; exactly the first such request is answered with 200 and all later ones
  with 400; and no request but an upload changes a file.
\<close>

theorem server_life:
  assumes "dmserver_main X st m = Inr s" "answered s tr s'"
  shows "(sv_shutting_down s' \<longleftrightarrow> list_ex asks_shutdown tr) \<and>
    shutdown_answers tr = (if list_ex asks_shutdown tr then 200 # replicate (length (filter asks_shutdown tr) - 1) 400 else []) \<and>
    (list_ex is_upload tr \<or> sv_fs s' = sv_fs s)"
  using answered_life [OF assms(2)] dmserver_main_Inr [OF assms(1)] by simp

definition sample_start :: start_env where
  "sample_start = \<lparr>se_var = Inr, se_read_to_string = (\<lambda>_ p. Inr p), se_certificate_error = (\<lambda>_. None),
     se_identity_error = (\<lambda>_. None), se_build_error = (\<lambda>_ _. None), se_create_dir_error = (\<lambda>_ _. None)\<rparr>"

theorem server_life_witness:
  "\<exists>s0. dmserver_main sample_start (sv_fs sample_server) (sv_mesh sample_server) = Inr s0 \<and>
    (case serve_req sample_dm (post_request ''/shutdown'' None []) s0 of
     (resp, s1) \<Rightarrow> (case serve_req sample_dm (post_request ''/shutdown'' None []) s1 of
       (resp', s2) \<Rightarrow> rs_status resp = 200 \<and> rs_status resp' = 400 \<and> sv_shutting_down s2))"
proof -
  let ?req = "post_request ''/shutdown'' None []"
  obtain s0 where 0: "dmserver_main sample_start (sv_fs sample_server) (sv_mesh sample_server) = Inr s0"
    by (cases "path_exists (sv_fs sample_server) TEMP_DIR")
      (simp_all add: dmserver_main_def DataMeshClient_new_def or_else_def unless_error_def sample_start_def)
  obtain resp s1 where 1: "serve_req sample_dm ?req s0 = (resp, s1)" by fastforce
  obtain resp' s2 where 2: "serve_req sample_dm ?req s1 = (resp', s2)" by fastforce
  have "answered s0 (([] @ [(sample_dm, ?req, resp)]) @ [(sample_dm, ?req, resp')]) s2"
    by (rule answered.answer [OF answered.answer [OF answered.start 1] 2])
  from server_life [OF 0 this] have "shutdown_answers [(sample_dm, ?req, resp), (sample_dm, ?req, resp')] = [200, 400] \<and> sv_shutting_down s2"
    by (simp add: post_request_def)
  then show ?thesis using 0 1 2 by (simp add: shutdown_answers_def post_request_def)
qed

section \<open>Files the requests reach\<close>



end
