(* ===== verification/Dm_Tasks.thy ===== *)
theory Dm_Tasks
  imports Comp_Decl Dm_Server
begin

text \<open>
  The tasks of the data management component (\<open>dm_component/componentize/main.py\<close>, \<open>tools.py\<close>,
  \<open>kuscia/datamesh.py\<close>): upload, authorization, export, deletion and withdrawal, with the parts of
  Python's standard library they use.
\<close>

section \<open>The standard library\<close>

text \<open>Indexing, which counts from the end for negative indices.\<close>

definition py_index :: "'a list \<Rightarrow> int \<Rightarrow> 'a py" where
  "py_index xs i =
     (if 0 \<le> i \<and> i < int (length xs) then Inr (xs ! nat i)
      else if - int (length xs) \<le> i \<and> i < 0 then Inr (xs ! nat (int (length xs) + i))
      else Inl IndexError)"

definition py_assert :: "bool \<Rightarrow> string \<Rightarrow> unit py" where
  "py_assert c msg = (if c then Inr () else Inl (AssertionError msg))"

text \<open>\<open>s.split(c)\<close>, which is never empty.\<close>

fun split_on :: "char \<Rightarrow> string \<Rightarrow> string list" where
  "split_on c [] = [[]]"
| "split_on c (x # xs) =
     (case split_on c xs of
        p # ps \<Rightarrow> if x = c then [] # p # ps else (x # p) # ps
      | [] \<Rightarrow> [])"

text \<open>\<open>s.split(c, 1)\<close>: the text before the first \<open>c\<close> and, if there is one, the text behind it.\<close>

definition cut_at :: "char \<Rightarrow> string \<Rightarrow> string \<times> string option" where
  "cut_at c s =
     (case dropWhile (\<lambda>x. x \<noteq> c) s of [] \<Rightarrow> (s, None) | _ # rest \<Rightarrow> (takeWhile (\<lambda>x. x \<noteq> c) s, Some rest))"

definition is_letter :: "char \<Rightarrow> bool" where
  "is_letter c \<longleftrightarrow> (let n = of_char c :: nat in 65 \<le> n \<and> n \<le> 90 \<or> 97 \<le> n \<and> n \<le> 122)"

definition to_lower :: "char \<Rightarrow> char" where
  "to_lower c = (let n = of_char c :: nat in if 65 \<le> n \<and> n \<le> 90 then char_of (n + 32) else c)"

text \<open>
  Scheme and query of \<open>urllib.parse.urlsplit\<close>. Control characters and blanks in front and line
  breaks and tabulators anywhere are dropped; a colon ends a scheme of letters, digits, plus, minus
  and dots; brackets around a host have to come in pairs.
\<close>

record split_result =
  sr_scheme :: string
  sr_query :: string

definition urlsplit :: "string \<Rightarrow> split_result py" where
  "urlsplit text =
     (let url = filter (\<lambda>c. c \<notin> set [CHR 0x09, CHR 0x0A, CHR 0x0D])
                  (dropWhile (\<lambda>c. (of_char c :: nat) \<le> 32) text);
          (scheme, rest) =
            (case cut_at (CHR '':'') url of
               (s, Some r) \<Rightarrow>
                 if s \<noteq> [] \<and> is_letter (hd s) \<and>
                    list_all (\<lambda>c. is_letter c \<or> is_digit c \<or> c \<in> set ''+-.'') s
                 then (map to_lower s, r) else ([], url)
             | (_, None) \<Rightarrow> ([], url));
          (netloc, rest) =
            (if take 2 rest = ''//''
             then (takeWhile (\<lambda>c. c \<notin> set ''/?#'') (drop 2 rest), dropWhile (\<lambda>c. c \<notin> set ''/?#'') (drop 2 rest))
             else ([], rest));
          rest = fst (cut_at (CHR ''#'') rest)
      in if (CHR ''['' \<in> set netloc) \<noteq> (CHR '']'' \<in> set netloc) then Inl (ValueError ''Invalid IPv6 URL'')
         else Inr \<lparr>sr_scheme = scheme, sr_query = (case snd (cut_at (CHR ''?'') rest) of Some q \<Rightarrow> q | None \<Rightarrow> [])\<rparr>)"

definition hex_digit_val :: "char \<Rightarrow> nat option" where
  "hex_digit_val c =
     (let n = of_char c :: nat in
      if 48 \<le> n \<and> n \<le> 57 then Some (n - 48)
      else if 65 \<le> n \<and> n \<le> 70 then Some (n - 55)
      else if 97 \<le> n \<and> n \<le> 102 then Some (n - 87)
      else None)"

text \<open>\<open>unquote\<close> of a text with its plus signs replaced, on the bytes of the text.\<close>

fun unquote :: "string \<Rightarrow> string" where
  "unquote (a # b # c # s) =
     (if a = CHR ''%'' then
        (case (hex_digit_val b, hex_digit_val c) of
           (Some x, Some y) \<Rightarrow> char_of (16 * x + y) # unquote s
         | _ \<Rightarrow> a # unquote (b # c # s))
      else (if a = CHR ''+'' then CHR '' '' else a) # unquote (b # c # s))"
| "unquote (a # s) = (if a = CHR ''+'' then CHR '' '' else a) # unquote s"
| "unquote [] = []"

text \<open>\<open>dict(parse_qsl(query))\<close>: pairs without value are dropped, of equal names the last one counts.\<close>

definition parse_pair :: "string \<Rightarrow> (string \<times> string) list" where
  "parse_pair p =
     (case cut_at (CHR ''='') p of
        (n, Some v) \<Rightarrow> if v \<noteq> [] then [(unquote n, unquote v)] else []
      | (_, None) \<Rightarrow> [])"

definition parse_qsl :: "string \<Rightarrow> (string \<times> string) list" where
  "parse_qsl q = concat (map parse_pair (split_on (CHR ''&'') q))"

definition query_dict :: "string \<Rightarrow> string \<rightharpoonup> string" where
  "query_dict q = map_of (rev (parse_qsl q))"

definition py_lookup :: "(string \<rightharpoonup> 'a) \<Rightarrow> string \<Rightarrow> 'a py" where
  "py_lookup d k = (case d k of Some v \<Rightarrow> Inr v | None \<Rightarrow> Inl (KeyError k))"

text \<open>
  \<open>base64.b64decode\<close>: characters outside of the alphabet are skipped, and a complete padding ends the
  text. The arguments are the position in the group of four, the pads and the bits so far.
\<close>

definition b64_val :: "char \<Rightarrow> nat option" where
  "b64_val c =
     (let n = of_char c :: nat in
      if 65 \<le> n \<and> n \<le> 90 then Some (n - 65)
      else if 97 \<le> n \<and> n \<le> 122 then Some (n - 71)
      else if 48 \<le> n \<and> n \<le> 57 then Some (n + 4)
      else if c = CHR ''+'' then Some 62
      else if c = CHR ''/'' then Some 63
      else None)"

fun b64_from :: "nat \<Rightarrow> nat \<Rightarrow> nat \<Rightarrow> string \<Rightarrow> bytes py" where
  "b64_from pos pads bits [] =
     (if pos = 0 then Inr []
      else if pos = 1 then Inl (Raised ''Invalid base64-encoded string'')
      else Inl (Raised ''Incorrect padding''))"
| "b64_from pos pads bits (c # cs) =
     (if c = CHR ''='' then
        if 2 \<le> pos \<and> 4 \<le> pos + pads + 1 then Inr [] else b64_from pos (if 2 \<le> pos then pads + 1 else pads) bits cs
      else case b64_val c of
        None \<Rightarrow> b64_from pos pads bits cs
      | Some v \<Rightarrow>
          if pos = 0 then b64_from 1 0 v cs
          else if pos = 1 then py_bind (b64_from 2 0 (v mod 16) cs) (\<lambda>bs. Inr (word_of_nat (bits * 4 + v div 16) # bs))
          else if pos = 2 then py_bind (b64_from 3 0 (v mod 4) cs) (\<lambda>bs. Inr (word_of_nat (bits * 16 + v div 4) # bs))
          else py_bind (b64_from 0 0 0 cs) (\<lambda>bs. Inr (word_of_nat (bits * 64 + v) # bs)))"

definition b64decode :: "string \<Rightarrow> bytes py" where
  "b64decode s =
     (if list_ex (\<lambda>c. 128 \<le> (of_char c :: nat)) s
      then Inl (ValueError ''string argument should contain only ASCII characters'')
      else b64_from 0 0 0 s)"

fun py_map :: "('a \<Rightarrow> 'b py) \<Rightarrow> 'a list \<Rightarrow> 'b list py" where
  "py_map f [] = Inr []"
| "py_map f (x # xs) = py_bind (f x) (\<lambda>y. py_bind (py_map f xs) (\<lambda>ys. Inr (y # ys)))"

section \<open>Addresses and identifiers\<close>

text \<open>\<open>split_host_and_port\<close>, for an endpoint without line breaks.\<close>

definition split_host_and_port :: "string \<Rightarrow> string \<times> nat" where
  "split_host_and_port endpoint =
     (let digits = rev (takeWhile is_digit (rev endpoint)); before = take (length endpoint - length digits) endpoint in
      if digits \<noteq> [] \<and> 2 \<le> length before \<and> last before = CHR '':''
      then (butlast before, digits_val digits) else (endpoint, 80))"

definition make_url :: "string \<Rightarrow> string \<Rightarrow> string list \<Rightarrow> string" where
  "make_url scheme endpoint res = foldl (\<lambda>url r. url @ ''/'' @ r) (scheme @ ''://'' @ endpoint) res"

definition dm_query :: "string \<Rightarrow> (string \<rightharpoonup> string) py" where
  "dm_query uri =
     py_bind (urlsplit uri) (\<lambda>u.
     py_bind (py_assert (sr_scheme u = ''dm'') ''only support dm sheme uri'') (\<lambda>_.
     Inr (query_dict (sr_query u))))"

definition get_domain_data_id :: "string \<Rightarrow> string py" where
  "get_domain_data_id uri = py_bind (dm_query uri) (\<lambda>query. py_lookup query ''id'')"

section \<open>The task and the world around it\<close>

record service =
  sc_port_name :: string
  sc_endpoints :: "string list"

record party =
  pa_name :: string
  pa_services :: "service list"

text \<open>\<open>KusicaTaskConfig\<close>, as it was read from the file of the scheduler.\<close>

record 'f task_config =
  tk_parties :: "party list"
  tk_self_party_idx :: int
  tk_ports :: "(string \<times> int) list"
  tk_param :: "'f node_eval_param"
  tk_capsule_manager_endpoint :: string
  tk_scope :: string

datatype channel = Insecure string | Secure string bytes bytes bytes

record 'd grpc_reply =
  gr_code :: int
  gr_status :: string
  gr_data :: 'd

text \<open>A part of a multipart form: its name, its file name and its content.\<close>

record form_part =
  fp_name :: string
  fp_filename :: "string option"
  fp_content :: bytes

record http_reply =
  hr_status :: nat
  hr_body :: bytes

record policy_request =
  py_owner_party_id :: string
  py_scope :: string
  py_data_uuid :: string
  py_rule_ids :: "string list"
  py_grantee_party_ids :: "string list list"
  py_columns :: "string list list"
  py_op_constraints_name :: "string list"

text \<open>
  An answer of the configuration manager: its JSON, if it is any, as text, and the fields, each an error
  where the object lacks it.
\<close>

record cert_reply =
  ce_status :: nat
  ce_json :: "string py"
  ce_code :: "int py"
  ce_cert_chain :: "string list py"
  ce_key :: "string py"

text \<open>
  The files of the party that runs the task, the services it talks to, and, for the statements
  below, the forms it has sent.
\<close>

record 'x task_world =
  tw_files :: fs
  tw_out :: 'x
  tw_sent :: "(string \<times> form_part list) list"

text \<open>
  Outside code: gRPC stubs of the data mesh, \<open>requests\<close>, the SDK of the capsule manager (\<open>sdc\<close>), the
  retry decorator of \<open>tenacity\<close>, protobuf's JSON, the environment, the server program and the
  operating system, which may refuse to open a file for writing.
\<close>

record 'x task_env =
  te_environ :: "string \<rightharpoonup> string"
  te_data_mesh_endpoint :: string
  te_data_mesh_endpoint_grpc :: string
  te_config_manager_endpoint :: string
  te_script_dir :: string
  te_query_data :: "channel \<Rightarrow> string \<Rightarrow> 'x \<Rightarrow> DomainData grpc_reply py \<times> 'x"
  te_query_source :: "channel \<Rightarrow> string \<Rightarrow> 'x \<Rightarrow> DomainDataSource grpc_reply py \<times> 'x"
  te_create_data :: "channel \<Rightarrow> CreateDomainDataRequest \<Rightarrow> 'x \<Rightarrow> unit grpc_reply py \<times> 'x"
  te_post_form :: "string \<Rightarrow> form_part list \<Rightarrow> 'x \<Rightarrow> http_reply py \<times> 'x"
  te_post_json :: "string \<Rightarrow> (string \<times> string) list \<Rightarrow> 'x \<Rightarrow> http_reply py \<times> 'x"
  te_post :: "string \<Rightarrow> 'x \<Rightarrow> http_reply py \<times> 'x"
  te_retry :: "('x task_world \<Rightarrow> unit py \<times> 'x task_world) \<Rightarrow> 'x task_world \<Rightarrow> unit py \<times> 'x task_world"
  te_retry_data :: "('x task_world \<Rightarrow> DomainData py \<times> 'x task_world) \<Rightarrow> 'x task_world \<Rightarrow> DomainData py \<times> 'x task_world"
  te_gen_key :: "nat \<Rightarrow> bytes"
  te_encrypt_file :: "string \<Rightarrow> string \<Rightarrow> bytes \<Rightarrow> fs \<Rightarrow> unit py \<times> fs"
  te_decrypt_file :: "string \<Rightarrow> string \<Rightarrow> bytes \<Rightarrow> fs \<Rightarrow> unit py \<times> fs"
  te_party_id :: "bytes \<Rightarrow> string py"
  te_frame :: "string \<Rightarrow> unit py"
  te_create_data_keys :: "string \<Rightarrow> string \<Rightarrow> string list \<Rightarrow> bytes list \<Rightarrow> bytes list \<Rightarrow> bytes \<Rightarrow> 'x \<Rightarrow> unit py \<times> 'x"
  te_get_export_data_key :: "string \<Rightarrow> string \<Rightarrow> string \<Rightarrow> string \<Rightarrow> bytes list \<Rightarrow> bytes \<Rightarrow> 'x \<Rightarrow> bytes py \<times> 'x"
  te_create_data_policy :: "string \<Rightarrow> policy_request \<Rightarrow> bytes list \<Rightarrow> bytes \<Rightarrow> 'x \<Rightarrow> unit py \<times> 'x"
  te_delete_data_key :: "string \<Rightarrow> string \<Rightarrow> string \<Rightarrow> bytes list \<Rightarrow> bytes \<Rightarrow> 'x \<Rightarrow> unit py \<times> 'x"
  te_delete_data_policy :: "string \<Rightarrow> string \<Rightarrow> string \<Rightarrow> string \<Rightarrow> bytes list \<Rightarrow> bytes \<Rightarrow> 'x \<Rightarrow> unit py \<times> 'x"
  te_data_json :: "DomainData \<Rightarrow> string"
  te_json_data :: "bytes \<Rightarrow> DomainData py"
  te_generate_cert :: "string \<Rightarrow> string \<Rightarrow> string \<times> string \<Rightarrow> string \<Rightarrow> 'x \<Rightarrow> cert_reply py \<times> 'x"
  te_run :: "string list \<Rightarrow> 'x \<Rightarrow> int py \<times> 'x"
  te_open_wb_error :: "string \<Rightarrow> fs \<Rightarrow> string option"

definition on_out :: "('x \<Rightarrow> 'a py \<times> 'x) \<Rightarrow> 'x task_world \<Rightarrow> 'a py \<times> 'x task_world" where
  "on_out f w = (case f (tw_out w) of (r, x) \<Rightarrow> (r, w\<lparr>tw_out := x\<rparr>))"

definition on_local :: "(fs \<Rightarrow> 'a py \<times> fs) \<Rightarrow> 'x task_world \<Rightarrow> 'a py \<times> 'x task_world" where
  "on_local f w = (case f (tw_files w) of (r, fs) \<Rightarrow> (r, w\<lparr>tw_files := fs\<rparr>))"

definition open_rb :: "string \<Rightarrow> fs \<Rightarrow> bytes py" where
  "open_rb path fs = (case fs path of Some bs \<Rightarrow> Inr bs | None \<Rightarrow> Inl (Raised (''No such file or directory: '' @ path)))"

section \<open>The data mesh client\<close>

definition environ_get :: "'x task_env \<Rightarrow> string \<Rightarrow> string" where
  "environ_get E k = (case te_environ E k of Some v \<Rightarrow> v | None \<Rightarrow> [])"

definition create_channel :: "'x task_env \<Rightarrow> string \<Rightarrow> fs \<Rightarrow> channel py" where
  "create_channel E address fs =
     (let cert_file = environ_get E ''CLIENT_CERT_FILE''; key_file = environ_get E ''CLIENT_PRIVATE_KEY_FILE'';
          ca_file = environ_get E ''TRUSTED_CA_FILE'' in
      if cert_file \<noteq> []
      then py_bind (open_rb cert_file fs) (\<lambda>client_cert.
           py_bind (open_rb key_file fs) (\<lambda>client_key.
           py_bind (open_rb ca_file fs) (\<lambda>trusted_ca.
           Inr (Secure address trusted_ca client_key client_cert))))
      else Inr (Insecure address))"

definition get_domain_data :: "'x task_env \<Rightarrow> channel \<Rightarrow> string \<Rightarrow> 'x task_world \<Rightarrow> DomainData py \<times> 'x task_world" where
  "get_domain_data E stub i w =
     and_try (on_out (te_query_data E stub i) w) (\<lambda>ret w.
     if gr_code ret \<noteq> 0
     then (Inl (RuntimeError (''get_dist_data failed for '' @ i @ '': status = '' @ gr_status ret)), w)
     else (Inr (gr_data ret), w))"

definition get_domain_data_source ::
  "'x task_env \<Rightarrow> channel \<Rightarrow> string \<Rightarrow> 'x task_world \<Rightarrow> DomainDataSource py \<times> 'x task_world" where
  "get_domain_data_source E stub i w =
     and_try (on_out (te_query_source E stub i) w) (\<lambda>ret w.
     if gr_code ret \<noteq> 0
     then (Inl (RuntimeError (''get_domain_data_source failed for '' @ i @ '': status = '' @ gr_status ret)), w)
     else (Inr (gr_data ret), w))"

text \<open>The request leaves partition and file format out.\<close>

definition py_create_request :: "DomainData \<Rightarrow> CreateDomainDataRequest" where
  "py_create_request d =
     \<lparr>cr_domaindata_id = do_domaindata_id d, cr_name = do_name d, cr_type = do_type d,
      cr_relative_uri = do_relative_uri d, cr_datasource_id = do_datasource_id d, cr_attributes = do_attributes d,
      cr_partition = None, cr_columns = do_columns d, cr_vendor = do_vendor d, cr_file_format = 0\<rparr>"

definition create_domain_data :: "'x task_env \<Rightarrow> channel \<Rightarrow> DomainData \<Rightarrow> 'x task_world \<Rightarrow> unit py \<times> 'x task_world" where
  "create_domain_data E stub d w =
     and_try (on_out (te_create_data E stub (py_create_request d)) w) (\<lambda>ret w.
     if gr_code ret \<noteq> 0
     then (Inl (RuntimeError (''create_domain_data failed for '' @ do_domaindata_id d @ '': status = '' @ gr_status ret)), w)
     else (Inr (), w))"

text \<open>Fields of a message that are not set read as empty.\<close>

definition localfs_dir :: "DomainDataSource \<Rightarrow> string" where
  "localfs_dir s =
     (case so_info s of None \<Rightarrow> [] | Some info \<Rightarrow> (case in_localfs info of None \<Rightarrow> [] | Some p \<Rightarrow> p))"

section \<open>Common steps\<close>

definition AES_KEY_LEN_IN_BYTES :: nat where "AES_KEY_LEN_IN_BYTES = 16"

definition party_name :: "'f task_config \<Rightarrow> string py" where
  "party_name conf = py_bind (py_index (tk_parties conf) (tk_self_party_idx conf)) (\<lambda>p. Inr (pa_name p))"

fun find_endpoint :: "service list \<Rightarrow> string \<Rightarrow> string py" where
  "find_endpoint [] endpoint = Inr endpoint"
| "find_endpoint (s # ss) endpoint =
     (if sc_port_name s = ''tee-dm'' then py_index (sc_endpoints s) 0 else find_endpoint ss endpoint)"

fun find_peer :: "string \<Rightarrow> party list \<Rightarrow> string \<Rightarrow> string py" where
  "find_peer name [] endpoint = Inr endpoint"
| "find_peer name (p # ps) endpoint =
     py_bind (if pa_name p = name then find_endpoint (pa_services p) endpoint else Inr endpoint) (find_peer name ps)"

definition peer_endpoint :: "'f task_config \<Rightarrow> string py" where
  "peer_endpoint conf =
     py_bind (py_index (tk_parties conf) (tk_self_party_idx conf XOR 1)) (\<lambda>p.
     find_peer (pa_name p) (tk_parties conf) [])"

definition server_port :: "'f task_config \<Rightarrow> int" where
  "server_port conf = foldl (\<lambda>port (name, p). if name = ''tee-dm'' then p else port) 0 (tk_ports conf)"

definition start_server :: "'x task_env \<Rightarrow> int \<Rightarrow> string \<Rightarrow> 'x task_world \<Rightarrow> unit py \<times> 'x task_world" where
  "start_server E port data_mesh_endpoint w =
     and_try (on_out (te_run E
       [path_append (te_script_dir E) ''dmserver'', ''-p'', int_str port, ''-d'', data_mesh_endpoint]) w) (\<lambda>code w.
     (if code \<noteq> 0 then Inl (SystemExit (- 1)) else Inr (), w))"

definition capsule_manager :: "'f task_config \<Rightarrow> string" where
  "capsule_manager conf =
     (case split_host_and_port (tk_capsule_manager_endpoint conf) of (host, port) \<Rightarrow> host @ '':'' @ to_string port)"

text \<open>An attribute that is used as text; the reader hands out nothing else for such an attribute.\<close>

definition as_text :: "'f entry \<Rightarrow> string py" where
  "as_text v = (case v of Plain (Py_str s) \<Rightarrow> Inr s | _ \<Rightarrow> Inl TypeError)"

definition as_texts :: "'f entry \<Rightarrow> string list py" where
  "as_texts v = (case v of Plain (Py_strs ss) \<Rightarrow> Inr ss | _ \<Rightarrow> Inl TypeError)"

definition input_uri :: "'f reader \<Rightarrow> string \<Rightarrow> string py" where
  "input_uri r name = py_bind (get_input r name) (\<lambda>x. py_index (dd_uris x) 0)"

definition expect_200 :: "http_reply \<Rightarrow> unit py" where
  "expect_200 r = py_assert (hr_status r = 200) (''err msg: '' @ bytes_str (hr_body r))"

definition shutdown_peer :: "'x task_env \<Rightarrow> string \<Rightarrow> 'x task_world \<Rightarrow> unit py \<times> 'x task_world" where
  "shutdown_peer E peer w =
     and_try (on_out (te_post E (make_url ''http'' peer [''shutdown''])) w) (\<lambda>r w. (expect_200 r, w))"

section \<open>Upload\<close>

text \<open>One attempt to send the encrypted file, with the place to store it and its description.\<close>

definition upload_file :: "'x task_env \<Rightarrow> string \<Rightarrow> string \<Rightarrow> string \<Rightarrow> string \<Rightarrow> 'x task_world \<Rightarrow> unit py \<times> 'x task_world" where
  "upload_file E peer encrypted_file_path output_uri data_json w =
     try_or (open_rb encrypted_file_path (tw_files w)) w (\<lambda>content.
     let url = make_url ''http'' peer [''upload''];
         parts = [\<lparr>fp_name = ''file'', fp_filename = Some (filename encrypted_file_path), fp_content = content\<rparr>,
                  \<lparr>fp_name = ''store_path'', fp_filename = None, fp_content = str_bytes output_uri\<rparr>,
                  \<lparr>fp_name = ''domain_data'', fp_filename = None, fp_content = str_bytes data_json\<rparr>] in
     and_try (on_out (te_post_form E url parts) (w\<lparr>tw_sent := tw_sent w @ [(url, parts)]\<rparr>)) (\<lambda>r w.
     (expect_200 r, w)))"

text \<open>Steps 2 to 5: the description and the path of the file that is to be uploaded.\<close>

definition locate_input :: "'x task_env \<Rightarrow> string \<Rightarrow> 'x task_world \<Rightarrow> (DomainData \<times> string) py \<times> 'x task_world" where
  "locate_input E uri w =
     try_or (get_domain_data_id uri) w (\<lambda>domain_data_id.
     try_or (create_channel E (te_data_mesh_endpoint_grpc E) (tw_files w)) w (\<lambda>stub.
     and_try (get_domain_data E stub domain_data_id w) (\<lambda>d w.
     try_or (create_channel E (te_data_mesh_endpoint_grpc E) (tw_files w)) w (\<lambda>stub.
     and_try (get_domain_data_source E stub (do_datasource_id d) w) (\<lambda>source w.
     (Inr (d, path_append (localfs_dir source) (do_relative_uri d)), w))))))"

text \<open>Step 9.\<close>

definition register_data_key ::
  "'x task_env \<Rightarrow> 'f task_config \<Rightarrow> bytes list \<Rightarrow> bytes \<Rightarrow> string \<Rightarrow> bytes \<Rightarrow> 'x task_world \<Rightarrow> unit py \<times> 'x task_world" where
  "register_data_key E conf certs private_key output_uri data_key w =
     try_or (te_frame E (capsule_manager conf)) w (\<lambda>_.
     try_or (py_index certs (- 1)) w (\<lambda>cert.
     try_or (te_party_id E cert) w (\<lambda>party_id.
     try_or (get_domain_data_id output_uri) w (\<lambda>i.
     on_out (te_create_data_keys E (capsule_manager conf) party_id [i] [data_key] certs private_key) w))))"

definition upload_as_client ::
  "'x task_env \<Rightarrow> 'f task_config \<Rightarrow> 'f reader \<Rightarrow> bytes list \<Rightarrow> bytes \<Rightarrow> 'x task_world \<Rightarrow> unit py \<times> 'x task_world" where
  "upload_as_client E conf reader certs private_key w =
     try_or (peer_endpoint conf) w (\<lambda>peer.
     try_or (input_uri reader ''uploader_input'') w (\<lambda>uri.
     and_try (locate_input E uri w) (\<lambda>(d, file_path) w.
     let data_key = te_gen_key E AES_KEY_LEN_IN_BYTES; encrypted_file_path = file_path @ ''.encrypted'' in
     and_try (on_local (te_encrypt_file E file_path encrypted_file_path data_key) w) (\<lambda>_ w.
     try_or (get_output_uri reader ''receive_output'') w (\<lambda>output_uri.
     and_try (te_retry E (upload_file E peer encrypted_file_path output_uri (te_data_json E d)) w) (\<lambda>_ w.
     and_try (shutdown_peer E peer w) (\<lambda>_ w.
     register_data_key E conf certs private_key output_uri data_key w)))))))"

definition eval_upload ::
  "'x task_env \<Rightarrow> 'f floats \<Rightarrow> 'f \<Rightarrow> 'f task_config \<Rightarrow> bytes list \<Rightarrow> bytes \<Rightarrow> 'x task_world \<Rightarrow> unit py \<times> 'x task_world" where
  "eval_upload E F zero conf certs private_key w =
     try_or (py_assert (length (tk_parties conf) = 2) ''Only two parties are enabled for uploading.'') w (\<lambda>_.
     try_or (comp_definition (data_upload_comp zero)) w (\<lambda>def.
     try_or (EvalParamReader F zero (tk_param conf) def) w (\<lambda>reader.
     try_or (party_name conf) w (\<lambda>name.
     try_or (get_attr reader ''uploader/domain_id'') w (\<lambda>uploader.
     if uploader = Plain (Py_str name) then upload_as_client E conf reader certs private_key w
     else start_server E (server_port conf) (te_data_mesh_endpoint E) w)))))"

section \<open>Authorization\<close>

definition eval_authorize ::
  "'x task_env \<Rightarrow> 'f floats \<Rightarrow> 'f \<Rightarrow> 'f task_config \<Rightarrow> bytes list \<Rightarrow> bytes \<Rightarrow> 'x task_world \<Rightarrow> unit py \<times> 'x task_world" where
  "eval_authorize E F zero conf certs private_key w =
     try_or (py_assert (length (tk_parties conf) = 1) ''Only one party is enabled for authorizing.'') w (\<lambda>_.
     try_or (comp_definition (data_auth_comp zero)) w (\<lambda>def.
     try_or (EvalParamReader F zero (tk_param conf) def) w (\<lambda>reader.
     try_or (py_bind (get_attr reader ''authorization_info/project_id'') as_text) w (\<lambda>project_id.
     try_or (py_bind (py_index certs (- 1)) (te_party_id E)) w (\<lambda>owner_party_id.
     try_or (py_bind (input_uri reader ''authorize_input'') get_domain_data_id) w (\<lambda>domain_data_id.
     try_or (py_bind (get_attr reader ''authorization_info/columns'') as_texts) w (\<lambda>columns.
     try_or (py_bind (get_attr reader ''authorization_info/root_certs'') as_texts) w (\<lambda>texts.
     try_or (py_map b64decode texts) w (\<lambda>root_certs.
     try_or (py_map (te_party_id E) root_certs) w (\<lambda>grantee_party_ids.
     try_or (te_frame E (capsule_manager conf)) w (\<lambda>_.
     on_out (te_create_data_policy E (capsule_manager conf)
       \<lparr>py_owner_party_id = owner_party_id, py_scope = project_id, py_data_uuid = domain_data_id,
        py_rule_ids = [''default_rule_id''], py_grantee_party_ids = [grantee_party_ids], py_columns = [columns],
        py_op_constraints_name = [''*'']\<rparr> certs private_key) w)))))))))))"

section \<open>Export\<close>

definition download_file :: "'x task_env \<Rightarrow> string \<Rightarrow> string \<Rightarrow> string \<Rightarrow> 'x task_world \<Rightarrow> unit py \<times> 'x task_world" where
  "download_file E peer download_uri local_filename w =
     and_try (on_out (te_post_json E (make_url ''http'' peer [''download'']) [(''uri'', download_uri)]) w) (\<lambda>r w.
     try_or (expect_200 r) w (\<lambda>_.
     case te_open_wb_error E local_filename (tw_files w) of
       Some e \<Rightarrow> (Inl (Raised e), w)
     | None \<Rightarrow> (Inr (), w\<lparr>tw_files := (tw_files w)(local_filename \<mapsto> hr_body r)\<rparr>)))"

definition get_peer_domain_data :: "'x task_env \<Rightarrow> string \<Rightarrow> string \<Rightarrow> 'x task_world \<Rightarrow> DomainData py \<times> 'x task_world" where
  "get_peer_domain_data E peer download_uri w =
     and_try (on_out (te_post_json E (make_url ''http'' peer [''get_domain_data'']) [(''uri'', download_uri)]) w) (\<lambda>r w.
     try_or (expect_200 r) w (\<lambda>_.
     (te_json_data E (hr_body r), w)))"

text \<open>Step 1: the key, from the capsule manager.\<close>

definition export_key ::
  "'x task_env \<Rightarrow> 'f task_config \<Rightarrow> 'f reader \<Rightarrow> bytes list \<Rightarrow> bytes \<Rightarrow> string \<Rightarrow> 'x task_world \<Rightarrow> bytes py \<times> 'x task_world" where
  "export_key E conf reader certs private_key domain_data_id w =
     try_or (te_frame E (capsule_manager conf)) w (\<lambda>_.
     try_or (py_bind (py_index certs (- 1)) (te_party_id E)) w (\<lambda>party_id.
     try_or (py_bind (get_attr reader ''receiver/vote_result'') as_text) w (\<lambda>vote_result.
     on_out (te_get_export_data_key E (capsule_manager conf) party_id domain_data_id vote_result certs private_key) w)))"

text \<open>Steps 4 and 5: the description of the data, registered under the new identifier and path.\<close>

definition register_export ::
  "'x task_env \<Rightarrow> string \<Rightarrow> string \<Rightarrow> string \<Rightarrow> string \<Rightarrow> 'x task_world \<Rightarrow> unit py \<times> 'x task_world" where
  "register_export E peer download_uri i path w =
     and_try (te_retry_data E (get_peer_domain_data E peer download_uri) w) (\<lambda>d w.
     try_or (create_channel E (te_data_mesh_endpoint_grpc E) (tw_files w)) w (\<lambda>stub.
     create_domain_data E stub (d\<lparr>do_domaindata_id := i, do_relative_uri := path\<rparr>) w))"

definition export_as_receiver ::
  "'x task_env \<Rightarrow> 'f task_config \<Rightarrow> 'f reader \<Rightarrow> bytes list \<Rightarrow> bytes \<Rightarrow> 'x task_world \<Rightarrow> unit py \<times> 'x task_world" where
  "export_as_receiver E conf reader certs private_key w =
     try_or (peer_endpoint conf) w (\<lambda>peer.
     try_or (input_uri reader ''sender_input'') w (\<lambda>download_uri.
     try_or (get_domain_data_id download_uri) w (\<lambda>domain_data_id.
     and_try (export_key E conf reader certs private_key domain_data_id w) (\<lambda>data_key w.
     try_or (py_bind (get_output_uri reader ''receiver_output'') dm_query) w (\<lambda>query.
     try_or (py_lookup query ''uri'') w (\<lambda>path.
     try_or (py_lookup query ''id'') w (\<lambda>i.
     try_or (py_lookup query ''datasource_id'') w (\<lambda>data_source_id.
     and_try (te_retry E (download_file E peer download_uri path) w) (\<lambda>_ w.
     try_or (create_channel E (te_data_mesh_endpoint_grpc E) (tw_files w)) w (\<lambda>stub.
     and_try (get_domain_data_source E stub data_source_id w) (\<lambda>source w.
     and_try (on_local (te_decrypt_file E path (path_append (localfs_dir source) path) data_key) w) (\<lambda>_ w.
     and_try (register_export E peer download_uri i path w) (\<lambda>_ w.
     shutdown_peer E peer w)))))))))))))"

definition eval_data_export ::
  "'x task_env \<Rightarrow> 'f floats \<Rightarrow> 'f \<Rightarrow> 'f task_config \<Rightarrow> bytes list \<Rightarrow> bytes \<Rightarrow> 'x task_world \<Rightarrow> unit py \<times> 'x task_world" where
  "eval_data_export E F zero conf certs private_key w =
     try_or (py_assert (length (tk_parties conf) = 2) ''Only the two parties are enabled in data export.'') w (\<lambda>_.
     try_or (comp_definition (data_export_comp zero)) w (\<lambda>def.
     try_or (EvalParamReader F zero (tk_param conf) def) w (\<lambda>reader.
     try_or (party_name conf) w (\<lambda>name.
     try_or (get_attr reader ''receiver/domain_id'') w (\<lambda>receiver.
     if receiver = Plain (Py_str name) then export_as_receiver E conf reader certs private_key w
     else start_server E (server_port conf) (te_data_mesh_endpoint E) w)))))"

section \<open>Deletion\<close>

definition eval_data_delete ::
  "'x task_env \<Rightarrow> 'f floats \<Rightarrow> 'f \<Rightarrow> 'f task_config \<Rightarrow> bytes list \<Rightarrow> bytes \<Rightarrow> 'x task_world \<Rightarrow> unit py \<times> 'x task_world" where
  "eval_data_delete E F zero conf certs private_key w =
     try_or (py_assert (length (tk_parties conf) = 1) ''Only one party is enabled for deleting.'') w (\<lambda>_.
     try_or (comp_definition (data_delete_comp zero)) w (\<lambda>def.
     try_or (EvalParamReader F zero (tk_param conf) def) w (\<lambda>reader.
     try_or (py_bind (py_index certs (- 1)) (te_party_id E)) w (\<lambda>party_id.
     try_or (py_bind (input_uri reader ''delete_input'') get_domain_data_id) w (\<lambda>domain_data_id.
     try_or (te_frame E (capsule_manager conf)) w (\<lambda>_.
     on_out (te_delete_data_key E (capsule_manager conf) party_id domain_data_id certs private_key) w))))))"

definition eval_data_unauthorize ::
  "'x task_env \<Rightarrow> 'f floats \<Rightarrow> 'f \<Rightarrow> 'f task_config \<Rightarrow> bytes list \<Rightarrow> bytes \<Rightarrow> 'x task_world \<Rightarrow> unit py \<times> 'x task_world" where
  "eval_data_unauthorize E F zero conf certs private_key w =
     try_or (py_assert (length (tk_parties conf) = 1) ''Only one party is enabled for eval_data_unauthorizing.'') w (\<lambda>_.
     try_or (comp_definition (data_unauth_comp zero)) w (\<lambda>def.
     try_or (EvalParamReader F zero (tk_param conf) def) w (\<lambda>reader.
     try_or (py_bind (py_index certs (- 1)) (te_party_id E)) w (\<lambda>party_id.
     try_or (py_bind (input_uri reader ''unauthorize_input'') get_domain_data_id) w (\<lambda>domain_data_id.
     try_or (te_frame E (capsule_manager conf)) w (\<lambda>_.
     on_out (te_delete_data_policy E (capsule_manager conf) party_id (tk_scope conf) domain_data_id certs private_key) w))))))"

definition run_task ::
  "'x task_env \<Rightarrow> 'f floats \<Rightarrow> 'f \<Rightarrow> 'f task_config \<Rightarrow> bytes list \<Rightarrow> bytes \<Rightarrow> 'x task_world \<Rightarrow> unit py \<times> 'x task_world" where
  "run_task E F zero conf certs private_key w =
     (let name = ne_name (tk_param conf) in
      if name = ''upload'' then eval_upload E F zero conf certs private_key w
      else if name = ''authorize'' then eval_authorize E F zero conf certs private_key w
      else if name = ''download'' then eval_data_export E F zero conf certs private_key w
      else if name = ''delete'' then eval_data_delete E F zero conf certs private_key w
      else if name = ''unauthorize'' then eval_data_unauthorize E F zero conf certs private_key w
      else (Inl (Raised ''unsupported component''), w))"

section \<open>The program\<close>

definition get_cert_from_config_manager ::
  "'x task_env \<Rightarrow> string \<Rightarrow> string \<Rightarrow> 'x task_world \<Rightarrow> (string list \<times> string) py \<times> 'x task_world" where
  "get_cert_from_config_manager E endpoint common_name w =
     (let cert_file = environ_get E ''CLIENT_CERT_FILE''; key_file = environ_get E ''CLIENT_PRIVATE_KEY_FILE'';
          ca_file = environ_get E ''TRUSTED_CA_FILE'' in
      and_try (on_out (te_generate_cert E (make_url ''https'' endpoint [''api/v1/cm/certificate/generate''])
        ca_file (cert_file, key_file) common_name) w) (\<lambda>r w.
      try_or (if ce_status r = 200 then Inr () else py_bind (ce_json r) (\<lambda>t. Inl (AssertionError (''error msg: '' @ t)))) w (\<lambda>_.
      try_or (ce_json r) w (\<lambda>_.
      try_or (ce_code r) w (\<lambda>code.
      try_or (py_assert (code = 0) []) w (\<lambda>_.
      try_or (ce_cert_chain r) w (\<lambda>chain.
      try_or (ce_key r) w (\<lambda>key.
      (Inr (chain, key), w)))))))))"

text \<open>The main program, once the configuration of the task is read.\<close>

definition dm_main :: "'x task_env \<Rightarrow> 'f floats \<Rightarrow> 'f \<Rightarrow> 'f task_config \<Rightarrow> 'x task_world \<Rightarrow> unit py \<times> 'x task_world" where
  "dm_main E F zero conf w =
     and_try (get_cert_from_config_manager E (te_config_manager_endpoint E) (ne_name (tk_param conf)) w) (\<lambda>(certs, private_key) w.
     try_or (py_map b64decode certs) w (\<lambda>certs.
     try_or (b64decode private_key) w (\<lambda>private_key.
     run_task E F zero conf certs private_key w)))"

end
