(* ===== verification/Dm_Flow.thy ===== *)
theory Dm_Flow
  imports Dm_Tasks
begin

text \<open>
  The way of the data through data management: what leaves the party that uploads, and that a file
  goes from the uploader through the server of the other party to the party it is exported to and
  arrives as it was. The upload and the export task (\<open>main.py\<close>) are put together here with the
  server (\<open>dm_component/componentize/server\<close>).
\<close>

section \<open>What an upload sends\<close>

text \<open>The documented behaviour of the retry decorator with \<open>stop_after_attempt(5)\<close>.\<close>

fun attempts :: "nat \<Rightarrow> ('s \<Rightarrow> 'a py \<times> 's) \<Rightarrow> 's \<Rightarrow> 'a py \<times> 's" where
  "attempts 0 f w = (Inl (Raised ''RetryError''), w)"
| "attempts (Suc n) f w = (case f w of (Inr x, w') \<Rightarrow> (Inr x, w') | (Inl e, w') \<Rightarrow> attempts n f w')"

definition retry_doc :: "'x task_env \<Rightarrow> bool" where
  "retry_doc E \<longleftrightarrow> te_retry E = attempts 5 \<and> te_retry_data E = attempts 5"

lemma on_out_eq [boxed_simps]: "on_out f w = (r, w') \<longleftrightarrow> (\<exists>x. f (tw_out w) = (r, x) \<and> w' = w\<lparr>tw_out := x\<rparr>)"
  by (auto simp: on_out_def split: prod.split)

lemma on_local_eq [boxed_simps]: "on_local f w = (r, w') \<longleftrightarrow> (\<exists>fs. f (tw_files w) = (r, fs) \<and> w' = w\<lparr>tw_files := fs\<rparr>)"
  by (auto simp: on_local_def split: prod.split)

definition upload_parts :: "string \<Rightarrow> bytes \<Rightarrow> string \<Rightarrow> string \<Rightarrow> form_part list" where
  "upload_parts name content output_uri data_json =
     [\<lparr>fp_name = ''file'', fp_filename = Some name, fp_content = content\<rparr>,
      \<lparr>fp_name = ''store_path'', fp_filename = None, fp_content = str_bytes output_uri\<rparr>,
      \<lparr>fp_name = ''domain_data'', fp_filename = None, fp_content = str_bytes data_json\<rparr>]"

lemma upload_file_eq:
  "upload_file E peer p out js w = try_or (open_rb p (tw_files w)) w (\<lambda>c.
     let url = make_url ''http'' peer [''upload'']; parts = upload_parts (filename p) c out js in
     and_try (on_out (te_post_form E url parts) (w\<lparr>tw_sent := tw_sent w @ [(url, parts)]\<rparr>)) (\<lambda>r w. (expect_200 r, w)))"
  by (simp add: upload_file_def upload_parts_def)

lemma upload_file_sent:
  assumes "upload_file E peer p out js w = (r, w')"
  shows "tw_files w' = tw_files w \<and> (tw_files w p = None \<and> tw_sent w' = tw_sent w \<or> (\<exists>c. tw_files w p = Some c \<and>
    tw_sent w' = tw_sent w @ [(make_url ''http'' peer [''upload''], upload_parts (filename p) c out js)]))"
  using assms
  by (auto simp: upload_file_def try_or_def and_try_def on_out_def open_rb_def Let_def upload_parts_def
      split: option.splits sum.splits prod.splits)

lemma attempts_upload_sent:
  assumes "attempts n (upload_file E peer p out js) w = (r, w')"
  shows "tw_files w' = tw_files w \<and> (\<exists>k \<le> n. tw_sent w' = tw_sent w @ (case tw_files w p of None \<Rightarrow> []
    | Some c \<Rightarrow> replicate k (make_url ''http'' peer [''upload''], upload_parts (filename p) c out js)))"
  using assms
proof (induction n "upload_file E peer p out js" w rule: attempts.induct)
  case (2 n w)
  obtain r1 w1 where w1: "upload_file E peer p out js w = (r1, w1)" by fastforce
  note sent = upload_file_sent [OF w1]
  show ?case
  proof (cases r1)
    case (Inl e)
    then have "attempts n (upload_file E peer p out js) w1 = (r, w')" using "2.prems" w1 by simp
    from "2.hyps" [OF w1 [unfolded Inl, symmetric] refl this] sent
    show ?thesis by (cases "tw_files w p") (auto intro: exI [of _ "Suc _"] simp: replicate_append_same [symmetric])
  next
    case (Inr x)
    then show ?thesis using "2.prems" w1 sent by (cases "tw_files w p") (auto intro!: exI [of _ "Suc 0"])
  qed
qed (auto split: option.split)

text \<open>Everything else sends no form.\<close>

lemma keeps_out [intro]:
  "tw_sent w1 = tw_sent w \<Longrightarrow> keeps tw_sent w (on_out f w1)" "tw_files w1 = tw_files w \<Longrightarrow> keeps tw_files w (on_out f w1)"
  "tw_sent w1 = tw_sent w \<Longrightarrow> keeps tw_sent w (on_local g w1)"
  by (simp_all add: keeps_def on_out_def on_local_def split: prod.split)

lemma keeps_if [intro]: "(c \<Longrightarrow> keeps obs s a) \<Longrightarrow> (\<not> c \<Longrightarrow> keeps obs s b) \<Longrightarrow> keeps obs s (if c then a else b)"
  by simp

lemma keeps_option [intro]:
  "(x = None \<Longrightarrow> keeps obs s a) \<Longrightarrow> (\<And>v. x = Some v \<Longrightarrow> keeps obs s (b v)) \<Longrightarrow>
   keeps obs s (case x of None \<Rightarrow> a | Some v \<Rightarrow> b v)"
  by (cases x) simp_all

lemma keeps_result: "keeps obs s rs \<Longrightarrow> rs = (r, s') \<Longrightarrow> obs s' = obs s"
  by (simp add: keeps_def)

lemma locate_input_keeps: "keeps tw_sent w (locate_input E uri w)" "keeps tw_files w (locate_input E uri w)"
  unfolding locate_input_def get_domain_data_def get_domain_data_source_def
  by (auto intro!: keeps_and_try keeps_try_or keeps_out keeps_if)

lemma start_server_keeps: "keeps tw_sent w (start_server E port ep w)"
  unfolding start_server_def by (auto intro!: keeps_and_try keeps_out)

lemma shutdown_peer_keeps: "keeps tw_sent w (shutdown_peer E peer w)" "keeps tw_files w (shutdown_peer E peer w)"
  unfolding shutdown_peer_def by (auto intro!: keeps_and_try keeps_out)

lemma register_data_key_keeps:
  "keeps tw_sent w (register_data_key E conf certs pk out key w)" "keeps tw_files w (register_data_key E conf certs pk out key w)"
  unfolding register_data_key_def by (auto intro!: keeps_try_or keeps_out)

lemma and_try_cases:
  assumes "and_try rs f = (r, s')"
  obtains e where "rs = (Inl e, s')" "r = Inl e" | x s1 where "rs = (Inr x, s1)" "f x s1 = (r, s')"
  using assms by (cases rs; cases "fst rs") (auto simp: and_try_def try_or_def)

lemma try_or_cases:
  assumes "try_or x s f = (r, s')"
  obtains e where "x = Inl e" "r = Inl e" "s' = s" | y where "x = Inr y" "f y = (r, s')"
  using assms by (cases x) (auto simp: try_or_def)

text \<open>What is sent when it is sent: the encrypted file, \<open>k\<close> times.\<close>

definition sent_upload :: "'x task_env \<Rightarrow> 'f task_config \<Rightarrow> 'x task_world \<Rightarrow> (string \<times> form_part list) list \<Rightarrow> bool" where
  "sent_upload E conf w new \<longleftrightarrow> new = [] \<or>
     (\<exists>k peer src fs c out js. k \<le> 5 \<and> peer_endpoint conf = Inr peer \<and>
        te_encrypt_file E src (src @ ''.encrypted'') (te_gen_key E AES_KEY_LEN_IN_BYTES) (tw_files w) = (Inr (), fs) \<and>
        fs (src @ ''.encrypted'') = Some c \<and>
        new = replicate k (make_url ''http'' peer [''upload''], upload_parts (filename (src @ ''.encrypted'')) c out js))"

lemma sent_uploadI:
  "k \<le> 5 \<Longrightarrow> peer_endpoint conf = Inr peer \<Longrightarrow>
   te_encrypt_file E src (src @ ''.encrypted'') (te_gen_key E AES_KEY_LEN_IN_BYTES) (tw_files w) = (Inr (), fs) \<Longrightarrow>
   fs (src @ ''.encrypted'') = Some c \<Longrightarrow>
   sent_upload E conf w (replicate k (make_url ''http'' peer [''upload''], upload_parts (filename (src @ ''.encrypted'')) c out js))"
  unfolding sent_upload_def by blast

lemma upload_as_client_sent:
  assumes retry: "retry_doc E" and run: "upload_as_client E conf reader certs pk w = (r, w')"
  shows "\<exists>new. tw_sent w' = tw_sent w @ new \<and> sent_upload E conf w new"
proof -
  have none: ?thesis if "tw_sent w' = tw_sent w" using that by (simp add: sent_upload_def)
  consider "tw_sent w' = tw_sent w" | peer uri d src w1 where "peer_endpoint conf = Inr peer" "locate_input E uri w = (Inr (d, src), w1)"
    "and_try (on_local (te_encrypt_file E src (src @ ''.encrypted'') (te_gen_key E AES_KEY_LEN_IN_BYTES)) w1) (\<lambda>_ w.
       try_or (get_output_uri reader ''receive_output'') w (\<lambda>out.
       and_try (te_retry E (upload_file E peer (src @ ''.encrypted'') out (te_data_json E d)) w) (\<lambda>_ w.
       and_try (shutdown_peer E peer w) (\<lambda>_ w.
       register_data_key E conf certs pk out (te_gen_key E AES_KEY_LEN_IN_BYTES) w)))) = (r, w')"
    using run unfolding upload_as_client_def Let_def
    by (elim try_or_cases and_try_cases) (auto dest: keeps_result [OF locate_input_keeps(1)] split: prod.splits)
  then show ?thesis
  proof cases
    case (2 peer uri d src w1)
    have w1: "tw_sent w1 = tw_sent w" "tw_files w1 = tw_files w"
      by (rule keeps_result [OF locate_input_keeps(1) 2(2)], rule keeps_result [OF locate_input_keeps(2) 2(2)])
    note peer = 2(1)
    show ?thesis
      using 2(3)
    proof (cases rule: and_try_cases)
      case 1
      then show ?thesis using w1 none by (auto simp: boxed_simps)
    next
      case (2 u w2)
      then obtain fs where fs: "te_encrypt_file E src (src @ ''.encrypted'') (te_gen_key E AES_KEY_LEN_IN_BYTES) (tw_files w) = (Inr (), fs)"
        "w2 = w1\<lparr>tw_files := fs\<rparr>"
        using w1 by (auto simp: boxed_simps)
      show ?thesis
        using 2(2)
      proof (cases rule: try_or_cases)
        case 1
        then show ?thesis using w1 fs none by simp
      next
        case (2 out)
        obtain r3 w3 where w3: "attempts 5 (upload_file E peer (src @ ''.encrypted'') out (te_data_json E d)) w2 = (r3, w3)" by fastforce
        have "tw_sent w' = tw_sent w3"
          using 2(2) w3 retry unfolding retry_doc_def
          by (elim and_try_cases)
            (auto dest!: keeps_result [OF shutdown_peer_keeps(1)] keeps_result [OF register_data_key_keeps(1)])
        with attempts_upload_sent [OF w3] fs w1 show ?thesis
          by (cases "fs (src @ ''.encrypted'')") (auto intro: sent_uploadI [OF _ peer] simp: sent_upload_def [of _ _ _ "[]"])
      qed
    qed
  qed (rule none)
qed

lemma eval_upload_sent:
  assumes "retry_doc E" "eval_upload E F zero conf certs private_key w = (r, w')"
  shows "\<exists>new. tw_sent w' = tw_sent w @ new \<and> sent_upload E conf w new"
proof (cases "tw_sent w' = tw_sent w")
  case False
  then obtain reader where "upload_as_client E conf reader certs private_key w = (r, w')"
    using assms(2) unfolding eval_upload_def
    by (elim try_or_cases) (auto dest: keeps_result [OF start_server_keeps] split: if_splits)
  from upload_as_client_sent [OF assms(1) this] show ?thesis .
qed (simp add: sent_upload_def)

text \<open>The other tasks post no forms.\<close>

lemma keeps_from: "keeps obs s1 rs \<Longrightarrow> obs s1 = obs s \<Longrightarrow> keeps obs s rs"
  by (simp add: keeps_def)

lemma attempts_keeps: "(\<And>w. keeps obs w (f w)) \<Longrightarrow> keeps obs w (attempts n f w)"
  by (induction n f w rule: attempts.induct) (auto simp: keeps_def split: prod.split sum.split, (metis snd_conv)+)

lemma requests_keep:
  "keeps tw_sent w (download_file E peer uri path w)"
  "keeps tw_sent w (get_peer_domain_data E peer uri w)" "keeps tw_files w (get_peer_domain_data E peer uri w)"
  unfolding download_file_def get_peer_domain_data_def by (auto intro!: keeps_and_try keeps_try_or keeps_out keeps_option)

lemma register_export_keeps:
  "retry_doc E \<Longrightarrow> keeps tw_sent w (register_export E peer uri i path w)"
  "retry_doc E \<Longrightarrow> keeps tw_files w (register_export E peer uri i path w)"
  unfolding register_export_def create_domain_data_def retry_doc_def
  by (auto intro!: keeps_and_try keeps_try_or keeps_out keeps_if attempts_keeps requests_keep)

lemma export_as_receiver_sent:
  assumes "retry_doc E"
  shows "keeps tw_sent w (export_as_receiver E conf reader certs pk w)"
  unfolding export_as_receiver_def export_key_def get_domain_data_source_def assms [unfolded retry_doc_def, THEN conjunct1]
  by (auto intro!: keeps_and_try keeps_try_or keeps_out keeps_if
      keeps_from [OF attempts_keeps [OF requests_keep(1)]] keeps_from [OF register_export_keeps(1) [OF assms]]
      keeps_from [OF shutdown_peer_keeps(1)])

lemma other_tasks_sent:
  "keeps tw_sent w (eval_authorize E F zero conf certs pk w)"
  "retry_doc E \<Longrightarrow> keeps tw_sent w (eval_data_export E F zero conf certs pk w)"
  "keeps tw_sent w (eval_data_delete E F zero conf certs pk w)"
  "keeps tw_sent w (eval_data_unauthorize E F zero conf certs pk w)"
  unfolding eval_authorize_def eval_data_export_def eval_data_delete_def eval_data_unauthorize_def
  by (auto intro!: keeps_try_or keeps_out keeps_if export_as_receiver_sent start_server_keeps)

lemma get_cert_keeps:
  "keeps tw_sent w (get_cert_from_config_manager E ep name w)" "keeps tw_files w (get_cert_from_config_manager E ep name w)"
  unfolding get_cert_from_config_manager_def Let_def by (auto intro!: keeps_and_try keeps_try_or keeps_out)

lemma run_task_sent:
  assumes "retry_doc E" "run_task E F zero conf certs pk w = (r, w')"
  shows "\<exists>new. tw_sent w' = tw_sent w @ new \<and> sent_upload E conf w new"
proof (cases "ne_name (tk_param conf) = ''upload''")
  case True
  then show ?thesis using eval_upload_sent [OF assms(1)] assms(2) by (simp add: run_task_def)
next
  case False
  have "keeps tw_sent w (run_task E F zero conf certs pk w)"
    using False by (auto simp: run_task_def Let_def intro!: keeps_if other_tasks_sent(1,3,4) other_tasks_sent(2) [OF assms(1)])
  from keeps_result [OF this assms(2)] show ?thesis by (simp add: sent_upload_def)
qed

text \<open>
  \<^bold>\<open>C12\<close>: data management gives away ciphertext only. Whatever the configuration of the task, and whatever
  the configuration manager, the data mesh, the peer and the capsule manager answer, the forms the
  program posts are at most five copies of one form, addressed to the upload route of the other party's
  endpoint, whose file part is the content that a successful encryption of a file under a fresh key
  wrote; if the encryption fails, or the task is not the uploader's, nothing is posted.
\<close>

theorem dm_main_sends_only_ciphertext:
  assumes "retry_doc E"
    and "dm_main E F zero conf w = (r, w')"
  shows "\<exists>new. tw_sent w' = tw_sent w @ new \<and> (new = [] \<or>
     (\<exists>k peer src fs c out js. k \<le> 5 \<and> peer_endpoint conf = Inr peer \<and>
        te_encrypt_file E src (src @ ''.encrypted'') (te_gen_key E AES_KEY_LEN_IN_BYTES) (tw_files w) = (Inr (), fs) \<and>
        fs (src @ ''.encrypted'') = Some c \<and>
        new = replicate k (make_url ''http'' peer [''upload''], upload_parts (filename (src @ ''.encrypted'')) c out js)))"
proof (cases "tw_sent w' = tw_sent w")
  case False
  obtain g w1 where get: "get_cert_from_config_manager E (te_config_manager_endpoint E) (ne_name (tk_param conf)) w = (g, w1)"
    by fastforce
  note same = keeps_result [OF get_cert_keeps(1) get] keeps_result [OF get_cert_keeps(2) get]
  obtain certs pk where "run_task E F zero conf certs pk w1 = (r, w')"
    using assms(2) False same(1) unfolding dm_main_def get by (elim and_try_cases) (auto elim!: try_or_cases split: prod.splits)
  from run_task_sent [OF assms(1) this] show ?thesis unfolding sent_upload_def same .
qed simp

section \<open>From the uploader to the party it is exported to\<close>

text \<open>
  The services around a task, as far as the way of the data goes through them: the server of the
  other party and the capsule manager. Requests to the peer's endpoint arrive at the server as they
  were posted, a form with its parts cut into chunks; a response that breaks off is an error.
\<close>

record ('m, 'c) outside =
  os_server :: "'m server"
  os_cm :: 'c

definition over_http :: "'m dm_env \<Rightarrow> Request \<Rightarrow> ('m, 'c) outside \<Rightarrow> http_reply py \<times> ('m, 'c) outside" where
  "over_http D req x =
     (case serve_req D req (os_server x) of (resp, s) \<Rightarrow>
        (case rs_body resp of None \<Rightarrow> Inl (Raised ''ChunkedEncodingError'')
         | Some body \<Rightarrow> Inr \<lparr>hr_status = rs_status resp, hr_body = body\<rparr>, x\<lparr>os_server := s\<rparr>))"

definition as_multipart :: "(bytes \<Rightarrow> bytes list) \<Rightarrow> form_part list \<Rightarrow> multipart" where
  "as_multipart chop parts =
     map (\<lambda>p. Inr (\<lparr>fh_name = fp_name p, fh_filename = fp_filename p\<rparr>, map Inr (chop (fp_content p)))) parts"

definition http_request :: "string \<Rightarrow> multipart option \<Rightarrow> bytes \<Rightarrow> Request" where
  "http_request path parts body = \<lparr>rq_method = ''POST'', rq_path = path, rq_multipart = parts, rq_bytes = Inr body\<rparr>"

definition reaches ::
  "('m, 'c) outside task_env \<Rightarrow> 'm dm_env \<Rightarrow> string \<Rightarrow> (bytes \<Rightarrow> bytes list) \<Rightarrow> (string \<Rightarrow> bytes) \<Rightarrow> bool" where
  "reaches E D peer chop js \<longleftrightarrow>
     (\<forall>parts x. \<exists>raw. te_post_form E (make_url ''http'' peer [''upload'']) parts x =
        over_http D (http_request ''/upload'' (Some (as_multipart chop parts)) raw) x) \<and>
     (\<forall>uri x. te_post_json E (make_url ''http'' peer [''download'']) [(''uri'', uri)] x =
        over_http D (http_request ''/download'' None (js uri)) x) \<and>
     (\<forall>x. te_post E (make_url ''http'' peer [''shutdown'']) x = over_http D (http_request ''/shutdown'' None []) x) \<and>
     (\<forall>b. concat (chop b) = b) \<and> (\<forall>uri. json_uri D (js uri) = Inr uri) \<and>
     (\<forall>text. data_to_string D (map Inr (chop (str_bytes text))) = Inr text)"

text \<open>
  The documented behaviour of the other outside code: what was encrypted decrypts to the original
  with the same key; the capsule manager hands out the key that was registered for the data;
  queries change nothing.
\<close>

definition sealed :: "'x task_env \<Rightarrow> 'y task_env \<Rightarrow> bool" where
  "sealed E1 E2 \<longleftrightarrow>
     (\<forall>src dst k fs fs'. te_encrypt_file E1 src dst k fs = (Inr (), fs') \<longrightarrow>
        (\<exists>plain c. fs src = Some plain \<and> fs' dst = Some c \<and>
           (\<forall>src2 dst2 fs2 fs3. te_decrypt_file E2 src2 dst2 k fs2 = (Inr (), fs3) \<longrightarrow> fs2 src2 = Some c \<longrightarrow>
              fs3 dst2 = Some plain)))"

definition keys_kept :: "('m, 'c) outside task_env \<Rightarrow> ('m, 'c) outside task_env \<Rightarrow> string \<Rightarrow> bool" where
  "keys_kept E1 E2 cm \<longleftrightarrow>
     (\<forall>party i k certs pk x x'. te_create_data_keys E1 cm party [i] [k] certs pk x = (Inr (), x') \<longrightarrow>
        os_server x' = os_server x \<and>
        (\<forall>party2 vote certs2 pk2 y k' y'. te_get_export_data_key E2 cm party2 i vote certs2 pk2 y = (Inr k', y') \<longrightarrow>
           os_server y' = os_server y \<and> (os_cm y = os_cm x' \<longrightarrow> k' = k)))"

definition source_answers :: "'x task_env \<Rightarrow> string \<Rightarrow> DomainDataSource \<Rightarrow> bool" where
  "source_answers E i so \<longleftrightarrow> (\<forall>ch x. \<exists>st. te_query_source E ch i x = (Inr \<lparr>gr_code = 0, gr_status = st, gr_data = so\<rparr>, x))"

text \<open>Both sides read the same identifier out of a URI; the server also the place to store the data.\<close>

definition server_query :: "'m dm_env \<Rightarrow> string \<Rightarrow> string \<Rightarrow> bool" where
  "server_query D uri q \<longleftrightarrow> (\<exists>u. url_parse D uri = Inr u \<and> u_scheme u = ''dm'' \<and> u_query u = Some q)"

definition stores_at :: "'m dm_env \<Rightarrow> string \<Rightarrow> DmOutputUriQueryParams \<Rightarrow> bool" where
  "stores_at D uri params \<longleftrightarrow> get_domain_data_id uri = Inr (op_id params) \<and>
     (\<exists>q. server_query D uri q \<and> qs_output D q = Inr params)"

definition fetches :: "'m dm_env \<Rightarrow> string \<Rightarrow> string \<Rightarrow> bool" where
  "fetches D uri i \<longleftrightarrow> get_domain_data_id uri = Inr i \<and> (\<exists>q. server_query D uri q \<and> qs_input D q = Inr i)"

definition absolute_sources :: "'m dm_env \<Rightarrow> bool" where
  "absolute_sources D \<longleftrightarrow>
     (\<forall>i m so m' dir. mesh_get_domain_datasource D i m = (Inr so, m') \<longrightarrow> localfs_path so = Inr dir \<longrightarrow> take 1 dir = ''/'')"

text \<open>The server has the data under an identifier: its entry, its data source and its file.\<close>

definition holds :: "'m dm_env \<Rightarrow> 'm server \<Rightarrow> string \<Rightarrow> bytes \<Rightarrow> bool" where
  "holds D s i c \<longleftrightarrow> (\<exists>d so dir. mesh_get_domain_data D i (sv_mesh s) = (Inr d, sv_mesh s) \<and>
     mesh_get_domain_datasource D (do_datasource_id d) (sv_mesh s) = (Inr so, sv_mesh s) \<and> localfs_path so = Inr dir \<and>
     fs_files (sv_fs s) (path_append dir (do_relative_uri d)) = Some c)"

lemma upload_is_held:
  assumes doc: "mesh_doc (de_endpoint D) (de_mesh D)" and abs: "absolute_sources D"
    and up: "handle_upload D parts s = (Inr (), s1)" "last_part ''file'' parts = Some (h, map Inr cs)"
      "fh_filename h = Some (filename p)" "upload_target D parts params"
  shows "holds D s1 (op_id params) (concat cs)"
proof -
  let ?tmp = "path_append TEMP_DIR (filename p)"
  obtain s0 d where s0: "fs_files (sv_fs s0) ?tmp = Some (concat cs)" "register_upload D params ?tmp d s0 = (Inr (), s1)"
    using handle_upload_Inr [OF up(1,2,4)] up(3) by (auto simp: comp_def)
  obtain so dir x where reg:
    "mesh_get_domain_datasource D (op_datasource_id params) (sv_mesh s0) = (Inr so, sv_mesh s0)" "localfs_path so = Inr dir"
    "mesh_create_domain_data D (op_id params) (op_uri params) (op_datasource_id params) d (sv_mesh s0) = (Inr x, sv_mesh s1)"
    "fs_files (sv_fs s1) = (fs_files (sv_fs s0))(path_append dir (op_uri params) :=
      if ?tmp = path_append dir (op_uri params) then Some [] else fs_files (sv_fs s0) ?tmp)"
    using register_upload_Inr [OF doc s0(2)] by blast
  have "take 1 dir = ''/''" using abs reg(1,2) unfolding absolute_sources_def by blast
  then have "take 1 (path_append dir (op_uri params)) = ''/''"
    by (cases dir; cases "op_uri params") (auto simp: path_append_def)
  moreover have "take 1 ?tmp = ''t''"
    using filename_no_slash [of p] by (cases "filename p") (auto simp: path_append_def TEMP_DIR_def)
  ultimately have "?tmp \<noteq> path_append dir (op_uri params)" by auto
  moreover obtain d' where "mesh_get_domain_data D (op_id params) (sv_mesh s1) = (Inr d', sv_mesh s1)"
    "do_relative_uri d' = op_uri params" "do_datasource_id d' = op_datasource_id params"
    using registered_is_found(1) [OF doc reg(3)] by (auto simp: entry_of_def create_request_def)
  ultimately show ?thesis
    using registered_is_found(2) [OF doc reg(3,1)] reg(2,4) s0(1) unfolding holds_def by fastforce
qed

lemma holds_download:
  assumes "holds D s i c" "fetches D uri i" "\<forall>uri. json_uri D (js uri) = Inr uri"
  shows "\<exists>resp. serve_req D (http_request ''/download'' None (js uri)) s = (resp, s) \<and>
    (rs_status resp = 200 \<longrightarrow> rs_body resp = Some c)"
proof -
  have "asks_for D ''/download'' (http_request ''/download'' None (js uri)) i"
    using assms(2,3) by (auto simp: asks_for_def http_request_def fetches_def server_query_def)
  with assms(1) show ?thesis
    by (fastforce simp: holds_def open_stream_def ok_response_def not_found_def dest: download_serves)
qed

lemma holds_shutdown:
  assumes "holds D s i c"
  shows "holds D (snd (serve_req D (http_request ''/shutdown'' None []) s)) i c"
  using assms by (simp add: holds_def serve_req_def http_request_def shutdown_def respond_with_def)

lemma holds_same: "sv_fs s' = sv_fs s \<Longrightarrow> sv_mesh s' = sv_mesh s \<Longrightarrow> holds D s' i c = holds D s i c"
  by (simp add: holds_def)

lemma expect_200_Inr [boxed_simps]: "expect_200 r = Inr u \<longleftrightarrow> hr_status r = 200"
  by (simp add: expect_200_def py_assert_def)

lemma attempts_Inr: "attempts n f w = (Inr y, w') \<Longrightarrow> \<exists>w0. f w0 = (Inr y, w')"
  by (induction n f w rule: attempts.induct) (auto split: prod.splits sum.splits)

lemma attempts_stuck: "f w = (Inl e, w) \<Longrightarrow> \<exists>e'. attempts n f w = (Inl e', w)"
  by (induction n) auto

lemma attempts_steady:
  assumes "attempts n f w = (Inr y, w')" "\<And>e w1. f w = (Inl e, w1) \<Longrightarrow> w1 = w"
  shows "f w = (Inr y, w')"
proof (cases n)
  case (Suc k)
  obtain r w1 where f: "f w = (r, w1)" by fastforce
  show ?thesis
  proof (cases r)
    case (Inl e)
    then show ?thesis using assms attempts_stuck [of f w e n] f by fastforce
  qed (use f assms(1) Suc in simp)
qed (use assms(1) in simp)

lemma over_http_Inr:
  "over_http D req x = (Inr r, x') \<longleftrightarrow> (\<exists>resp s body. serve_req D req (os_server x) = (resp, s) \<and>
     rs_body resp = Some body \<and> r = \<lparr>hr_status = rs_status resp, hr_body = body\<rparr> \<and> x' = x\<lparr>os_server := s\<rparr>)"
  by (auto simp: over_http_def split: prod.splits option.splits)

text \<open>An attempt that succeeds leaves the encrypted file with the server.\<close>

lemma upload_file_holds:
  assumes doc: "mesh_doc (de_endpoint D) (de_mesh D)" "absolute_sources D" "reaches E D peer chop js" "stores_at D out params"
    and up: "upload_file E peer p out json w = (Inr (), w')"
  shows "\<exists>c. tw_files w p = Some c \<and> holds D (os_server (tw_out w')) (op_id params) c"
proof -
  obtain c where c: "tw_files w p = Some c" using up by (auto simp: upload_file_def boxed_simps open_rb_def split: option.splits)
  let ?parts = "as_multipart chop (upload_parts (filename p) c out json)"
  obtain r where r: "te_post_form E (make_url ''http'' peer [''upload'']) (upload_parts (filename p) c out json) (tw_out w)
      = (Inr r, tw_out w')" "hr_status r = 200"
    using up c by (auto simp: upload_file_def boxed_simps open_rb_def Let_def upload_parts_def)
  obtain raw where "te_post_form E (make_url ''http'' peer [''upload'']) (upload_parts (filename p) c out json) (tw_out w)
      = over_http D (http_request ''/upload'' (Some ?parts) raw) (tw_out w)"
    using doc(3) unfolding reaches_def by blast
  then have "over_http D (http_request ''/upload'' (Some ?parts) raw) (tw_out w) = (Inr r, tw_out w')" using r(1) by simp
  then obtain resp s where s: "serve_req D (http_request ''/upload'' (Some ?parts) raw) (os_server (tw_out w)) = (resp, s)"
    "rs_status resp = 200" "os_server (tw_out w') = s"
    using r(2) by (auto simp: over_http_Inr)
  have "handle_upload D ?parts (os_server (tw_out w)) = (Inr (), s)"
    by (rule serve_upload_200 [OF _ _ _ s(1,2)]) (simp_all add: http_request_def)
  then have "upload_target D ?parts params \<Longrightarrow> holds D s (op_id params) (concat (chop c))"
    by (rule upload_is_held [OF doc(1,2), where p = p and h = "\<lparr>fh_name = ''file'', fh_filename = Some (filename p)\<rparr>"])
      (simp_all add: as_multipart_def upload_parts_def)
  moreover have "upload_target D ?parts params"
    using doc(3,4) by (auto simp: upload_target_def as_multipart_def upload_parts_def reaches_def stores_at_def server_query_def)
  ultimately show ?thesis using c s(3) doc(3) by (simp add: reaches_def)
qed

text \<open>A download gets what the server holds, and changes nothing there.\<close>

lemma download_file_Inr:
  assumes "reaches E D peer chop js" "holds D (os_server (tw_out w)) i c" "fetches D uri i"
    and "attempts n (download_file E peer uri path) w = (Inr (), w')"
  shows "w' = w\<lparr>tw_files := (tw_files w)(path \<mapsto> c)\<rparr>"
proof -
  obtain resp where resp: "serve_req D (http_request ''/download'' None (js uri)) (os_server (tw_out w)) = (resp, os_server (tw_out w))"
    "rs_status resp = 200 \<Longrightarrow> rs_body resp = Some c"
    using holds_download [OF assms(2,3), of js] assms(1) unfolding reaches_def by blast
  have run: "download_file E peer uri path w =
      (case rs_body resp of None \<Rightarrow> (Inl (Raised ''ChunkedEncodingError''), w)
       | Some body \<Rightarrow> try_or (expect_200 \<lparr>hr_status = rs_status resp, hr_body = body\<rparr>) w (\<lambda>_.
           case te_open_wb_error E path (tw_files w) of Some e \<Rightarrow> (Inl (Raised e), w)
           | None \<Rightarrow> (Inr (), w\<lparr>tw_files := (tw_files w)(path \<mapsto> body)\<rparr>)))"
    using assms(1) resp(1)
    by (simp add: download_file_def on_out_def reaches_def over_http_def and_try_def try_or_def split: option.split sum.split)
  have "download_file E peer uri path w = (Inr (), w')"
    using assms(4) by (rule attempts_steady) (auto simp: run try_or_def split: option.splits sum.splits)
  then show ?thesis using resp(2) by (auto simp: run boxed_simps split: option.splits)
qed

lemma keys_keptD:
  assumes "keys_kept E1 E2 cm" "te_create_data_keys E1 cm party [i] [k] certs pk x = (Inr (), x')"
    "te_get_export_data_key E2 cm party2 i vote certs2 pk2 y = (Inr k', y')" "os_cm y = os_cm x'"
  shows "os_server y' = os_server y \<and> k' = k"
  using assms unfolding keys_kept_def by simp

lemma sealedD:
  assumes "sealed E1 E2" "te_encrypt_file E1 src dst k fs = (Inr (), fs')" "fs' dst = Some c"
  shows "\<exists>plain. fs src = Some plain \<and> (\<forall>src2 dst2 fs2 fs3. te_decrypt_file E2 src2 dst2 k fs2 = (Inr (), fs3) \<longrightarrow>
    fs2 src2 = Some c \<longrightarrow> fs3 dst2 = Some plain)"
  using assms unfolding sealed_def by fastforce

lemma upload_as_client_Inr:
  assumes doc: "mesh_doc (de_endpoint D) (de_mesh D)" "absolute_sources D" "retry_doc E1" "keys_kept E1 E2 (capsule_manager conf)"
    and here: "peer_endpoint conf = Inr peer" "reaches E1 D peer chop js"
    and uris: "input_uri reader ''uploader_input'' = Inr uri" "fst (locate_input E1 uri w) = Inr (d, src)"
      "get_output_uri reader ''receive_output'' = Inr out" "stores_at D out params"
    and run: "upload_as_client E1 conf reader certs pk w = (Inr (), w')"
  shows "\<exists>fs c party x. te_encrypt_file E1 src (src @ ''.encrypted'') (te_gen_key E1 AES_KEY_LEN_IN_BYTES) (tw_files w) = (Inr (), fs) \<and>
     fs (src @ ''.encrypted'') = Some c \<and> holds D (os_server (tw_out w')) (op_id params) c \<and>
     te_create_data_keys E1 (capsule_manager conf) party [op_id params] [te_gen_key E1 AES_KEY_LEN_IN_BYTES] certs pk x =
       (Inr (), tw_out w')"
proof -
  let ?p = "src @ ''.encrypted''" and ?k = "te_gen_key E1 AES_KEY_LEN_IN_BYTES"
  obtain w1 w2 w3 w4 where st: "locate_input E1 uri w = (Inr (d, src), w1)"
    "on_local (te_encrypt_file E1 src ?p ?k) w1 = (Inr (), w2)"
    "attempts 5 (upload_file E1 peer ?p out (te_data_json E1 d)) w2 = (Inr (), w3)"
    "shutdown_peer E1 peer w3 = (Inr (), w4)" "register_data_key E1 conf certs pk out ?k w4 = (Inr (), w')"
    using run uris(1-3) here(1) doc(3)
    by (auto simp: upload_as_client_def boxed_simps Let_def retry_doc_def split: prod.splits)
  obtain fs where fs: "te_encrypt_file E1 src ?p ?k (tw_files w) = (Inr (), fs)" "tw_files w2 = fs"
    using st(2) keeps_result [OF locate_input_keeps(2) st(1)] by (auto simp: boxed_simps)
  obtain w0 where w0: "upload_file E1 peer ?p out (te_data_json E1 d) w0 = (Inr (), w3)" using attempts_Inr [OF st(3)] by blast
  obtain c where c: "tw_files w0 ?p = Some c" "holds D (os_server (tw_out w3)) (op_id params) c"
    using upload_file_holds [OF doc(1,2) here(2) uris(4) w0] by blast
  have "tw_files w0 = fs"
    using upload_file_sent [OF w0] attempts_upload_sent [OF st(3)] fs(2) by simp
  moreover have "holds D (os_server (tw_out w4)) (op_id params) c"
    using holds_shutdown [OF c(2)] st(4) here(2)
    by (auto simp: shutdown_peer_def boxed_simps reaches_def over_http_Inr)
  moreover obtain party where
    "te_create_data_keys E1 (capsule_manager conf) party [op_id params] [?k] certs pk (tw_out w4) = (Inr (), tw_out w')"
    using st(5) uris(4) by (auto simp: register_data_key_def boxed_simps stores_at_def)
  moreover from this have "os_server (tw_out w') = os_server (tw_out w4)"
    using doc(4) unfolding keys_kept_def by blast
  ultimately show ?thesis using fs(1) c(1) by auto
qed

lemma source_found: "source_answers E i so \<Longrightarrow> get_domain_data_source E ch i w = (Inr so, w)"
  unfolding source_answers_def get_domain_data_source_def
  by (drule spec [of _ ch], drule spec [of _ "tw_out w"]) (auto simp: on_out_def and_try_def try_or_def)

lemma export_as_receiver_Inr:
  assumes doc: "retry_doc E2" "source_answers E2 ds so" and here: "peer_endpoint conf = Inr peer" "reaches E2 D peer chop js"
    and uris: "input_uri reader ''sender_input'' = Inr uri" "fetches D uri i"
      "py_bind (get_output_uri reader ''receiver_output'') dm_query = Inr query"
      "query ''uri'' = Some path" "query ''datasource_id'' = Some ds"
    and held: "holds D (os_server (tw_out w)) i c"
    and quiet: "\<forall>party vote k x. te_get_export_data_key E2 (capsule_manager conf) party i vote certs pk (tw_out w) = (Inr k, x) \<longrightarrow>
      os_server x = os_server (tw_out w)"
    and run: "export_as_receiver E2 conf reader certs pk w = (Inr (), w')"
  shows "\<exists>party vote k x fs. te_get_export_data_key E2 (capsule_manager conf) party i vote certs pk (tw_out w) = (Inr k, x) \<and>
    te_decrypt_file E2 path (path_append (localfs_dir so) path) k ((tw_files w)(path \<mapsto> c)) = (Inr (), fs) \<and> tw_files w' = fs"
proof -
  obtain k w1 w2 w4 w5 i2 where st: "export_key E2 conf reader certs pk i w = (Inr k, w1)"
    "attempts 5 (download_file E2 peer uri path) w1 = (Inr (), w2)"
    "on_local (te_decrypt_file E2 path (path_append (localfs_dir so) path) k) w2 = (Inr (), w4)"
    "register_export E2 peer uri i2 path w4 = (Inr (), w5)" "shutdown_peer E2 peer w5 = (Inr (), w')"
    using run uris here(1) doc
    by (auto simp: export_as_receiver_def boxed_simps retry_doc_def fetches_def py_lookup_def
        source_found [OF doc(2)] split: option.splits)
  obtain party vote where key: "te_get_export_data_key E2 (capsule_manager conf) party i vote certs pk (tw_out w) = (Inr k, tw_out w1)"
    "tw_files w1 = tw_files w"
    using st(1) by (auto simp: export_key_def boxed_simps)
  have "w2 = w1\<lparr>tw_files := (tw_files w)(path \<mapsto> c)\<rparr>"
    using download_file_Inr [OF here(2) _ uris(2) st(2)] held quiet [rule_format, OF key(1)] key(2) by simp
  moreover have "tw_files w' = tw_files w4"
    using keeps_result [OF register_export_keeps(2) [OF doc(1)] st(4)] keeps_result [OF shutdown_peer_keeps(2) st(5)] by simp
  ultimately have "te_decrypt_file E2 path (path_append (localfs_dir so) path) k ((tw_files w)(path \<mapsto> c)) = (Inr (), tw_files w')"
    using st(3) by (auto simp: boxed_simps)
  with key(1) show ?thesis by blast
qed

text \<open>
  \<^bold>\<open>C5\<close>: what was uploaded can be exported. If the upload task of a party succeeds, and later, with
  the files, the catalogue and the keys as the upload left them, the export task of a party succeeds
  for the same data, then the file at the destination of the export is the file that was uploaded,
  whatever the server and the capsule manager answered to attempts that failed.
\<close>

theorem upload_then_export:
  assumes world: "retry_doc E1" "retry_doc E2" "sealed E1 E2" "keys_kept E1 E2 (capsule_manager conf1)"
      "capsule_manager conf2 = capsule_manager conf1" "source_answers E2 ds so"
    and server: "mesh_doc (de_endpoint D) (de_mesh D)" "absolute_sources D"
      "peer_endpoint conf1 = Inr peer1" "reaches E1 D peer1 chop1 js1" "peer_endpoint conf2 = Inr peer2" "reaches E2 D peer2 chop2 js2"
    and uploader: "comp_definition (data_upload_comp zero) = Inr def1" "EvalParamReader F zero (tk_param conf1) def1 = Inr r1"
      "party_name conf1 = Inr name1" "get_attr r1 ''uploader/domain_id'' = Inr (Plain (Py_str name1))"
      "input_uri r1 ''uploader_input'' = Inr uri1" "fst (locate_input E1 uri1 w1) = Inr (d, src)"
      "get_output_uri r1 ''receive_output'' = Inr out" "stores_at D out params"
    and receiver: "comp_definition (data_export_comp zero) = Inr def2" "EvalParamReader F zero (tk_param conf2) def2 = Inr r2"
      "party_name conf2 = Inr name2" "get_attr r2 ''receiver/domain_id'' = Inr (Plain (Py_str name2))"
      "input_uri r2 ''sender_input'' = Inr uri2" "fetches D uri2 (op_id params)"
      "py_bind (get_output_uri r2 ''receiver_output'') dm_query = Inr query" "query ''uri'' = Some path" "query ''datasource_id'' = Some ds"
    and upload: "eval_upload E1 F zero conf1 certs1 pk1 w1 = (Inr (), w1')"
    and between: "sv_fs (os_server (tw_out w2)) = sv_fs (os_server (tw_out w1'))"
      "sv_mesh (os_server (tw_out w2)) = sv_mesh (os_server (tw_out w1'))" "os_cm (tw_out w2) = os_cm (tw_out w1')"
    and export: "eval_data_export E2 F zero conf2 certs2 pk2 w2 = (Inr (), w2')"
  shows "\<exists>plain. tw_files w1 src = Some plain \<and> tw_files w2' (path_append (localfs_dir so) path) = Some plain"
proof -
  have "upload_as_client E1 conf1 r1 certs1 pk1 w1 = (Inr (), w1')"
    using upload uploader(1-4) by (auto simp: eval_upload_def boxed_simps)
  from upload_as_client_Inr [OF server(1,2) world(1,4) server(3,4) uploader(5-8) this] obtain fs c party x where
    up: "te_encrypt_file E1 src (src @ ''.encrypted'') (te_gen_key E1 AES_KEY_LEN_IN_BYTES) (tw_files w1) = (Inr (), fs)"
      "fs (src @ ''.encrypted'') = Some c" "holds D (os_server (tw_out w1')) (op_id params) c"
      "te_create_data_keys E1 (capsule_manager conf1) party [op_id params] [te_gen_key E1 AES_KEY_LEN_IN_BYTES] certs1 pk1 x =
       (Inr (), tw_out w1')"
    by blast
  have held: "holds D (os_server (tw_out w2)) (op_id params) c" using up(3) holds_same [OF between(1,2)] by simp
  have key: "os_server y' = os_server (tw_out w2) \<and> k = te_gen_key E1 AES_KEY_LEN_IN_BYTES"
    if "te_get_export_data_key E2 (capsule_manager conf2) p2 (op_id params) vote certs2 pk2 (tw_out w2) = (Inr k, y')" for p2 vote k y'
    by (rule keys_keptD [OF world(4) up(4) that [unfolded world(5)] between(3)])
  then have quiet: "\<forall>p2 vote k y'. te_get_export_data_key E2 (capsule_manager conf2) p2 (op_id params) vote certs2 pk2 (tw_out w2) =
      (Inr k, y') \<longrightarrow> os_server y' = os_server (tw_out w2)"
    by blast
  have run: "export_as_receiver E2 conf2 r2 certs2 pk2 w2 = (Inr (), w2')"
    using export receiver(1-4) by (auto simp: eval_data_export_def boxed_simps)
  obtain p2 vote k y' fs' where down:
    "te_get_export_data_key E2 (capsule_manager conf2) p2 (op_id params) vote certs2 pk2 (tw_out w2) = (Inr k, y')"
    "te_decrypt_file E2 path (path_append (localfs_dir so) path) k ((tw_files w2)(path \<mapsto> c)) = (Inr (), fs')" "tw_files w2' = fs'"
    using export_as_receiver_Inr [OF world(2,6) server(5,6) receiver(5-9) held quiet run] by blast
  show ?thesis
    unfolding down(3) using sealedD [OF world(3) up(1,2)] down(2) key [OF down(1)] fun_upd_same by metis
qed

text \<open>Two parties, \<open>alice\<close> and \<open>bob\<close>, a server between them, and outside code that behaves as documented.\<close>

definition sample_net :: "(string \<rightharpoonup> DomainData) dm_env" where
  "sample_net = sample_dm\<lparr>
     url_parse := (\<lambda>s. case urlsplit s of Inl e \<Rightarrow> Inl ''invalid URL''
       | Inr r \<Rightarrow> Inr \<lparr>u_scheme = sr_scheme r, u_path = [], u_query = Some (sr_query r)\<rparr>),
     qs_input := (\<lambda>q. ok_or ''missing field'' (query_dict q ''id'')),
     qs_output := (\<lambda>q. case (query_dict q ''datasource_id'', query_dict q ''id'', query_dict q ''uri'') of
        (Some ds, Some i, Some uri) \<Rightarrow> Inr \<lparr>op_datasource_id = ds, op_id = i, op_uri = uri\<rparr>
      | _ \<Rightarrow> Inl ''missing field'')\<rparr>"

definition sample_source :: DomainDataSource where
  "sample_source = \<lparr>so_info = Some \<lparr>in_localfs = Some ''/data''\<rparr>\<rparr>"

definition grpc_ok :: "'d \<Rightarrow> 'd grpc_reply" where
  "grpc_ok x = \<lparr>gr_code = 0, gr_status = [], gr_data = x\<rparr>"

definition rewrite_file :: "(bytes \<Rightarrow> bytes) \<Rightarrow> string \<Rightarrow> string \<Rightarrow> fs \<Rightarrow> unit py \<times> fs" where
  "rewrite_file f src dst fs = (case fs src of None \<Rightarrow> (Inl (Raised src), fs) | Some b \<Rightarrow> (Inr (), fs(dst \<mapsto> f b)))"

type_synonym sample_outside = "(string \<rightharpoonup> DomainData, string \<rightharpoonup> bytes) outside"

definition sample_task :: "sample_outside task_env" where
  "sample_task = \<lparr>te_environ = Map.empty, te_data_mesh_endpoint = ''mesh:80'', te_data_mesh_endpoint_grpc = ''mesh:81'',
     te_config_manager_endpoint = ''conf:82'', te_script_dir = ''/app'', te_query_data = (\<lambda>_ _ x. (Inr (grpc_ok sample_data), x)),
     te_query_source = (\<lambda>_ _ x. (Inr (grpc_ok sample_source), x)), te_create_data = (\<lambda>_ _ x. (Inr (grpc_ok ()), x)),
     te_post_form = (\<lambda>url parts. over_http sample_net (http_request ''/upload'' (Some (as_multipart (\<lambda>b. [b]) parts)) [])),
     te_post_json = (\<lambda>url kvs. over_http sample_net (http_request
       (if url = make_url ''http'' ''tee:90'' [''download''] then ''/download'' else ''/get_domain_data'') None (str_bytes (snd (hd kvs))))),
     te_post = (\<lambda>url. over_http sample_net (http_request ''/shutdown'' None [])),
     te_retry = attempts 5, te_retry_data = attempts 5, te_gen_key = (\<lambda>n. replicate n 7),
     te_encrypt_file = (\<lambda>src dst k. rewrite_file (map (\<lambda>b. b + hd k)) src dst),
     te_decrypt_file = (\<lambda>src dst k. rewrite_file (map (\<lambda>b. b - hd k)) src dst),
     te_party_id = (\<lambda>_. Inr ''id''), te_frame = (\<lambda>_. Inr ()),
     te_create_data_keys = (\<lambda>_ _ is ks _ _ x. (Inr (), x\<lparr>os_cm := (os_cm x)(hd is \<mapsto> hd ks)\<rparr>)),
     te_get_export_data_key = (\<lambda>_ _ i _ _ _ x. (case os_cm x i of Some k \<Rightarrow> Inr k | None \<Rightarrow> Inl (Raised ''no key''), x)),
     te_create_data_policy = (\<lambda>_ _ _ _ x. (Inr (), x)), te_delete_data_key = (\<lambda>_ _ _ _ _ x. (Inr (), x)),
     te_delete_data_policy = (\<lambda>_ _ _ _ _ _ x. (Inr (), x)), te_data_json = (\<lambda>d. do_name d),
     te_json_data = (\<lambda>b. Inr sample_data),
     te_generate_cert = (\<lambda>_ _ _ _ x. (Inr \<lparr>ce_status = 200, ce_json = Inr [], ce_code = Inr 0, ce_cert_chain = Inr [''AQ==''], ce_key = Inr ''Ag==''\<rparr>, x)), te_run = (\<lambda>_ x. (Inr 0, x)), te_open_wb_error = (\<lambda>_ _. None)\<rparr>"

definition sample_conf :: "string \<Rightarrow> int node_eval_param \<Rightarrow> int task_config" where
  "sample_conf name param = \<lparr>tk_parties = [\<lparr>pa_name = name, pa_services = []\<rparr>,
       \<lparr>pa_name = ''tee'', pa_services = [\<lparr>sc_port_name = ''tee-dm'', sc_endpoints = [''tee:90'']\<rparr>]\<rparr>],
     tk_self_party_idx = 0, tk_ports = [], tk_param = param, tk_capsule_manager_endpoint = ''cm:7'', tk_scope = ''p''\<rparr>"

definition upload_node :: "int node_eval_param" where
  "upload_node = \<lparr>ne_domain = kDomain, ne_name = ''upload'', ne_version = ''0.0.1'', ne_attr_paths = [''uploader/domain_id''],
     ne_attrs = [no_attribute\<lparr>at_s := ''alice''\<rparr>],
     ne_inputs = [\<lparr>dd_type = kIndividualTable, dd_uris = [''dm://in/?id=s'']\<rparr>],
     ne_output_uris = [''dm://out/?datasource_id=ds&id=t&uri=t.enc'']\<rparr>"

definition export_node :: "int node_eval_param" where
  "export_node = \<lparr>ne_domain = kDomain, ne_name = ''download'', ne_version = ''0.0.1'',
     ne_attr_paths = [''receiver/domain_id'', ''receiver/vote_result''],
     ne_attrs = [no_attribute\<lparr>at_s := ''bob''\<rparr>, no_attribute\<lparr>at_s := ''yes''\<rparr>],
     ne_inputs = [\<lparr>dd_type = kIndividualTable, dd_uris = [''dm://out/?id=t'']\<rparr>],
     ne_output_uris = [''dm://res/?datasource_id=ds&id=r&uri=r.csv'']\<rparr>"

definition upload_world :: "sample_outside task_world" where
  "upload_world = \<lparr>tw_files = [''/data/t.csv'' \<mapsto> [10, 20, 30]],
     tw_out = \<lparr>os_server = sample_server, os_cm = Map.empty\<rparr>, tw_sent = []\<rparr>"

definition export_world :: "sample_outside task_world \<Rightarrow> sample_outside task_world" where
  "export_world w = \<lparr>tw_files = Map.empty,
     tw_out = (tw_out w)\<lparr>os_server := (os_server (tw_out w))\<lparr>sv_shutdown_tx := True, sv_shutting_down := False\<rparr>\<rparr>, tw_sent = []\<rparr>"

abbreviation sample_upload :: "unit py \<times> sample_outside task_world" where
  "sample_upload \<equiv> eval_upload sample_task int_floats 0 (sample_conf ''alice'' upload_node) [[1]] [2] upload_world"

abbreviation sample_export :: "unit py \<times> sample_outside task_world" where
  "sample_export \<equiv> eval_data_export sample_task int_floats 0 (sample_conf ''bob'' export_node) [[3]] [4] (export_world (snd sample_upload))"

lemma sample_retry: "retry_doc sample_task" by (simp add: retry_doc_def sample_task_def)

lemmas url_defs = urlsplit_def cut_at_def is_letter_def to_lower_def query_dict_def parse_qsl_def parse_pair_def

lemma sample_urls:
  "urlsplit ''dm://out/?datasource_id=ds&id=t&uri=t.enc'' = Inr \<lparr>sr_scheme = ''dm'', sr_query = ''datasource_id=ds&id=t&uri=t.enc''\<rparr>"
  "urlsplit ''dm://in/?id=s'' = Inr \<lparr>sr_scheme = ''dm'', sr_query = ''id=s''\<rparr>"
  "urlsplit ''dm://out/?id=t'' = Inr \<lparr>sr_scheme = ''dm'', sr_query = ''id=t''\<rparr>"
  "urlsplit ''dm://res/?datasource_id=ds&id=r&uri=r.csv'' = Inr \<lparr>sr_scheme = ''dm'', sr_query = ''datasource_id=ds&id=r&uri=r.csv''\<rparr>"
  by (simp_all add: url_defs)

lemma sample_queries:
  "query_dict ''datasource_id=ds&id=t&uri=t.enc'' = [''datasource_id'' \<mapsto> ''ds'', ''id'' \<mapsto> ''t'', ''uri'' \<mapsto> ''t.enc'']"
  "query_dict ''datasource_id=ds&id=r&uri=r.csv'' = [''datasource_id'' \<mapsto> ''ds'', ''id'' \<mapsto> ''r'', ''uri'' \<mapsto> ''r.csv'']"
  "query_dict ''id=s'' = [''id'' \<mapsto> ''s'']" "query_dict ''id=t'' = [''id'' \<mapsto> ''t'']"
  by (simp_all add: url_defs fun_upd_twist)

lemma sample_net_simps:
  "de_mesh sample_net = sample_mesh" "de_endpoint sample_net = ''datamesh:8070''" "json_uri sample_net b = Inr (bytes_str b)"
  "json_domain_data sample_net t = Inr sample_data" "data_to_string sample_net cs = Inr (bytes_str (concat (map projr cs)))"
  "domain_data_json sample_net d = Inr (str_bytes (do_name d))"
  "de_mkdir_error sample_net st p = None" "de_open_error sample_net st p = None" "de_read_error sample_net st p = None"
  "de_write_error sample_net st p b = None" "de_copy_error sample_net st p q = None" "de_stat_error sample_net st p = None"
  by (simp_all add: sample_net_def sample_dm_def)

lemma sample_server_urls:
  "url_parse sample_net ''dm://out/?datasource_id=ds&id=t&uri=t.enc'' =
     Inr \<lparr>u_scheme = ''dm'', u_path = [], u_query = Some ''datasource_id=ds&id=t&uri=t.enc''\<rparr>"
  "qs_output sample_net ''datasource_id=ds&id=t&uri=t.enc'' = Inr \<lparr>op_datasource_id = ''ds'', op_id = ''t'', op_uri = ''t.enc''\<rparr>"
  "url_parse sample_net ''dm://out/?id=t'' = Inr \<lparr>u_scheme = ''dm'', u_path = [], u_query = Some ''id=t''\<rparr>"
  "qs_input sample_net ''id=t'' = Inr ''t''"
  by (simp_all add: sample_net_def sample_urls sample_queries ok_or_def)

lemma sample_handles:
  "\<exists>s1. handle_upload sample_net (as_multipart (\<lambda>b. [b]) (upload_parts ''t.csv.encrypted'' c
     ''dm://out/?datasource_id=ds&id=t&uri=t.enc'' ''t'')) s = (Inr (), s1)"
  by (simp add: handle_upload_def as_multipart_def upload_parts_def receive_file_def create_dir_all_def open_for_upload_def
      sample_net_simps sample_server_urls ok_or_def try_or_def and_try_def on_fs_def on_mesh_def register_upload_def
      path_append_def TEMP_DIR_def Let_def append_file_def metadata_def fs_copy_def mesh_get_domain_datasource_def
      mesh_create_domain_data_def post_data_def sample_mesh_def sample_status_def check_status_def localfs_path_def
      path_exists_def is_regular_file_def rust_parent_def)

lemma sample_reaches: "reaches sample_task sample_net ''tee:90'' (\<lambda>b. [b]) str_bytes"
  unfolding reaches_def by (intro conjI) (auto simp: sample_task_def make_url_def sample_net_simps)

lemma sample_sealed: "sealed sample_task sample_task"
  by (auto simp: sealed_def sample_task_def rewrite_file_def comp_def split: option.splits)

lemma sample_keys_kept: "keys_kept sample_task sample_task cm"
  by (auto simp: keys_kept_def sample_task_def split: option.splits)

lemma sample_source_answers: "source_answers sample_task i sample_source"
  by (simp add: source_answers_def sample_task_def grpc_ok_def)

lemma sample_absolute: "absolute_sources sample_net"
  by (auto simp: absolute_sources_def mesh_get_domain_datasource_Inr sample_net_simps sample_mesh_def answers_def localfs_path_def
      ok_or_def sample_status_def)

lemma sample_stores: "stores_at sample_net ''dm://out/?datasource_id=ds&id=t&uri=t.enc'' \<lparr>op_datasource_id = ''ds'', op_id = ''t'', op_uri = ''t.enc''\<rparr>"
  by (simp add: stores_at_def server_query_def sample_server_urls get_domain_data_id_def dm_query_def py_bind_def py_assert_def
      sample_urls sample_queries py_lookup_def)

lemma sample_fetches: "fetches sample_net ''dm://out/?id=t'' ''t''"
  by (simp add: fetches_def server_query_def sample_server_urls get_domain_data_id_def dm_query_def py_bind_def py_assert_def
      sample_urls sample_queries py_lookup_def)

lemma sample_peer: "name \<noteq> ''tee'' \<Longrightarrow> peer_endpoint (sample_conf name param) = Inr ''tee:90''"
  by (simp add: peer_endpoint_def sample_conf_def py_index_def py_bind_def)

lemma sample_locate: "locate_input sample_task ''dm://in/?id=s'' w = (Inr (sample_data, ''/data/t.csv''), w)"
  by (simp add: locate_input_def get_domain_data_id_def dm_query_def py_bind_def py_assert_def sample_urls sample_queries py_lookup_def
      get_domain_data_def get_domain_data_source_def create_channel_def environ_get_def sample_task_def on_out_def
      try_or_def and_try_def grpc_ok_def sample_source_def localfs_dir_def path_append_def sample_data_def)


lemma sample_upload_file:
  assumes "tw_files w ''/data/t.csv.encrypted'' = Some c" "sv_shutdown_tx (os_server (tw_out w))"
  shows "\<exists>w'. upload_file sample_task ''tee:90'' ''/data/t.csv.encrypted'' ''dm://out/?datasource_id=ds&id=t&uri=t.enc'' ''t'' w =
    (Inr (), w') \<and> sv_shutdown_tx (os_server (tw_out w'))"
proof -
  let ?parts = "as_multipart (\<lambda>b. [b]) (upload_parts ''t.csv.encrypted'' c ''dm://out/?datasource_id=ds&id=t&uri=t.enc'' ''t'')"
  have name: "filename ''/data/t.csv.encrypted'' = ''t.csv.encrypted''" by code_simp
  obtain s1 where s1: "handle_upload sample_net ?parts (os_server (tw_out w)) = (Inr (), s1)" using sample_handles by blast
  have "sv_shutdown_tx s1"
    using keeps_result [OF handle_upload_switches s1] assms(2) by (simp add: switches_def)
  moreover have "serve_req sample_net (http_request ''/upload'' (Some ?parts) []) (os_server (tw_out w)) =
      (ok_response (Some (str_bytes ''successful request!'')), s1)"
    using s1 by (simp add: serve_req_def http_request_def respond_with_def and_try_def try_or_def)
  moreover have "te_post_form sample_task url parts = over_http sample_net (http_request ''/upload'' (Some (as_multipart (\<lambda>b. [b]) parts)) [])"
    for url parts by (simp add: sample_task_def)
  ultimately show ?thesis
    using assms(1) by (simp add: upload_file_eq open_rb_def name try_or_def and_try_def on_out_def over_http_def ok_response_def
        expect_200_def py_assert_def)
qed

lemma sample_shutdown:
  "sv_shutdown_tx (os_server (tw_out w)) \<Longrightarrow> \<exists>w'. shutdown_peer sample_task ''tee:90'' w = (Inr (), w')"
  by (simp add: shutdown_peer_def sample_task_def and_try_def try_or_def on_out_def over_http_def serve_req_def http_request_def
      shutdown_def respond_with_def ok_response_def expect_200_def py_assert_def)

lemma sample_client_runs:
  assumes "tw_files w ''/data/t.csv'' = Some b" "sv_shutdown_tx (os_server (tw_out w))" "input_uri r ''uploader_input'' = Inr ''dm://in/?id=s''"
    "get_output_uri r ''receive_output'' = Inr ''dm://out/?datasource_id=ds&id=t&uri=t.enc''"
  shows "\<exists>w'. upload_as_client sample_task (sample_conf ''alice'' p) r [[1]] [2] w = (Inr (), w')"
proof -
  let ?w = "w\<lparr>tw_files := (tw_files w)(''/data/t.csv.encrypted'' \<mapsto> map (\<lambda>b. b + 7) b)\<rparr>"
  obtain w3 where w3: "upload_file sample_task ''tee:90'' ''/data/t.csv.encrypted'' ''dm://out/?datasource_id=ds&id=t&uri=t.enc'' ''t'' ?w =
      (Inr (), w3)" "sv_shutdown_tx (os_server (tw_out w3))"
    using sample_upload_file [of ?w "map (\<lambda>b. b + 7) b"] assms(2) by auto
  obtain w4 where w4: "shutdown_peer sample_task ''tee:90'' w3 = (Inr (), w4)" using sample_shutdown [OF w3(2)] by blast
  have enc: "on_local (te_encrypt_file sample_task ''/data/t.csv'' ''/data/t.csv.encrypted'' (te_gen_key sample_task AES_KEY_LEN_IN_BYTES)) w =
      (Inr (), ?w)"
    using assms(1) by (simp add: on_local_def sample_task_def rewrite_file_def AES_KEY_LEN_IN_BYTES_def)
  have retry: "te_retry sample_task (upload_file sample_task ''tee:90'' ''/data/t.csv.encrypted'' ''dm://out/?datasource_id=ds&id=t&uri=t.enc'' ''t'') ?w =
      (Inr (), w3)"
    using sample_retry w3(1) by (simp add: retry_doc_def eval_nat_numeral)
  have js: "te_data_json sample_task sample_data = ''t''" by (simp add: sample_task_def sample_data_def)
  have key: "\<exists>w'. register_data_key sample_task (sample_conf ''alice'' p) [[1]] [2] ''dm://out/?datasource_id=ds&id=t&uri=t.enc'' k w4 =
      (Inr (), w')" for k
    using sample_stores
    by (simp add: register_data_key_def sample_task_def py_index_def try_or_def on_out_def stores_at_def)
  show ?thesis
    using key by (simp add: upload_as_client_def sample_peer assms(3,4) sample_locate enc js retry w4 try_or_def and_try_def Let_def)
qed

lemma sample_upload_reader:
  "\<exists>def r. comp_definition (data_upload_comp 0) = Inr def \<and> EvalParamReader int_floats 0 upload_node def = Inr r \<and>
     get_attr r ''uploader/domain_id'' = Inr (Plain (Py_str ''alice'')) \<and> input_uri r ''uploader_input'' = Inr ''dm://in/?id=s'' \<and>
     get_output_uri r ''receive_output'' = Inr ''dm://out/?datasource_id=ds&id=t&uri=t.enc''"
proof -
  have "py_bind (comp_definition (data_upload_comp 0)) (\<lambda>def. py_bind (EvalParamReader int_floats 0 upload_node def) (\<lambda>r.
      py_bind (get_attr r ''uploader/domain_id'') (\<lambda>a. py_bind (input_uri r ''uploader_input'') (\<lambda>u.
      py_bind (get_output_uri r ''receive_output'') (\<lambda>out. Inr (a, u, out)))))) =
    Inr (Plain (Py_str ''alice''), ''dm://in/?id=s'', ''dm://out/?datasource_id=ds&id=t&uri=t.enc'')"
    by code_simp
  then show ?thesis by auto
qed

lemma sample_export_reader:
  "\<exists>def r. comp_definition (data_export_comp 0) = Inr def \<and> EvalParamReader int_floats 0 export_node def = Inr r \<and>
     get_attr r ''receiver/domain_id'' = Inr (Plain (Py_str ''bob'')) \<and>
     get_attr r ''receiver/vote_result'' = Inr (Plain (Py_str ''yes'')) \<and> input_uri r ''sender_input'' = Inr ''dm://out/?id=t'' \<and>
     get_output_uri r ''receiver_output'' = Inr ''dm://res/?datasource_id=ds&id=r&uri=r.csv''"
proof -
  have "py_bind (comp_definition (data_export_comp 0)) (\<lambda>def. py_bind (EvalParamReader int_floats 0 export_node def) (\<lambda>r.
      py_bind (get_attr r ''receiver/domain_id'') (\<lambda>a. py_bind (get_attr r ''receiver/vote_result'') (\<lambda>v.
      py_bind (input_uri r ''sender_input'') (\<lambda>u. py_bind (get_output_uri r ''receiver_output'') (\<lambda>out. Inr (a, v, u, out))))))) =
    Inr (Plain (Py_str ''bob''), Plain (Py_str ''yes''), ''dm://out/?id=t'', ''dm://res/?datasource_id=ds&id=r&uri=r.csv'')"
    by code_simp
  then show ?thesis by auto
qed

lemma sample_party:
  "length (tk_parties (sample_conf name p)) = 2" "party_name (sample_conf name p) = Inr name" "tk_param (sample_conf name p) = p"
  by (simp_all add: sample_conf_def party_name_def py_index_def py_bind_def)

lemma sample_upload_runs: "\<exists>w'. sample_upload = (Inr (), w')"
proof -
  obtain def r where r: "comp_definition (data_upload_comp 0) = Inr def" "EvalParamReader int_floats 0 upload_node def = Inr r"
     "get_attr r ''uploader/domain_id'' = Inr (Plain (Py_str ''alice''))" "input_uri r ''uploader_input'' = Inr ''dm://in/?id=s''"
     "get_output_uri r ''receive_output'' = Inr ''dm://out/?datasource_id=ds&id=t&uri=t.enc''"
    using sample_upload_reader by blast
  have "\<exists>w'. upload_as_client sample_task (sample_conf ''alice'' upload_node) r [[1]] [2] upload_world = (Inr (), w')"
    by (rule sample_client_runs [OF _ _ r(4,5)]) (simp_all add: upload_world_def sample_server_def)
  then show ?thesis by (simp add: eval_upload_def sample_party r try_or_def py_assert_def)
qed

abbreviation sample_dm_main :: "unit py \<times> sample_outside task_world" where
  "sample_dm_main \<equiv> dm_main sample_task int_floats 0 (sample_conf ''alice'' upload_node) upload_world"

theorem dm_main_sends_only_ciphertext_witness:
  "retry_doc sample_task \<and> (\<exists>new. tw_sent (snd sample_dm_main) = tw_sent upload_world @ new \<and> (new = [] \<or>
     (\<exists>k peer src fs c out js. k \<le> 5 \<and> peer_endpoint (sample_conf ''alice'' upload_node) = Inr peer \<and>
        te_encrypt_file sample_task src (src @ ''.encrypted'') (te_gen_key sample_task AES_KEY_LEN_IN_BYTES) (tw_files upload_world) =
          (Inr (), fs) \<and>
        fs (src @ ''.encrypted'') = Some c \<and>
        new = replicate k (make_url ''http'' peer [''upload''], upload_parts (filename (src @ ''.encrypted'')) c out js)))) \<and>
   fst sample_dm_main = Inr ()"
proof -
  have cert: "get_cert_from_config_manager sample_task ep name w = (Inr ([''AQ==''], ''Ag==''), w)" for ep name w
    by (simp add: get_cert_from_config_manager_def sample_task_def on_out_def and_try_def try_or_def py_assert_def)
  have "py_map b64decode [''AQ==''] = Inr [[1]]" "b64decode ''Ag=='' = Inr [2]" by code_simp+
  then have "sample_dm_main = sample_upload"
    by (simp only: dm_main_def cert and_try_def try_or_def prod.case sum.case run_task_def sample_party)
      (simp add: upload_node_def)
  then have ok: "fst sample_dm_main = Inr ()" using sample_upload_runs by auto
  show ?thesis by (rule conjI [OF sample_retry conjI [OF dm_main_sends_only_ciphertext [OF sample_retry surjective_pairing] ok]])
qed

text \<open>What the upload leaves behind is enough for the export to go through.\<close>

lemma sample_upload_leaves:
  assumes "sample_upload = (Inr (), w')"
  shows "\<exists>c. holds sample_net (os_server (tw_out w')) ''t'' c" "os_cm (tw_out w') ''t'' \<noteq> None"
proof -
  obtain def r where r: "comp_definition (data_upload_comp 0) = Inr def" "EvalParamReader int_floats 0 upload_node def = Inr r"
     "get_attr r ''uploader/domain_id'' = Inr (Plain (Py_str ''alice''))" "input_uri r ''uploader_input'' = Inr ''dm://in/?id=s''"
     "get_output_uri r ''receive_output'' = Inr ''dm://out/?datasource_id=ds&id=t&uri=t.enc''"
    using sample_upload_reader by blast
  have run: "upload_as_client sample_task (sample_conf ''alice'' upload_node) r [[1]] [2] upload_world = (Inr (), w')"
    using assms r by (simp add: eval_upload_def boxed_simps sample_party)
  have doc: "mesh_doc (de_endpoint sample_net) (de_mesh sample_net)" by (simp add: sample_net_simps sample_mesh_doc)
  have peer: "peer_endpoint (sample_conf ''alice'' upload_node) = Inr ''tee:90''" by (simp add: sample_peer)
  have src: "fst (locate_input sample_task ''dm://in/?id=s'' upload_world) = Inr (sample_data, ''/data/t.csv'')" by (simp add: sample_locate)
  note up = upload_as_client_Inr [OF doc sample_absolute sample_retry sample_keys_kept peer sample_reaches r(4) src r(5) sample_stores run]
  then show "\<exists>c. holds sample_net (os_server (tw_out w')) ''t'' c" by auto
  from up obtain party k x where "te_create_data_keys sample_task (capsule_manager (sample_conf ''alice'' upload_node)) party [''t''] [k]
      [[1]] [2] x = (Inr (), tw_out w')"
    by auto
  then have "tw_out w' = x\<lparr>os_cm := (os_cm x)(''t'' \<mapsto> k)\<rparr>" by (simp add: sample_task_def)
  then show "os_cm (tw_out w') ''t'' \<noteq> None" by simp
qed

lemma sample_download_file:
  assumes "holds sample_net (os_server (tw_out w)) ''t'' c"
  shows "download_file sample_task ''tee:90'' ''dm://out/?id=t'' path w = (Inr (), w\<lparr>tw_files := (tw_files w)(path \<mapsto> c)\<rparr>)"
proof -
  obtain d so dir where h: "mesh_get_domain_data sample_net ''t'' (sv_mesh (os_server (tw_out w))) = (Inr d, sv_mesh (os_server (tw_out w)))"
    "mesh_get_domain_datasource sample_net (do_datasource_id d) (sv_mesh (os_server (tw_out w))) = (Inr so, sv_mesh (os_server (tw_out w)))"
    "localfs_path so = Inr dir" "fs_files (sv_fs (os_server (tw_out w))) (path_append dir (do_relative_uri d)) = Some c"
    using assms unfolding holds_def by blast
  have asks: "asks_for sample_net ''/download'' (http_request ''/download'' None (str_bytes ''dm://out/?id=t'')) ''t''"
    by (simp add: asks_for_def http_request_def sample_net_simps sample_server_urls)
  have "serve_req sample_net (http_request ''/download'' None (str_bytes ''dm://out/?id=t'')) (os_server (tw_out w)) =
      (ok_response (Some c), os_server (tw_out w))"
    using download_serves [OF asks h(1-3)] h(4) by (simp add: open_stream_def sample_net_simps path_exists_def is_regular_file_def)
  moreover have "te_post_json sample_task (make_url ''http'' ''tee:90'' [''download'']) [(''uri'', u)] =
      over_http sample_net (http_request ''/download'' None (str_bytes u))"
    "te_open_wb_error sample_task path fs = None" for u fs
    by (simp_all add: sample_task_def)
  ultimately show ?thesis
    by (simp add: download_file_def on_out_def over_http_def and_try_def try_or_def ok_response_def expect_200_def py_assert_def)
qed

lemma sample_register_export:
  assumes "holds sample_net (os_server (tw_out w)) ''t'' c"
  shows "register_export sample_task ''tee:90'' ''dm://out/?id=t'' i path w = (Inr (), w)"
proof -
  obtain d where h: "mesh_get_domain_data sample_net ''t'' (sv_mesh (os_server (tw_out w))) = (Inr d, sv_mesh (os_server (tw_out w)))"
    using assms unfolding holds_def by blast
  have asks: "asks_for sample_net ''/get_domain_data'' (http_request ''/get_domain_data'' None (str_bytes ''dm://out/?id=t'')) ''t''"
    by (simp add: asks_for_def http_request_def sample_net_simps sample_server_urls)
  have "te_post_json sample_task (make_url ''http'' ''tee:90'' [''get_domain_data'']) [(''uri'', u)] =
      over_http sample_net (http_request ''/get_domain_data'' None (str_bytes u))" for u
    by (simp add: sample_task_def make_url_def)
  then have one: "get_peer_domain_data sample_task ''tee:90'' ''dm://out/?id=t'' w = (te_json_data sample_task (str_bytes (do_name d)), w)"
    using get_domain_data_serves [OF asks h sample_net_simps(6)]
    by (simp add: get_peer_domain_data_def on_out_def over_http_def and_try_def try_or_def ok_response_def expect_200_def py_assert_def)
  have "te_retry_data sample_task (get_peer_domain_data sample_task ''tee:90'' ''dm://out/?id=t'') w = (Inr sample_data, w)"
    using sample_retry one by (simp add: retry_doc_def eval_nat_numeral) (simp add: sample_task_def)
  then show ?thesis
    by (simp add: register_export_def create_domain_data_def and_try_def try_or_def create_channel_def environ_get_def)
      (simp add: sample_task_def on_out_def grpc_ok_def)
qed

lemma sample_export_runs:
  assumes "sample_upload = (Inr (), w')"
  shows "\<exists>w2. eval_data_export sample_task int_floats 0 (sample_conf ''bob'' export_node) [[3]] [4] (export_world w') = (Inr (), w2)"
proof -
  let ?w = "export_world w'"
  obtain c k where left: "holds sample_net (os_server (tw_out ?w)) ''t'' c" "os_cm (tw_out ?w) ''t'' = Some k"
    using sample_upload_leaves [OF assms] by (auto simp: export_world_def holds_def)
  obtain def r where r: "comp_definition (data_export_comp 0) = Inr def" "EvalParamReader int_floats 0 export_node def = Inr r"
     "get_attr r ''receiver/domain_id'' = Inr (Plain (Py_str ''bob''))" "get_attr r ''receiver/vote_result'' = Inr (Plain (Py_str ''yes''))"
     "input_uri r ''sender_input'' = Inr ''dm://out/?id=t''" "get_output_uri r ''receiver_output'' = Inr ''dm://res/?datasource_id=ds&id=r&uri=r.csv''"
    using sample_export_reader by blast
  have key: "export_key sample_task (sample_conf ''bob'' export_node) r [[3]] [4] ''t'' ?w = (Inr k, ?w)"
    using r(4) left(2) by (simp add: export_key_def sample_task_def try_or_def py_bind_def py_index_def as_text_def on_out_def)
  let ?w2 = "?w\<lparr>tw_files := (tw_files ?w)(''r.csv'' \<mapsto> c)\<rparr>"
  have down: "te_retry sample_task (download_file sample_task ''tee:90'' ''dm://out/?id=t'' ''r.csv'') ?w = (Inr (), ?w2)"
    using sample_retry sample_download_file [OF left(1)] by (simp add: retry_doc_def eval_nat_numeral)
  obtain fs where dec: "on_local (te_decrypt_file sample_task ''r.csv'' (path_append (localfs_dir sample_source) ''r.csv'') k) ?w2 =
      (Inr (), ?w\<lparr>tw_files := fs\<rparr>)"
    by (simp add: on_local_def sample_task_def rewrite_file_def)
  have reg: "register_export sample_task ''tee:90'' ''dm://out/?id=t'' i path (?w\<lparr>tw_files := fs\<rparr>) = (Inr (), ?w\<lparr>tw_files := fs\<rparr>)"
    for i path by (rule sample_register_export [where c = c]) (use left(1) in simp)
  obtain w3 where stop: "shutdown_peer sample_task ''tee:90'' (?w\<lparr>tw_files := fs\<rparr>) = (Inr (), w3)"
    using sample_shutdown [of "?w\<lparr>tw_files := fs\<rparr>"] by (auto simp: export_world_def)
  have chan: "create_channel sample_task a fs = Inr (Insecure a)" for a fs
    by (simp add: create_channel_def environ_get_def sample_task_def)
  have "export_as_receiver sample_task (sample_conf ''bob'' export_node) r [[3]] [4] ?w = (Inr (), w3)"
    using sample_fetches
    by (simp add: export_as_receiver_def sample_peer r try_or_def and_try_def key down dec reg stop chan fetches_def dm_query_def
        py_bind_def py_assert_def sample_urls sample_queries py_lookup_def source_found [OF sample_source_answers])
  then show ?thesis using r by (simp add: eval_data_export_def sample_party try_or_def py_assert_def)
qed

theorem upload_then_export_witness:
  "\<exists>w' w2'. sample_upload = (Inr (), w') \<and>
     eval_data_export sample_task int_floats 0 (sample_conf ''bob'' export_node) [[3]] [4] (export_world w') = (Inr (), w2') \<and>
     tw_files w2' ''/data/r.csv'' = Some [10, 20, 30]"
proof -
  obtain w' where up: "sample_upload = (Inr (), w')" using sample_upload_runs by blast
  obtain w2' where down: "eval_data_export sample_task int_floats 0 (sample_conf ''bob'' export_node) [[3]] [4] (export_world w') = (Inr (), w2')"
    using sample_export_runs [OF up] by blast
  obtain d1 r1 where r1: "comp_definition (data_upload_comp 0) = Inr d1" "EvalParamReader int_floats 0 upload_node d1 = Inr r1"
     "get_attr r1 ''uploader/domain_id'' = Inr (Plain (Py_str ''alice''))" "input_uri r1 ''uploader_input'' = Inr ''dm://in/?id=s''"
     "get_output_uri r1 ''receive_output'' = Inr ''dm://out/?datasource_id=ds&id=t&uri=t.enc''"
    using sample_upload_reader by blast
  obtain d2 r2 where r2: "comp_definition (data_export_comp 0) = Inr d2" "EvalParamReader int_floats 0 export_node d2 = Inr r2"
     "get_attr r2 ''receiver/domain_id'' = Inr (Plain (Py_str ''bob''))" "input_uri r2 ''sender_input'' = Inr ''dm://out/?id=t''"
     "get_output_uri r2 ''receiver_output'' = Inr ''dm://res/?datasource_id=ds&id=r&uri=r.csv''"
    using sample_export_reader by blast
  have doc: "mesh_doc (de_endpoint sample_net) (de_mesh sample_net)" by (simp add: sample_net_simps sample_mesh_doc)
  have cm: "capsule_manager (sample_conf ''bob'' export_node) = capsule_manager (sample_conf ''alice'' upload_node)"
    by (simp add: capsule_manager_def sample_conf_def)
  have peer: "peer_endpoint (sample_conf ''alice'' upload_node) = Inr ''tee:90''" "peer_endpoint (sample_conf ''bob'' export_node) = Inr ''tee:90''"
    by (simp_all add: sample_peer)
  have src: "fst (locate_input sample_task ''dm://in/?id=s'' upload_world) = Inr (sample_data, ''/data/t.csv'')" by (simp add: sample_locate)
  have query: "py_bind (get_output_uri r2 ''receiver_output'') dm_query = Inr [''datasource_id'' \<mapsto> ''ds'', ''id'' \<mapsto> ''r'', ''uri'' \<mapsto> ''r.csv'']"
    "[''datasource_id'' \<mapsto> ''ds'', ''id'' \<mapsto> ''r'', ''uri'' \<mapsto> ''r.csv''] ''uri'' = Some ''r.csv''"
    "[''datasource_id'' \<mapsto> ''ds'', ''id'' \<mapsto> ''r'', ''uri'' \<mapsto> ''r.csv''] ''datasource_id'' = Some ''ds''"
    by (simp_all add: r2(5) py_bind_def dm_query_def py_assert_def sample_urls sample_queries)
  have between: "sv_fs (os_server (tw_out (export_world w'))) = sv_fs (os_server (tw_out w'))"
    "sv_mesh (os_server (tw_out (export_world w'))) = sv_mesh (os_server (tw_out w'))" "os_cm (tw_out (export_world w')) = os_cm (tw_out w')"
    by (simp_all add: export_world_def)
  have dest: "path_append (localfs_dir sample_source) ''r.csv'' = ''/data/r.csv''"
    by (simp add: path_append_def localfs_dir_def sample_source_def)
  have e1: "EvalParamReader int_floats 0 (tk_param (sample_conf ''alice'' upload_node)) d1 = Inr r1"
    and e2: "EvalParamReader int_floats 0 (tk_param (sample_conf ''bob'' export_node)) d2 = Inr r2"
    and f: "fetches sample_net ''dm://out/?id=t'' (op_id \<lparr>op_datasource_id = ''ds'', op_id = ''t'', op_uri = ''t.enc''\<rparr>)"
    using r1(2) r2(2) sample_fetches by (simp_all add: sample_party)
  have "\<exists>plain. tw_files upload_world ''/data/t.csv'' = Some plain \<and>
      tw_files w2' (path_append (localfs_dir sample_source) ''r.csv'') = Some plain"
    by (rule upload_then_export [OF sample_retry sample_retry sample_sealed sample_keys_kept cm sample_source_answers doc sample_absolute
          peer(1) sample_reaches peer(2) sample_reaches r1(1) e1 sample_party(2) r1(3,4) src r1(5) sample_stores r2(1)
          e2 sample_party(2) r2(3,4) f query up between down])
  then show ?thesis using up down by (auto simp: upload_world_def dest)
qed

end
