(* ===== verification/Spec2Isabelle.thy ===== *)
theory Spec2Isabelle
  imports Api_Clients Proxy_Main Proxy_Server Result_Transfer Dm_Flow
begin

text \<open>
  \<^bold>\<open>A verification development of TrustFlow.\<close> TrustFlow attests trusted execution environments and
  moves encrypted data in and out of them. This library models its C++ sources, the Rust
  wrapper over its C API and the data management component in Python and Rust as executable
  functions, and proves what they guarantee and where they fall short. Paths below are relative to \<open>src/trustflow\<close> unless they begin with another
  directory of \<open>src\<close>.

  \<^bold>\<open>The parts of the program and how they interact.\<close>
  \<^item> \<^emph>\<open>Attestation, generation side\<close> (\<open>attestation/generation\<close>, \<open>attestation/collateral\<close>): a generator
    per platform (SGX, TDX, CSV) packs user data and key hash into 64 bytes, has the device sign
    them in a quote, adds the collateral, and returns a unified report.
  \<^item> \<^emph>\<open>Attestation, verification side\<close> (\<open>attestation/verification\<close>): a factory picks the verifier of the
    platform named in a report; it checks the quote with the vendor's library or certificate
    chain, extracts the attributes, and matches them with a policy. C++ and C entry points
    convert exceptions to status codes and fill the caller's buffers.
  \<^item> \<^emph>\<open>Clients of the C API\<close>: the Rust wrapper (\<open>cargo/trustflow-attestation-rs\<close>) and the sample program
    (\<open>attestation/sample\<close>).
  \<^item> \<^emph>\<open>Data capsule proxy\<close> (\<open>proxy/data_capsule_proxy\<close>, \<open>proxy/utils\<close>): fetches data keys from the
    capsule manager in encrypted envelopes, with an attestation report over the request; moves
    files between a local directory or object storage and the enclave, encrypting or decrypting
    every file block by block; registers keys of results.
  \<^item> \<^emph>\<open>Remote attestation proxy\<close> (\<open>proxy/ra_proxy\<close>): hands out its certificate with a report over
    certificate and nonce.
  \<^item> \<^emph>\<open>Data management\<close> (\<open>dm_component/componentize\<close>): tasks that a scheduler starts with a configuration
    and a set of parameters, which are checked against the declaration of the component. The upload
    task encrypts a file and posts it to the server of the other party, which stores it and
    registers it in its catalogue (the data mesh); the key goes to the capsule manager. The export task fetches
    file and key and decrypts; the others change policies and keys at the capsule manager.

  \<^bold>\<open>Conventions.\<close> A fallible function returns \<open>exn + 'a\<close> (\<open>TF_Prelude\<close>): every \<open>YACL_ENFORCE\<close>, \<open>throw\<close>
  and early return is a branch, with its text. \<open>Null_deref\<close> is a crash, which no \<open>catch\<close> clause stops.
  Functions that write files return the result with the new file system. Integers have their
  width. Code outside \<open>src\<close> is an argument: the record \<open>ext\<close> (absl, cppcodec, protobuf's JSON), the
  SDK records \<open>sgx_sdk\<close>, \<open>tdx_sdk\<close>, \<open>hygon_abi\<close>, \<open>openssl\<close>, the device record \<open>gen_env\<close>, \<open>yacl_io\<close> and \<open>gcm\<close>
  (streams, AES-GCM), \<open>jose\<close>, \<open>cm_env\<close> (the capsule manager's stubs), \<open>oss\<close>, \<open>os_env\<close>, \<open>yaml\<close>, and for data
  management \<open>floats\<close>, \<open>mesh\<close>, \<open>dm_env\<close>, \<open>start_env\<close>, \<open>task_env\<close>. Python code raises \<open>py_error\<close>, the Rust server boxed
  texts; both thread their state through \<open>try_or\<close> and \<open>and_try\<close>. What a theorem
  needs of them is a named predicate (\<open>..._doc\<close>, \<open>os_lets\<close>, \<open>lists_trees\<close>, \<open>holds_upload\<close>, ...), and a
  concrete instance (\<open>ref_ext\<close>, \<open>sample_...\<close>, \<open>trip_...\<close>) that satisfies it is used in the witnesses.

  \<^bold>\<open>Theories, code and results.\<close>
  \<^item> \<open>TF_Prelude\<close>: exceptions, byte strings, memory reads, format strings, the collections \<open>exn_simps\<close>
    and \<open>byte_simps\<close>. \<open>Ual_Messages\<close>: messages, constants (\<open>common/constants.h\<close>, \<open>common/status.h\<close>,
    \<open>utils/json2pb.h\<close>). \<open>Reference_Libs\<close>: the instance \<open>ref_ext\<close>.
  \<^item> \<open>Attr_Policy\<close> (\<open>interface/verifier.cc\<close>): attribute matching; the locale \<open>attestation_verifier\<close> is the
    contract of a platform verifier. Results: the exact outcome of \<open>VerifyAttributes\<close>, also that a
    string mismatch ends the loop over the policy.
  \<^item> \<open>Sgx2_Verifier\<close>, \<open>Tdx_Verifier\<close>, \<open>Csv_Verifier\<close>: the verifiers on raw quote bytes, each interpreting the
    locale. Results: what an accepted report guarantees, equality of attributes and quote bytes,
    which reads stay in the quote and which do not.
  \<^item> \<open>C_Buffers\<close>, \<open>Verifier_Api\<close> (\<open>verifier_factory.h\<close>, \<open>wrapper\<close>): selection, C++ and C entry points. Results:
    code zero exactly for accepted reports; the C functions refine the C++ ones, stay in the
    buffers and terminate their strings.
  \<^item> \<open>Report_Data\<close>, \<open>Generators\<close>: report data (locale \<open>report_data_preparer\<close>, three interpretations), the
    generators, collateral, C API. Results: the three preparations agree; collateral survives the
    way to the verifier; the C function refines the JSON entry point.
  \<^item> \<open>Api_Clients\<close>: Rust wrapper and sample program. Results: the wrapper refines the C++ functions
    without panics.
  \<^item> \<open>File_Crypto\<close>, \<open>Dir_Crypto\<close> (\<open>proxy/utils/crypto_util.cc\<close>): block format, files, directories, the
    concurrent tasks as interleavings of single writes (locale \<open>file_task\<close>, two interpretations).
    Results: round trips; the outcome of decryption on arbitrary bytes; every schedule ends, with
    the same files.
  \<^item> \<open>Jwe\<close> (\<open>proxy/utils/crypto_util.h\<close>), \<open>Capsule_Client\<close>, \<open>Oss_Client\<close>, \<open>Proxy_Utils\<close> (\<open>io_util.cc\<close>, \<open>log.cc\<close>): envelopes,
    the capsule manager client, transfers, files and logging. Results: round trip of envelopes,
    delivery of keys, termination of the certificate conversion.
  \<^item> \<open>Data_Proxy\<close>, \<open>Proxy_Server\<close>, \<open>Result_Transfer\<close>, \<open>Proxy_Main\<close>: the handlers, sequences of served calls,
    the whole way of a result through object storage and capsule manager, both \<open>main\<close> functions.
    Results: end-to-end round trips, only ciphertext is uploaded, invariants of the server, frame
    properties, and four ways in which the handlers do what their caller will not expect.
  \<^item> \<open>Eval_Params\<close> (\<open>component/eval_param_reader.py\<close>), \<open>Comp_Decl\<close> (\<open>component/component.py\<close>, \<open>compdef.py\<close>): the
    declaration of a component (reachable builders as the inductive predicate \<open>declared\<close>) and the reader of
    its parameters. Results: what a reader hands out has its declared type and range; for which
    parameters of a declared component there is a reader; the definitions of the five components.
  \<^item> \<open>Dm_Server\<close> (\<open>server/src\<close>): the routes on files and catalogue. Results: an upload can be downloaded,
    the life of a server over all sequences of requests (\<open>answered\<close>), which files requests reach.
  \<^item> \<open>Dm_Tasks\<close> (\<open>main.py\<close>, \<open>tools.py\<close>, \<open>kuscia\<close>), \<open>Dm_Flow\<close>: the five tasks and the main program, and their
    composition with the server. Results: only ciphertext leaves the uploader; a file that is
    uploaded and then exported arrives as it was.
  \<^item> This theory composes generation and verification.

  \<^bold>\<open>Bounds and termination.\<close> All functions are total. The one loop without an evident bound, the read
  loop of \<open>X509CertPemToDer\<close>, is a \<open>partial_function (option)\<close> and proved to return. No fuel is
  used. Files are bounded by \<open>2 ^ 63\<close> bytes in the round trips, where the sources' 64-bit arithmetic
  is exact; \<open>DecryptFile_outcome\<close> covers arbitrary headers, with the wrap-around of the product.

  \<^bold>\<open>Not modelled.\<close> Log lines and the running brpc servers (their set-up codes are); headers that only
  declare; the pybind11 and emscripten registrations and the bindgen program, which hold no code
  of their own; the Python data classes of \<open>pylib\<close>; of \<open>dm_component\<close> the command lines, the reading of the
  task's configuration from JSON, descriptions of attributes and the unused \<open>CompTracer\<close>; \<open>examples\<close>, build
  and deployment files. Symbolic links and concurrent
  changes of the file system by other processes are outside the file system model; a handler's
  own concurrency is modelled, that between handlers is not. The requests of the data management
  server are served one after the other.
\<close>

section \<open>From the generator to the verifier\<close>

text \<open>
  The documented behaviour of everything outside, for a generating environment \<open>E\<close> and a
  verifying environment \<open>V\<close> that use the same libraries.
\<close>

definition attestation_docs :: "gen_env \<Rightarrow> 'k verifier_env \<Rightarrow> bool" where
  "attestation_docs E V \<longleftrightarrow>
     absl_doc (ge_ext E) \<and> sha256_doc (ge_ext E) \<and> base64_doc (ge_ext E) \<and> json_doc (ge_ext E) \<and>
     gen_sizes_doc (ge_sizes E) (ge_hygon E) \<and> hygon_abi_doc (ge_hygon E) \<and>
     sgx_abi_doc (env_sgx V) \<and> tdx_abi_doc (env_tdx V) \<and>
     sgx_device_doc E (env_sgx V) \<and> tdx_device_doc E (env_tdx V) \<and> csv_device_doc E \<and>
     env_ext V = ge_ext E \<and> env_hygon V = ge_hygon E"

text \<open>
  A report of any of the three generators is understood by the verifier of its platform, and
  the first half of the report data comes out as the user data attribute, for SGX and TDX also
  the second half as the public key attribute.
\<close>

lemma generated_attributes:
  assumes docs: "attestation_docs E V" and gen: "GenerateReport E g p = Inr r"
    and type: "par_report_type p = kReportTypePassport"
    and json: "report_of_json (ge_ext E) rj = Inr r"
  shows "\<exists>obj attrs. Factory_Create (env_ext V) (CreateFactory V) rj = Inr obj \<and>
    ParseUnifiedReport_of V obj empty_attrs = Inr attrs \<and>
    hex_user_data attrs = BytesToHexString (ge_ext E) (take 32 (report_data_spec (ge_ext E) p)) \<and>
    (g \<noteq> CsvAttestationGenerator \<longrightarrow> hex_hash_or_pem_pubkey attrs =
       BytesToHexString (ge_ext E) (drop 32 (report_data_spec (ge_ext E) p)))"
proof -
  let ?X = "ge_ext E" and ?d = "report_data_spec (ge_ext E) p"
  have doc: "absl_doc ?X" "sha256_doc ?X" "gen_sizes_doc (ge_sizes E) (ge_hygon E)"
    and wire: "base64_doc ?X" "json_doc ?X" and abi: "hygon_abi_doc (ge_hygon E)"
      "sgx_abi_doc (env_sgx V)" "tdx_abi_doc (env_tdx V)"
    and dev: "sgx_device_doc E (env_sgx V)" "tdx_device_doc E (env_tdx V)" "csv_device_doc E"
    and eqs: "env_ext V = ?X" "env_hygon V = ge_hygon E"
    using docs by (simp_all add: attestation_docs_def)
  have spec_len: "length ?d = 64" if "params_ok 32 p"
    using that doc by (auto simp: report_data_spec_def params_ok_def pad32_def Let_def
        length_HexStringToBytes length_Sha256)
  show ?thesis
  proof (cases g)
    case Sgx2AttestationGenerator
    then obtain v where v: "Sgx2_Create ?X r = Inr v" "params_ok 32 p"
        "sizeof_sgx_quote3_t (env_sgx V) \<le> length (sgx2_quote v)"
        "subbytes (q3_report_data (env_sgx V)) 64 (sgx2_quote v) = ?d"
      using sgx_generated [OF doc wire dev(1) _ type] gen by auto
    have "Factory_Create (env_ext V) (CreateFactory V) rj = Inr (Sgx2AttestationVerifier v)"
      unfolding Factory_Create_eq_Inr using json v(1) eqs by auto
    then show ?thesis
      using v subbytes_halves [OF v(4) spec_len [OF v(2)]]
      by (simp add: ParseUnifiedReport_of_def Sgx2_ParseUnifiedReport_outcome [OF abi(2)]
          sgx2_attrs_def eqs)
  next
    case TdxAttestationGenerator
    then obtain v where v: "Tdx_Create ?X r = Inr v" "params_ok 32 p"
        "tdx_header_ok (env_tdx V) (tdx_quote v)"
        "tdx_body (env_tdx V) (tdx_quote v) = Some (q4_report_body (env_tdx V))"
        "subbytes (q4_report_body (env_tdx V) + rb_report_data (env_tdx V)) 64 (tdx_quote v) = ?d"
      using tdx_generated [OF doc wire dev(2) _ type] gen by auto
    have "Factory_Create (env_ext V) (CreateFactory V) rj = Inr (TdxAttestationVerifier v)"
      unfolding Factory_Create_eq_Inr using json v(1) eqs by auto
    moreover have "q4_report_body (env_tdx V) + sizeof_sgx_report2_body_t (env_tdx V)
        \<le> length (tdx_quote v)"
      using abi(3) v(3) by (simp add: tdx_abi_doc_def tdx_header_ok_def inside_def)
    ultimately show ?thesis
      using v subbytes_halves [OF v(5) spec_len [OF v(2)]]
      by (simp add: ParseUnifiedReport_of_def Tdx_ParseUnifiedReport_inside [OF abi(3) v(3,4)]
          tdx_attrs_def eqs)
  next
    case CsvAttestationGenerator
    then obtain v where v: "Csv_Create ?X (ge_hygon E) r = Inr v"
        "csv_plain (ge_hygon E) (csv_quote v) (fst (q_user_data (ge_hygon E))) 64 = ?d"
      using csv_generated [OF doc wire dev(3) abi(1) _ type] gen by auto
    have len: "length (csv_quote v) = sizeof_csv_attestation_report (ge_hygon E)"
      using v(1) by (auto simp: Csv_Create_eq_Inr)
    have "Factory_Create (env_ext V) (CreateFactory V) rj = Inr (CsvAttestationVerifier v)"
      unfolding Factory_Create_eq_Inr using json v(1) eqs by auto
    moreover have "csv_plain (ge_hygon E) (csv_quote v) (fst (q_user_data (ge_hygon E))) 32 =
        take 32 ?d"
      using csv_plain_take [of "fst (q_user_data (ge_hygon E))" "csv_quote v" "ge_hygon E"]
        hygon_abi_offsets(3,7) [OF abi(1)] len v(2) by simp
    ultimately show ?thesis
      using CsvAttestationGenerator
      by (simp add: ParseUnifiedReport_of_def Csv_ParseUnifiedReport_outcome [OF abi(1) len]
          csv_attrs_def eqs)
  qed
qed

lemma generated_pubkey_half:
  assumes docs: "attestation_docs E V" and gen: "GenerateReport E g p = Inr r"
    and "g \<noteq> CsvAttestationGenerator" and "par_pem_public_key (par_report_params p) \<noteq> []"
  shows "drop 32 (report_data_spec (ge_ext E) p) =
    Sha256 (ge_ext E) (HexStringToBytes (ge_ext E) (par_pem_public_key (par_report_params p)))"
proof -
  let ?X = "ge_ext E"
  have doc: "absl_doc ?X \<and> sha256_doc ?X \<and> gen_sizes_doc (ge_sizes E) (ge_hygon E)"
    using docs by (simp add: attestation_docs_def)
  consider d where "PrepareSgxReportData ?X (ge_sizes E) p = Inr d"
    | d where "PrepareTdxReportData ?X (ge_sizes E) p = Inr d"
    using gen assms(3)
    by (cases g) (auto simp: Sgx2_GenerateReport_def Tdx_GenerateReport_def Let_def
        elim!: bindE_InrE split: prod.splits)
  then show ?thesis
  proof cases
    case 1
    then show ?thesis
      using sgx_data.prepare_pubkey [OF doc 1 refl assms(4)] sgx_data.prepare_iff [OF doc, of p d]
      by simp
  next
    case 2
    then show ?thesis
      using tdx_data.prepare_pubkey [OF doc 2 refl assms(4)] tdx_data.prepare_iff [OF doc, of p d]
      by simp
  qed
qed

lemma ra_report_data:
  assumes "absl_doc X" and "sha256_doc X" and "par_hex_user_data (par_report_params p) =
    BytesToHexString X (Sha256 X u)"
  shows "take 32 (report_data_spec X p) = Sha256 X u"
proof -
  have "BytesToHexString X (Sha256 X u) \<noteq> []"
    using length_BytesToHexString [OF assms(1), of "Sha256 X u"] length_Sha256 [OF assms(2), of u]
    by auto
  then show ?thesis
    using assms(3) by (simp add: report_data_spec_def pad32_def Let_def
        HexStringToBytes_hex [OF assms(1)] length_Sha256 [OF assms(2)])
qed

lemma ra_report_verdict:
  assumes docs: "attestation_docs E V" and gen: "GenRaReport E B user_data = Inr r"
    and json: "report_of_json (ge_ext E) rj = Inr r"
    and policy: "policy_of_json (ge_ext E) pj = Inr \<lparr>main_attributes =
      [empty_attrs\<lparr>hex_user_data := BytesToHexString (ge_ext E) digest\<rparr>]\<rparr>"
    and digest: "length digest = 32"
  shows "\<exists>st obj. AttestationReportVerify V rj pj = Inr st \<and>
    Factory_Create (env_ext V) (CreateFactory V) rj = Inr obj \<and>
    (code st = 0 \<longleftrightarrow> VerifyPlatform_of V obj = Inr () \<and> digest = Sha256 (ge_ext E) user_data)"
proof -
  let ?X = "ge_ext E"
  have doc: "absl_doc ?X" "sha256_doc ?X" and X: "env_ext V = ?X"
    using docs by (simp_all add: attestation_docs_def)
  obtain g p where gp: "GenerateReport E g p = Inr r" "par_report_type p = kReportTypePassport"
      "par_hex_user_data (par_report_params p) = BytesToHexString ?X (Sha256 ?X user_data)"
    using gen by (auto simp: GenRaReport_def Let_def exn_simps kReportTypePassport_def)
  obtain obj attrs where obj: "Factory_Create (env_ext V) (CreateFactory V) rj = Inr obj"
      "ParseUnifiedReport_of V obj empty_attrs = Inr attrs"
      "hex_user_data attrs = BytesToHexString ?X (Sha256 ?X user_data)"
    using generated_attributes [OF docs gp(1,2) json] ra_report_data [OF doc gp(3)] by auto
  have "digest \<noteq> []" using digest by auto
  then have "VerifyReport ?X (VerifyPlatform_of V) (ParseUnifiedReport_of V) obj
      \<lparr>main_attributes = [empty_attrs\<lparr>hex_user_data := BytesToHexString ?X digest\<rparr>]\<rparr> = Inr () \<longleftrightarrow>
      VerifyPlatform_of V obj = Inr () \<and> digest = Sha256 ?X user_data"
    using obj(2,3)
    by (auto simp: VerifyReport_accepts attrs_match_user_data str_ok_hex [OF doc(1)])
  then show ?thesis
    using AttestationReportVerify_code [of V rj pj] obj(1) policy unfolding X by auto
qed

lemma sample_docs: "attestation_docs sample_gen_env sample_env"
  unfolding attestation_docs_def
  using sample_sgx_device sample_tdx_device sample_csv_device
  by (simp add: sample_env_def) (simp add: sample_gen_env_def)

lemma sample_sgx_verified:
  assumes "last q = 1" and "report_of_json ref_ext rj = Inr (dcap_report_of kPlatformSgxDcap q)"
    and "Factory_Create (env_ext sample_env) (CreateFactory sample_env) rj = Inr obj"
  shows "VerifyPlatform_of sample_env obj = Inr ()"
proof -
  let ?v = "\<lparr>sgx2_report = dcap_report_of kPlatformSgxDcap q, sgx2_quote = q,
    sgx2_collateral = sample_collateral\<rparr>"
  have "Factory_Create (env_ext sample_env) (CreateFactory sample_env) rj =
      Inr (Sgx2AttestationVerifier ?v)"
    unfolding Factory_Create_eq_Inr using assms(2) Sgx2_Create_report_of [of q]
    by (simp add: sample_env_def)
  with assms(3) have "obj = Sgx2AttestationVerifier ?v" by simp
  moreover have "Sgx2_VerifyPlatform sgx_layout 0 ?v = Inr ()"
    unfolding Sgx2_VerifyPlatform_iff using assms(1)
    by (simp add: acceptable_result_def) (simp add: sgx_layout_def)
  ultimately show ?thesis by (simp add: VerifyPlatform_of_def sample_env_def)
qed

lemma sample_ra_report:
  obtains q rj where "GenRaReport sample_gen_env sgx_build u = Inr (dcap_report_of kPlatformSgxDcap q)"
    "last q = 1" "report_of_json ref_ext rj = Inr (dcap_report_of kPlatformSgxDcap q)"
proof -
  have X: "ge_ext sample_gen_env = ref_ext" by (simp add: sample_gen_env_def)
  define p where "p = \<lparr>par_tee_identity = ''1'', par_report_type = ''Passport'',
    par_report_hex_nonce = [], par_report_params =
      \<lparr>par_hex_user_data = BytesToHexString ref_ext (Sha256 ref_ext u), par_pem_public_key = []\<rparr>\<rparr>"
  have "params_ok 32 p" and "par_report_type p = kReportTypePassport"
    by (simp_all add: p_def params_ok_def length_BytesToHexString length_Sha256
        kReportTypePassport_def)
  from sample_sgx_generated [OF this] obtain q where
    "Sgx2_GenerateReport sample_gen_env p = Inr (dcap_report_of kPlatformSgxDcap q)" "last q = 1" by simp
  moreover obtain rj where "report_of_json ref_ext rj = Inr (dcap_report_of kPlatformSgxDcap q)"
    using ref_report_json by blast
  ultimately show thesis
    using that by (simp add: GenRaReport_def CreateAttestationGenerator_def sgx_build_def X p_def)
qed

text \<open>
  \<^bold>\<open>C3\<close>. The user data of a remote attestation report is bound from end to end, on every
  platform. If \<open>GenRaReport\<close> produced a report over some user data, then verification of the
  report against a policy that pins a 32-byte digest returns the code zero exactly when the
  platform verification of the report succeeds and the digest is the SHA-256 of that user data.
\<close>

theorem ra_report_binds_user_data:
  assumes docs: "attestation_docs E V" and gen: "GenRaReport E B user_data = Inr r"
    and json: "report_of_json (ge_ext E) rj = Inr r"
    and policy: "policy_of_json (ge_ext E) pj = Inr \<lparr>main_attributes =
      [empty_attrs\<lparr>hex_user_data := BytesToHexString (ge_ext E) digest\<rparr>]\<rparr>"
    and digest: "length digest = 32"
  shows "\<exists>st obj. AttestationReportVerify V rj pj = Inr st \<and>
    Factory_Create (env_ext V) (CreateFactory V) rj = Inr obj \<and>
    (code st = 0 \<longleftrightarrow> VerifyPlatform_of V obj = Inr () \<and> digest = Sha256 (ge_ext E) user_data)"
  by (rule ra_report_verdict [OF assms])

theorem ra_report_binds_user_data_witness:
  "\<exists>r rj st. GenRaReport sample_gen_env sgx_build [1, 2, 3] = Inr r \<and>
     report_of_json ref_ext rj = Inr r \<and>
     AttestationReportVerify sample_env rj (policy_json [empty_attrs\<lparr>hex_user_data :=
       BytesToHexString ref_ext (Sha256 ref_ext [1, 2, 3])\<rparr>]) = Inr st \<and> code st = 0"
proof -
  let ?u = "[1, 2, 3] :: bytes" and ?X = "ge_ext sample_gen_env"
  have X: "?X = ref_ext" by (simp add: sample_gen_env_def)
  obtain q rj where gen: "GenRaReport sample_gen_env sgx_build ?u = Inr (dcap_report_of kPlatformSgxDcap q)"
    and last: "last q = 1" and rj: "report_of_json ref_ext rj = Inr (dcap_report_of kPlatformSgxDcap q)"
    by (rule sample_ra_report)
  have pol: "policy_of_json ?X (policy_json [empty_attrs\<lparr>hex_user_data :=
      BytesToHexString ?X (Sha256 ref_ext ?u)\<rparr>]) = Inr \<lparr>main_attributes =
      [empty_attrs\<lparr>hex_user_data := BytesToHexString ?X (Sha256 ref_ext ?u)\<rparr>]\<rparr>"
    by (simp add: X)
  have len: "length (Sha256 ref_ext ?u) = 32" by (simp add: length_Sha256)
  show ?thesis
    using ra_report_binds_user_data [OF sample_docs gen rj [folded X] pol len] gen rj
      sample_sgx_verified [OF last rj]
    unfolding X by blast
qed

text \<open>
  \<^bold>\<open>C37\<close>. A public key that is bound by the SGX or TDX generator is not recognised by the
  verifier. The generator hashes the bytes that hex decoding makes of the PEM text, the verifier
  hashes the PEM text. Verification of a report that was generated for a key against a policy
  that pins the same key has the code zero exactly when the platform verification succeeds and
  these two hashes agree, although they are hashes of different byte strings.
\<close>

theorem generated_pubkey_not_recognised:
  assumes docs: "attestation_docs E V" and gen: "GenerateReport E g p = Inr r"
    and g: "g \<noteq> CsvAttestationGenerator" and type: "par_report_type p = kReportTypePassport"
    and key: "par_pem_public_key (par_report_params p) = k" "k \<noteq> []"
    and json: "report_of_json (ge_ext E) rj = Inr r"
    and policy: "policy_of_json (ge_ext E) pj =
      Inr \<lparr>main_attributes = [empty_attrs\<lparr>hex_hash_or_pem_pubkey := k\<rparr>]\<rparr>"
  shows "HexStringToBytes (ge_ext E) k \<noteq> str_bytes k \<and>
    (\<exists>st obj. AttestationReportVerify V rj pj = Inr st \<and>
     Factory_Create (env_ext V) (CreateFactory V) rj = Inr obj \<and>
     (code st = 0 \<longleftrightarrow> VerifyPlatform_of V obj = Inr () \<and>
       Sha256 (ge_ext E) (HexStringToBytes (ge_ext E) k) = Sha256 (ge_ext E) (str_bytes k)))"
proof -
  let ?X = "ge_ext E"
  have doc: "absl_doc ?X" "sha256_doc ?X" and X: "env_ext V = ?X"
    using docs by (simp_all add: attestation_docs_def)
  obtain obj attrs where obj: "Factory_Create (env_ext V) (CreateFactory V) rj = Inr obj"
      "ParseUnifiedReport_of V obj empty_attrs = Inr attrs"
      "hex_hash_or_pem_pubkey attrs = BytesToHexString ?X (drop 32 (report_data_spec ?X p))"
    using generated_attributes [OF docs gen type json] g by blast
  have "drop 32 (report_data_spec ?X p) = Sha256 ?X (HexStringToBytes ?X k)"
    using generated_pubkey_half [OF docs gen g] key by blast
  moreover have "Sha256 ?X b \<noteq> []" for b using length_Sha256 [OF doc(2), of b] by auto
  ultimately have "VerifyReport ?X (VerifyPlatform_of V) (ParseUnifiedReport_of V) obj
      \<lparr>main_attributes = [empty_attrs\<lparr>hex_hash_or_pem_pubkey := k\<rparr>]\<rparr> = Inr () \<longleftrightarrow>
      VerifyPlatform_of V obj = Inr () \<and>
      Sha256 ?X (HexStringToBytes ?X k) = Sha256 ?X (str_bytes k)"
    using obj(2,3) key(2)
    by (auto simp: VerifyReport_accepts attrs_match_pubkey pubkey_ok_def str_ok_hex [OF doc(1)])
  moreover have "HexStringToBytes ?X k \<noteq> str_bytes k"
    using length_HexStringToBytes [OF doc(1), of k] key(2) length_str_bytes [of k]
    by (metis div_less_dividend less_irrefl length_greater_0_conv one_less_numeral_iff semiring_norm(76))
  ultimately show ?thesis
    using AttestationReportVerify_code [of V rj pj] obj(1) policy unfolding X by auto
qed

theorem generated_pubkey_not_recognised_witness:
  "\<exists>r rj st. GenerateReport sample_gen_env Sgx2AttestationGenerator (sample_params [] ''ab'') = Inr r \<and>
     report_of_json ref_ext rj = Inr r \<and>
     AttestationReportVerify sample_env rj
       (policy_json [empty_attrs\<lparr>hex_hash_or_pem_pubkey := ''ab''\<rparr>]) = Inr st \<and> code st \<noteq> 0"
proof -
  let ?p = "sample_params [] ''ab''"
  have X: "ge_ext sample_gen_env = ref_ext" by (simp add: sample_gen_env_def)
  have "params_ok 32 ?p" and type: "par_report_type ?p = kReportTypePassport"
    by (simp_all add: params_ok_def sample_params_def)
  then obtain r where gen:
      "GenerateReport sample_gen_env Sgx2AttestationGenerator ?p = Inr r"
    using sample_sgx_generated [of ?p] by simp
  obtain rj where rj: "report_of_json ref_ext rj = Inr r" using ref_report_json by blast
  have key: "par_pem_public_key (par_report_params ?p) = ''ab''" "''ab'' \<noteq> []"
    by (simp_all add: sample_params_def)
  have g: "Sgx2AttestationGenerator \<noteq> CsvAttestationGenerator" by simp
  have pol: "policy_of_json (ge_ext sample_gen_env)
      (policy_json [empty_attrs\<lparr>hex_hash_or_pem_pubkey := ''ab''\<rparr>]) =
      Inr \<lparr>main_attributes = [empty_attrs\<lparr>hex_hash_or_pem_pubkey := ''ab''\<rparr>]\<rparr>"
    by (simp add: X)
  have "Sha256 ref_ext (HexStringToBytes ref_ext ''ab'') \<noteq> Sha256 ref_ext (str_bytes ''ab'')"
    by (simp add: ref_ext_def hex_val_def str_bytes_def)
  then show ?thesis
    using generated_pubkey_not_recognised [OF sample_docs gen g type key rj [folded X] pol] gen rj
    unfolding X by blast
qed

text \<open>
  \<^bold>\<open>C18\<close>. The certificate of an attested proxy is bound to its report and to the nonce of the
  caller. If \<open>GetRaCert\<close> of the remote attestation proxy answers with a report, then verifying it
  against the digest of the certificate in the answer and a nonce has the code zero exactly when
  the platform verification succeeds and the digest belongs to the nonce that was sent.
\<close>

theorem RaProxy_certificate_attested:
  assumes docs: "attestation_docs E V"
    and call: "RaProxy_GetRaCert E B rp nonce = Ra_ok resp" "rar_attestation_report resp = Some r"
    and json: "report_of_json (ge_ext E) rj = Inr r"
    and policy: "policy_of_json (ge_ext E) pj = Inr \<lparr>main_attributes = [empty_attrs\<lparr>hex_user_data :=
      BytesToHexString (ge_ext E) (Sha256 (ge_ext E) (str_bytes (rar_cert resp @ ''.'' @ nonce')))\<rparr>]\<rparr>"
  shows "\<exists>st obj. AttestationReportVerify V rj pj = Inr st \<and>
    Factory_Create (env_ext V) (CreateFactory V) rj = Inr obj \<and>
    (code st = 0 \<longleftrightarrow> VerifyPlatform_of V obj = Inr () \<and>
      Sha256 (ge_ext E) (str_bytes (rar_cert resp @ ''.'' @ nonce')) =
      Sha256 (ge_ext E) (str_bytes (rar_cert resp @ ''.'' @ nonce)))"
proof -
  have gen: "GenRaReport E B (str_bytes (rp_cert rp @ ''.'' @ nonce)) = Inr r" and c: "rar_cert resp = rp_cert rp"
    using call by (auto simp: RaProxy_GetRaCert_def Let_def exn_simps split: if_splits sum.splits exn.splits)
  have "length (Sha256 (ge_ext E) b) = 32" for b
    using docs length_Sha256 by (simp add: attestation_docs_def)
  from ra_report_verdict [OF docs gen json policy this] show ?thesis unfolding c .
qed

theorem RaProxy_certificate_attested_witness:
  "\<exists>resp r rj st. RaProxy_GetRaCert sample_gen_env sgx_build \<lparr>rp_plat = ''sgx'', rp_cert = ''cert''\<rparr> ''n'' = Ra_ok resp \<and>
     rar_attestation_report resp = Some r \<and> report_of_json ref_ext rj = Inr r \<and>
     AttestationReportVerify sample_env rj (policy_json [empty_attrs\<lparr>hex_user_data :=
       BytesToHexString ref_ext (Sha256 ref_ext (str_bytes ''cert.n''))\<rparr>]) = Inr st \<and> code st = 0"
proof -
  have X: "ge_ext sample_gen_env = ref_ext" by (simp add: sample_gen_env_def)
  obtain q rj where gen: "GenRaReport sample_gen_env sgx_build (str_bytes ''cert.n'') =
      Inr (dcap_report_of kPlatformSgxDcap q)"
    and last: "last q = 1" and rj: "report_of_json ref_ext rj = Inr (dcap_report_of kPlatformSgxDcap q)"
    by (rule sample_ra_report)
  let ?resp = "\<lparr>rar_status = \<lparr>st_code = 0, st_message = ''success''\<rparr>,
    rar_attestation_report = Some (dcap_report_of kPlatformSgxDcap q), rar_cert = ''cert''\<rparr>"
  have call: "RaProxy_GetRaCert sample_gen_env sgx_build \<lparr>rp_plat = ''sgx'', rp_cert = ''cert''\<rparr> ''n'' = Ra_ok ?resp"
    "rar_attestation_report ?resp = Some (dcap_report_of kPlatformSgxDcap q)"
    using gen by (simp_all add: RaProxy_GetRaCert_def kTeePlatSim_def)
  have pol: "policy_of_json (ge_ext sample_gen_env) (policy_json [empty_attrs\<lparr>hex_user_data :=
      BytesToHexString (ge_ext sample_gen_env) (Sha256 (ge_ext sample_gen_env)
        (str_bytes (rar_cert ?resp @ ''.'' @ ''n'')))\<rparr>]) = Inr \<lparr>main_attributes =
      [empty_attrs\<lparr>hex_user_data := BytesToHexString (ge_ext sample_gen_env) (Sha256 (ge_ext sample_gen_env)
        (str_bytes (rar_cert ?resp @ ''.'' @ ''n'')))\<rparr>]\<rparr>"
    by (simp add: X)
  from RaProxy_certificate_attested [OF sample_docs call rj [folded X] pol]
  show ?thesis using call rj sample_sgx_verified [OF last rj] unfolding X by auto
qed

end
